(* ===== verification/Prelude.thy ===== *)
theory Prelude
  imports Main "HOL-Library.Sublist" "HOL-Library.Extended_Nat"
begin

text \<open>
  Shared ground of the development: the part of Rust's \<open>str\<close>/\<open>String\<close> API that the
  sources call, and the interface of an atomic database claim.

  A Rust string is a list of bytes in UTF-8, here a HOL \<^typ>\<open>string\<close> whose
  \<^typ>\<open>char\<close>s are the bytes. Searching, splitting on an ASCII character, prefix and
  suffix tests and replacement of a non-empty pattern are the same on bytes as on the
  characters the bytes encode. The Unicode-aware operations (\<open>to_uppercase\<close>,
  \<open>to_lowercase\<close>, \<open>trim\<close>) are written over the multi-byte sequences they touch.
\<close>

section \<open>Names shared by the components\<close>

named_theorems rust_str \<open>equations of the string operations\<close>
named_theorems store_ops \<open>definitions of the statements of the store\<close>

type_synonym bytes = string
type_synonym ('e, 'a) result = "'e + 'a"
type_synonym headers = "(string \<times> string) list"
type_synonym timestamp = int

text \<open>Which statements of the database fail while a request is handled, by name.\<close>

type_synonym faults = "string \<Rightarrow> bool"

text \<open>The text between apostrophes, and between quotation marks.\<close>

definition quoted :: "string \<Rightarrow> string" where
  "quoted s = CHR 0x27 # s @ [CHR 0x27]"

definition dquoted :: "string \<Rightarrow> string" where
  "dquoted s = CHR 0x22 # s @ [CHR 0x22]"

text \<open>Decimal output of an unsigned integer.\<close>

fun show_nat :: "nat \<Rightarrow> string" where
  "show_nat n =
     (if n < 10 then [char_of (48 + n)] else show_nat (n div 10) @ [char_of (48 + n mod 10)])"

declare show_nat.simps [simp del]

text \<open>\<open>Option::unwrap_or\<close>.\<close>

definition or_else :: "'a option \<Rightarrow> 'a \<Rightarrow> 'a" where
  "or_else x d = (case x of None \<Rightarrow> d | Some v \<Rightarrow> v)"

section \<open>Searching and replacing\<close>

fun contains :: "string \<Rightarrow> string \<Rightarrow> bool" where
  "contains [] p = (p = [])"
| "contains (c # s) p = (prefix p (c # s) \<or> contains s p)"

definition starts_with :: "string \<Rightarrow> string \<Rightarrow> bool" where
  "starts_with s p = prefix p s"

definition ends_with :: "string \<Rightarrow> string \<Rightarrow> bool" where
  "ends_with s p = suffix p s"

definition strip_prefix :: "string \<Rightarrow> string \<Rightarrow> string option" where
  "strip_prefix s p = (if prefix p s then Some (drop (length p) s) else None)"

definition strip_suffix :: "string \<Rightarrow> string \<Rightarrow> string option" where
  "strip_suffix s p = (if suffix p s then Some (take (length s - length p) s) else None)"

text \<open>\<open>str::find(pattern)\<close>: the text before and after the first occurrence.\<close>

fun find_str :: "string \<Rightarrow> string \<Rightarrow> (string \<times> string) option" where
  "find_str p [] = (if p = [] then Some ([], []) else None)"
| "find_str p (c # s) =
     (if prefix p (c # s) then Some ([], drop (length p) (c # s))
      else map_option (\<lambda>(a, b). (c # a, b)) (find_str p s))"

text \<open>
  \<open>str::replace\<close>: every non-overlapping occurrence, from the left. The sources never
  pass an empty pattern; the model leaves the text alone there.
\<close>

function replace :: "string \<Rightarrow> string \<Rightarrow> string \<Rightarrow> string" where
  "replace [] p t = []"
| "replace (c # s) p t =
     (if p \<noteq> [] \<and> prefix p (c # s)
      then t @ replace (drop (length p) (c # s)) p t
      else c # replace s p t)"
  by pat_completeness auto
termination
  by (relation "measure (\<lambda>(s, _, _). length s)") auto

section \<open>Splitting and trimming\<close>

fun split_on :: "char \<Rightarrow> string \<Rightarrow> string list" where
  "split_on d [] = [[]]"
| "split_on d (c # s) =
     (if c = d then [] # split_on d s
      else (case split_on d s of [] \<Rightarrow> [[c]] | h # t \<Rightarrow> (c # h) # t))"

fun split_once :: "char \<Rightarrow> string \<Rightarrow> (string \<times> string) option" where
  "split_once d [] = None"
| "split_once d (c # s) =
     (if c = d then Some ([], s)
      else map_option (\<lambda>(a, b). (c # a, b)) (split_once d s))"

fun join :: "string \<Rightarrow> string list \<Rightarrow> string" where
  "join sep [] = []"
| "join sep [x] = x"
| "join sep (x # y # xs) = x @ sep @ join sep (y # xs)"

definition trim_end_matches :: "char \<Rightarrow> string \<Rightarrow> string" where
  "trim_end_matches d s = rev (dropWhile (\<lambda>c. c = d) (rev s))"

text \<open>The characters with the Unicode property White\_Space, as UTF-8 byte sequences.\<close>

definition white_space :: "string list" where
  "white_space =
     [[CHR 0x09], [CHR 0x0A], [CHR 0x0B], [CHR 0x0C], [CHR 0x0D], [CHR 0x20],
      [CHR 0xC2, CHR 0x85], [CHR 0xC2, CHR 0xA0], [CHR 0xE1, CHR 0x9A, CHR 0x80],
      [CHR 0xE2, CHR 0x80, CHR 0x80], [CHR 0xE2, CHR 0x80, CHR 0x81],
      [CHR 0xE2, CHR 0x80, CHR 0x82], [CHR 0xE2, CHR 0x80, CHR 0x83],
      [CHR 0xE2, CHR 0x80, CHR 0x84], [CHR 0xE2, CHR 0x80, CHR 0x85],
      [CHR 0xE2, CHR 0x80, CHR 0x86], [CHR 0xE2, CHR 0x80, CHR 0x87],
      [CHR 0xE2, CHR 0x80, CHR 0x88], [CHR 0xE2, CHR 0x80, CHR 0x89],
      [CHR 0xE2, CHR 0x80, CHR 0x8A], [CHR 0xE2, CHR 0x80, CHR 0xA8],
      [CHR 0xE2, CHR 0x80, CHR 0xA9], [CHR 0xE2, CHR 0x80, CHR 0xAF],
      [CHR 0xE2, CHR 0x81, CHR 0x9F], [CHR 0xE3, CHR 0x80, CHR 0x80]]"

text \<open>Strip, as long as one of the (non-empty) patterns starts the text.\<close>

function trim_start_by :: "string list \<Rightarrow> string \<Rightarrow> string" where
  "trim_start_by ws s =
     (case find (\<lambda>w. w \<noteq> [] \<and> prefix w s) ws of
        None \<Rightarrow> s
      | Some w \<Rightarrow> trim_start_by ws (drop (length w) s))"
  by pat_completeness auto
termination
proof (relation "measure (\<lambda>(_, s). length s)", goal_cases)
  case 1
  show ?case by simp
next
  case (2 ws s w)
  then have "w \<noteq> []" and "prefix w s" by (auto simp: find_Some_iff)
  then show ?case by (auto simp: prefix_def)
qed

declare trim_start_by.simps [simp del]

definition trim_start :: "string \<Rightarrow> string" where
  "trim_start s = trim_start_by white_space s"

definition trim_end :: "string \<Rightarrow> string" where
  "trim_end s = rev (trim_start_by (map rev white_space) (rev s))"

definition trim :: "string \<Rightarrow> string" where
  "trim s = trim_end (trim_start s)"

section \<open>Letter case\<close>

definition ascii_lower :: "char \<Rightarrow> char" where
  "ascii_lower c =
     (let n = of_char c :: nat in if 65 \<le> n \<and> n \<le> 90 then char_of (n + 32) else c)"

definition ascii_upper :: "char \<Rightarrow> char" where
  "ascii_upper c =
     (let n = of_char c :: nat in if 97 \<le> n \<and> n \<le> 122 then char_of (n - 32) else c)"

definition to_ascii_lowercase :: "string \<Rightarrow> string" where
  "to_ascii_lowercase s = map ascii_lower s"

definition to_ascii_uppercase :: "string \<Rightarrow> string" where
  "to_ascii_uppercase s = map ascii_upper s"

definition eq_ignore_ascii_case :: "string \<Rightarrow> string \<Rightarrow> bool" where
  "eq_ignore_ascii_case a b = (map ascii_lower a = map ascii_lower b)"

text \<open>
  The Unicode mappings. Besides the ASCII letters the tables hold every character whose
  mapped form has an ASCII letter in it (sharp s, dotless i, long s, the Latin
  ligatures, the Kelvin sign and so on), so a comparison of the mapped text with an
  ASCII constant has the outcome it has in Rust. Letters that map to other non-ASCII
  letters are left as they are.
\<close>

definition upper_table :: "(string \<times> string) list" where
  "upper_table =
     [([CHR 0xC3, CHR 0x9F], ''SS''), ([CHR 0xC4, CHR 0xB1], ''I''),
      ([CHR 0xC5, CHR 0x89], [CHR 0xCA, CHR 0xBC, CHR ''N'']),
      ([CHR 0xC5, CHR 0xBF], ''S''),
      ([CHR 0xC7, CHR 0xB0], [CHR ''J'', CHR 0xCC, CHR 0x8C]),
      ([CHR 0xE1, CHR 0xBA, CHR 0x96], [CHR ''H'', CHR 0xCC, CHR 0xB1]),
      ([CHR 0xE1, CHR 0xBA, CHR 0x97], [CHR ''T'', CHR 0xCC, CHR 0x88]),
      ([CHR 0xE1, CHR 0xBA, CHR 0x98], [CHR ''W'', CHR 0xCC, CHR 0x8A]),
      ([CHR 0xE1, CHR 0xBA, CHR 0x99], [CHR ''Y'', CHR 0xCC, CHR 0x8A]),
      ([CHR 0xE1, CHR 0xBA, CHR 0x9A], [CHR ''A'', CHR 0xCA, CHR 0xBE]),
      ([CHR 0xEF, CHR 0xAC, CHR 0x80], ''FF''), ([CHR 0xEF, CHR 0xAC, CHR 0x81], ''FI''),
      ([CHR 0xEF, CHR 0xAC, CHR 0x82], ''FL''), ([CHR 0xEF, CHR 0xAC, CHR 0x83], ''FFI''),
      ([CHR 0xEF, CHR 0xAC, CHR 0x84], ''FFL''), ([CHR 0xEF, CHR 0xAC, CHR 0x85], ''ST''),
      ([CHR 0xEF, CHR 0xAC, CHR 0x86], ''ST'')]"

definition lower_table :: "(string \<times> string) list" where
  "lower_table =
     [([CHR 0xE2, CHR 0x84, CHR 0xAA], ''k''),
      ([CHR 0xC4, CHR 0xB0], [CHR ''i'', CHR 0xCC, CHR 0x87])]"

function case_map :: "(string \<times> string) list \<Rightarrow> (char \<Rightarrow> char) \<Rightarrow> string \<Rightarrow> string" where
  "case_map tbl f [] = []"
| "case_map tbl f (c # s) =
     (case find (\<lambda>(k, v). k \<noteq> [] \<and> prefix k (c # s)) tbl of
        Some (k, v) \<Rightarrow> v @ case_map tbl f (drop (length k - 1) s)
      | None \<Rightarrow> f c # case_map tbl f s)"
  by pat_completeness auto
termination
  by (relation "measure (\<lambda>(_, _, s). length s)") auto

definition to_uppercase :: "string \<Rightarrow> string" where
  "to_uppercase s = case_map upper_table ascii_upper s"

definition to_lowercase :: "string \<Rightarrow> string" where
  "to_lowercase s = case_map lower_table ascii_lower s"

section \<open>UTF-8 validity\<close>

definition utf8_cont :: "char \<Rightarrow> bool" where
  "utf8_cont c = (let n = of_char c :: nat in 128 \<le> n \<and> n \<le> 191)"

definition byte_in :: "nat \<Rightarrow> nat \<Rightarrow> char \<Rightarrow> bool" where
  "byte_in lo hi c = (let n = of_char c :: nat in lo \<le> n \<and> n \<le> hi)"

fun utf8_valid :: "bytes \<Rightarrow> bool" where
  "utf8_valid [] = True"
| "utf8_valid (a # s) =
     (if byte_in 0 127 a then utf8_valid s
      else if byte_in 194 223 a then
        (case s of b # t \<Rightarrow> utf8_cont b \<and> utf8_valid t | _ \<Rightarrow> False)
      else if byte_in 224 239 a then
        (case s of b # c # t \<Rightarrow>
           (if byte_in 224 224 a then byte_in 160 191 b
            else if byte_in 237 237 a then byte_in 128 159 b else utf8_cont b)
           \<and> utf8_cont c \<and> utf8_valid t
         | _ \<Rightarrow> False)
      else if byte_in 240 244 a then
        (case s of b # c # d # t \<Rightarrow>
           (if byte_in 240 240 a then byte_in 144 191 b
            else if byte_in 244 244 a then byte_in 128 143 b else utf8_cont b)
           \<and> utf8_cont c \<and> utf8_cont d \<and> utf8_valid t
         | _ \<Rightarrow> False)
      else False)"

text \<open>\<open>std::str::from_utf8\<close>: the same bytes, when they are well-formed.\<close>

definition from_utf8 :: "bytes \<Rightarrow> string option" where
  "from_utf8 b = (if utf8_valid b then Some b else None)"

definition is_ascii :: "string \<Rightarrow> bool" where
  "is_ascii s = list_all (byte_in 0 127) s"

section \<open>Lemmas on searching\<close>

lemma contains_iff_sublist [rust_str]: "contains s p \<longleftrightarrow> sublist p s"
  by (induction s) (auto simp: sublist_Cons_right)

lemma contains_Nil [simp]: "contains s []"
  by (cases s) auto

lemma contains_Nil_left [simp]: "contains [] p \<longleftrightarrow> p = []"
  by simp

lemma contains_append_iff_free:
  assumes "d \<notin> set v"
  shows "contains (a @ d # b) v \<longleftrightarrow> contains a v \<or> contains b v"
proof -
  have pre: "prefix v (a @ d # b) \<longleftrightarrow> prefix v a" for a
    using assms
  proof (induction a arbitrary: v)
    case Nil
    then show ?case by (cases v) auto
  next
    case (Cons x a)
    then show ?case by (cases v) auto
  qed
  show ?thesis
  proof (induction a)
    case Nil
    show ?case using pre [of "[]"] by auto
  next
    case (Cons x a)
    then show ?case using pre [of "x # a"] by simp
  qed
qed

lemma find_str_Some:
  "find_str p s = Some (a, b) \<Longrightarrow> s = a @ p @ b"
proof (induction s arbitrary: a b)
  case Nil
  then show ?case by (auto split: if_splits)
next
  case (Cons c s)
  then show ?case
    by (auto split: if_splits simp: prefix_def)
qed

lemma find_str_None: "find_str p s = None \<longleftrightarrow> \<not> contains s p"
  by (induction s) auto

lemma strip_prefix_Some [rust_str]: "strip_prefix s p = Some r \<longleftrightarrow> s = p @ r"
  by (auto simp: strip_prefix_def prefix_def)

lemma strip_suffix_Some [rust_str]: "strip_suffix s p = Some r \<longleftrightarrow> s = r @ p"
  by (auto simp: strip_suffix_def suffix_def)

section \<open>Lemmas on replacement\<close>

lemma replace_absent: "\<not> contains s p \<Longrightarrow> replace s p t = s"
  by (induction s p t rule: replace.induct) auto

text \<open>
  Replacement by a bracketed marker. A text without brackets that is found after the
  replacement was there before it, or it is part of the marker's inside.
\<close>

lemma prefix_replace_free:
  assumes "d \<notin> set v" and "prefix v (replace s p (d # t))"
  shows "prefix v s"
  using assms
proof (induction s p "d # t" arbitrary: v rule: replace.induct)
  case (1 p)
  then show ?case by simp
next
  case (2 c s p)
  show ?case
  proof (cases v)
    case Nil
    then show ?thesis by simp
  next
    case (Cons e v')
    with "2.prems" have "\<not> (p \<noteq> [] \<and> prefix p (c # s))"
      by (auto split: if_splits)
    with "2.prems" "2.hyps"(2) Cons show ?thesis by auto
  qed
qed

lemma contains_replace_marker:
  assumes "CHR ''['' \<notin> set v" and "CHR '']'' \<notin> set v"
    and "contains (replace s p (''['' @ x @ '']'')) v"
  shows "contains s v \<or> contains x v"
  using assms
proof (induction s p "''['' @ x @ '']''" rule: replace.induct)
  case (1 p)
  then show ?case by simp
next
  case (2 c s p)
  let ?m = "''['' @ x @ '']''"
  show ?case
  proof (cases "p \<noteq> [] \<and> prefix p (c # s)")
    case True
    let ?r = "drop (length p) (c # s)"
    from True "2.prems" have "contains ([] @ CHR ''['' # x @ CHR '']'' # replace ?r p ?m) v"
      by simp
    with "2.prems"(1,2) have "v = [] \<or> contains x v \<or> contains (replace ?r p ?m) v"
      unfolding contains_append_iff_free [OF "2.prems"(1)]
        contains_append_iff_free [OF "2.prems"(2)]
      by auto
    moreover have "contains ?r v \<Longrightarrow> contains (c # s) v"
      unfolding contains_iff_sublist
      by (metis append_take_drop_id sublist_append_leftI sublist_order.order_trans)
    ultimately show ?thesis
      using "2.hyps"(1) [OF True] "2.prems" by auto
  next
    case False
    with "2.prems" have "prefix v (c # replace s p ?m) \<or> contains (replace s p ?m) v"
      by simp
    moreover have "prefix v (c # s)" if "prefix v (c # replace s p ?m)"
      using that "2.prems"(1) prefix_replace_free [of "CHR ''[''" "tl v" s p "x @ '']''"]
      by (cases v) auto
    ultimately show ?thesis
      using "2.hyps"(2) [OF False] "2.prems" by auto
  qed
qed

text \<open>After the replacement the pattern itself is gone.\<close>

lemma replace_marker_removes:
  assumes "p \<noteq> []" and "CHR ''['' \<notin> set p" and "CHR '']'' \<notin> set p" and "\<not> contains x p"
  shows "\<not> contains (replace s p (''['' @ x @ '']'')) p"
  using assms
proof (induction s p "''['' @ x @ '']''" rule: replace.induct)
  case (1 p)
  then show ?case by simp
next
  case (2 c s p)
  let ?m = "''['' @ x @ '']''"
  show ?case
  proof (cases "prefix p (c # s)")
    case True
    let ?R = "replace (drop (length p) (c # s)) p ?m"
    have "\<not> contains ?R p" using 2 True by blast
    then have "\<not> contains ([] @ CHR ''['' # x @ CHR '']'' # ?R) p"
      unfolding contains_append_iff_free [OF "2.prems"(2)]
        contains_append_iff_free [OF "2.prems"(3)]
      using "2.prems" by auto
    with True "2.prems" show ?thesis by simp
  next
    case False
    then have "\<not> contains (replace s p ?m) p" using 2 by blast
    moreover have "\<not> prefix p (c # replace s p ?m)"
      using False "2.prems"(2) prefix_replace_free [of "CHR ''[''" "tl p" s p "x @ '']''"]
      by (cases p) auto
    ultimately show ?thesis using False by simp
  qed
qed

section \<open>Lemmas on splitting\<close>

lemma split_on_not_Nil [simp]: "split_on d s \<noteq> []"
  by (cases s) (auto split: list.splits)

lemma join_split_on: "join [d] (split_on d s) = s"
proof (induction s)
  case Nil
  then show ?case by simp
next
  case (Cons c s)
  then show ?case
    by (cases "split_on d s"; cases "tl (split_on d s)") auto
qed

lemma join_append: "xs \<noteq> [] \<Longrightarrow> ys \<noteq> [] \<Longrightarrow> join d (xs @ ys) = join d xs @ d @ join d ys"
proof (induction d xs rule: join.induct)
  case (2 sep x)
  then show ?case by (cases ys) auto
qed auto

lemma join_mem: "x \<in> set xs \<Longrightarrow> set x \<subseteq> set (join d xs)"
  by (induction d xs rule: join.induct) auto

lemma split_on_append: "split_on d (a @ d # b) = split_on d a @ split_on d b"
proof (induction a)
  case Nil
  then show ?case by simp
next
  case (Cons c a)
  then show ?case by (cases "split_on d a") auto
qed

text \<open>A piecewise prefix is a prefix of the text that ends at a separator.\<close>

lemma prefix_split_on_iff:
  "prefix (split_on d b) (split_on d a) \<longleftrightarrow> a = b \<or> prefix (b @ [d]) a"
proof
  assume "prefix (split_on d b) (split_on d a)"
  then obtain zs where zs: "split_on d a = split_on d b @ zs" by (auto simp: prefix_def)
  have "a = join [d] (split_on d b @ zs)" by (simp add: join_split_on zs [symmetric])
  then show "a = b \<or> prefix (b @ [d]) a"
    by (cases "zs = []") (auto simp: join_split_on join_append prefix_def)
next
  assume "a = b \<or> prefix (b @ [d]) a"
  then show "prefix (split_on d b) (split_on d a)"
    by (auto simp: prefix_def split_on_append)
qed

lemma split_on_free: "d \<notin> set s \<Longrightarrow> split_on d s = [s]"
  by (induction s) auto

lemma split_on_pieces_free: "x \<in> set (split_on d s) \<Longrightarrow> d \<notin> set x"
proof (induction s arbitrary: x)
  case Nil
  then show ?case by simp
next
  case (Cons c s)
  then show ?case
    by (cases "split_on d s") (auto split: if_splits)
qed

lemma split_once_Some: "split_once d s = Some (a, b) \<longleftrightarrow> s = a @ d # b \<and> d \<notin> set a"
proof (induction s arbitrary: a)
  case Nil
  then show ?case by simp
next
  case (Cons c s)
  then show ?case by (cases a) auto
qed

lemma split_once_None: "split_once d s = None \<longleftrightarrow> d \<notin> set s"
  by (induction s) auto

section \<open>Lemmas on trimming\<close>

definition trimmed_by :: "string list \<Rightarrow> string \<Rightarrow> bool" where
  "trimmed_by ws s \<longleftrightarrow> (\<forall>w \<in> set ws. w \<noteq> [] \<longrightarrow> \<not> prefix w s)"

lemma trim_start_by_id: "trimmed_by ws s \<Longrightarrow> trim_start_by ws s = s"
proof -
  assume "trimmed_by ws s"
  then have "find (\<lambda>w. w \<noteq> [] \<and> prefix w s) ws = None"
    by (auto simp: trimmed_by_def find_None_iff)
  then show ?thesis by (subst trim_start_by.simps) simp
qed

lemma trimmed_trim_start_by: "trimmed_by ws (trim_start_by ws s)"
proof (induction ws s rule: trim_start_by.induct)
  case (1 ws s)
  show ?case
  proof (cases "find (\<lambda>w. w \<noteq> [] \<and> prefix w s) ws")
    case None
    then have "trim_start_by ws s = s" by (subst trim_start_by.simps) simp
    with None show ?thesis by (auto simp: trimmed_by_def find_None_iff)
  next
    case (Some w)
    then show ?thesis using 1 by (subst trim_start_by.simps) simp
  qed
qed

lemma suffix_trim_start_by: "suffix (trim_start_by ws s) s"
proof (induction ws s rule: trim_start_by.induct)
  case (1 ws s)
  then show ?case
    by (subst trim_start_by.simps)
       (auto split: option.splits intro: suffix_order.trans suffix_drop)
qed

lemma trimmed_by_prefix: "trimmed_by ws s \<Longrightarrow> prefix t s \<Longrightarrow> trimmed_by ws t"
  unfolding trimmed_by_def by (meson prefix_order.trans)

lemma prefix_trim_end: "prefix (trim_end s) s"
  using suffix_trim_start_by [of "map rev white_space" "rev s"]
  by (simp add: trim_end_def suffix_to_prefix)

lemma trim_start_trim [simp]: "trim_start (trim s) = trim s"
  unfolding trim_def trim_start_def
  by (rule trim_start_by_id)
     (rule trimmed_by_prefix [OF trimmed_trim_start_by prefix_trim_end])

lemma trim_trim [simp]: "trim (trim s) = trim s"
proof -
  have "trim_end (trim s) = trim s"
    by (simp add: trim_def trim_end_def trim_start_by_id trimmed_trim_start_by)
  then show ?thesis using trim_start_trim [of s] by (simp add: trim_def)
qed

section \<open>Lemmas on letter case\<close>

lemma ascii_lower_idem [simp]: "ascii_lower (ascii_lower c) = ascii_lower c"
  by (auto simp: ascii_lower_def Let_def)

lemma to_ascii_lowercase_idem [simp]:
  "to_ascii_lowercase (to_ascii_lowercase s) = to_ascii_lowercase s"
  by (simp add: to_ascii_lowercase_def)

lemma eq_ignore_ascii_case_refl [simp]: "eq_ignore_ascii_case s s"
  by (simp add: eq_ignore_ascii_case_def)

lemma eq_ignore_ascii_case_sym: "eq_ignore_ascii_case a b \<Longrightarrow> eq_ignore_ascii_case b a"
  by (simp add: eq_ignore_ascii_case_def)

lemma eq_ignore_ascii_case_trans:
  "eq_ignore_ascii_case a b \<Longrightarrow> eq_ignore_ascii_case b c \<Longrightarrow> eq_ignore_ascii_case a c"
  by (simp add: eq_ignore_ascii_case_def)

lemma case_map_ascii:
  assumes "is_ascii s" and "\<And>k v. (k, v) \<in> set tbl \<Longrightarrow> k \<noteq> [] \<and> \<not> byte_in 0 127 (hd k)"
  shows "case_map tbl f s = map f s"
  using assms
proof (induction s)
  case Nil
  then show ?case by simp
next
  case (Cons c s)
  have "find (\<lambda>(k, v). k \<noteq> [] \<and> prefix k (c # s)) tbl = None"
    using Cons.prems by (fastforce simp: find_None_iff is_ascii_def prefix_Cons)
  with Cons show ?case by (simp add: is_ascii_def)
qed

lemma to_uppercase_ascii: "is_ascii s \<Longrightarrow> to_uppercase s = map ascii_upper s"
  unfolding to_uppercase_def
  by (rule case_map_ascii) (auto simp: upper_table_def byte_in_def)

lemma to_lowercase_ascii: "is_ascii s \<Longrightarrow> to_lowercase s = map ascii_lower s"
  unfolding to_lowercase_def
  by (rule case_map_ascii) (auto simp: lower_table_def byte_in_def)

lemma find_SomeD: "find P xs = Some x \<Longrightarrow> P x \<and> x \<in> set xs"
  by (induction xs) (auto split: if_splits)

end
