(* ===== verification/Types.thy ===== *)
theory Types
  imports Prelude "HOL-Library.Word"
begin

text \<open>
  The data model of \<open>tap-core\<close>: the request types (\<open>types.rs\<close>), the error type
  (\<open>error.rs\<close>) and the configuration types (\<open>config.rs\<close>), with the operations these
  files define on them; and the interface to the third-party crates the sources call
  (\<open>url\<close>, \<open>serde_json\<close>, \<open>base64\<close>), which the model takes as a parameter.
\<close>

section \<open>Requests and responses (types.rs)\<close>

datatype http_method = Get | Post | Put | Delete | Patch | Head | Options

fun is_read :: "http_method \<Rightarrow> bool" where
  "is_read Get = True"
| "is_read Head = True"
| "is_read Options = True"
| "is_read _ = False"

definition parse_method :: "string \<Rightarrow> http_method" where
  "parse_method s =
     (let u = to_uppercase s in
      if u = ''GET'' then Get
      else if u = ''POST'' then Post
      else if u = ''PUT'' then Put
      else if u = ''DELETE'' then Delete
      else if u = ''PATCH'' then Patch
      else if u = ''HEAD'' then Head
      else if u = ''OPTIONS'' then Options
      else Post)"

fun method_as_str :: "http_method \<Rightarrow> string" where
  "method_as_str Get = ''GET''"
| "method_as_str Post = ''POST''"
| "method_as_str Put = ''PUT''"
| "method_as_str Delete = ''DELETE''"
| "method_as_str Patch = ''PATCH''"
| "method_as_str Head = ''HEAD''"
| "method_as_str Options = ''OPTIONS''"

datatype placeholder_position = Header string | Body

record placeholder =
  ph_credential_name :: string
  ph_field :: "string option"
  ph_position :: placeholder_position

datatype approval_status = Pending | Approved | Denied | Timeout

datatype proposal_type = PolicyChange

fun proposal_type_as_str :: "proposal_type \<Rightarrow> string" where
  "proposal_type_as_str PolicyChange = ''policy_change''"

datatype risk_level = Low | Medium | High

fun risk_level_display :: "risk_level \<Rightarrow> string" where
  "risk_level_display Low = ''low''"
| "risk_level_display Medium = ''medium''"
| "risk_level_display High = ''high''"

record safety_check_result =
  sc_passed :: bool
  sc_risk_level :: risk_level
  sc_concerns :: "string list"

section \<open>Errors (error.rs)\<close>

datatype agent_sec_error =
    Unauthorized string
  | Forbidden string
  | CredentialNotFound string
  | PlaceholderPositionViolation string string
  | ApprovalDenied string
  | ApprovalTimeout nat
  | RateLimited string
  | Upstream string
  | Encryption string
  | Database string
  | AlreadyExists string
  | Config string
  | Internal string

section \<open>Configuration (config.rs)\<close>

datatype connector_type = Direct | Sidecar

record auth_binding =
  ab_header :: string
  ab_format :: string

record substitution_config =
  sub_headers :: bool
  sub_body :: bool
  sub_body_content_types :: "string list"

definition default_body_content_types :: "string list" where
  "default_body_content_types = [''application/x-www-form-urlencoded'', ''application/json'']"

definition default_substitution :: substitution_config where
  "default_substitution =
     \<lparr>sub_headers = True, sub_body = False, sub_body_content_types = default_body_content_types\<rparr>"

record credential_config =
  cc_description :: string
  cc_api_base :: "string option"
  cc_substitution :: substitution_config
  cc_connector :: connector_type
  cc_relative_target :: bool
  cc_auth_header_format :: "string option"
  cc_auth_bindings :: "auth_binding list"
  cc_end_user_id :: "string option"
  cc_allowed_hosts :: "string list"

datatype approval_mode = Gated | Autonomous

definition from_stored :: "string \<Rightarrow> approval_mode" where
  "from_stored s = (if s = ''autonomous'' then Autonomous else Gated)"

fun approval_mode_as_str :: "approval_mode \<Rightarrow> string" where
  "approval_mode_as_str Autonomous = ''autonomous''"
| "approval_mode_as_str Gated = ''gated''"

record matrix_routing =
  mx_room_id :: "string option"
  mx_allowed_approvers :: "string list"

record approval_routing =
  ar_channel :: "string option"
  ar_allowed_approvers :: "string list"
  ar_require_passkey :: bool
  ar_require_preimage :: bool
  ar_min_approvals :: "32 word"
  ar_telegram :: "string option option"
  ar_matrix :: "matrix_routing option"
  ar_slack :: "string option option"
  ar_mobile :: "string list option"

record policy_config =
  pc_auto_approve :: "string list"
  pc_require_approval :: "string list"
  pc_auto_approve_urls :: "string list"
  pc_require_approval_urls :: "string list"
  pc_approval :: "approval_routing option"

record agent_config =
  ag_description :: "string option"
  ag_credentials :: "string list"
  ag_rate_limit_per_hour :: "nat option"

text \<open>
  The hash maps of the configuration are association lists: their order is the order
  the iteration of \<open>validate\<close> happens to take, and a lookup is \<^const>\<open>map_of\<close>.
\<close>

record agent_sec_config =
  cfg_version :: nat
  cfg_credentials :: "(string \<times> credential_config) list"
  cfg_policies :: "(string \<times> policy_config) list"
  cfg_agents :: "(string \<times> agent_config) list"

fun validate_agent_credentials ::
  "(string \<times> credential_config) list \<Rightarrow> string \<Rightarrow> string list \<Rightarrow> (agent_sec_error, unit) result" where
  "validate_agent_credentials creds agent [] = Inr ()"
| "validate_agent_credentials creds agent (c # cs) =
     (if map_of creds c = None
      then Inl (Config (''agent '' @ quoted agent @ '' references credential '' @ quoted c
                 @ '' which does not exist''))
      else validate_agent_credentials creds agent cs)"

fun validate_agents ::
  "(string \<times> credential_config) list \<Rightarrow> (string \<times> agent_config) list
    \<Rightarrow> (agent_sec_error, unit) result" where
  "validate_agents creds [] = Inr ()"
| "validate_agents creds ((name, a) # as) =
     (case validate_agent_credentials creds name (ag_credentials a) of
        Inl e \<Rightarrow> Inl e
      | Inr _ \<Rightarrow> validate_agents creds as)"

fun validate_connectors ::
  "(string \<times> credential_config) list \<Rightarrow> (agent_sec_error, unit) result" where
  "validate_connectors [] = Inr ()"
| "validate_connectors ((name, c) # cs) =
     (if cc_connector c = Sidecar \<and> cc_api_base c = None
      then Inl (Config (''credential '' @ quoted name @ '' has connector=sidecar but no api_base''))
      else if cc_relative_target c \<and> cc_connector c \<noteq> Sidecar
      then Inl (Config (''credential '' @ quoted name
                 @ '' has relative_target=true but connector is not sidecar''))
      else validate_connectors cs)"

definition validate_config :: "agent_sec_config \<Rightarrow> (agent_sec_error, unit) result" where
  "validate_config cfg =
     (case validate_agents (cfg_credentials cfg) (cfg_agents cfg) of
        Inl e \<Rightarrow> Inl e
      | Inr _ \<Rightarrow> validate_connectors (cfg_credentials cfg))"

section \<open>Third-party code\<close>

text \<open>
  What the sources use of \<open>url::Url\<close>: its host (also in the serialised form of
  \<open>host_str\<close>), port, path and query. IP addresses have the octets and segments of
  \<open>std::net\<close>.
\<close>

type_synonym ipv4 = "8 word \<times> 8 word \<times> 8 word \<times> 8 word"
type_synonym ipv6 =
  "16 word \<times> 16 word \<times> 16 word \<times> 16 word \<times> 16 word \<times> 16 word \<times> 16 word \<times> 16 word"

datatype ip_addr = V4 ipv4 | V6 ipv6

datatype url_host = Domain string | Ipv4 ipv4 | Ipv6 ipv6

record url =
  u_host :: "url_host option"
  u_host_str :: "string option"
  u_port :: "nat option"
  u_port_or_known_default :: "nat option"
  u_path :: string
  u_query :: "string option"

text \<open>\<open>serde_json::Value\<close>; an object lists its entries in iteration order.\<close>

datatype json =
    JNull
  | JBool bool
  | JNumber string
  | JString string
  | JArray "json list"
  | JObject "(string \<times> json) list"

fun as_str :: "json \<Rightarrow> string option" where
  "as_str (JString s) = Some s"
| "as_str _ = None"

fun as_object :: "json \<Rightarrow> (string \<times> json) list option" where
  "as_object (JObject m) = Some m"
| "as_object _ = None"

text \<open>The functions of the crates, as one parameter of the definitions that call them.\<close>

record externals =
  url_parse :: "string \<Rightarrow> url option"
  json_parse :: "string \<Rightarrow> json option"
  base64_std :: "bytes \<Rightarrow> string"
  base64_url_no_pad :: "bytes \<Rightarrow> string"

text \<open>
  A concrete instance, for evaluating the model on examples: plain \<open>https\<close> URLs with a
  domain, no JSON, and tagging in place of base64.
\<close>

definition sample_url :: "string \<Rightarrow> string \<Rightarrow> url" where
  "sample_url host path =
     \<lparr>u_host = Some (Domain host), u_host_str = Some host, u_port = None,
      u_port_or_known_default = Some 443, u_path = path, u_query = None\<rparr>"

definition sample_url_parse :: "string \<Rightarrow> url option" where
  "sample_url_parse s =
     (case strip_prefix (takeWhile (\<lambda>c. c \<noteq> CHR ''?'') s) ''https://'' of
        None \<Rightarrow> None
      | Some r \<Rightarrow>
          (case split_once CHR ''/'' r of
             None \<Rightarrow> Some (sample_url r ''/'')
           | Some (h, p) \<Rightarrow> Some (sample_url h (''/'' @ p))))"

definition sample_externals :: externals where
  "sample_externals =
     \<lparr>url_parse = sample_url_parse, json_parse = (\<lambda>_. None),
      base64_std = (\<lambda>b. ''b64:'' @ b), base64_url_no_pad = (\<lambda>b. ''b64u:'' @ b)\<rparr>"

section \<open>Lemmas\<close>

lemma parse_method_as_str [simp]: "parse_method (method_as_str m) = m"
  by (cases m; hypsubst; code_simp)

text \<open>The configuration check accepts exactly the consistent configurations.\<close>

definition connector_consistent :: "credential_config \<Rightarrow> bool" where
  "connector_consistent c \<longleftrightarrow>
     (cc_connector c = Sidecar \<longrightarrow> cc_api_base c \<noteq> None)
     \<and> (cc_relative_target c \<longrightarrow> cc_connector c = Sidecar)"

lemma validate_agent_credentials_ok:
  "validate_agent_credentials creds a cs = Inr () \<longleftrightarrow> set cs \<subseteq> dom (map_of creds)"
  by (induction cs) auto

lemma validate_agents_ok:
  "validate_agents creds as = Inr () \<longleftrightarrow>
     (\<forall>(n, a) \<in> set as. set (ag_credentials a) \<subseteq> dom (map_of creds))"
proof (induction as)
  case Nil
  then show ?case by simp
next
  case (Cons x as)
  then show ?case
    using validate_agent_credentials_ok [of creds "fst x" "ag_credentials (snd x)"]
    by (cases x) (auto split: sum.splits)
qed

lemma validate_connectors_ok:
  "validate_connectors cs = Inr () \<longleftrightarrow> (\<forall>(n, c) \<in> set cs. connector_consistent c)"
  by (induction cs rule: validate_connectors.induct) (simp_all add: connector_consistent_def)

lemma validate_config_ok:
  "validate_config cfg = Inr () \<longleftrightarrow>
     (\<forall>(n, a) \<in> set (cfg_agents cfg).
        set (ag_credentials a) \<subseteq> dom (map_of (cfg_credentials cfg)))
     \<and> (\<forall>(n, c) \<in> set (cfg_credentials cfg). connector_consistent c)"
  using validate_agents_ok [of "cfg_credentials cfg" "cfg_agents cfg"]
    validate_connectors_ok [of "cfg_credentials cfg"]
  by (cases "validate_agents (cfg_credentials cfg) (cfg_agents cfg)")
    (simp_all add: validate_config_def)

end
