(* ===== verification/Policy.thy ===== *)
theory Policy
  imports Types
begin

text \<open>
  Approval policy (\<open>tap-proxy/src/policy.rs\<close>): which requests run without a human, the
  structural matcher for URL patterns, the exact-path matcher for time-boxed grants, the
  derivation of a grant scope (\<open>tap-core/src/grants.rs\<close>) and the rate limit. The URL
  parser is a parameter; every lemma holds for any parser.
\<close>

section \<open>Decisions\<close>

datatype policy_reason =
    TeamAutonomousDefault
  | TeamGatedDefaultSafeMethod
  | TeamGatedDefaultUnsafeMethod
  | AutoApproveUrl
  | RequireApprovalUrl
  | AutoApproveMethod
  | RequireApprovalMethod
  | RequireApprovalDefault

fun policy_reason_as_str :: "policy_reason \<Rightarrow> string" where
  "policy_reason_as_str TeamAutonomousDefault = ''team_autonomous_default''"
| "policy_reason_as_str TeamGatedDefaultSafeMethod = ''team_gated_default_safe_method''"
| "policy_reason_as_str TeamGatedDefaultUnsafeMethod = ''team_gated_default_unsafe_method''"
| "policy_reason_as_str AutoApproveUrl = ''auto_approve_url''"
| "policy_reason_as_str RequireApprovalUrl = ''require_approval_url''"
| "policy_reason_as_str AutoApproveMethod = ''auto_approve_method''"
| "policy_reason_as_str RequireApprovalMethod = ''require_approval_method''"
| "policy_reason_as_str RequireApprovalDefault = ''require_approval_default''"

record policy_decision =
  requires_approval :: bool
  auto_approved :: bool
  reason :: policy_reason

section \<open>URL patterns\<close>

definition trim_trailing_slash :: "string \<Rightarrow> string" where
  "trim_trailing_slash v = (if length v > 1 then trim_end_matches CHR ''/'' v else v)"

definition segment_matches :: "string \<times> string \<Rightarrow> bool" where
  "segment_matches ps = (case ps of (pat, seg) \<Rightarrow> if pat = ''*'' then seg \<noteq> [] else pat = seg)"

definition path_segments_match :: "string \<Rightarrow> string \<Rightarrow> bool \<Rightarrow> bool" where
  "path_segments_match path pattern exact =
     (if \<not> starts_with pattern ''/'' then False
      else let path_segments = split_on CHR ''/'' (trim_trailing_slash path);
               pattern_segments = split_on CHR ''/'' (trim_trailing_slash pattern)
           in if (if exact then length pattern_segments \<noteq> length path_segments
                  else length pattern_segments > length path_segments)
              then False
              else list_all segment_matches (zip pattern_segments path_segments))"

definition path_prefix_matches :: "string \<Rightarrow> string \<Rightarrow> bool" where
  "path_prefix_matches path pattern = path_segments_match path pattern False"

definition host_text :: "url \<Rightarrow> string" where
  "host_text u = (case u_host_str u of None \<Rightarrow> [] | Some h \<Rightarrow> h)"

definition url_matches_policy_pattern :: "externals \<Rightarrow> string \<Rightarrow> string \<Rightarrow> bool" where
  "url_matches_policy_pattern X url pattern =
     (let pattern = trim pattern in
      if pattern = [] then False
      else case url_parse X url of
        None \<Rightarrow> False
      | Some parsed \<Rightarrow>
          let host = host_text parsed; path = u_path parsed in
          if starts_with pattern ''/'' then path_prefix_matches path pattern
          else case split_once CHR ''/'' pattern of
            None \<Rightarrow> \<not> contains pattern ''*'' \<and> eq_ignore_ascii_case host pattern
          | Some (host_pattern, path_pattern) \<Rightarrow>
              if host_pattern = [] \<or> contains host_pattern ''*'' then False
              else eq_ignore_ascii_case host host_pattern
                   \<and> path_prefix_matches path (''/'' @ path_pattern))"

definition grant_scope_covers_url :: "externals \<Rightarrow> string \<Rightarrow> string \<Rightarrow> bool" where
  "grant_scope_covers_url X url pattern =
     (let pattern = trim pattern in
      if pattern = [] then False
      else case url_parse X url of
        None \<Rightarrow> False
      | Some parsed \<Rightarrow>
          let host = host_text parsed; path = u_path parsed in
          if starts_with pattern ''/'' then path_segments_match path pattern True
          else case split_once CHR ''/'' pattern of
            None \<Rightarrow> False
          | Some (host_pattern, path_pattern) \<Rightarrow>
              if host_pattern = [] \<or> contains host_pattern ''*'' then False
              else eq_ignore_ascii_case host host_pattern
                   \<and> path_segments_match path (''/'' @ path_pattern) True)"

definition grant_covers ::
  "externals \<Rightarrow> string list \<Rightarrow> string list \<Rightarrow> string \<Rightarrow> string \<Rightarrow> bool" where
  "grant_covers X methods route_scope method url \<longleftrightarrow>
     list_ex (\<lambda>m. eq_ignore_ascii_case m method) methods
     \<and> list_ex (grant_scope_covers_url X url) route_scope"

definition scope_from_target :: "externals \<Rightarrow> string \<Rightarrow> string option" where
  "scope_from_target X target_url =
     (case url_parse X target_url of
        None \<Rightarrow> None
      | Some parsed \<Rightarrow>
          (case u_host_str parsed of
             None \<Rightarrow> None
           | Some host \<Rightarrow>
               if host = [] \<or> \<not> contains host ''.'' then None
               else let path = u_path parsed in
                 if path = ''/'' \<or> path = [] then Some host else Some (host @ path)))"

section \<open>Evaluation\<close>

fun method_to_string :: "http_method \<Rightarrow> string" where
  "method_to_string Get = ''GET''"
| "method_to_string Post = ''POST''"
| "method_to_string Put = ''PUT''"
| "method_to_string Delete = ''DELETE''"
| "method_to_string Patch = ''PATCH''"
| "method_to_string Head = ''HEAD''"
| "method_to_string Options = ''OPTIONS''"

definition any_pattern :: "externals \<Rightarrow> string option \<Rightarrow> string list \<Rightarrow> bool" where
  "any_pattern X target_url patterns =
     (case target_url of
        None \<Rightarrow> False
      | Some url \<Rightarrow> list_ex (url_matches_policy_pattern X url) patterns)"

definition evaluate_policy_with_default ::
  "externals \<Rightarrow> http_method \<Rightarrow> policy_config option \<Rightarrow> string option \<Rightarrow> approval_mode
    \<Rightarrow> policy_decision" where
  "evaluate_policy_with_default X m policy target_url team_default =
     (case policy of
        None \<Rightarrow>
          (case team_default of
             Autonomous \<Rightarrow>
               \<lparr>requires_approval = False, auto_approved = True, reason = TeamAutonomousDefault\<rparr>
           | Gated \<Rightarrow>
               let method_str = method_to_string m;
                   safe = (method_str = ''GET'' \<or> method_str = ''HEAD'') in
               \<lparr>requires_approval = \<not> safe, auto_approved = safe,
                reason = if safe then TeamGatedDefaultSafeMethod
                         else TeamGatedDefaultUnsafeMethod\<rparr>)
      | Some p \<Rightarrow>
          if any_pattern X target_url (pc_require_approval_urls p) then
            \<lparr>requires_approval = True, auto_approved = False, reason = RequireApprovalUrl\<rparr>
          else if any_pattern X target_url (pc_auto_approve_urls p) then
            \<lparr>requires_approval = False, auto_approved = True, reason = AutoApproveUrl\<rparr>
          else
            let method_str = method_to_string m;
                check_method = (if method_str = ''HEAD'' then ''GET'' else method_str) in
            if list_ex (\<lambda>a. to_uppercase a = check_method) (pc_auto_approve p) then
              \<lparr>requires_approval = False, auto_approved = True, reason = AutoApproveMethod\<rparr>
            else if list_ex (\<lambda>a. to_uppercase a = check_method) (pc_require_approval p) then
              \<lparr>requires_approval = True, auto_approved = False, reason = RequireApprovalMethod\<rparr>
            else
              \<lparr>requires_approval = True, auto_approved = False, reason = RequireApprovalDefault\<rparr>)"

definition evaluate_policy ::
  "externals \<Rightarrow> http_method \<Rightarrow> policy_config option \<Rightarrow> string option \<Rightarrow> policy_decision" where
  "evaluate_policy X m policy target_url =
     evaluate_policy_with_default X m policy target_url Gated"

definition check_rate_limit :: "nat \<Rightarrow> nat \<Rightarrow> (agent_sec_error, unit) result" where
  "check_rate_limit request_count limit_per_hour =
     (if request_count \<ge> limit_per_hour
      then Inl (RateLimited (''Rate limit exceeded: '' @ show_nat request_count @ ''/''
                  @ show_nat limit_per_hour @ '' requests in the last hour''))
      else Inr ())"

section \<open>The segment matcher\<close>

lemma segment_matches_refl: "list_all segment_matches (zip xs xs) \<longleftrightarrow> (\<forall>x \<in> set xs. x \<noteq> ''*'' \<or> x \<noteq> [])"
  by (induction xs) (auto simp: segment_matches_def)

lemma list_all_segment_literal:
  assumes "''*'' \<notin> set ps" and "length ps \<le> length qs"
  shows "list_all segment_matches (zip ps qs) \<longleftrightarrow> prefix ps qs"
  using assms
proof (induction ps arbitrary: qs)
  case Nil
  then show ?case by simp
next
  case (Cons p ps)
  then show ?case by (cases qs) (auto simp: segment_matches_def)
qed

lemma path_segments_match_exact_prefix:
  "path_segments_match path pattern True \<Longrightarrow> path_segments_match path pattern False"
  by (auto simp: path_segments_match_def Let_def split: if_splits)

text \<open>A pattern without wildcards matches at a path boundary, or not at all.\<close>

lemma path_prefix_literal:
  assumes "''*'' \<notin> set (split_on CHR ''/'' (trim_trailing_slash pattern))"
  shows "path_prefix_matches path pattern \<longleftrightarrow>
    starts_with pattern ''/''
    \<and> (trim_trailing_slash path = trim_trailing_slash pattern
       \<or> starts_with (trim_trailing_slash path) (trim_trailing_slash pattern @ ''/''))"
proof -
  let ?p = "split_on CHR ''/'' (trim_trailing_slash pattern)"
  let ?q = "split_on CHR ''/'' (trim_trailing_slash path)"
  have "(length ?p \<le> length ?q \<and> list_all segment_matches (zip ?p ?q)) \<longleftrightarrow> prefix ?p ?q"
    using list_all_segment_literal [OF assms, of ?q] prefix_length_le by blast
  then show ?thesis
    unfolding path_prefix_matches_def path_segments_match_def starts_with_def
      prefix_split_on_iff [symmetric]
    by (auto simp: Let_def not_less split: if_splits)
qed

lemma path_exact_literal:
  assumes "''*'' \<notin> set (split_on CHR ''/'' (trim_trailing_slash pattern))"
  shows "path_segments_match path pattern True \<longleftrightarrow>
    starts_with pattern ''/'' \<and> trim_trailing_slash path = trim_trailing_slash pattern"
proof -
  let ?p = "split_on CHR ''/'' (trim_trailing_slash pattern)"
  let ?q = "split_on CHR ''/'' (trim_trailing_slash path)"
  have "length ?p = length ?q \<and> list_all segment_matches (zip ?p ?q) \<longleftrightarrow> ?p = ?q"
    using list_all_segment_literal [OF assms, of ?q] by (fastforce simp: prefix_def)
  moreover have "?p = ?q \<longleftrightarrow> trim_trailing_slash path = trim_trailing_slash pattern"
    by (metis join_split_on)
  ultimately show ?thesis
    by (auto simp: path_segments_match_def Let_def split: if_splits)
qed

section \<open>Anchoring\<close>

lemma url_matches_parses:
  "url_matches_policy_pattern X url pattern \<Longrightarrow> \<exists>u. url_parse X url = Some u"
  by (auto simp: url_matches_policy_pattern_def Let_def split: if_splits option.splits)

lemma grant_scope_parses:
  "grant_scope_covers_url X url pattern \<Longrightarrow> \<exists>u. url_parse X url = Some u"
  by (auto simp: grant_scope_covers_url_def Let_def split: if_splits option.splits)

lemma any_pattern_None [simp]: "\<not> any_pattern X None ps"
  by (simp add: any_pattern_def)

lemma any_pattern_mono: "any_pattern X u ps \<Longrightarrow> set ps \<subseteq> set qs \<Longrightarrow> any_pattern X u qs"
  by (auto simp: any_pattern_def list_ex_iff split: option.splits)

section \<open>The decision, as one condition\<close>

definition policy_method :: "http_method \<Rightarrow> string" where
  "policy_method m = (if method_to_string m = ''HEAD'' then ''GET'' else method_to_string m)"

lemma decision_complementary:
  "auto_approved (evaluate_policy_with_default X m p u d) \<longleftrightarrow>
   \<not> requires_approval (evaluate_policy_with_default X m p u d)"
  by (auto simp: evaluate_policy_with_default_def Let_def
      split: option.splits approval_mode.splits)

lemma list_ex_uppercase: "list_ex (\<lambda>a. to_uppercase a = c) xs \<longleftrightarrow> c \<in> to_uppercase ` set xs"
  by (auto simp: list_ex_iff)

lemma auto_approved_iff:
  "auto_approved (evaluate_policy_with_default X m (Some p) u d) \<longleftrightarrow>
     \<not> any_pattern X u (pc_require_approval_urls p)
     \<and> (any_pattern X u (pc_auto_approve_urls p)
        \<or> policy_method m \<in> to_uppercase ` set (pc_auto_approve p))"
  unfolding evaluate_policy_with_default_def Let_def policy_method_def [symmetric]
    list_ex_uppercase
  by simp

lemma auto_approved_default_iff:
  "auto_approved (evaluate_policy_with_default X m None u d) \<longleftrightarrow>
     d = Autonomous \<or> m = Get \<or> m = Head"
  by (cases m; cases d; simp add: evaluate_policy_with_default_def Let_def)

section \<open>Properties\<close>

text \<open>C7. When a request runs without a human. Under an explicit policy: no require-URL
  pattern matches, and an auto-URL pattern matches or the method (HEAD counting as GET)
  is listed. Without a policy: the team is autonomous, or the method is GET or HEAD. In
  every other case a human is asked, and the two flags are always complementary.\<close>

theorem policy_auto_approved:
  "auto_approved (evaluate_policy_with_default X m policy u d) =
     (case policy of
        None \<Rightarrow> d = Autonomous \<or> m = Get \<or> m = Head
      | Some p \<Rightarrow>
          \<not> any_pattern X u (pc_require_approval_urls p)
          \<and> (any_pattern X u (pc_auto_approve_urls p)
             \<or> policy_method m \<in> to_uppercase ` set (pc_auto_approve p)))
   \<and> requires_approval (evaluate_policy_with_default X m policy u d) =
       (auto_approved (evaluate_policy_with_default X m policy u d) = False)"
proof (cases policy)
  case None
  then show ?thesis
    using decision_complementary [of X m policy u d] by (simp add: auto_approved_default_iff)
next
  case (Some p)
  then show ?thesis
    using decision_complementary [of X m policy u d] by (simp add: auto_approved_iff)
qed

definition pattern_host :: "string \<Rightarrow> string" where
  "pattern_host pat = takeWhile (\<lambda>c. c \<noteq> CHR ''/'') pat"

definition pattern_path :: "string \<Rightarrow> string" where
  "pattern_path pat = dropWhile (\<lambda>c. c \<noteq> CHR ''/'') pat"

lemma pattern_parts_slash: "starts_with pat ''/'' \<Longrightarrow> pattern_host pat = [] \<and> pattern_path pat = pat"
  by (auto simp: pattern_host_def pattern_path_def starts_with_def prefix_def)

lemma pattern_parts_split:
  assumes "split_once CHR ''/'' pat = Some (h, p)"
  shows "pattern_host pat = h" and "pattern_path pat = ''/'' @ p"
proof -
  from assms have "pat = h @ CHR ''/'' # p" and "CHR ''/'' \<notin> set h"
    by (auto simp: split_once_Some)
  then show "pattern_host pat = h" and "pattern_path pat = ''/'' @ p"
    by (auto simp: pattern_host_def pattern_path_def takeWhile_append dropWhile_append)
qed

lemma pattern_parts_whole:
  assumes "split_once CHR ''/'' pat = None"
  shows "pattern_host pat = pat" and "pattern_path pat = []"
  using assms
  by (auto simp: pattern_host_def pattern_path_def split_once_None takeWhile_eq_all_conv
      dropWhile_eq_Nil_conv)

text \<open>Where a path ends for the matcher: at the pattern, or at a slash after it.\<close>

definition at_boundary :: "string \<Rightarrow> string \<Rightarrow> bool" where
  "at_boundary path pp \<longleftrightarrow>
     trim_trailing_slash path = trim_trailing_slash pp
     \<or> starts_with (trim_trailing_slash path) (trim_trailing_slash pp @ ''/'')"

lemma set_trim_trailing_slash: "set (trim_trailing_slash s) \<subseteq> set s"
  by (auto simp: trim_trailing_slash_def trim_end_matches_def dest: set_dropWhileD)

lemma wildcard_free_segments:
  assumes "CHR ''*'' \<notin> set pp"
  shows "''*'' \<notin> set (split_on CHR ''/'' (trim_trailing_slash pp))"
proof
  assume "''*'' \<in> set (split_on CHR ''/'' (trim_trailing_slash pp))"
  then have "CHR ''*'' \<in> set (join ''/'' (split_on CHR ''/'' (trim_trailing_slash pp)))"
    using join_mem by fastforce
  then show False
    using assms set_trim_trailing_slash [of pp] by (auto simp: join_split_on)
qed

lemma url_match_cases:
  assumes "url_parse X url = Some u" and "pat = trim pattern" and "pat \<noteq> []"
  shows "url_matches_policy_pattern X url pattern \<longleftrightarrow>
    (if starts_with pat ''/'' then path_prefix_matches (u_path u) pat
     else case split_once CHR ''/'' pat of
       None \<Rightarrow> \<not> contains pat ''*'' \<and> eq_ignore_ascii_case (host_text u) pat
     | Some (h, p) \<Rightarrow>
         h \<noteq> [] \<and> \<not> contains h ''*'' \<and> eq_ignore_ascii_case (host_text u) h
         \<and> path_prefix_matches (u_path u) (''/'' @ p))"
  using assms by (auto simp: url_matches_policy_pattern_def Let_def split: option.splits)

lemma contains_single: "contains s [c] \<longleftrightarrow> c \<in> set s"
  by (induction s) auto

lemma split_once_host_nonempty:
  "split_once CHR ''/'' pat = Some (h, p) \<Longrightarrow> \<not> starts_with pat ''/'' \<Longrightarrow> h \<noteq> []"
  by (auto simp: split_once_Some starts_with_def)

text \<open>The matcher is anchored. A pattern without wildcards matches a target URL exactly
  when the URL parses, its host equals the pattern's host part up to ASCII case (a pattern
  that starts with a slash has none), and its path is the pattern's path part or goes on
  below it at a slash (a host-only pattern has no path part). So neither a longer host nor
  a longer last segment, nor a query string, can satisfy a pattern.\<close>

lemma url_match_anchored:
  assumes "CHR ''*'' \<notin> set (trim pattern)" and "trim pattern \<noteq> []"
  shows "url_matches_policy_pattern X url pattern =
    (\<exists>u. url_parse X url = Some u
       \<and> (if pattern_host (trim pattern) = [] then True
          else eq_ignore_ascii_case (host_text u) (pattern_host (trim pattern)))
       \<and> (if pattern_path (trim pattern) = [] then True
          else at_boundary (u_path u) (pattern_path (trim pattern))))"
proof (cases "url_parse X url")
  case None
  then show ?thesis using url_matches_parses by fastforce
next
  case (Some u)
  define pat where "pat = trim pattern"
  note m = url_match_cases [OF Some pat_def assms(2) [folded pat_def]]
  have lit: "path_prefix_matches (u_path u) pp \<longleftrightarrow> at_boundary (u_path u) pp"
    if "starts_with pp ''/''" and "set pp \<subseteq> set pat" for pp
    using path_prefix_literal [OF wildcard_free_segments, of pp "u_path u"] that assms(1)
    by (auto simp: at_boundary_def pat_def)
  show ?thesis
  proof (cases "starts_with pat ''/''")
    case True
    then show ?thesis
      using m lit [of pat] pattern_parts_slash [OF True] Some assms(2)
      by (simp add: pat_def)
  next
    case False
    show ?thesis
    proof (cases "split_once CHR ''/'' pat")
      case None
      then show ?thesis
        using m False pattern_parts_whole [OF None] Some assms
        by (simp add: pat_def contains_single)
    next
      case (Some hp)
      obtain h p where hp: "hp = (h, p)" by (cases hp)
      with Some have s: "split_once CHR ''/'' pat = Some (h, p)" by simp
      then have sub: "set (''/'' @ p) \<subseteq> set pat" and "CHR ''*'' \<notin> set h"
        using assms(1) by (auto simp: split_once_Some pat_def)
      moreover have "starts_with (''/'' @ p) ''/''" by (simp add: starts_with_def)
      ultimately show ?thesis
        using m False s pattern_parts_split [OF s] lit [OF _ sub] \<open>url_parse X url = Some u\<close>
          split_once_host_nonempty [OF s False]
        by (simp add: pat_def contains_single)
    qed
  qed
qed

text \<open>Only the host and the path of a target take part: two URLs that parse to the same
  host and path get the same decision, whatever their query, fragment, port or scheme.\<close>

lemma policy_ignores_query:
  assumes "url_parse X a = Some ua" and "url_parse X b = Some ub"
    and "host_text ua = host_text ub" and "u_path ua = u_path ub"
  shows "evaluate_policy_with_default X m p (Some a) d =
         evaluate_policy_with_default X m p (Some b) d"
proof -
  have "url_matches_policy_pattern X a = url_matches_policy_pattern X b"
    using assms by (auto simp: url_matches_policy_pattern_def Let_def fun_eq_iff)
  then have "any_pattern X (Some a) = any_pattern X (Some b)"
    by (auto simp: any_pattern_def)
  then show ?thesis
    by (cases p) (simp_all add: evaluate_policy_with_default_def)
qed

lemma grant_match_cases:
  assumes "url_parse X url = Some u" and "pat = trim pattern" and "pat \<noteq> []"
  shows "grant_scope_covers_url X url pattern \<longleftrightarrow>
    (if starts_with pat ''/'' then path_segments_match (u_path u) pat True
     else case split_once CHR ''/'' pat of
       None \<Rightarrow> False
     | Some (h, p) \<Rightarrow>
         h \<noteq> [] \<and> \<not> contains h ''*'' \<and> eq_ignore_ascii_case (host_text u) h
         \<and> path_segments_match (u_path u) (''/'' @ p) True)"
  using assms by (auto simp: grant_scope_covers_url_def Let_def split: option.splits)

text \<open>A grant is never broader than a standing rule: every request a grant's scope covers
  is also matched by an auto-approve URL with the same pattern.\<close>

lemma grant_not_broader:
  assumes "grant_scope_covers_url X url pattern"
  shows "url_matches_policy_pattern X url pattern"
proof -
  from assms obtain u where u: "url_parse X url = Some u" using grant_scope_parses by blast
  have ne: "trim pattern \<noteq> []" using assms by (auto simp: grant_scope_covers_url_def)
  show ?thesis
    using assms path_segments_match_exact_prefix
    unfolding grant_match_cases [OF u refl ne] url_match_cases [OF u refl ne]
    by (auto simp: path_prefix_matches_def split: if_splits option.splits)
qed

lemma derived_scope_iff:
  assumes "scope_from_target X t = Some s" and "url_parse X t = Some u"
    and "CHR ''/'' \<notin> set (host_text u)" and "starts_with (u_path u) ''/''"
    and "trim s = s" and "CHR ''*'' \<notin> set s"
  shows "grant_scope_covers_url X r s =
    (u_path u \<noteq> ''/''
     \<and> (\<exists>v. url_parse X r = Some v \<and> eq_ignore_ascii_case (host_text v) (host_text u)
            \<and> trim_trailing_slash (u_path v) = trim_trailing_slash (u_path u)))"
proof -
  from assms(1,2,4) have ne: "host_text u \<noteq> []"
    and s: "s = (if u_path u = ''/'' then host_text u else host_text u @ u_path u)"
    by (auto simp: scope_from_target_def host_text_def Let_def starts_with_def
        split: option.splits if_splits)
  have nsw: "\<not> starts_with s ''/''" and sne: "trim s \<noteq> []"
    using ne assms(3,5) s by (cases "host_text u"; auto simp: starts_with_def)+
  show ?thesis
  proof (cases "url_parse X r")
    case None
    then show ?thesis using grant_scope_parses by fastforce
  next
    case (Some v)
    note c = grant_match_cases [OF Some refl sne, unfolded assms(5)]
    show ?thesis
    proof (cases "u_path u = ''/''")
      case True
      with s assms(3) have "split_once CHR ''/'' s = None" by (simp add: split_once_None)
      with c nsw True show ?thesis by simp
    next
      case False
      obtain p where p: "u_path u = ''/'' @ p"
        using assms(4) by (auto simp: starts_with_def prefix_def)
      with False s assms(3) have sp: "split_once CHR ''/'' s = Some (host_text u, p)"
        by (simp add: split_once_Some)
      have "CHR ''*'' \<notin> set (''/'' @ p)" "CHR ''*'' \<notin> set (host_text u)"
        using assms(6) s False p by auto
      then show ?thesis
        using c nsw sp ne False Some p
          path_exact_literal [OF wildcard_free_segments, of "''/'' @ p" "u_path v"]
        by (simp add: contains_single starts_with_def)
    qed
  qed
qed

text \<open>The scope of a grant minted from a reviewed request is that request's route. For a
  target whose serialised host has no slash, whose path starts with one, and that carries no
  wildcard or outer white space, the derived scope covers a request exactly when the request
  goes to the same host (up to ASCII case) and the same path (up to trailing slashes); a
  target at the root path derives a scope that covers nothing.\<close>

lemma derived_scope_exact:
  assumes "scope_from_target X t = Some s" and "url_parse X t = Some u"
    and "CHR ''/'' \<notin> set (host_text u)" and "starts_with (u_path u) ''/''"
    and "trim s = s" and "CHR ''*'' \<notin> set s"
  shows "grant_scope_covers_url X r s =
    (u_path u \<noteq> ''/''
     \<and> (\<exists>v. url_parse X r = Some v \<and> eq_ignore_ascii_case (host_text v) (host_text u)
            \<and> trim_trailing_slash (u_path v) = trim_trailing_slash (u_path u)))"
  by (rule derived_scope_iff [OF assms])

text \<open>The derivation does not escape a literal star. A reviewed request whose path has a
  segment that is just a star (the URL syntax allows it) yields a scope in which that segment
  is a wildcard, so the grant covers paths the approver never saw.\<close>

lemma star_segment_widens_grant:
  "\<exists>s. scope_from_target sample_externals ''https://a.b/v1/*/send'' = Some s
     \<and> grant_scope_covers_url sample_externals ''https://a.b/v1/someone-else/send'' s
     \<and> u_path (sample_url ''a.b'' ''/v1/someone-else/send'') \<noteq> ''/v1/*/send''"
proof -
  have "scope_from_target sample_externals ''https://a.b/v1/*/send'' = Some ''a.b/v1/*/send''"
    "grant_scope_covers_url sample_externals ''https://a.b/v1/someone-else/send'' ''a.b/v1/*/send''"
    by code_simp+
  then show ?thesis by (simp add: sample_url_def)
qed

end
