(* ===== verification/Policy_Diff.thy ===== *)
theory Policy_Diff
  imports Policy
begin

text \<open>
  Permissiveness analysis of a policy change (\<open>tap-core/src/policy_diff.rs\<close>): the view of
  a policy that matters for gating, and the list of ways in which a new policy asks for
  less human approval than the old one. The main lemma relates it to the decision
  function: a change with an empty list never lets a request through that the old policy
  would have stopped.
\<close>

section \<open>Views\<close>

record policy_view =
  pv_auto_approve_methods :: "string list"
  pv_require_approval_methods :: "string list"
  pv_auto_approve_urls :: "string list"
  pv_require_approval_urls :: "string list"
  pv_require_passkey :: bool
  pv_min_approvals :: "32 word"
  pv_allowed_approvers :: "string list"

definition default_baseline :: policy_view where
  "default_baseline =
     \<lparr>pv_auto_approve_methods = [''GET'', ''HEAD''], pv_require_approval_methods = [],
      pv_auto_approve_urls = [], pv_require_approval_urls = [], pv_require_passkey = False,
      pv_min_approvals = 1, pv_allowed_approvers = []\<rparr>"

definition normalize_methods :: "string list \<Rightarrow> string list" where
  "normalize_methods ms = map to_uppercase ms"

definition view_from_config :: "policy_config \<Rightarrow> policy_view" where
  "view_from_config p =
     (let (passkey, n, approvers) =
        (case pc_approval p of
           Some a \<Rightarrow> (ar_require_passkey a, ar_min_approvals a, ar_allowed_approvers a)
         | None \<Rightarrow> (False, 1, []))
      in \<lparr>pv_auto_approve_methods = normalize_methods (pc_auto_approve p),
          pv_require_approval_methods = normalize_methods (pc_require_approval p),
          pv_auto_approve_urls = pc_auto_approve_urls p,
          pv_require_approval_urls = pc_require_approval_urls p,
          pv_require_passkey = passkey, pv_min_approvals = n,
          pv_allowed_approvers = approvers\<rparr>)"

section \<open>Changes that loosen\<close>

record permissive_change =
  pch_field :: string
  pch_summary :: string

definition change :: "string \<Rightarrow> string \<Rightarrow> permissive_change" where
  "change f s = \<lparr>pch_field = f, pch_summary = s\<rparr>"

definition show_u32 :: "32 word \<Rightarrow> string" where
  "show_u32 w = show_nat (unat w)"

text \<open>The elements of the first list that the second does not have, in order.\<close>

definition newly :: "string list \<Rightarrow> string list \<Rightarrow> string list" where
  "newly xs ys = filter (\<lambda>x. x \<notin> set ys) xs"

definition permissive_changes :: "policy_view option \<Rightarrow> policy_view \<Rightarrow> permissive_change list" where
  "permissive_changes old_opt new =
     (let old = (case old_opt of None \<Rightarrow> default_baseline | Some v \<Rightarrow> v) in
      map (\<lambda>m. change ''auto_approve_methods''
                 (m @ '' requests will be auto-approved (no human approval)''))
        (newly (pv_auto_approve_methods new) (pv_auto_approve_methods old))
      @ map (\<lambda>u. change ''auto_approve_urls''
                 (''requests matching '' @ dquoted u @ '' will be auto-approved''))
        (newly (pv_auto_approve_urls new) (pv_auto_approve_urls old))
      @ map (\<lambda>u. change ''require_approval_urls''
                 (''requests matching '' @ dquoted u
                    @ '' will no longer be forced to require approval''))
        (newly (pv_require_approval_urls old) (pv_require_approval_urls new))
      @ (if pv_require_passkey old \<and> \<not> pv_require_passkey new
         then [change ''require_passkey'' ''passkey will no longer be required to approve'']
         else [])
      @ (if pv_min_approvals new < pv_min_approvals old
         then [change ''min_approvals''
                 (''approvals required drops from '' @ show_u32 (pv_min_approvals old)
                    @ '' to '' @ show_u32 (pv_min_approvals new))]
         else [])
      @ (if pv_allowed_approvers old \<noteq> [] \<and> pv_allowed_approvers new = []
         then [change ''allowed_approvers'' ''approval no longer restricted to specific approvers'']
         else map (\<lambda>a. change ''allowed_approvers'' (a @ '' added as an allowed approver''))
                (newly (pv_allowed_approvers new) (pv_allowed_approvers old))))"

section \<open>What an empty list means\<close>

lemma newly_empty_iff [simp]: "newly xs ys = [] \<longleftrightarrow> set xs \<subseteq> set ys"
  by (auto simp: newly_def filter_empty_conv)

lemma permissive_changes_Nil_iff:
  "permissive_changes (Some old) new = [] \<longleftrightarrow>
     set (pv_auto_approve_methods new) \<subseteq> set (pv_auto_approve_methods old)
     \<and> set (pv_auto_approve_urls new) \<subseteq> set (pv_auto_approve_urls old)
     \<and> set (pv_require_approval_urls old) \<subseteq> set (pv_require_approval_urls new)
     \<and> (pv_require_passkey old \<longrightarrow> pv_require_passkey new)
     \<and> pv_min_approvals old \<le> pv_min_approvals new
     \<and> set (pv_allowed_approvers new) \<subseteq> set (pv_allowed_approvers old)
     \<and> (pv_allowed_approvers new = [] \<longrightarrow> pv_allowed_approvers old = [])"
  by (simp add: permissive_changes_def not_less) auto

lemma permissive_changes_None:
  "permissive_changes None new = permissive_changes (Some default_baseline) new"
  by (simp add: permissive_changes_def)

lemma permissive_changes_refl: "permissive_changes (Some v) v = []"
  by (simp add: permissive_changes_Nil_iff)

lemma permissive_changes_trans:
  "permissive_changes (Some a) b = [] \<Longrightarrow> permissive_changes (Some b) c = []
    \<Longrightarrow> permissive_changes (Some a) c = []"
  by (simp add: permissive_changes_Nil_iff) (meson order_trans)

lemma view_from_config_simps:
  "pv_auto_approve_methods (view_from_config p) = map to_uppercase (pc_auto_approve p)"
  "pv_auto_approve_urls (view_from_config p) = pc_auto_approve_urls p"
  "pv_require_approval_urls (view_from_config p) = pc_require_approval_urls p"
  by (simp_all add: view_from_config_def normalize_methods_def split: option.splits prod.splits)

lemma auto_approved_mono:
  assumes "permissive_changes (Some (view_from_config old)) (view_from_config new) = []"
    and "auto_approved (evaluate_policy_with_default X m (Some new) u d)"
  shows "auto_approved (evaluate_policy_with_default X m (Some old) u d)"
  using assms any_pattern_mono
  unfolding auto_approved_iff permissive_changes_Nil_iff view_from_config_simps
  by (auto simp: image_subset_iff)

lemma auto_approved_mono_default:
  assumes "permissive_changes None (view_from_config new) = []"
    and "auto_approved (evaluate_policy_with_default X m (Some new) u d)"
  shows "auto_approved (evaluate_policy_with_default X m None u Gated)"
proof -
  have "policy_method m \<in> {''GET'', ''HEAD''}" and "pc_auto_approve_urls new = []"
    using assms
    unfolding permissive_changes_None permissive_changes_Nil_iff view_from_config_simps
      auto_approved_iff
    by (auto simp: default_baseline_def any_pattern_def split: option.splits)
  then show ?thesis
    unfolding auto_approved_default_iff by (cases m) (auto simp: policy_method_def)
qed

section \<open>Properties\<close>

text \<open>C25. An empty list of permissive changes means no loss of human gating: every request
  that the old policy (or, where there was none, the gated default) sends to a human is sent
  to a human by the new policy, for every method, target and team posture; and the strength
  of the approval (passkey, number of approvers) does not drop.\<close>

theorem no_permissive_change_no_loosening:
  assumes "permissive_changes (map_option view_from_config old) (view_from_config new) = []"
    and "requires_approval (evaluate_policy_with_default X m old u Gated)"
  shows "requires_approval (evaluate_policy_with_default X m (Some new) u d)
    \<and> (case old of None \<Rightarrow> True
        | Some p \<Rightarrow>
            pv_require_passkey (view_from_config p) \<le> pv_require_passkey (view_from_config new)
            \<and> pv_min_approvals (view_from_config p) \<le> pv_min_approvals (view_from_config new))"
proof (cases old)
  case None
  then show ?thesis
    using assms auto_approved_mono_default [of new X m u d]
    by (auto simp: decision_complementary)
next
  case (Some p)
  have "requires_approval (evaluate_policy_with_default X m (Some p) u d)"
    using assms(2) Some by (simp add: evaluate_policy_with_default_def)
  then have "requires_approval (evaluate_policy_with_default X m (Some new) u d)"
    using assms(1) Some auto_approved_mono [of p new X m u d]
    by (auto simp: decision_complementary)
  then show ?thesis
    using assms(1) Some by (simp add: permissive_changes_Nil_iff)
qed

definition reads_only_policy :: policy_config where
  "reads_only_policy =
     \<lparr>pc_auto_approve = [''get''], pc_require_approval = [''POST''], pc_auto_approve_urls = [],
      pc_require_approval_urls = [''/admin''], pc_approval = None\<rparr>"

theorem no_permissive_change_no_loosening_witness:
  "requires_approval
     (evaluate_policy_with_default sample_externals Post (Some reads_only_policy) None Autonomous)"
proof -
  have "permissive_changes (map_option view_from_config None) (view_from_config reads_only_policy) = []"
    "requires_approval (evaluate_policy_with_default sample_externals Post None None Gated)"
    by code_simp+
  from no_permissive_change_no_loosening [OF this, of Autonomous] show ?thesis by simp
qed

end
