(* ===== verification/Claims.thy ===== *)
theory Claims
  imports Prelude
begin

text \<open>
  The contract of an atomic database claim. The store decides races (two approvers, two
  proxy instances, a replayed token) by one conditional \<open>UPDATE \<dots> WHERE \<dots>\<close> whose
  row count says whether this caller won. The statements of one database are serialised,
  so a history is a list of events: claims of some key, and the other statements that
  touch the table. The locales state what a claim must promise, and the theorem that
  every client relies on is proved once: over any history, a key is won no more often
  than it has room, in particular at most once for a one-shot claim.
\<close>

section \<open>Histories\<close>

datatype ('k, 'a, 'o) event = Claim 'k 'a | Other 'o

text \<open>Run a history; the result lists, in order, the keys claimed and who won.\<close>

fun run_events ::
  "('k \<Rightarrow> 'a \<Rightarrow> 's \<Rightarrow> bool \<times> 's) \<Rightarrow> ('o \<Rightarrow> 's \<Rightarrow> 's) \<Rightarrow> ('k, 'a, 'o) event list \<Rightarrow> 's
    \<Rightarrow> ('k \<times> bool) list \<times> 's" where
  "run_events claim other [] s = ([], s)"
| "run_events claim other (Claim k a # es) s =
     (let (b, s') = claim k a s; (r, t) = run_events claim other es s' in ((k, b) # r, t))"
| "run_events claim other (Other x # es) s = run_events claim other es (other x s)"

definition wins :: "'k \<Rightarrow> ('k \<times> bool) list \<Rightarrow> nat" where
  "wins k r = length (filter (\<lambda>(k', b). k' = k \<and> b) r)"

lemma wins_Nil [simp]: "wins k [] = 0"
  by (simp add: wins_def)

lemma wins_Cons [simp]: "wins k ((k', b) # r) = (if k' = k \<and> b then Suc (wins k r) else wins k r)"
  by (simp add: wins_def)

section \<open>Claims on what was issued\<close>

text \<open>How much room the statements of a history give back to a key, as \<open>minted\<close> counts it.\<close>

fun issued :: "('k \<Rightarrow> 'o \<Rightarrow> enat) \<Rightarrow> 'k \<Rightarrow> ('k, 'a, 'o) event list \<Rightarrow> enat" where
  "issued minted k [] = 0"
| "issued minted k (Claim k' a # es) = issued minted k es"
| "issued minted k (Other x # es) = minted k x + issued minted k es"

locale minting_claim =
  fixes claim :: "'k \<Rightarrow> 'a \<Rightarrow> 's \<Rightarrow> bool \<times> 's"
    and other :: "'o \<Rightarrow> 's \<Rightarrow> 's"
    and room :: "'k \<Rightarrow> 's \<Rightarrow> enat"
    and minted :: "'k \<Rightarrow> 'o \<Rightarrow> enat"
  assumes claim_uses: "claim k a s = (True, s') \<Longrightarrow> eSuc (room k s') \<le> room k s"
    and claim_keeps: "claim k' a s = (b, s') \<Longrightarrow> room k s' \<le> room k s"
    and other_mints: "room k (other x s) \<le> room k s + minted k x"
begin

theorem wins_issued:
  "enat (wins k (fst (run_events claim other es s))) \<le> room k s + issued minted k es"
proof (induction es arbitrary: s)
  case Nil
  then show ?case by (simp add: zero_enat_def [symmetric])
next
  case (Cons e es)
  show ?case
  proof (cases e)
    case (Claim k' a)
    obtain b s' where c: "claim k' a s = (b, s')" by (cases "claim k' a s")
    let ?r = "fst (run_events claim other es s')" and ?i = "issued minted k es"
    have IH: "enat (wins k ?r) \<le> room k s' + ?i" by (rule Cons.IH)
    have win: "fst (run_events claim other (e # es) s) = (k', b) # ?r"
      by (simp add: Claim c Let_def split: prod.splits)
    show ?thesis
    proof (cases "k' = k \<and> b")
      case True
      with c have "eSuc (room k s') \<le> room k s" by (auto intro: claim_uses)
      then have "eSuc (room k s' + ?i) \<le> room k s + ?i"
        by (metis add_right_mono iadd_Suc)
      with IH have "eSuc (enat (wins k ?r)) \<le> room k s + ?i"
        by (meson eSuc_ile_mono order_trans)
      with True win show ?thesis by (simp add: Claim eSuc_enat)
    next
      case False
      from c have "room k s' + ?i \<le> room k s + ?i" by (intro add_right_mono claim_keeps)
      with IH have "enat (wins k ?r) \<le> room k s + ?i" by (rule order_trans)
      with False win show ?thesis by (auto simp: Claim)
    qed
  next
    case (Other x)
    have "room k (other x s) + issued minted k es \<le> room k s + (minted k x + issued minted k es)"
      using add_right_mono [OF other_mints [of k x s], of "issued minted k es"]
      by (simp add: add.assoc)
    with Other show ?thesis using Cons.IH [of "other x s"] by (auto intro: order_trans)
  qed
qed

end

section \<open>Claims with room\<close>

locale bounded_claim =
  fixes claim :: "'k \<Rightarrow> 'a \<Rightarrow> 's \<Rightarrow> bool \<times> 's"
    and other :: "'o \<Rightarrow> 's \<Rightarrow> 's"
    and room :: "'k \<Rightarrow> 's \<Rightarrow> enat"
  assumes claim_uses_room: "claim k a s = (True, s') \<Longrightarrow> eSuc (room k s') \<le> room k s"
    and claim_keeps_room: "claim k' a s = (b, s') \<Longrightarrow> room k s' \<le> room k s"
    and other_keeps_room: "room k (other x s) \<le> room k s"

sublocale bounded_claim \<subseteq> minting_claim claim other room "\<lambda>_ _. 0"
  by unfold_locales (auto intro: claim_uses_room claim_keeps_room other_keeps_room)

lemma issued_nothing [simp]: "issued (\<lambda>_ _. 0) k es = 0"
  by (induction "\<lambda>(_ :: 'a) (_ :: 'b). 0 :: enat" k es rule: issued.induct) auto

context bounded_claim begin

theorem wins_bounded: "enat (wins k (fst (run_events claim other es s))) \<le> room k s"
  using wins_issued [of k es s] by simp

end

section \<open>One-shot claims\<close>

text \<open>
  A key is spent by the claim that wins it, a spent key is refused, and nothing in the
  history makes a spent key fresh again.
\<close>

locale one_shot_claim =
  fixes claim :: "'k \<Rightarrow> 'a \<Rightarrow> 's \<Rightarrow> bool \<times> 's"
    and other :: "'o \<Rightarrow> 's \<Rightarrow> 's"
    and spent :: "'k \<Rightarrow> 's \<Rightarrow> bool"
  assumes claim_spends: "claim k a s = (True, s') \<Longrightarrow> spent k s'"
    and spent_refused: "spent k s \<Longrightarrow> claim k a s = (b, s') \<Longrightarrow> \<not> b"
    and spent_claim: "spent k s \<Longrightarrow> claim k' a s = (b, s') \<Longrightarrow> spent k s'"
    and spent_other: "spent k s \<Longrightarrow> spent k (other x s)"

sublocale one_shot_claim \<subseteq> bounded_claim claim other "\<lambda>k s. if spent k s then 0 else 1"
proof
  show "eSuc (if spent k s' then 0 else 1) \<le> (if spent k s then 0 else 1)"
    if "claim k a s = (True, s')" for k a s s'
    using that claim_spends [OF that] spent_refused [OF _ that]
    by (auto simp: one_eSuc)
next
  show "(if spent k s' then 0 else 1) \<le> ((if spent k s then 0 else 1) :: enat)"
    if "claim k' a s = (b, s')" for k k' a s b s'
    using spent_claim [OF _ that] by auto
next
  show "(if spent k (other x s) then 0 else 1) \<le> ((if spent k s then 0 else 1) :: enat)"
    for k x s
    using spent_other by auto
qed

context one_shot_claim begin

theorem won_at_most_once: "wins k (fst (run_events claim other es s)) \<le> 1"
  using wins_bounded [of k es s] by (auto simp: zero_enat_def one_enat_def split: if_splits)

theorem never_won_again:
  assumes "spent k s"
  shows "wins k (fst (run_events claim other es s)) = 0"
  using wins_bounded [of k es s] assms by (simp add: zero_enat_def)

end

section \<open>Counting votes\<close>

text \<open>
  A channel that counts approvals up to a threshold: \<open>counted k c\<close> says that \<open>k\<close> votes of the request are
  counted, and \<open>observed\<close> is what others see of the channel. A vote that does not reach the
  threshold is counted or refused, and nothing else changes.
\<close>

locale vote_counting =
  fixes vote :: "'u \<Rightarrow> 'c \<Rightarrow> 'c"
    and counted :: "nat \<Rightarrow> 'c \<Rightarrow> bool"
    and observed :: "'c \<Rightarrow> 'o"
    and threshold :: nat
  assumes vote_below: "counted k c \<Longrightarrow> k + 1 < threshold \<Longrightarrow>
      observed (vote u c) = observed c \<and> (counted k (vote u c) \<or> counted (k + 1) (vote u c))"
begin

lemma below_threshold:
  "counted k c \<Longrightarrow> k + length us < threshold \<Longrightarrow> observed (fold vote us c) = observed c"
proof (induction us arbitrary: k c)
  case (Cons u us)
  then have v: "observed (vote u c) = observed c" "counted k (vote u c) \<or> counted (k + 1) (vote u c)"
    using vote_below [of k c u] by auto
  from v(2) show ?case
  proof
    assume "counted k (vote u c)"
    from Cons.IH [OF this] Cons.prems(2) v(1) show ?thesis by simp
  next
    assume "counted (k + 1) (vote u c)"
    from Cons.IH [OF this] Cons.prems(2) v(1) show ?thesis by simp
  qed
qed simp

end

end
