(* ===== verification/Proposals.thy ===== *)
theory Proposals
  imports Policy_Diff Claims
begin

text \<open>
  Policy changes proposed by agents: the payload and its merge (\<open>tap-proxy/src/proposals.rs\<close>),
  the \<open>policies\<close> and \<open>proposals\<close> tables of the store (\<open>tap-core/src/store.rs\<close>), the passkey
  lock of end-user credentials (\<open>tap-proxy/src/app.rs\<close>) and the handler that resolves a
  proposal (\<open>tap-proxy/src/admin.rs\<close>). A table is a map from its primary key; a statement is
  a function of the table. Timestamps are instants on a line: the store compares RFC 3339
  texts of one format, whose order is the order of the instants.
\<close>

section \<open>Stored policies\<close>

record policy_row =
  pr_credential_name :: string
  pr_team_id :: string
  pr_auto_approve_methods :: "string list"
  pr_require_approval_methods :: "string list"
  pr_auto_approve_urls :: "string list"
  pr_require_approval_urls :: "string list"
  pr_allowed_approvers :: "string list"
  pr_approval_channel :: "string option"
  pr_telegram_chat_id :: "string option"
  pr_matrix_room_id :: "string option"
  pr_matrix_allowed_approvers :: "string list"
  pr_require_passkey :: bool
  pr_min_approvals :: "32 word"

text \<open>
  The row as the database holds it: \<open>min_approvals\<close> is an \<open>INTEGER\<close> column written with
  \<open>as i32\<close>, so the upper half of the \<open>u32\<close> range becomes negative.
\<close>

type_synonym policy_table = "string \<times> string \<rightharpoonup> policy_row \<times> int"

text \<open>An agent's proposal, one row of \<open>proposals\<close>.\<close>

record proposal_row =
  po_id :: string
  po_team_id :: string
  po_agent_id :: string
  po_proposal_type :: string
  po_payload_json :: string
  po_status :: string
  po_resolved_by :: "string option"
  po_resolved_at :: "timestamp option"
  po_created_at :: timestamp
  po_expires_at :: timestamp

type_synonym proposal_table = "string \<rightharpoonup> proposal_row"

text \<open>
  The tables this component uses. Of \<open>credentials\<close> it reads the key and the owning
  end-user. Errors of the database carry the context the code gives them; the driver's own
  text after it is left out.
\<close>

record prop_store =
  ps_credentials :: "string \<times> string \<rightharpoonup> string option"
  ps_policies :: policy_table
  ps_proposals :: proposal_table

text \<open>An upsert; the foreign key requires the credential to exist.\<close>

definition set_policy :: "policy_row \<Rightarrow> prop_store \<Rightarrow> (agent_sec_error, prop_store) result" where
  "set_policy p s =
     (let key = (pr_team_id p, pr_credential_name p) in
      if ps_credentials s key = None then Inl (Config ''Failed to set policy'')
      else Inr (s\<lparr>ps_policies :=
             (ps_policies s)(key \<mapsto> (p, sint (max (pr_min_approvals p) 1)))\<rparr>))"

definition get_policy :: "string \<Rightarrow> string \<Rightarrow> prop_store \<Rightarrow> policy_row option" where
  "get_policy team cred s =
     map_option (\<lambda>(p, n). p\<lparr>pr_min_approvals := word_of_int (max n 1)\<rparr>)
       (ps_policies s (team, cred))"

definition policy_view_from_row :: "policy_row \<Rightarrow> policy_view" where
  "policy_view_from_row r =
     \<lparr>pv_auto_approve_methods = map to_uppercase (pr_auto_approve_methods r),
      pv_require_approval_methods = map to_uppercase (pr_require_approval_methods r),
      pv_auto_approve_urls = pr_auto_approve_urls r,
      pv_require_approval_urls = pr_require_approval_urls r,
      pv_require_passkey = pr_require_passkey r,
      pv_min_approvals = pr_min_approvals r,
      pv_allowed_approvers = pr_allowed_approvers r\<rparr>"

definition row_to_policy_config :: "policy_row \<Rightarrow> policy_config" where
  "row_to_policy_config r =
     \<lparr>pc_auto_approve = pr_auto_approve_methods r,
      pc_require_approval = pr_require_approval_methods r,
      pc_auto_approve_urls = pr_auto_approve_urls r,
      pc_require_approval_urls = pr_require_approval_urls r,
      pc_approval =
        (if pr_allowed_approvers r = [] \<and> pr_approval_channel r = None
            \<and> pr_telegram_chat_id r = None \<and> pr_matrix_room_id r = None
            \<and> pr_matrix_allowed_approvers r = [] \<and> \<not> pr_require_passkey r
            \<and> pr_min_approvals r \<le> 1
         then None
         else Some
           \<lparr>ar_channel = pr_approval_channel r,
            ar_allowed_approvers = pr_allowed_approvers r,
            ar_require_passkey = pr_require_passkey r,
            ar_require_preimage = False,
            ar_min_approvals = max (pr_min_approvals r) 1,
            ar_telegram = map_option Some (pr_telegram_chat_id r),
            ar_matrix =
              (if pr_matrix_room_id r \<noteq> None \<or> pr_matrix_allowed_approvers r \<noteq> []
               then Some \<lparr>mx_room_id = pr_matrix_room_id r,
                          mx_allowed_approvers = pr_matrix_allowed_approvers r\<rparr>
               else None),
            ar_slack = None, ar_mobile = None\<rparr>)\<rparr>"

section \<open>Payloads\<close>

definition valid_methods :: "string list" where
  "valid_methods = [''GET'', ''HEAD'', ''POST'', ''PUT'', ''PATCH'', ''DELETE'', ''OPTIONS'']"

record policy_change_payload =
  pl_credential_name :: string
  pl_auto_approve_methods :: "string list option"
  pl_require_approval_methods :: "string list option"
  pl_auto_approve_urls :: "string list option"
  pl_require_approval_urls :: "string list option"
  pl_require_passkey :: "bool option"
  pl_min_approvals :: "32 word option"
  pl_allowed_approvers :: "string list option"

fun first_invalid_method :: "string list \<Rightarrow> string option" where
  "first_invalid_method [] = None"
| "first_invalid_method (m # ms) =
     (if to_uppercase m \<notin> set valid_methods then Some m else first_invalid_method ms)"

definition validate_payload :: "policy_change_payload \<Rightarrow> (string, unit) result" where
  "validate_payload p =
     (if trim (pl_credential_name p) = [] then Inl ''credential_name is required''
      else if starts_with (trim_start (pl_credential_name p)) ''eu:''
      then Inl ''credential_name must not target a managed end-user credential''
      else case first_invalid_method
             (concat (map (case_option [] id)
                [pl_auto_approve_methods p, pl_require_approval_methods p])) of
        Some m \<Rightarrow> Inl (''invalid HTTP method: '' @ m)
      | None \<Rightarrow>
          if pl_min_approvals p = Some 0 then Inl ''min_approvals must be >= 1'' else Inr ())"

definition merged_view :: "policy_change_payload \<Rightarrow> policy_view option \<Rightarrow> policy_view" where
  "merged_view p current =
     (let cur = or_else current default_baseline in
      \<lparr>pv_auto_approve_methods =
         or_else (map_option (map to_uppercase) (pl_auto_approve_methods p))
           (pv_auto_approve_methods cur),
       pv_require_approval_methods =
         or_else (map_option (map to_uppercase) (pl_require_approval_methods p))
           (pv_require_approval_methods cur),
       pv_auto_approve_urls = or_else (pl_auto_approve_urls p) (pv_auto_approve_urls cur),
       pv_require_approval_urls =
         or_else (pl_require_approval_urls p) (pv_require_approval_urls cur),
       pv_require_passkey = or_else (pl_require_passkey p) (pv_require_passkey cur),
       pv_min_approvals = or_else (pl_min_approvals p) (pv_min_approvals cur),
       pv_allowed_approvers = or_else (pl_allowed_approvers p) (pv_allowed_approvers cur)\<rparr>)"

definition build_merged_policy_row ::
  "string \<Rightarrow> policy_change_payload \<Rightarrow> policy_row option \<Rightarrow> policy_row" where
  "build_merged_policy_row team p current =
     \<lparr>pr_credential_name = pl_credential_name p,
      pr_team_id = team,
      pr_auto_approve_methods =
        or_else (pl_auto_approve_methods p) (case_option [] pr_auto_approve_methods current),
      pr_require_approval_methods =
        or_else (pl_require_approval_methods p)
          (case_option [] pr_require_approval_methods current),
      pr_auto_approve_urls =
        or_else (pl_auto_approve_urls p) (case_option [] pr_auto_approve_urls current),
      pr_require_approval_urls =
        or_else (pl_require_approval_urls p) (case_option [] pr_require_approval_urls current),
      pr_allowed_approvers =
        or_else (pl_allowed_approvers p) (case_option [] pr_allowed_approvers current),
      pr_approval_channel = Option.bind current pr_approval_channel,
      pr_telegram_chat_id = Option.bind current pr_telegram_chat_id,
      pr_matrix_room_id = Option.bind current pr_matrix_room_id,
      pr_matrix_allowed_approvers = case_option [] pr_matrix_allowed_approvers current,
      pr_require_passkey =
        or_else (pl_require_passkey p) (case_option False pr_require_passkey current),
      pr_min_approvals =
        max (or_else (pl_min_approvals p) (case_option 1 pr_min_approvals current)) 1\<rparr>"

section \<open>The proposals table\<close>

definition create_proposal ::
  "proposal_row \<Rightarrow> prop_store \<Rightarrow> (agent_sec_error, prop_store) result" where
  "create_proposal p s =
     (if ps_proposals s (po_id p) \<noteq> None then Inl (Config ''Failed to create proposal'')
      else Inr (s\<lparr>ps_proposals := (ps_proposals s)(po_id p \<mapsto>
             p\<lparr>po_status := ''pending'', po_resolved_by := None, po_resolved_at := None\<rparr>)\<rparr>))"

definition get_proposal :: "string \<Rightarrow> string \<Rightarrow> prop_store \<Rightarrow> proposal_row option" where
  "get_proposal team pid s =
     (case ps_proposals s pid of
        None \<Rightarrow> None
      | Some p \<Rightarrow> if po_team_id p = team then Some p else None)"

definition proposal_listed ::
  "string \<Rightarrow> string option \<Rightarrow> timestamp \<Rightarrow> proposal_row \<Rightarrow> bool" where
  "proposal_listed team status now p \<longleftrightarrow>
     po_team_id p = team
     \<and> (status = None \<or> Some (po_status p) = status)
     \<and> (status \<noteq> Some ''pending'' \<or> po_expires_at p > now)"

text \<open>The rows of the table as a list, newest first.\<close>

definition list_proposals_for_team ::
  "proposal_row list \<Rightarrow> string \<Rightarrow> string option \<Rightarrow> timestamp \<Rightarrow> proposal_row list" where
  "list_proposals_for_team rows team status now =
     rev (sort_key po_created_at (filter (proposal_listed team status now) rows))"

definition count_pending_proposals_for_agent ::
  "proposal_row list \<Rightarrow> string \<Rightarrow> string \<Rightarrow> timestamp \<Rightarrow> nat" where
  "count_pending_proposals_for_agent rows team agent now =
     length (filter (\<lambda>p. po_team_id p = team \<and> po_agent_id p = agent
                       \<and> po_status p = ''pending'' \<and> po_expires_at p > now) rows)"

definition resolve_proposal ::
  "string \<Rightarrow> string \<Rightarrow> string \<Rightarrow> string \<Rightarrow> timestamp \<Rightarrow> prop_store \<Rightarrow> bool \<times> prop_store" where
  "resolve_proposal team pid status resolved_by now s =
     (case ps_proposals s pid of
        None \<Rightarrow> (False, s)
      | Some p \<Rightarrow>
          if po_team_id p = team \<and> po_status p = ''pending'' \<and> po_expires_at p > now
          then (True, s\<lparr>ps_proposals := (ps_proposals s)(pid \<mapsto>
                  p\<lparr>po_status := status, po_resolved_by := Some resolved_by,
                    po_resolved_at := Some now\<rparr>)\<rparr>)
          else (False, s))"

section \<open>The passkey lock of end-user credentials (app.rs)\<close>

definition end_user_policy_lock ::
  "string \<Rightarrow> string \<Rightarrow> policy_row \<Rightarrow> prop_store \<Rightarrow> string option" where
  "end_user_policy_lock team cred proposed s =
     (case ps_credentials s (team, cred) of
        None \<Rightarrow> None
      | Some None \<Rightarrow> None
      | Some (Some ext) \<Rightarrow>
          let current_view = map_option policy_view_from_row (get_policy team cred s) in
          if \<not> or_else (map_option pv_require_passkey current_view) False then None
          else if permissive_changes current_view (policy_view_from_row proposed) \<noteq> []
          then Some ext
          else None)"

section \<open>Resolving a proposal (admin.rs)\<close>

record auth_user =
  au_id :: string
  au_team_id :: string
  au_email :: string
  au_member_role :: string

definition role_can_manage_workspace :: "string \<Rightarrow> bool" where
  "role_can_manage_workspace role \<longleftrightarrow> role = ''owner'' \<or> role = ''admin''"

datatype resolve_response =
    OnlyManagers                   \<comment> \<open>403\<close>
  | ProposalNotFound               \<comment> \<open>404\<close>
  | ProposalAlreadyResolved        \<comment> \<open>409\<close>
  | DecisionDenied                 \<comment> \<open>200, status denied\<close>
  | PasskeyRequired                \<comment> \<open>401\<close>
  | PasskeyNotManagers             \<comment> \<open>403\<close>
  | PasskeyFailed string           \<comment> \<open>401\<close>
  | CorruptPayload                 \<comment> \<open>500\<close>
  | CredentialGone string          \<comment> \<open>422\<close>
  | EndUserPolicyLocked string     \<comment> \<open>403\<close>
  | StoreError agent_sec_error
  | DecisionApproved string        \<comment> \<open>200, status approved\<close>
  | ResolvedByAnother              \<comment> \<open>409\<close>
  | BadDecision                    \<comment> \<open>400\<close>

text \<open>
  The WebAuthn ceremony and the deserialiser are parameters: with passkeys configured,
  \<open>wa\<close> maps the assertion to the verified user or an error. The clock is read by the final
  claim (\<open>now\<close>), and \<open>between\<close> is what other requests did to the store after this one
  wrote the policy and before it claimed the proposal.
\<close>

definition passkey_refusal ::
  "(string \<Rightarrow> (string, string) result) option \<Rightarrow> auth_user \<Rightarrow> string option
    \<Rightarrow> resolve_response option" where
  "passkey_refusal wa admin assertion =
     (case wa of
        None \<Rightarrow> None
      | Some verify \<Rightarrow>
          (case assertion of
             None \<Rightarrow> Some PasskeyRequired
           | Some a \<Rightarrow>
               (case verify a of
                  Inr uid \<Rightarrow> if uid \<noteq> au_id admin then Some PasskeyNotManagers else None
                | Inl e \<Rightarrow> Some (PasskeyFailed e))))"

text \<open>
  The rest of the approve arm, after the passkey. \<open>F\<close> says which statements the database fails;
  a failed read of the current policy counts as no policy (\<open>.ok().flatten()\<close>). The end-user lock reads
  the credential and its policy again, and its failures end the request.
\<close>

definition apply_proposal ::
  "faults \<Rightarrow> (string \<Rightarrow> policy_change_payload option) \<Rightarrow> auth_user \<Rightarrow> string \<Rightarrow> proposal_row \<Rightarrow> timestamp
    \<Rightarrow> (prop_store \<Rightarrow> prop_store) \<Rightarrow> prop_store \<Rightarrow> resolve_response \<times> prop_store" where
  "apply_proposal F de admin pid proposal now between s =
     (let team = au_team_id admin in
      case de (po_payload_json proposal) of
        None \<Rightarrow> (CorruptPayload, s)
      | Some payload \<Rightarrow>
          let cred = pl_credential_name payload in
          if F ''get_credential_config'' then (StoreError (Config ''Failed to get credential''), s)
          else if ps_credentials s (team, cred) = None then (CredentialGone cred, s)
          else
            let new_row = build_merged_policy_row team payload
                            (if F ''get_policy'' then None else get_policy team cred s)
            in if F ''lock: get_credential'' then (StoreError (Config ''Failed to get credential''), s)
            else if ps_credentials s (team, cred) \<noteq> Some None \<and> F ''lock: get_policy''
            then (StoreError (Config ''Failed to get policy''), s)
            else case end_user_policy_lock team cred new_row s of
              Some ext \<Rightarrow> (EndUserPolicyLocked ext, s)
            | None \<Rightarrow>
                (case (if F ''set_policy'' then Inl (Config ''Failed to set policy'') else set_policy new_row s) of
                   Inl e \<Rightarrow> (StoreError e, s)
                 | Inr s1 \<Rightarrow>
                     if F ''resolve_proposal'' then (StoreError (Config ''Failed to resolve proposal''), between s1)
                     else case resolve_proposal team pid ''approved'' (au_email admin) now
                             (between s1) of
                        (True, s2) \<Rightarrow> (DecisionApproved cred, s2)
                      | (False, s2) \<Rightarrow> (ResolvedByAnother, s2)))"

definition handle_resolve_proposal ::
  "faults \<Rightarrow> (string \<Rightarrow> policy_change_payload option) \<Rightarrow> (string \<Rightarrow> (string, string) result) option
    \<Rightarrow> auth_user \<Rightarrow> string \<Rightarrow> string \<Rightarrow> string option \<Rightarrow> timestamp
    \<Rightarrow> (prop_store \<Rightarrow> prop_store) \<Rightarrow> prop_store \<Rightarrow> resolve_response \<times> prop_store" where
  "handle_resolve_proposal F de wa admin pid decision assertion now between s =
     (let team = au_team_id admin in
      if \<not> role_can_manage_workspace (au_member_role admin) then (OnlyManagers, s)
      else if F ''get_proposal'' then (StoreError (Config ''Failed to query proposal''), s)
      else case get_proposal team pid s of
        None \<Rightarrow> (ProposalNotFound, s)
      | Some proposal \<Rightarrow>
          if po_status proposal \<noteq> ''pending'' then (ProposalAlreadyResolved, s)
          else if decision = ''deny'' then
            (if F ''resolve_proposal'' then (StoreError (Config ''Failed to resolve proposal''), s)
             else case resolve_proposal team pid ''denied'' (au_email admin) now s of
               (True, s') \<Rightarrow> (DecisionDenied, s')
             | (False, s') \<Rightarrow> (ProposalAlreadyResolved, s'))
          else if decision = ''approve'' then
            (case passkey_refusal wa admin assertion of
               Some refusal \<Rightarrow> (refusal, s)
             | None \<Rightarrow> apply_proposal F de admin pid proposal now between s)
          else (BadDecision, s))"

section \<open>Storing and reading a policy\<close>

lemma word_ge_1: "x \<noteq> 0 \<Longrightarrow> 1 \<le> (x :: 'a :: len word)"
  by (metis linorder_not_less word_less_1)

lemma max_word_1: "x \<noteq> 0 \<Longrightarrow> max x 1 = (x :: 'a :: len word)"
  by (simp add: word_ge_1 max_absorb1)

lemma uint_u32: "uint (w :: 32 word) < 2 ^ 32"
  using uint_bounded [of w] by simp

lemma sint_u32:
  fixes w :: "32 word"
  shows "sint w = (if uint w < 2 ^ 31 then uint w else uint w - 2 ^ 32)"
proof -
  have s: "sint w = (uint w + 2 ^ 31) mod 2 ^ 32 - 2 ^ 31"
    using int_word_sint [of "uint w", where ?'a = 32] by simp
  show ?thesis
  proof (cases "uint w < 2 ^ 31")
    case True
    then have "(uint w + 2 ^ 31) mod 2 ^ 32 = uint w + 2 ^ 31"
      by (intro mod_pos_pos_trivial) simp_all
    then show ?thesis using s True by simp
  next
    case False
    have "(uint w + 2 ^ 31) mod 2 ^ 32 = (uint w + 2 ^ 31 - 2 ^ 32) mod 2 ^ 32"
      by (rule minus_mod_self2 [symmetric])
    also have "\<dots> = uint w + 2 ^ 31 - 2 ^ 32"
      using False uint_u32 [of w] by (intro mod_pos_pos_trivial) simp_all
    finally show ?thesis using s False by simp
  qed
qed

text \<open>The number of approvers that is read back after \<open>n\<close> was written.\<close>

definition stored_min :: "32 word \<Rightarrow> 32 word" where
  "stored_min n = (if uint n < 2 ^ 31 then max n 1 else 1)"

lemma max_sint_stored_min: "word_of_int (max (sint (max n 1)) 1) = stored_min n"
proof (cases "n = 0")
  case True
  then show ?thesis by (simp add: stored_min_def)
next
  case False
  then have "max n 1 = n" "1 \<le> uint n"
    using word_ge_1 [of n] by (simp_all add: max_word_1 word_le_def)
  then show ?thesis
    using uint_u32 [of n] by (simp add: stored_min_def sint_u32 max_absorb1 max_absorb2)
qed

lemma stored_min_ge_1 [simp]: "1 \<le> stored_min n"
  by (simp add: stored_min_def)

lemma get_set_policy:
  assumes "set_policy p s = Inr s'"
  shows "get_policy t c s' =
    (if (t, c) = (pr_team_id p, pr_credential_name p)
     then Some (p\<lparr>pr_min_approvals := stored_min (pr_min_approvals p)\<rparr>)
     else get_policy t c s)"
  using assms
  by (auto simp: set_policy_def get_policy_def Let_def max_sint_stored_min split: if_splits)

lemma row_to_policy_config_view:
  "1 \<le> pr_min_approvals r \<Longrightarrow> view_from_config (row_to_policy_config r) = policy_view_from_row r"
  by (auto simp: view_from_config_def row_to_policy_config_def policy_view_from_row_def
     normalize_methods_def max_def)

lemma or_else_Some [simp]: "or_else (Some v) d = v"
  by (simp add: or_else_def)

lemma or_else_None [simp]: "or_else None d = d"
  by (simp add: or_else_def)

lemma or_else_map [simp]: "or_else (map_option f x) (f y) = f (or_else x y)"
  by (simp add: or_else_def split: option.splits)

lemma merged_row_view:
  assumes "1 \<le> pr_min_approvals r" "pl_min_approvals p \<noteq> Some 0"
  shows "policy_view_from_row (build_merged_policy_row t p (Some r))
    = merged_view p (Some (policy_view_from_row r))"
proof -
  have "max (or_else (pl_min_approvals p) (pr_min_approvals r)) 1
      = or_else (pl_min_approvals p) (pr_min_approvals r)"
    using assms by (auto simp: or_else_def max_word_1 max_absorb1 split: option.splits)
  then show ?thesis
    by (simp add: policy_view_from_row_def build_merged_policy_row_def merged_view_def Let_def)
qed

section \<open>The claim of a proposal\<close>

definition proposal_spent :: "string \<Rightarrow> prop_store \<Rightarrow> bool" where
  "proposal_spent pid s \<longleftrightarrow>
     (case ps_proposals s pid of None \<Rightarrow> False | Some p \<Rightarrow> po_status p \<noteq> ''pending'')"

text \<open>What else the store does with the table: new proposals and policy writes.\<close>

definition prop_other :: "proposal_row + policy_row \<Rightarrow> prop_store \<Rightarrow> prop_store" where
  "prop_other x s =
     (case (case x of Inl p \<Rightarrow> create_proposal p s | Inr r \<Rightarrow> set_policy r s) of
        Inl _ \<Rightarrow> s | Inr s' \<Rightarrow> s')"

text \<open>One manager's decision, as the arguments of the claim.\<close>

definition decide :: "string \<Rightarrow> string \<times> bool \<times> string \<times> timestamp \<Rightarrow> prop_store \<Rightarrow> bool \<times> prop_store" where
  "decide pid = (\<lambda>(team, approve, by_whom, now).
     resolve_proposal team pid (if approve then ''approved'' else ''denied'') by_whom now)"

interpretation proposal_claim: one_shot_claim decide prop_other proposal_spent
proof
  fix k k' a s s' b x
  show "decide k a s = (True, s') \<Longrightarrow> proposal_spent k s'"
    by (auto simp: decide_def resolve_proposal_def proposal_spent_def
        split: option.splits if_splits prod.splits)
  show "proposal_spent k s \<Longrightarrow> decide k a s = (b, s') \<Longrightarrow> \<not> b"
    by (auto simp: decide_def resolve_proposal_def proposal_spent_def
        split: option.splits if_splits prod.splits)
  show "proposal_spent k s \<Longrightarrow> decide k' a s = (b, s') \<Longrightarrow> proposal_spent k s'"
    by (auto simp: decide_def resolve_proposal_def proposal_spent_def
        split: option.splits if_splits prod.splits)
  show "proposal_spent k s \<Longrightarrow> proposal_spent k (prop_other x s)"
    by (auto simp: prop_other_def create_proposal_def set_policy_def proposal_spent_def Let_def
        split: option.splits if_splits sum.splits)
qed

section \<open>The lock\<close>

lemma lock_None_no_change:
  assumes "end_user_policy_lock t c proposed s = None"
    and "ps_credentials s (t, c) = Some (Some ext)"
    and "get_policy t c s = Some cur" and "pr_require_passkey cur"
  shows "permissive_changes (Some (policy_view_from_row cur)) (policy_view_from_row proposed) = []"
  using assms
  by (simp add: end_user_policy_lock_def Let_def policy_view_from_row_def split: if_splits)

lemma auto_approved_mono_row:
  assumes "permissive_changes (Some (policy_view_from_row cur)) (policy_view_from_row new) = []"
    and "auto_approved (evaluate_policy_with_default X m (Some (row_to_policy_config new)) u d)"
  shows "auto_approved (evaluate_policy_with_default X m (Some (row_to_policy_config cur)) u d)"
  using assms any_pattern_mono
  unfolding auto_approved_iff permissive_changes_Nil_iff
  by (auto simp: image_subset_iff row_to_policy_config_def policy_view_from_row_def)

section \<open>Properties\<close>

text \<open>A policy that is written is read back unchanged, for its team and credential, as long
  as the number of approvers is below \<open>2^31\<close> (zero reads as one); every other policy, the
  credentials and the proposals stay as they were. The statement covers the other half of
  the range too: there the stored number reads as one.\<close>

lemma policy_store_roundtrip:
  assumes "set_policy p s = Inr s'"
  shows "get_policy (pr_team_id p) (pr_credential_name p) s' =
      Some (p\<lparr>pr_min_approvals :=
        (if uint (pr_min_approvals p) < 2 ^ 31 then max (pr_min_approvals p) 1 else 1)\<rparr>)
    \<and> ((t, c) \<noteq> (pr_team_id p, pr_credential_name p) \<longrightarrow> get_policy t c s' = get_policy t c s)
    \<and> ps_credentials s' = ps_credentials s \<and> ps_proposals s' = ps_proposals s"
proof -
  have "ps_credentials s' = ps_credentials s \<and> ps_proposals s' = ps_proposals s"
    using assms by (auto simp: set_policy_def Let_def split: if_splits)
  then show ?thesis
    using get_set_policy [OF assms, of t c]
      get_set_policy [OF assms, of "pr_team_id p" "pr_credential_name p"]
    by (auto simp: stored_min_def)
qed

definition sample_policy_row :: policy_row where
  "sample_policy_row =
     \<lparr>pr_credential_name = ''github'', pr_team_id = ''acme'',
      pr_auto_approve_methods = [''GET''], pr_require_approval_methods = [''POST''],
      pr_auto_approve_urls = [], pr_require_approval_urls = [''/admin''],
      pr_allowed_approvers = [], pr_approval_channel = None, pr_telegram_chat_id = None,
      pr_matrix_room_id = None, pr_matrix_allowed_approvers = [], pr_require_passkey = True,
      pr_min_approvals = 2\<rparr>"

definition sample_prop_store :: prop_store where
  "sample_prop_store =
     \<lparr>ps_credentials = [(''acme'', ''github'') \<mapsto> Some ''alice''],
      ps_policies = [(''acme'', ''github'') \<mapsto> (sample_policy_row, 2)],
      ps_proposals = Map.empty\<rparr>"

definition huge_min_payload :: policy_change_payload where
  "huge_min_payload =
     \<lparr>pl_credential_name = ''github'', pl_auto_approve_methods = None,
      pl_require_approval_methods = None, pl_auto_approve_urls = None,
      pl_require_approval_urls = None, pl_require_passkey = None,
      pl_min_approvals = Some 0x80000000, pl_allowed_approvers = None\<rparr>"

text \<open>The number of required approvers is not kept: a value of \<open>2^31\<close> or more passes the
  validation of a proposal and counts as no loosening of a policy that wants two approvers,
  but it is stored as a negative \<open>i32\<close> and enforced as a single approver.\<close>

lemma min_approvals_wraps:
  "\<exists>cur row s'.
     get_policy ''acme'' ''github'' sample_prop_store = Some cur \<and> pr_min_approvals cur = 2
     \<and> validate_payload huge_min_payload = Inr ()
     \<and> row = build_merged_policy_row ''acme'' huge_min_payload (Some cur)
     \<and> permissive_changes (Some (policy_view_from_row cur)) (policy_view_from_row row) = []
     \<and> set_policy row sample_prop_store = Inr s'
     \<and> map_option pr_min_approvals (get_policy ''acme'' ''github'' s') = Some 1"
proof -
  have cur: "get_policy ''acme'' ''github'' sample_prop_store = Some sample_policy_row"
    by (simp add: get_policy_def sample_prop_store_def sample_policy_row_def)
  define row where "row = build_merged_policy_row ''acme'' huge_min_payload (Some sample_policy_row)"
  have key: "pr_team_id row = ''acme''" "pr_credential_name row = ''github''"
    and big: "pr_min_approvals row = 0x80000000"
    by (simp_all add: row_def build_merged_policy_row_def huge_min_payload_def max_word_1)
  obtain s' where s': "set_policy row sample_prop_store = Inr s'"
    using key by (simp add: set_policy_def Let_def sample_prop_store_def)
  have "validate_payload huge_min_payload = Inr ()" by code_simp
  moreover have "permissive_changes (Some (policy_view_from_row sample_policy_row))
      (policy_view_from_row row) = []"
    unfolding row_def by code_simp
  moreover have "map_option pr_min_approvals (get_policy ''acme'' ''github'' s') = Some 1"
    using get_set_policy [OF s', of "''acme''" "''github''"] key big by (simp add: stored_min_def)
  moreover have "pr_min_approvals sample_policy_row = 2" by (simp add: sample_policy_row_def)
  ultimately show ?thesis using cur s' row_def by blast
qed

text \<open>The row that an approved proposal writes and the view that was shown to the manager:
  with a current policy they agree; without one the row is never looser than the view, but
  they differ, since the view starts from the GET/HEAD baseline and the row from no
  auto-approved method at all.\<close>

lemma merged_row_matches_view:
  assumes "validate_payload p = Inr ()"
  shows "(1 \<le> pr_min_approvals r \<longrightarrow>
        policy_view_from_row (build_merged_policy_row t p (Some r))
          = merged_view p (Some (policy_view_from_row r)))
    \<and> permissive_changes (Some (merged_view p None))
        (policy_view_from_row (build_merged_policy_row t p None)) = []
    \<and> (pl_auto_approve_methods p = None \<longrightarrow>
        pv_auto_approve_methods (merged_view p None) = [''GET'', ''HEAD'']
        \<and> pr_auto_approve_methods (build_merged_policy_row t p None) = [])"
proof -
  have n: "pl_min_approvals p \<noteq> Some 0"
    using assms by (auto simp: validate_payload_def split: if_splits option.splits)
  have m: "max (or_else (pl_min_approvals p) 1) 1 = or_else (pl_min_approvals p) 1"
    using n by (auto simp: or_else_def max_word_1 split: option.splits)
  have "set (map to_uppercase (or_else (pl_auto_approve_methods p) []))
      \<subseteq> set (or_else (map_option (map to_uppercase) (pl_auto_approve_methods p)) [''GET'', ''HEAD''])"
    by (auto simp: or_else_def split: option.splits)
  then have "permissive_changes (Some (merged_view p None))
        (policy_view_from_row (build_merged_policy_row t p None)) = []"
    by (simp add: permissive_changes_Nil_iff policy_view_from_row_def build_merged_policy_row_def
        merged_view_def default_baseline_def Let_def m)
  moreover have "pl_auto_approve_methods p = None \<longrightarrow>
        pv_auto_approve_methods (merged_view p None) = [''GET'', ''HEAD'']
        \<and> pr_auto_approve_methods (build_merged_policy_row t p None) = []"
    by (simp add: merged_view_def build_merged_policy_row_def default_baseline_def)
  ultimately show ?thesis using merged_row_view [OF _ n] by blast
qed

text \<open>C27. The lock of an end-user's credential: while its policy demands that end-user's
  passkey, a policy that passes the lock and is written still demands the passkey, and it
  lets no request through without approval that was stopped before.\<close>

theorem end_user_lock_sound:
  assumes "end_user_policy_lock t c proposed s = None"
    and "ps_credentials s (t, c) = Some (Some ext)"
    and "get_policy t c s = Some cur" and "pr_require_passkey cur"
    and "pr_team_id proposed = t" and "pr_credential_name proposed = c"
    and "set_policy proposed s = Inr s'"
  shows "\<exists>new. get_policy t c s' = Some new \<and> pr_require_passkey new
    \<and> (auto_approved (evaluate_policy_with_default X m (Some (row_to_policy_config new)) u d)
        \<longrightarrow> auto_approved (evaluate_policy_with_default X m (Some (row_to_policy_config cur)) u d))"
proof -
  let ?new = "proposed\<lparr>pr_min_approvals := stored_min (pr_min_approvals proposed)\<rparr>"
  have ch: "permissive_changes (Some (policy_view_from_row cur)) (policy_view_from_row proposed) = []"
    by (rule lock_None_no_change [OF assms(1-4)])
  have get: "get_policy t c s' = Some ?new"
    using get_set_policy [OF assms(7), of t c] assms(5,6) by simp
  have "pr_require_passkey ?new"
    using ch assms(4) by (simp add: permissive_changes_Nil_iff policy_view_from_row_def)
  moreover have "auto_approved (evaluate_policy_with_default X m (Some (row_to_policy_config ?new)) u d)
    \<longleftrightarrow> auto_approved (evaluate_policy_with_default X m (Some (row_to_policy_config proposed)) u d)"
    unfolding auto_approved_iff by (simp add: row_to_policy_config_def)
  ultimately show ?thesis
    using auto_approved_mono_row [OF ch] get by auto
qed

theorem end_user_lock_sound_witness:
  "\<exists>s' new. set_policy sample_policy_row sample_prop_store = Inr s'
    \<and> get_policy ''acme'' ''github'' s' = Some new \<and> pr_require_passkey new"
proof -
  have get: "get_policy ''acme'' ''github'' sample_prop_store = Some sample_policy_row"
    by (simp add: get_policy_def sample_prop_store_def sample_policy_row_def)
  then have "end_user_policy_lock ''acme'' ''github'' sample_policy_row sample_prop_store = None"
    by (simp add: end_user_policy_lock_def Let_def permissive_changes_refl split: option.splits)
  moreover have "pr_team_id sample_policy_row = ''acme''"
    "pr_credential_name sample_policy_row = ''github''" "pr_require_passkey sample_policy_row"
    "ps_credentials sample_prop_store (''acme'', ''github'') = Some (Some ''alice'')"
    by (simp_all add: sample_policy_row_def sample_prop_store_def)
  moreover obtain s' where "set_policy sample_policy_row sample_prop_store = Inr s'"
    by (simp add: set_policy_def sample_prop_store_def sample_policy_row_def Let_def)
  ultimately show ?thesis
    using end_user_lock_sound [OF _ _ get] by blast
qed


text \<open>A manager's decision is recorded at most once: over every history of decisions on
  every proposal, new proposals and policy writes, a proposal is resolved no more than
  once, and one already resolved never again.\<close>

lemma proposal_resolved_once:
  "wins pid (fst (run_events decide prop_other es s)) \<le> (if proposal_spent pid s then 0 else 1)"
  using proposal_claim.won_at_most_once [of pid es s]
    proposal_claim.never_won_again [of pid s es] by auto

lemma resolve_proposal_policies [simp]:
  "ps_policies (snd (resolve_proposal t pid st e now s)) = ps_policies s"
  by (simp add: resolve_proposal_def split: option.splits)

definition passkey_verified ::
  "(string \<Rightarrow> (string, string) result) option \<Rightarrow> auth_user \<Rightarrow> string option \<Rightarrow> bool" where
  "passkey_verified wa admin assertion \<longleftrightarrow>
     (case wa of None \<Rightarrow> True
      | Some verify \<Rightarrow> (case assertion of None \<Rightarrow> False | Some a \<Rightarrow> verify a = Inr (au_id admin)))"

lemma passkey_refusal_None: "passkey_refusal wa admin assertion = None \<longleftrightarrow> passkey_verified wa admin assertion"
  by (auto simp: passkey_refusal_def passkey_verified_def split: option.splits sum.splits)

lemma set_policy_elsewhere:
  "set_policy p s = Inr s' \<Longrightarrow> k \<noteq> (pr_team_id p, pr_credential_name p)
    \<Longrightarrow> ps_policies s' k = ps_policies s k"
  by (auto simp: set_policy_def Let_def split: if_splits)

lemma build_merged_key [simp]:
  "pr_team_id (build_merged_policy_row t p c) = t"
  "pr_credential_name (build_merged_policy_row t p c) = pl_credential_name p"
  by (simp_all add: build_merged_policy_row_def)

lemma apply_proposal_policies:
  assumes "apply_proposal F de admin pid proposal now between s = (r, s')"
    and keep: "\<forall>x. ps_policies (between x) = ps_policies x"
    and changed: "ps_policies s' \<noteq> ps_policies s"
  obtains payload row s1 where "de (po_payload_json proposal) = Some payload"
    and "row = build_merged_policy_row (au_team_id admin) payload
           (if F ''get_policy'' then None else get_policy (au_team_id admin) (pl_credential_name payload) s)"
    and "end_user_policy_lock (au_team_id admin) (pl_credential_name payload) row s = None"
    and "set_policy row s = Inr s1" and "ps_policies s' = ps_policies s1"
    and "r = DecisionApproved (pl_credential_name payload) \<or> r = ResolvedByAnother
      \<or> r = StoreError (Config ''Failed to resolve proposal'') \<and> F ''resolve_proposal''"
proof -
  obtain payload where de: "de (po_payload_json proposal) = Some payload"
    using assms by (cases "de (po_payload_json proposal)") (auto simp: apply_proposal_def)
  let ?row = "build_merged_policy_row (au_team_id admin) payload
           (if F ''get_policy'' then None else get_policy (au_team_id admin) (pl_credential_name payload) s)"
  have lock: "end_user_policy_lock (au_team_id admin) (pl_credential_name payload) ?row s = None"
    using assms de by (auto simp: apply_proposal_def Let_def split: if_splits option.splits)
  obtain s1 where set: "set_policy ?row s = Inr s1"
    using assms de lock
    by (cases "set_policy ?row s") (auto simp: apply_proposal_def Let_def split: if_splits)
  obtain b s2 where res: "resolve_proposal (au_team_id admin) pid ''approved'' (au_email admin) now
      (between s1) = (b, s2)" by fastforce
  have p2: "ps_policies s2 = ps_policies s1"
    using resolve_proposal_policies [of "au_team_id admin" pid "''approved''" "au_email admin" now
      "between s1"] res keep by simp
  have "(s' = s2 \<or> s' = between s1) \<and> (r = DecisionApproved (pl_credential_name payload) \<or> r = ResolvedByAnother
      \<or> r = StoreError (Config ''Failed to resolve proposal'') \<and> F ''resolve_proposal'')"
    using assms(1) changed de lock set res
    by (auto simp: apply_proposal_def Let_def split: if_splits bool.splits)
  with p2 keep show thesis using that [OF de refl lock set] by metis
qed

lemma handle_resolve_proposal_policies:
  assumes "handle_resolve_proposal F de wa admin pid decision assertion now between s = (r, s')"
    and "ps_policies s' \<noteq> ps_policies s"
  obtains proposal where "role_can_manage_workspace (au_member_role admin)"
    and "decision = ''approve''" and "passkey_verified wa admin assertion"
    and "get_proposal (au_team_id admin) pid s = Some proposal" and "po_status proposal = ''pending''"
    and "apply_proposal F de admin pid proposal now between s = (r, s')"
proof -
  have deny: "ps_policies s2 = ps_policies s"
    if "resolve_proposal t pid st e now s = (b, s2)" for t st e b s2
    using resolve_proposal_policies [of t pid st e now s] that by simp
  from assms have "\<not> F ''get_proposal''"
    by (auto simp: handle_resolve_proposal_def Let_def split: if_splits)
  moreover from assms have "role_can_manage_workspace (au_member_role admin)"
    by (auto simp: handle_resolve_proposal_def Let_def split: if_splits)
  moreover from assms this obtain proposal where
      p: "get_proposal (au_team_id admin) pid s = Some proposal" "po_status proposal = ''pending''"
    by (auto simp: handle_resolve_proposal_def Let_def split: if_splits option.splits)
  moreover from assms calculation have "decision = ''approve''"
    by (auto simp: handle_resolve_proposal_def Let_def
        split: if_splits prod.splits bool.splits dest: deny)
  moreover from assms calculation have "passkey_refusal wa admin assertion = None"
    by (cases "passkey_refusal wa admin assertion") (auto simp: handle_resolve_proposal_def Let_def)
  moreover from this assms calculation have "apply_proposal F de admin pid proposal now between s = (r, s')"
    by (simp add: handle_resolve_proposal_def Let_def)
  ultimately show thesis using that by (simp add: passkey_refusal_None)
qed

text \<open>C26. If resolving a proposal changes any policy, whatever statements the database failed, then the
  caller manages the workspace, the decision was to approve, the caller's own passkey was verified
  where passkeys are configured, and the proposal was pending in the caller's team. What was
  written is one row, that of the named credential of that team: the proposal merged into the
  current policy (into nothing where its read failed), the very row that the end-user lock let
  pass; every other policy is as it was. The answer is success, the lost-claim
  conflict, or the store's error when the claim itself failed.\<close>

theorem policy_changed_by_proposal:
  assumes "handle_resolve_proposal F de wa admin pid decision assertion now between s = (r, s')"
    and "\<forall>x. ps_policies (between x) = ps_policies x"
    and "ps_policies s' \<noteq> ps_policies s"
  shows "role_can_manage_workspace (au_member_role admin) \<and> decision = ''approve''
    \<and> passkey_verified wa admin assertion
    \<and> (\<exists>prop payload row s1. get_proposal (au_team_id admin) pid s = Some prop
        \<and> po_status prop = ''pending'' \<and> de (po_payload_json prop) = Some payload
        \<and> row = build_merged_policy_row (au_team_id admin) payload
            (if F ''get_policy'' then None else get_policy (au_team_id admin) (pl_credential_name payload) s)
        \<and> end_user_policy_lock (au_team_id admin) (pl_credential_name payload) row s = None
        \<and> set_policy row s = Inr s1 \<and> ps_policies s' = ps_policies s1
        \<and> (\<forall>k. k \<noteq> (au_team_id admin, pl_credential_name payload)
              \<longrightarrow> ps_policies s' k = ps_policies s k)
        \<and> (r = DecisionApproved (pl_credential_name payload) \<or> r = ResolvedByAnother
             \<or> r = StoreError (Config ''Failed to resolve proposal'') \<and> F ''resolve_proposal''))"
proof -
  obtain proposal where h: "role_can_manage_workspace (au_member_role admin)"
    "decision = ''approve''" "passkey_verified wa admin assertion"
    "get_proposal (au_team_id admin) pid s = Some proposal" "po_status proposal = ''pending''"
    and a: "apply_proposal F de admin pid proposal now between s = (r, s')"
    using handle_resolve_proposal_policies [OF assms(1,3)] .
  obtain payload row s1 where "de (po_payload_json proposal) = Some payload"
    "row = build_merged_policy_row (au_team_id admin) payload
       (if F ''get_policy'' then None else get_policy (au_team_id admin) (pl_credential_name payload) s)"
    "end_user_policy_lock (au_team_id admin) (pl_credential_name payload) row s = None"
    and "set_policy row s = Inr s1" "ps_policies s' = ps_policies s1"
    "r = DecisionApproved (pl_credential_name payload) \<or> r = ResolvedByAnother
      \<or> r = StoreError (Config ''Failed to resolve proposal'') \<and> F ''resolve_proposal''"
    using apply_proposal_policies [OF a assms(2,3)] .
  with h show ?thesis using set_policy_elsewhere [of row s s1] by auto
qed

definition sample_manager :: auth_user where
  "sample_manager = \<lparr>au_id = ''u1'', au_team_id = ''acme'', au_email = ''m@acme'',
     au_member_role = ''admin''\<rparr>"

definition post_payload :: policy_change_payload where
  "post_payload = huge_min_payload\<lparr>pl_min_approvals := None,
     pl_auto_approve_methods := Some [''POST'']\<rparr>"

definition sample_de :: "string \<Rightarrow> policy_change_payload option" where
  "sample_de j = (if j = ''allow POST'' then Some post_payload else None)"

definition sample_proposal :: proposal_row where
  "sample_proposal = \<lparr>po_id = ''p1'', po_team_id = ''acme'', po_agent_id = ''bot'',
     po_proposal_type = ''policy_change'', po_payload_json = ''allow POST'', po_status = ''pending'',
     po_resolved_by = None, po_resolved_at = None, po_created_at = 0, po_expires_at = 100\<rparr>"

definition pending_store :: prop_store where
  "pending_store = sample_prop_store\<lparr>ps_credentials := [(''acme'', ''github'') \<mapsto> None],
     ps_proposals := [''p1'' \<mapsto> sample_proposal]\<rparr>"

definition resolve_sample :: "timestamp \<Rightarrow> resolve_response \<times> prop_store" where
  "resolve_sample now =
     handle_resolve_proposal (\<lambda>_. False) sample_de None sample_manager ''p1'' ''approve'' None now id pending_store"

lemmas sample_defs = sample_manager_def post_payload_def sample_de_def sample_proposal_def
  pending_store_def sample_prop_store_def sample_policy_row_def huge_min_payload_def

lemma resolve_sample_eval:
  "fst (resolve_sample now) = (if now < 100 then DecisionApproved ''github'' else ResolvedByAnother)"
  "map_option pr_auto_approve_methods (get_policy ''acme'' ''github'' (snd (resolve_sample now)))
     = Some [''POST'']"
  "map_option po_status (ps_proposals (snd (resolve_sample now)) ''p1'')
     = Some (if now < 100 then ''approved'' else ''pending'')"
  by (simp_all add: resolve_sample_def handle_resolve_proposal_def passkey_refusal_def
      apply_proposal_def sample_defs role_can_manage_workspace_def get_proposal_def
      end_user_policy_lock_def set_policy_def build_merged_policy_row_def get_policy_def
      resolve_proposal_def Let_def)

theorem policy_changed_by_proposal_witness:
  "ps_policies (snd (resolve_sample 50)) \<noteq> ps_policies pending_store
    \<and> role_can_manage_workspace (au_member_role sample_manager)
    \<and> passkey_verified None sample_manager None"
proof -
  have "map_option pr_auto_approve_methods (get_policy ''acme'' ''github'' pending_store) = Some [''GET'']"
    by (simp add: get_policy_def sample_defs)
  then have ch: "ps_policies (snd (resolve_sample 50)) \<noteq> ps_policies pending_store"
    using resolve_sample_eval(2) [of 50] by (auto simp: get_policy_def)
  have "handle_resolve_proposal (\<lambda>_. False) sample_de None sample_manager ''p1'' ''approve'' None 50 id
      pending_store = (fst (resolve_sample 50), snd (resolve_sample 50))"
    by (simp add: resolve_sample_def)
  from policy_changed_by_proposal [OF this _ ch] ch show ?thesis by simp
qed

text \<open>The order of the two writes: the policy is written before the proposal is claimed,
  so approving a proposal that expired (or that another manager denied meanwhile) answers
  409 and records no approval, yet the proposed policy is in force.\<close>

lemma expired_proposal_still_applied:
  "fst (resolve_sample 200) = ResolvedByAnother
    \<and> map_option po_status (ps_proposals (snd (resolve_sample 200)) ''p1'') = Some ''pending''
    \<and> map_option pr_auto_approve_methods (get_policy ''acme'' ''github'' pending_store)
        = Some [''GET'']
    \<and> map_option pr_auto_approve_methods
        (get_policy ''acme'' ''github'' (snd (resolve_sample 200))) = Some [''POST'']"
  using resolve_sample_eval [of 200] by (simp add: get_policy_def sample_defs)

text \<open>
  A failed read of the current policy is taken for no policy: the approved proposal, which
  speaks of a method only, then drops the passkey that the policy required.
\<close>

lemma unread_policy_is_reset:
  "let (resp, s') = handle_resolve_proposal (\<lambda>q. q = ''get_policy'') sample_de None sample_manager ''p1'' ''approve''
                      None 50 id pending_store
   in resp = DecisionApproved ''github''
      \<and> map_option pr_require_passkey (get_policy ''acme'' ''github'' pending_store) = Some True
      \<and> map_option pr_require_passkey (get_policy ''acme'' ''github'' s') = Some False"
  by (simp add: handle_resolve_proposal_def passkey_refusal_def
      apply_proposal_def sample_defs role_can_manage_workspace_def get_proposal_def
      end_user_policy_lock_def set_policy_def build_merged_policy_row_def get_policy_def
      resolve_proposal_def Let_def)

end
