(* ===== verification/Grants.thy ===== *)
theory Grants
  imports Proposals "HOL-Library.AList"
begin

text \<open>
  Time-boxed approval grants: minting one from a reviewed request (\<open>tap-core/src/grants.rs\<close>),
  the \<open>approval_grants\<close> table (\<open>tap-core/src/store.rs\<close>), authoring and revoking from the
  dashboard (\<open>tap-proxy/src/admin.rs\<close>) and the claim of a use by a request
  (\<open>try_claim_grant\<close> of \<open>tap-proxy/src/proxy.rs\<close>). The table is an association list from
  the primary key, in insertion order.
\<close>

section \<open>The table\<close>

record grant_row =
  gr_id :: string
  gr_team_id :: string
  gr_credential_name :: string
  gr_methods :: "string list"
  gr_route_scope :: "string list"
  gr_expires_at :: timestamp
  gr_granted_by :: string
  gr_max_uses :: "int option"
  gr_uses :: int
  gr_revoked :: bool
  gr_created_at :: timestamp

text \<open>The fields of an audit entry that the grant handlers fill in.\<close>

record audit_note =
  an_request_id :: string
  an_agent_id :: string
  an_credential_names :: "string list"
  an_target_url :: string
  an_policy_reason :: "string option"
  an_approver_identity :: "string option"

record grant_store =
  gs_props :: prop_store
  gs_grants :: "(string \<times> grant_row) list"
  gs_audit :: "audit_note list"

definition create_approval_grant ::
  "grant_row \<Rightarrow> grant_store \<Rightarrow> (agent_sec_error, grant_store) result" where
  "create_approval_grant g s =
     (if map_of (gs_grants s) (gr_id g) \<noteq> None
         \<or> ps_credentials (gs_props s) (gr_team_id g, gr_credential_name g) = None
      then Inl (Config ''Failed to create approval grant'')
      else Inr (s\<lparr>gs_grants :=
             gs_grants s @ [(gr_id g, g\<lparr>gr_uses := 0, gr_revoked := False\<rparr>)]\<rparr>))"

definition list_approval_grants :: "string \<Rightarrow> grant_store \<Rightarrow> grant_row list" where
  "list_approval_grants team s =
     take 200 (rev (sort_key gr_created_at
       (filter (\<lambda>g. gr_team_id g = team) (map snd (gs_grants s)))))"

text \<open>The condition that the candidate query and the claim share.\<close>

definition grant_live :: "timestamp \<Rightarrow> grant_row \<Rightarrow> bool" where
  "grant_live now g \<longleftrightarrow>
     \<not> gr_revoked g \<and> gr_expires_at g > now
     \<and> (case gr_max_uses g of None \<Rightarrow> True | Some n \<Rightarrow> gr_uses g < n)"

definition live_grants_for_credential ::
  "string \<Rightarrow> string \<Rightarrow> timestamp \<Rightarrow> grant_store \<Rightarrow> grant_row list" where
  "live_grants_for_credential team cred now s =
     sort_key gr_created_at
       (filter (\<lambda>g. gr_team_id g = team \<and> gr_credential_name g = cred \<and> grant_live now g)
         (map snd (gs_grants s)))"

definition claim_approval_grant ::
  "string \<Rightarrow> timestamp \<Rightarrow> grant_store \<Rightarrow> bool \<times> grant_store" where
  "claim_approval_grant gid now s =
     (case map_of (gs_grants s) gid of
        None \<Rightarrow> (False, s)
      | Some g \<Rightarrow>
          if grant_live now g
          then (True, s\<lparr>gs_grants :=
                  AList.update gid (g\<lparr>gr_uses := gr_uses g + 1\<rparr>) (gs_grants s)\<rparr>)
          else (False, s))"

definition revoke_approval_grant ::
  "string \<Rightarrow> string \<Rightarrow> grant_store \<Rightarrow> bool \<times> grant_store" where
  "revoke_approval_grant team gid s =
     (case map_of (gs_grants s) gid of
        None \<Rightarrow> (False, s)
      | Some g \<Rightarrow>
          if gr_team_id g = team
          then (True, s\<lparr>gs_grants :=
                  AList.update gid (g\<lparr>gr_revoked := True\<rparr>) (gs_grants s)\<rparr>)
          else (False, s))"

section \<open>Minting from a reviewed request (grants.rs)\<close>

definition grant_max_ttl_minutes :: int where
  "grant_max_ttl_minutes = 24 * 60"

definition grant_default_ttl_minutes :: int where
  "grant_default_ttl_minutes = 30"

datatype grant_refused =
    EndUserCredential
  | GrantPasskeyRequired
  | ScopeUnderivable
  | BadBounds
  | GrantStore agent_sec_error

text \<open>
  Instants are counted in seconds, so a lifetime of \<open>m\<close> minutes ends \<open>60 * m\<close> later. The
  fresh identifier (\<open>Uuid::new_v4\<close>) is an argument.
\<close>

definition create_grant_for_request ::
  "externals \<Rightarrow> string \<Rightarrow> string \<Rightarrow> string \<Rightarrow> string \<Rightarrow> string \<Rightarrow> string \<Rightarrow> int \<Rightarrow> int option
    \<Rightarrow> timestamp \<Rightarrow> grant_store \<Rightarrow> (grant_refused, grant_row \<times> grant_store) result" where
  "create_grant_for_request X new_id team cred method target_url granted_by ttl max_uses now s =
     (if starts_with cred ''eu:'' then Inl EndUserCredential
      else if \<not> (1 \<le> ttl \<and> ttl \<le> grant_max_ttl_minutes) then Inl BadBounds
      else if (case max_uses of None \<Rightarrow> False | Some n \<Rightarrow> n < 1) then Inl BadBounds
      else if (case get_policy team cred (gs_props s) of
                 None \<Rightarrow> False | Some p \<Rightarrow> pr_require_passkey p) then Inl GrantPasskeyRequired
      else case scope_from_target X target_url of
        None \<Rightarrow> Inl ScopeUnderivable
      | Some scope \<Rightarrow>
          let grant =
            \<lparr>gr_id = new_id, gr_team_id = team, gr_credential_name = cred,
             gr_methods = [to_uppercase (trim method)], gr_route_scope = [scope],
             gr_expires_at = now + 60 * ttl, gr_granted_by = granted_by,
             gr_max_uses = max_uses, gr_uses = 0, gr_revoked = False, gr_created_at = now\<rparr>
          in case create_approval_grant grant s of
               Inl e \<Rightarrow> Inl (GrantStore e)
             | Inr s' \<Rightarrow> Inr (grant, s'))"

section \<open>Authoring from the dashboard (admin.rs)\<close>

definition grant_allowed_methods :: "string list" where
  "grant_allowed_methods = [''GET'', ''HEAD'', ''POST'', ''PUT'', ''PATCH'', ''DELETE'']"

record create_grant_request =
  cg_methods :: "string list"
  cg_route_scope :: "string list"
  cg_ttl_minutes :: int
  cg_max_uses :: "int option"

text \<open>The refusals, each with the pattern or method its message quotes.\<close>

datatype grant_request_error =
    SelectAMethod
  | UnknownMethod string
  | NeedsRoutePattern
  | PathOnlyPattern string
  | NoConcreteHost string
  | NoConcretePath string
  | OnlyBlankPatterns
  | TtlOutOfRange
  | MaxUsesTooSmall

fun normalize_grant_methods ::
  "string list \<Rightarrow> string list \<Rightarrow> (grant_request_error, string list) result" where
  "normalize_grant_methods [] acc = Inr acc"
| "normalize_grant_methods (m # ms) acc =
     (let up = to_uppercase (trim m) in
      if up \<notin> set grant_allowed_methods then Inl (UnknownMethod m)
      else normalize_grant_methods ms (if up \<in> set acc then acc else acc @ [up]))"

fun normalize_grant_routes ::
  "string list \<Rightarrow> string list \<Rightarrow> (grant_request_error, string list) result" where
  "normalize_grant_routes [] acc = Inr acc"
| "normalize_grant_routes (p # ps) acc =
     (let pat = trim p in
      if pat = [] then normalize_grant_routes ps acc
      else if starts_with pat ''/'' then Inl (PathOnlyPattern pat)
      else let host = hd (split_on CHR ''/'' pat) in
        if contains host ''*'' \<or> \<not> contains host ''.'' then Inl (NoConcreteHost pat)
        else case split_once CHR ''/'' pat of
          Some (_, path) \<Rightarrow>
            if trim path \<noteq> [] then normalize_grant_routes ps (acc @ [pat])
            else Inl (NoConcretePath pat)
        | None \<Rightarrow> Inl (NoConcretePath pat))"

definition validate_grant_request ::
  "create_grant_request \<Rightarrow> (grant_request_error, string list \<times> string list) result" where
  "validate_grant_request req =
     (if cg_methods req = [] then Inl SelectAMethod
      else case normalize_grant_methods (cg_methods req) [] of
        Inl e \<Rightarrow> Inl e
      | Inr methods \<Rightarrow>
          if cg_route_scope req = [] then Inl NeedsRoutePattern
          else (case normalize_grant_routes (cg_route_scope req) [] of
              Inl e \<Rightarrow> Inl e
            | Inr routes \<Rightarrow>
                if routes = [] then Inl OnlyBlankPatterns
                else if cg_ttl_minutes req < 1 \<or> cg_ttl_minutes req > grant_max_ttl_minutes
                then Inl TtlOutOfRange
                else if (case cg_max_uses req of None \<Rightarrow> False | Some n \<Rightarrow> n < 1)
                then Inl MaxUsesTooSmall
                else Inr (methods, routes)))"

datatype grant_response =
    GrantOnlyManagers              \<comment> \<open>403\<close>
  | GrantNotAllowedEndUser         \<comment> \<open>400\<close>
  | GrantCredentialNotFound        \<comment> \<open>404\<close>
  | GrantNotAllowedPasskey         \<comment> \<open>400\<close>
  | GrantInvalid grant_request_error \<comment> \<open>400\<close>
  | GrantStoreError agent_sec_error
  | GrantCreated grant_row         \<comment> \<open>201\<close>
  | GrantRevoked                   \<comment> \<open>200\<close>
  | GrantNotFound                  \<comment> \<open>404\<close>

definition handle_create_grant ::
  "auth_user \<Rightarrow> string \<Rightarrow> create_grant_request \<Rightarrow> string \<Rightarrow> timestamp \<Rightarrow> grant_store
    \<Rightarrow> grant_response \<times> grant_store" where
  "handle_create_grant admin cred req new_id now s =
     (if \<not> role_can_manage_workspace (au_member_role admin) then (GrantOnlyManagers, s)
      else if starts_with cred ''eu:'' then (GrantNotAllowedEndUser, s)
      else if ps_credentials (gs_props s) (au_team_id admin, cred) = None
      then (GrantCredentialNotFound, s)
      else if (case get_policy (au_team_id admin) cred (gs_props s) of
                 None \<Rightarrow> False | Some p \<Rightarrow> pr_require_passkey p)
      then (GrantNotAllowedPasskey, s)
      else case validate_grant_request req of
        Inl e \<Rightarrow> (GrantInvalid e, s)
      | Inr (methods, route_scope) \<Rightarrow>
          let grant =
            \<lparr>gr_id = new_id, gr_team_id = au_team_id admin, gr_credential_name = cred,
             gr_methods = methods, gr_route_scope = route_scope,
             gr_expires_at = now + 60 * cg_ttl_minutes req, gr_granted_by = au_email admin,
             gr_max_uses = cg_max_uses req, gr_uses = 0, gr_revoked = False,
             gr_created_at = now\<rparr>
          in case create_approval_grant grant s of
               Inl e \<Rightarrow> (GrantStoreError e, s)
             | Inr s' \<Rightarrow>
                 (GrantCreated grant,
                  s'\<lparr>gs_audit := gs_audit s' @
                    [\<lparr>an_request_id = new_id, an_agent_id = au_id admin,
                      an_credential_names = [cred], an_target_url = ''tap:grant-create'',
                      an_policy_reason = Some (''grant_created:'' @ new_id),
                      an_approver_identity = Some (au_email admin)\<rparr>]\<rparr>))"

definition handle_revoke_grant ::
  "auth_user \<Rightarrow> string \<Rightarrow> grant_store \<Rightarrow> grant_response \<times> grant_store" where
  "handle_revoke_grant admin gid s =
     (if \<not> role_can_manage_workspace (au_member_role admin) then (GrantOnlyManagers, s)
      else case revoke_approval_grant (au_team_id admin) gid s of
        (True, s') \<Rightarrow> (GrantRevoked, s')
      | (False, s') \<Rightarrow> (GrantNotFound, s'))"

section \<open>Claiming a use (proxy.rs)\<close>

text \<open>
  The loop over the candidates. Other requests may change the store before each claim, and the
  claim itself may fail, which ends the search: \<open>steps\<close> has, for each candidate that is tried, whether
  its claim fails and what the others did before it. \<open>lookup_fails\<close> says that the candidates could not
  be read.
\<close>

fun claim_first ::
  "externals \<Rightarrow> timestamp \<Rightarrow> string \<Rightarrow> string \<Rightarrow> grant_row list
    \<Rightarrow> (bool \<times> (grant_store \<Rightarrow> grant_store)) list \<Rightarrow> grant_store \<Rightarrow> string option \<times> grant_store" where
  "claim_first X now method url [] steps s = (None, s)"
| "claim_first X now method url (g # gs) steps s =
     (if \<not> grant_covers X (gr_methods g) (gr_route_scope g) method url
      then claim_first X now method url gs steps s
      else let (fails, s0) = (case steps of [] \<Rightarrow> (False, s) | (b, f) # _ \<Rightarrow> (b, f s)) in
        if fails then (None, s0)
        else case claim_approval_grant (gr_id g) now s0 of
          (True, s') \<Rightarrow> (Some (gr_id g), s')
        | (False, s') \<Rightarrow> claim_first X now method url gs (tl steps) s')"

definition try_claim_grant ::
  "externals \<Rightarrow> bool \<Rightarrow> string \<Rightarrow> string \<Rightarrow> string \<Rightarrow> string \<Rightarrow> timestamp
    \<Rightarrow> (bool \<times> (grant_store \<Rightarrow> grant_store)) list \<Rightarrow> grant_store \<Rightarrow> string option \<times> grant_store" where
  "try_claim_grant X lookup_fails team cred method url now steps s =
     (if lookup_fails then (None, s)
      else claim_first X now method url (live_grants_for_credential team cred now s) steps s)"

section \<open>The table keeps its shape\<close>

definition grant_ok :: "string \<Rightarrow> grant_row \<Rightarrow> bool" where
  "grant_ok k g \<longleftrightarrow> gr_id g = k \<and> 0 \<le> gr_uses g
     \<and> (case gr_max_uses g of None \<Rightarrow> True | Some n \<Rightarrow> gr_uses g \<le> max n 0)"

definition grants_wf :: "grant_store \<Rightarrow> bool" where
  "grants_wf s \<longleftrightarrow> distinct (map fst (gs_grants s))
     \<and> (\<forall>k g. map_of (gs_grants s) k = Some g \<longrightarrow> grant_ok k g)"

lemma grants_wf_update:
  assumes "grants_wf s" and "grant_ok k g"
  shows "grants_wf (s\<lparr>gs_grants := AList.update k g (gs_grants s)\<rparr>)"
  using assms by (auto simp: grants_wf_def distinct_update AList.update_conv' split: if_splits)

lemma create_grant_wf:
  assumes "create_approval_grant g s = Inr s'" and "grants_wf s"
  shows "grants_wf s'"
proof -
  let ?g = "g\<lparr>gr_uses := 0, gr_revoked := False\<rparr>"
  have s': "s' = s\<lparr>gs_grants := gs_grants s @ [(gr_id g, ?g)]\<rparr>"
    and new: "map_of (gs_grants s) (gr_id g) = None"
    using assms(1) by (auto simp: create_approval_grant_def split: if_splits)
  have "grant_ok (gr_id g) ?g" by (auto simp: grant_ok_def split: option.splits)
  with new assms(2) show ?thesis
    unfolding s' by (auto simp: grants_wf_def map_of_eq_None_iff map_add_Some_iff)
qed

lemma claim_grant_cases:
  assumes "claim_approval_grant gid now s = (b, s')"
  obtains (miss) "\<not> b" "s' = s"
    "\<And>g. map_of (gs_grants s) gid = Some g \<Longrightarrow> \<not> grant_live now g"
  | (win) g where b "map_of (gs_grants s) gid = Some g" "grant_live now g"
      "s' = s\<lparr>gs_grants := AList.update gid (g\<lparr>gr_uses := gr_uses g + 1\<rparr>) (gs_grants s)\<rparr>"
  using assms by (auto simp: claim_approval_grant_def split: option.splits if_splits)

lemma revoke_grant_cases:
  assumes "revoke_approval_grant team gid s = (b, s')"
  obtains (miss) "\<not> b" "s' = s"
  | (hit) g where b "map_of (gs_grants s) gid = Some g" "gr_team_id g = team"
      "s' = s\<lparr>gs_grants := AList.update gid (g\<lparr>gr_revoked := True\<rparr>) (gs_grants s)\<rparr>"
  using assms by (auto simp: revoke_approval_grant_def split: option.splits if_splits)

lemma claim_grant_wf:
  assumes "claim_approval_grant gid now s = (b, s')" and "grants_wf s"
  shows "grants_wf s'"
  using assms(1)
proof (cases rule: claim_grant_cases)
  case (win g)
  then have "grant_ok gid (g\<lparr>gr_uses := gr_uses g + 1\<rparr>)"
    using assms(2) by (auto simp: grants_wf_def grant_ok_def grant_live_def split: option.splits)
  with win assms(2) show ?thesis by (simp add: grants_wf_update)
qed (use assms in simp)

lemma revoke_grant_wf:
  assumes "revoke_approval_grant team gid s = (b, s')" and "grants_wf s"
  shows "grants_wf s'"
  using assms(1)
proof (cases rule: revoke_grant_cases)
  case (hit g)
  then have "grant_ok gid (g\<lparr>gr_revoked := True\<rparr>)"
    using assms(2) by (auto simp: grants_wf_def grant_ok_def split: option.splits)
  with hit assms(2) show ?thesis by (simp add: grants_wf_update)
qed (use assms in simp)

section \<open>Histories of the table\<close>

text \<open>The states the store goes through, from a table without grants.\<close>

inductive grant_reachable :: "grant_store \<Rightarrow> bool" where
  start: "gs_grants s = [] \<Longrightarrow> grant_reachable s"
| create: "grant_reachable s \<Longrightarrow> create_approval_grant g s = Inr s' \<Longrightarrow> grant_reachable s'"
| claim: "grant_reachable s \<Longrightarrow> claim_approval_grant gid now s = (b, s') \<Longrightarrow> grant_reachable s'"
| revoke: "grant_reachable s \<Longrightarrow> revoke_approval_grant team gid s = (b, s') \<Longrightarrow> grant_reachable s'"
| policy: "grant_reachable s \<Longrightarrow> gs_grants s' = gs_grants s \<Longrightarrow> grant_reachable s'"

lemma grant_reachable_wf: "grant_reachable s \<Longrightarrow> grants_wf s"
proof (induction rule: grant_reachable.induct)
  case (start s)
  then show ?case by (simp add: grants_wf_def)
next
  case (policy s s')
  then show ?case by (simp add: grants_wf_def)
qed (blast intro: create_grant_wf claim_grant_wf revoke_grant_wf)+

section \<open>The claim as a bounded claim\<close>

definition uses_left :: "string \<Rightarrow> grant_store \<Rightarrow> enat" where
  "uses_left gid s =
     (case map_of (gs_grants s) gid of
        None \<Rightarrow> \<infinity>
      | Some g \<Rightarrow>
          if gr_revoked g then 0
          else (case gr_max_uses g of None \<Rightarrow> \<infinity> | Some n \<Rightarrow> enat (nat (n - gr_uses g))))"

definition grant_other :: "grant_row + (string \<times> string) \<Rightarrow> grant_store \<Rightarrow> grant_store" where
  "grant_other x s =
     (case x of
        Inl g \<Rightarrow> (case create_approval_grant g s of Inl _ \<Rightarrow> s | Inr s' \<Rightarrow> s')
      | Inr (team, gid) \<Rightarrow> snd (revoke_approval_grant team gid s))"

lemma uses_left_update:
  "uses_left k (s\<lparr>gs_grants := AList.update gid g (gs_grants s)\<rparr>) =
     (if k = gid
      then (if gr_revoked g then 0
            else (case gr_max_uses g of None \<Rightarrow> \<infinity> | Some n \<Rightarrow> enat (nat (n - gr_uses g))))
      else uses_left k s)"
  by (simp add: uses_left_def AList.update_conv')

lemma claim_uses_left:
  assumes "claim_approval_grant gid now s = (True, s')"
  shows "eSuc (uses_left gid s') \<le> uses_left gid s"
  using assms
proof (cases rule: claim_grant_cases)
  case (win g)
  have "uses_left gid s = (case gr_max_uses g of None \<Rightarrow> \<infinity> | Some n \<Rightarrow> enat (nat (n - gr_uses g)))"
    using win by (simp add: uses_left_def grant_live_def)
  moreover have "uses_left gid s' =
      (case gr_max_uses g of None \<Rightarrow> \<infinity> | Some n \<Rightarrow> enat (nat (n - gr_uses g - 1)))"
    using win by (simp add: uses_left_update grant_live_def algebra_simps split: option.splits)
  ultimately show ?thesis
    using win by (auto simp: grant_live_def eSuc_enat split: option.splits)
qed simp

lemma claim_keeps_uses_left:
  assumes "claim_approval_grant gid now s = (b, s')"
  shows "uses_left k s' \<le> uses_left k s"
  using assms
proof (cases rule: claim_grant_cases)
  case (win g)
  show ?thesis
  proof (cases "k = gid")
    case True
    have "uses_left k s' \<le> eSuc (uses_left k s')" by (rule ile_eSuc)
    also have "\<dots> \<le> uses_left k s"
      using claim_uses_left [of gid now s s'] assms win(1) True by simp
    finally show ?thesis .
  next
    case False
    then show ?thesis using win by (simp add: uses_left_update)
  qed
qed simp

lemma other_keeps_uses_left: "uses_left k (grant_other x s) \<le> uses_left k s"
proof (cases x)
  case (Inl g)
  then show ?thesis
    by (auto simp: grant_other_def create_approval_grant_def uses_left_def map_add_def
        split: option.splits)
next
  case (Inr y)
  obtain team gid where y: "y = (team, gid)" by fastforce
  obtain b s' where r: "revoke_approval_grant team gid s = (b, s')" by fastforce
  from r show ?thesis
    by (cases rule: revoke_grant_cases) (auto simp: Inr y r grant_other_def uses_left_update)
qed

interpretation grant_claim: bounded_claim claim_approval_grant grant_other uses_left
  by unfold_locales (fact claim_uses_left claim_keeps_uses_left other_keeps_uses_left)+


section \<open>Looking for a grant\<close>

lemma live_grants_iff:
  assumes "grants_wf s"
  shows "g \<in> set (live_grants_for_credential team cred now s) \<longleftrightarrow>
    map_of (gs_grants s) (gr_id g) = Some g \<and> gr_team_id g = team \<and> gr_credential_name g = cred
    \<and> grant_live now g"
proof -
  have "g \<in> snd ` set (gs_grants s) \<longleftrightarrow> map_of (gs_grants s) (gr_id g) = Some g"
  proof
    assume "g \<in> snd ` set (gs_grants s)"
    then obtain k where k: "(k, g) \<in> set (gs_grants s)" by auto
    then have "map_of (gs_grants s) k = Some g" using assms by (simp add: grants_wf_def)
    moreover from this have "gr_id g = k" using assms by (simp add: grants_wf_def grant_ok_def)
    ultimately show "map_of (gs_grants s) (gr_id g) = Some g" by simp
  qed (force dest: map_of_SomeD)
  then show ?thesis by (auto simp: live_grants_for_credential_def)
qed

text \<open>Without interference the first covering candidate is claimed, unless that claim fails.\<close>

lemma claim_first_alone:
  assumes "\<forall>g \<in> set gs. map_of (gs_grants s) (gr_id g) = Some g \<and> grant_live now g"
    and "list_all (\<lambda>(_, f). f = id) steps"
  shows "claim_first X now method url gs steps s =
    (case find (\<lambda>g. grant_covers X (gr_methods g) (gr_route_scope g) method url) gs of
       None \<Rightarrow> (None, s)
     | Some g \<Rightarrow> if steps \<noteq> [] \<and> fst (hd steps) then (None, s)
         else (Some (gr_id g), snd (claim_approval_grant (gr_id g) now s)))"
  using assms
  by (induction gs) (auto simp: claim_approval_grant_def split: list.splits)

text \<open>With interference, whatever is returned was a covering candidate whose claim succeeded.\<close>

lemma claim_first_sound:
  assumes "claim_first X now method url gs steps s = (Some gid, s')"
  obtains g t where "g \<in> set gs" "gr_id g = gid"
    "grant_covers X (gr_methods g) (gr_route_scope g) method url"
    "claim_approval_grant gid now t = (True, s')"
  using assms
  by (induction gs arbitrary: steps s thesis)
     (auto simp: Let_def split: if_splits prod.splits bool.splits list.splits, (metis | blast)+)

section \<open>What the dashboard accepts\<close>

lemma normalize_grant_methods_ok:
  assumes "normalize_grant_methods ms acc = Inr r"
    and "set acc \<subseteq> set grant_allowed_methods"
  shows "set r \<subseteq> set grant_allowed_methods \<and> set acc \<subseteq> set r
    \<and> (ms \<noteq> [] \<longrightarrow> r \<noteq> [])"
  using assms
proof (induction ms arbitrary: acc)
  case (Cons m ms)
  let ?up = "to_uppercase (trim m)"
  let ?acc = "if ?up \<in> set acc then acc else acc @ [?up]"
  have up: "?up \<in> set grant_allowed_methods" and n: "normalize_grant_methods ms ?acc = Inr r"
    using Cons.prems(1) by (auto simp: Let_def split: if_splits)
  have acc: "set ?acc \<subseteq> set grant_allowed_methods" "set acc \<subseteq> set ?acc"
    using Cons.prems(2) up by auto
  from Cons.IH [OF n acc(1)] have "set r \<subseteq> set grant_allowed_methods" "set ?acc \<subseteq> set r" by blast+
  moreover have "?up \<in> set ?acc" by simp
  ultimately show ?case using acc(2) by (cases r) auto
qed simp

text \<open>A pattern that names a concrete host and a path on it.\<close>

definition host_pinned :: "string \<Rightarrow> bool" where
  "host_pinned pat \<longleftrightarrow> trim pat = pat
     \<and> (case split_once CHR ''/'' pat of
          None \<Rightarrow> False
        | Some (h, p) \<Rightarrow> contains h ''.'' \<and> \<not> contains h ''*'' \<and> trim p \<noteq> [])"

lemma hd_split_on: "split_once d s = Some (a, b) \<Longrightarrow> hd (split_on d s) = a"
  by (auto simp: split_once_Some split_on_append split_on_free)

lemma normalize_grant_routes_ok:
  "normalize_grant_routes ps acc = Inr r \<Longrightarrow> \<forall>p \<in> set acc. host_pinned p
    \<Longrightarrow> \<forall>p \<in> set r. host_pinned p"
proof (induction ps arbitrary: acc)
  case (Cons p ps)
  show ?case
  proof (cases "trim p = []")
    case True
    then show ?thesis using Cons by (simp add: Let_def)
  next
    case False
    then obtain h q where sp: "split_once CHR ''/'' (trim p) = Some (h, q)" "trim q \<noteq> []"
      and n: "normalize_grant_routes ps (acc @ [trim p]) = Inr r"
      and h: "\<not> contains (hd (split_on CHR ''/'' (trim p))) ''*''"
        "contains (hd (split_on CHR ''/'' (trim p))) ''.''"
      using Cons.prems(1) by (auto simp: Let_def split: if_splits option.splits)
    have "host_pinned (trim p)"
      using sp h hd_split_on [OF sp(1)] by (simp add: host_pinned_def)
    then have "\<forall>x \<in> set (acc @ [trim p]). host_pinned x" using Cons.prems(2) by auto
    then show ?thesis by (rule Cons.IH [OF n])
  qed
qed simp

lemma host_pinned_not_slash: "host_pinned pat \<Longrightarrow> \<not> starts_with pat ''/''"
  by (cases pat) (auto simp: host_pinned_def starts_with_def split: option.splits if_splits)

lemma host_pinned_covers:
  assumes "host_pinned pat" and "grant_scope_covers_url X url pat"
  shows "\<exists>u h p. url_parse X url = Some u \<and> split_once CHR ''/'' pat = Some (h, p)
    \<and> eq_ignore_ascii_case (host_text u) h"
proof -
  from assms(2) obtain u where u: "url_parse X url = Some u" using grant_scope_parses by blast
  have pat: "trim pat = pat" "pat \<noteq> []"
    using assms(1) by (auto simp: host_pinned_def split: option.splits)
  obtain h p where sp: "split_once CHR ''/'' pat = Some (h, p)"
    using assms(1) by (auto simp: host_pinned_def split: option.splits)
  show ?thesis
    using assms(2) grant_match_cases [OF u pat(1) [symmetric] pat(2)]
      host_pinned_not_slash [OF assms(1)] u sp by simp
qed

lemma validate_grant_request_ok:
  assumes "validate_grant_request req = Inr (ms, rs)"
  shows "ms \<noteq> [] \<and> set ms \<subseteq> set grant_allowed_methods \<and> rs \<noteq> [] \<and> (\<forall>p \<in> set rs. host_pinned p)
    \<and> 1 \<le> cg_ttl_minutes req \<and> cg_ttl_minutes req \<le> grant_max_ttl_minutes
    \<and> (\<forall>n. cg_max_uses req = Some n \<longrightarrow> 1 \<le> n)"
proof -
  have m: "normalize_grant_methods (cg_methods req) [] = Inr ms"
    and r: "normalize_grant_routes (cg_route_scope req) [] = Inr rs"
    and rest: "cg_methods req \<noteq> []" "rs \<noteq> []" "1 \<le> cg_ttl_minutes req"
      "cg_ttl_minutes req \<le> grant_max_ttl_minutes" "\<forall>n. cg_max_uses req = Some n \<longrightarrow> 1 \<le> n"
    using assms by (auto simp: validate_grant_request_def split: if_splits sum.splits option.splits)
  show ?thesis
    using normalize_grant_methods_ok [OF m] normalize_grant_routes_ok [OF r] rest by simp
qed

section \<open>Properties\<close>

definition sample_grant :: grant_row where
  "sample_grant =
     \<lparr>gr_id = ''g1'', gr_team_id = ''acme'', gr_credential_name = ''github'',
      gr_methods = [''POST''], gr_route_scope = [''a.b/v1/send''], gr_expires_at = 1800,
      gr_granted_by = ''m@acme'', gr_max_uses = Some 2, gr_uses = 0, gr_revoked = False,
      gr_created_at = 0\<rparr>"

definition sample_grant_store :: grant_store where
  "sample_grant_store =
     \<lparr>gs_props = pending_store, gs_grants = [(''g1'', sample_grant)], gs_audit = []\<rparr>"

text \<open>C13. A grant is never used more often than it allows. Over every history of claims by any
  number of requests, new grants and revocations, a grant with \<open>n\<close> uses left is claimed at
  most \<open>n\<close> more times, and a revoked one never again.\<close>

theorem grant_uses_bounded:
  assumes "map_of (gs_grants s) gid = Some g"
  shows "enat (wins gid (fst (run_events claim_approval_grant grant_other es s)))
    \<le> (if gr_revoked g then 0
       else case gr_max_uses g of None \<Rightarrow> \<infinity> | Some n \<Rightarrow> enat (nat (n - gr_uses g)))"
  using grant_claim.wins_bounded [of gid es s] assms by (simp add: uses_left_def)

theorem grant_uses_bounded_witness:
  "\<forall>es. enat (wins ''g1''
     (fst (run_events claim_approval_grant grant_other es sample_grant_store))) \<le> 2"
proof
  fix es
  have "map_of (gs_grants sample_grant_store) ''g1'' = Some sample_grant"
    by (simp add: sample_grant_store_def)
  from grant_uses_bounded [OF this, of es]
  show "enat (wins ''g1''
     (fst (run_events claim_approval_grant grant_other es sample_grant_store))) \<le> 2"
    by (simp add: sample_grant_def numeral_eq_enat)
qed

text \<open>In every state the table reaches, a row is found under its own identifier and its
  count of uses lies between zero and the cap.\<close>

lemma grant_table_invariant:
  assumes "grant_reachable s" and "map_of (gs_grants s) k = Some g"
  shows "gr_id g = k \<and> 0 \<le> gr_uses g \<and> (\<forall>n. gr_max_uses g = Some n \<longrightarrow> gr_uses g \<le> max n 0)"
  using grant_reachable_wf [OF assms(1)] assms(2)
  by (auto simp: grants_wf_def grant_ok_def split: option.splits)

lemma sample_grant_reachable: "grant_reachable sample_grant_store"
proof -
  have "grant_reachable (sample_grant_store\<lparr>gs_grants := []\<rparr>)" by (rule start) simp
  moreover have "create_approval_grant sample_grant (sample_grant_store\<lparr>gs_grants := []\<rparr>)
      = Inr sample_grant_store"
    by (simp add: create_approval_grant_def sample_grant_def sample_grant_store_def sample_defs)
  ultimately show ?thesis by (rule grant_reachable.create)
qed

text \<open>C29. The search of a request for a grant is exact when no other request interferes: it
  returns a grant only if that grant belongs to the same team and credential, is live at
  this instant and covers the method and URL, and then exactly one use of exactly that
  grant is consumed. It returns none only if there is no such grant or the database failed, to list
  the grants or to claim the one that was found first; and then nothing changes.\<close>

theorem try_claim_grant_exact:
  assumes "grant_reachable s" and "list_all (\<lambda>(_, f). f = id) steps"
    and "try_claim_grant X lookup_fails team cred method url now steps s = (r, s')"
  shows "case r of
      Some gid \<Rightarrow> \<exists>g. map_of (gs_grants s) gid = Some g
        \<and> gr_team_id g = team \<and> gr_credential_name g = cred \<and> grant_live now g
        \<and> grant_covers X (gr_methods g) (gr_route_scope g) method url
        \<and> map_of (gs_grants s') = (map_of (gs_grants s))(gid \<mapsto> g\<lparr>gr_uses := gr_uses g + 1\<rparr>)
    | None \<Rightarrow> s' = s \<and> (lookup_fails \<or> steps \<noteq> [] \<and> fst (hd steps)
        \<or> \<not> (\<exists>gid g. map_of (gs_grants s) gid = Some g
          \<and> gr_team_id g = team \<and> gr_credential_name g = cred \<and> grant_live now g
          \<and> grant_covers X (gr_methods g) (gr_route_scope g) method url))"
proof (cases "lookup_fails \<or> steps \<noteq> [] \<and> fst (hd steps)")
  case True
  have "r = None \<and> s' = s"
    using assms(3) True live_grants_iff [OF grant_reachable_wf [OF assms(1)]]
      claim_first_alone [OF _ assms(2), of "live_grants_for_credential team cred now s" s now]
    by (auto simp: try_claim_grant_def split: if_splits option.splits)
  with True show ?thesis by auto
next
  case ok: False
  let ?c = "\<lambda>g. grant_covers X (gr_methods g) (gr_route_scope g) method url"
  let ?L = "live_grants_for_credential team cred now s"
  note wf = grant_reachable_wf [OF assms(1)]
  have r: "(r, s') = (case find ?c ?L of
       None \<Rightarrow> (None, s)
     | Some g \<Rightarrow> (Some (gr_id g), snd (claim_approval_grant (gr_id g) now s)))"
    using claim_first_alone [OF _ assms(2), of ?L s now X _ url] live_grants_iff [OF wf] assms(3) ok
    by (auto simp: try_claim_grant_def split: option.splits)
  show ?thesis
  proof (cases "find ?c ?L")
    case None
    have "g \<notin> set ?L" if "?c g" for g using None that by (auto simp: find_None_iff)
    moreover have "g \<in> set ?L" if "map_of (gs_grants s) gid = Some g" "gr_team_id g = team"
        "gr_credential_name g = cred" "grant_live now g" for gid g
      using wf that live_grants_iff [OF wf, of g team cred now]
      by (auto simp: grants_wf_def grant_ok_def)
    ultimately show ?thesis using None r by auto
  next
    case (Some g)
    then have "g \<in> set ?L" "?c g" by (auto simp: find_Some_iff)
    with Some r show ?thesis
      by (auto simp: live_grants_iff [OF wf] claim_approval_grant_def AList.update_conv')
  qed
qed

theorem try_claim_grant_exact_witness:
  "\<exists>s'. try_claim_grant sample_externals False ''acme'' ''github'' ''POST'' ''https://a.b/v1/send'' 60 []
      sample_grant_store = (Some ''g1'', s')
    \<and> map_of (gs_grants s') ''g1'' = Some (sample_grant\<lparr>gr_uses := 1\<rparr>)"
proof -
  obtain r s' where t: "try_claim_grant sample_externals False ''acme'' ''github'' ''POST''
      ''https://a.b/v1/send'' 60 [] sample_grant_store = (r, s')" by fastforce
  have c: "grant_covers sample_externals (gr_methods sample_grant) (gr_route_scope sample_grant)
      ''POST'' ''https://a.b/v1/send''"
    by code_simp
  have g: "map_of (gs_grants sample_grant_store) ''g1'' = Some sample_grant"
    "gr_team_id sample_grant = ''acme''" "gr_credential_name sample_grant = ''github''"
    "grant_live 60 sample_grant"
    and only: "map_of (gs_grants sample_grant_store) k = Some g' \<Longrightarrow> k = ''g1''" for k g'
    by (auto simp: sample_grant_store_def sample_grant_def grant_live_def split: if_splits)
  note e = try_claim_grant_exact [OF sample_grant_reachable _ t, simplified]
  show ?thesis
  proof (cases r)
    case None
    then show ?thesis using e g c by auto
  next
    case (Some gid)
    with e only have "gid = ''g1''" by fastforce
    with e Some t g(1) show ?thesis by (auto simp: sample_grant_def)
  qed
qed

text \<open>C33. What is minted from a reviewed request: never for an end-user's credential or one
  whose live policy demands a passkey, for at most a day, and for the reviewed
  method and the scope derived from the reviewed target, nothing else. For a target whose serialised
  host has no slash, whose path starts with one and whose scope carries no wildcard or outer white
  space, the grant covers a request exactly when its method is the reviewed one and it goes to the
  same host (up to ASCII case) and the same path (up to trailing slashes); but if the path of
  the target is the root, the grant covers nothing, the reviewed request included.\<close>

theorem minted_grant_exact:
  assumes "create_grant_for_request X new_id team cred method target by_whom ttl cap now s
      = Inr (g, s')"
  shows "\<not> starts_with cred ''eu:''
    \<and> (\<forall>p. get_policy team cred (gs_props s) = Some p \<longrightarrow> \<not> pr_require_passkey p)
    \<and> now < gr_expires_at g \<and> gr_expires_at g \<le> now + 24 * 60 * 60
    \<and> (\<forall>n. gr_max_uses g = Some n \<longrightarrow> 1 \<le> n)
    \<and> map_of (gs_grants s') (gr_id g) = Some g
    \<and> gr_team_id g = team \<and> gr_credential_name g = cred \<and> gr_methods g = [to_uppercase (trim method)]
    \<and> (\<exists>sc. scope_from_target X target = Some sc \<and> gr_route_scope g = [sc]
        \<and> (\<forall>u. url_parse X target = Some u \<and> CHR ''/'' \<notin> set (host_text u) \<and> starts_with (u_path u) ''/''
              \<and> trim sc = sc \<and> CHR ''*'' \<notin> set sc \<longrightarrow>
            (if u_path u = ''/'' then \<not> grant_covers X (gr_methods g) (gr_route_scope g) m r
             else grant_covers X (gr_methods g) (gr_route_scope g) m r \<longleftrightarrow>
               eq_ignore_ascii_case (to_uppercase (trim method)) m
               \<and> (\<exists>v. url_parse X r = Some v \<and> eq_ignore_ascii_case (host_text v) (host_text u)
                    \<and> trim_trailing_slash (u_path v) = trim_trailing_slash (u_path u)))))"
proof -
  obtain sc where sc: "scope_from_target X target = Some sc"
    and guards: "\<not> starts_with cred ''eu:''" "1 \<le> ttl" "ttl \<le> grant_max_ttl_minutes"
      "\<forall>n. cap = Some n \<longrightarrow> 1 \<le> n"
      "\<forall>p. get_policy team cred (gs_props s) = Some p \<longrightarrow> \<not> pr_require_passkey p"
    using assms(1)
    by (auto simp: create_grant_for_request_def split: if_splits option.splits)
  have g: "g = \<lparr>gr_id = new_id, gr_team_id = team, gr_credential_name = cred,
             gr_methods = [to_uppercase (trim method)], gr_route_scope = [sc],
             gr_expires_at = now + 60 * ttl, gr_granted_by = by_whom,
             gr_max_uses = cap, gr_uses = 0, gr_revoked = False, gr_created_at = now\<rparr>"
    and s': "create_approval_grant g s = Inr s'"
    using assms(1) sc
    by (auto simp: create_grant_for_request_def Let_def split: if_splits option.splits sum.splits)
  have "map_of (gs_grants s') (gr_id g) = Some g"
    using s' g by (auto simp: create_approval_grant_def map_add_def split: if_splits)
  moreover note derived_scope_iff [OF sc, of _ r]
  ultimately show ?thesis
    using guards g sc by (auto simp: grant_covers_def grant_max_ttl_minutes_def)
qed

theorem minted_grant_exact_witness:
  "\<exists>g s'. create_grant_for_request sample_externals ''g2'' ''acme'' ''plain'' ''post''
      ''https://a.b/v1/send'' ''m@acme'' 30 None 0
      (sample_grant_store\<lparr>gs_props := pending_store\<lparr>ps_credentials := [(''acme'', ''plain'') \<mapsto> None]\<rparr>\<rparr>)
      = Inr (g, s') \<and> gr_expires_at g \<le> 86400
    \<and> \<not> grant_covers sample_externals (gr_methods g) (gr_route_scope g) ''DELETE'' ''https://a.b/v1/send''"
proof -
  let ?s = "sample_grant_store\<lparr>gs_props := pending_store\<lparr>ps_credentials := [(''acme'', ''plain'') \<mapsto> None]\<rparr>\<rparr>"
  have h: "scope_from_target sample_externals ''https://a.b/v1/send'' = Some ''a.b/v1/send''"
    "url_parse sample_externals ''https://a.b/v1/send'' = Some (sample_url ''a.b'' ''/v1/send'')"
    by code_simp+
  obtain g s' where c: "create_grant_for_request sample_externals ''g2'' ''acme'' ''plain'' ''post''
      ''https://a.b/v1/send'' ''m@acme'' 30 None 0 ?s = Inr (g, s')"
    by (simp add: create_grant_for_request_def h starts_with_def grant_max_ttl_minutes_def
        get_policy_def sample_defs sample_grant_store_def create_approval_grant_def Let_def)
  have "CHR ''/'' \<notin> set (host_text (sample_url ''a.b'' ''/v1/send''))"
    "starts_with (u_path (sample_url ''a.b'' ''/v1/send'')) ''/''" "trim ''a.b/v1/send'' = ''a.b/v1/send''"
    "\<not> eq_ignore_ascii_case (to_uppercase (trim ''post'')) ''DELETE''"
    by code_simp+
  with minted_grant_exact [OF c, of "''DELETE''" "''https://a.b/v1/send''"] h c
  show ?thesis by (auto split: if_splits)
qed

text \<open>What a manager can author from the dashboard: only a workspace manager, never for an
  end-user's credential or one whose policy demands a passkey, for at most a day, with an
  audit entry; and whatever request the grant covers uses one of the listed methods and
  goes to the host that one of its patterns names, which contains a dot and no wildcard.\<close>

lemma dashboard_grant_host_pinned:
  assumes "handle_create_grant admin cred req new_id now s = (GrantCreated g, s')"
  shows "role_can_manage_workspace (au_member_role admin) \<and> \<not> starts_with cred ''eu:''
    \<and> (\<forall>p. get_policy (au_team_id admin) cred (gs_props s) = Some p \<longrightarrow> \<not> pr_require_passkey p)
    \<and> gr_team_id g = au_team_id admin \<and> gr_expires_at g \<le> now + 24 * 60 * 60
    \<and> map_of (gs_grants s') new_id = Some g
    \<and> (\<exists>e. gs_audit s' = gs_audit s @ [e] \<and> an_approver_identity e = Some (au_email admin))
    \<and> (grant_covers X (gr_methods g) (gr_route_scope g) m url \<longrightarrow>
        (\<exists>u pat h p. url_parse X url = Some u \<and> pat \<in> set (gr_route_scope g)
           \<and> split_once CHR ''/'' pat = Some (h, p) \<and> contains h ''.'' \<and> \<not> contains h ''*''
           \<and> eq_ignore_ascii_case (host_text u) h))"
proof -
  obtain ms rs where v: "validate_grant_request req = Inr (ms, rs)"
    and guards: "role_can_manage_workspace (au_member_role admin)" "\<not> starts_with cred ''eu:''"
      "\<forall>p. get_policy (au_team_id admin) cred (gs_props s) = Some p \<longrightarrow> \<not> pr_require_passkey p"
    using assms by (auto simp: handle_create_grant_def split: if_splits option.splits sum.splits)
  have g: "g = \<lparr>gr_id = new_id, gr_team_id = au_team_id admin, gr_credential_name = cred,
             gr_methods = ms, gr_route_scope = rs,
             gr_expires_at = now + 60 * cg_ttl_minutes req, gr_granted_by = au_email admin,
             gr_max_uses = cg_max_uses req, gr_uses = 0, gr_revoked = False,
             gr_created_at = now\<rparr>"
    using assms v
    by (auto simp: handle_create_grant_def Let_def split: if_splits option.splits sum.splits)
  have row: "map_of (gs_grants s') new_id = Some g"
    and audit: "\<exists>e. gs_audit s' = gs_audit s @ [e] \<and> an_approver_identity e = Some (au_email admin)"
    using assms v
    by (auto simp: handle_create_grant_def create_approval_grant_def Let_def map_add_def
        split: if_splits option.splits)
  note ok = validate_grant_request_ok [OF v]
  have "\<exists>u pat h p. url_parse X url = Some u \<and> pat \<in> set rs
           \<and> split_once CHR ''/'' pat = Some (h, p) \<and> contains h ''.'' \<and> \<not> contains h ''*''
           \<and> eq_ignore_ascii_case (host_text u) h" if "grant_covers X ms rs m url"
  proof -
    from that obtain pat where pat: "pat \<in> set rs" "grant_scope_covers_url X url pat"
      by (auto simp: grant_covers_def list_ex_iff)
    with ok have pin: "host_pinned pat" by blast
    from host_pinned_covers [OF this pat(2)] pat(1) pin show ?thesis
      by (force simp: host_pinned_def)
  qed
  then show ?thesis
    using guards ok row audit g by (simp add: grant_max_ttl_minutes_def)
qed

definition sample_grant_request :: create_grant_request where
  "sample_grant_request = \<lparr>cg_methods = ['' post'', ''POST''], cg_route_scope = ['' a.b/v1/send''],
     cg_ttl_minutes = 30, cg_max_uses = Some 2\<rparr>"

end
