(* ===== verification/Sanitize.thy ===== *)
theory Sanitize
  imports Types "HOL-Library.AList"
begin

text \<open>
  Response sanitisation (\<open>tap-proxy/src/sanitize.rs\<close>): the exact-match scrubbing of upstream
  responses, and the redaction of what approvers and the safety check are shown. Base64
  and the JSON parser belong to crates and come with \<^typ>\<open>externals\<close>; the regular
  expression engine is the argument \<open>rx\<close>, from a pattern and a text to the text with
  every match replaced by \<open>[REDACTED]\<close>.
\<close>

section \<open>Headers\<close>

definition redacted :: string where
  "redacted = ''[REDACTED]''"

definition sensitive_headers :: "string list" where
  "sensitive_headers =
     [''authorization'', ''x-api-key'', ''x-auth-token'', ''cookie'', ''set-cookie'',
      ''proxy-authorization'', ''www-authenticate'', ''x-csrf-token'', ''x-xsrf-token'']"

definition is_sensitive_header_name :: "string \<Rightarrow> bool" where
  "is_sensitive_header_name name =
     (let lower = to_lowercase name in
      if lower \<in> set sensitive_headers then True
      else ends_with lower ''-key'' \<or> ends_with lower ''-token''
        \<or> ends_with lower ''-secret'' \<or> ends_with lower ''-auth''
        \<or> contains lower ''apikey'' \<or> contains lower ''api-key''
        \<or> contains lower ''password'' \<or> contains lower ''credential'')"

definition sanitize_headers :: "headers \<Rightarrow> headers" where
  "sanitize_headers =
     map (\<lambda>(name, value).
       if is_sensitive_header_name name then (name, redacted) else (name, value))"

section \<open>Scrubbing one secret\<close>

definition hex_upper :: "nat \<Rightarrow> char" where
  "hex_upper n = (if n < 10 then char_of (48 + n) else char_of (55 + n))"

definition unreserved :: "char \<Rightarrow> bool" where
  "unreserved b =
     (let n = of_char b :: nat in
      65 \<le> n \<and> n \<le> 90 \<or> 97 \<le> n \<and> n \<le> 122 \<or> 48 \<le> n \<and> n \<le> 57
      \<or> b = CHR ''-'' \<or> b = CHR ''_'' \<or> b = CHR ''.'' \<or> b = CHR ''~'')"

definition percent_byte :: "char \<Rightarrow> string" where
  "percent_byte b =
     (let n = of_char b :: nat in [CHR 0x25, hex_upper (n div 16), hex_upper (n mod 16)])"

definition urlencod :: "string \<Rightarrow> string" where
  "urlencod s = concat (map (\<lambda>b. if unreserved b then [b] else percent_byte b) s)"

definition marker_text :: "string \<Rightarrow> string" where
  "marker_text name = ''REDACTED:'' @ name"

definition marker :: "string \<Rightarrow> string" where
  "marker name = ''['' @ marker_text name @ '']''"

text \<open>One step of the routine: replace if present, and remember that something was.\<close>

definition redact :: "string \<Rightarrow> string \<Rightarrow> string \<times> bool \<Rightarrow> string \<times> bool" where
  "redact pat m = (\<lambda>(result, done).
     if contains result pat then (replace result pat m, True) else (result, done))"

definition scrub_one :: "externals \<Rightarrow> string \<Rightarrow> string \<Rightarrow> string \<Rightarrow> string \<times> bool" where
  "scrub_one X result name value =
     (if value = [] then (result, False)
      else
        let m = marker name;
            r1 = redact value m (result, False);
            b64 = base64_std X value;
            r2 = redact b64 m r1;
            b64url = base64_url_no_pad X value;
            r3 = (if b64url \<noteq> b64 then redact b64url m r2 else r2);
            url = urlencod value
        in (if url \<noteq> value then redact url m r3 else r3))"

section \<open>Response bodies\<close>

definition max_sanitize_size :: nat where
  "max_sanitize_size = 10 * 1024 * 1024"

record sanitize_result =
  sr_body :: bytes
  sr_sanitized :: bool
  sr_skipped :: bool

text \<open>The string leaves of a credential whose value is a JSON object.\<close>

definition json_leaves :: "externals \<Rightarrow> string \<Rightarrow> (string \<times> string) list" where
  "json_leaves X value =
     (case json_parse X value of
        Some (JObject m) \<Rightarrow>
          List.map_filter (\<lambda>(k, v). map_option (\<lambda>leaf. (k, leaf)) (as_str v)) m
      | _ \<Rightarrow> [])"

text \<open>The pairs of marker name and value that are scrubbed, in order.\<close>

definition scrub_list :: "externals \<Rightarrow> (string \<times> string) list \<Rightarrow> (string \<times> string) list" where
  "scrub_list X creds =
     concat (map (\<lambda>(name, value).
       if value = [] then []
       else map (\<lambda>(k, leaf). (name @ ''.'' @ k, leaf)) (json_leaves X value) @ [(name, value)])
       creds)"

fun scrub_all :: "externals \<Rightarrow> (string \<times> string) list \<Rightarrow> string \<times> bool \<Rightarrow> string \<times> bool" where
  "scrub_all X [] r = r"
| "scrub_all X ((name, value) # ps) (result, done) =
     (let (result', d) = scrub_one X result name value in scrub_all X ps (result', done \<or> d))"

definition secret_forms :: "externals \<Rightarrow> string \<Rightarrow> bytes list" where
  "secret_forms X s =
     (if length s < 4 then [] else [s, base64_std X s, base64_url_no_pad X s])"

definition secret_byte_forms :: "externals \<Rightarrow> (string \<times> string) list \<Rightarrow> bytes list" where
  "secret_byte_forms X creds =
     concat (map (\<lambda>(_, value).
       if value = [] then []
       else concat (map (\<lambda>(_, leaf). secret_forms X leaf) (json_leaves X value))
            @ secret_forms X value) creds)"

definition bytes_contain_any :: "bytes \<Rightarrow> bytes list \<Rightarrow> bool" where
  "bytes_contain_any haystack needles \<longleftrightarrow>
     list_ex (\<lambda>n. n \<noteq> [] \<and> length n \<le> length haystack \<and> contains haystack n) needles"

definition withheld :: bytes where
  "withheld = ''[REDACTED: response withheld - a credential value appeared in a non-text response body]''"

definition sanitize_response :: "externals \<Rightarrow> bytes \<Rightarrow> (string \<times> string) list \<Rightarrow> sanitize_result" where
  "sanitize_response X body creds =
     (if length body > max_sanitize_size
      then \<lparr>sr_body = body, sr_sanitized = False, sr_skipped = True\<rparr>
      else case from_utf8 body of
        None \<Rightarrow>
          if bytes_contain_any body (secret_byte_forms X creds)
          then \<lparr>sr_body = withheld, sr_sanitized = True, sr_skipped = False\<rparr>
          else \<lparr>sr_body = body, sr_sanitized = False, sr_skipped = False\<rparr>
      | Some body_str \<Rightarrow>
          let (result, any_redacted) = scrub_all X (scrub_list X creds) (body_str, False)
          in \<lparr>sr_body = result, sr_sanitized = any_redacted, sr_skipped = False\<rparr>)"

section \<open>What approvers and the safety check are shown\<close>

text \<open>The patterns of \<open>CREDENTIAL_PATTERNS\<close>, by name; their texts are the engine's input.\<close>

definition credential_patterns :: "string list" where
  "credential_patterns =
     [''bearer_token'', ''aws_key'', ''hex_secret'', ''oauth_kv'', ''jwt'', ''sk_key'']"

definition scrub_credentials :: "(string \<Rightarrow> string \<Rightarrow> string) \<Rightarrow> string \<Rightarrow> string" where
  "scrub_credentials rx text = fold rx credential_patterns text"

definition is_sensitive_key :: "string \<Rightarrow> bool" where
  "is_sensitive_key key \<longleftrightarrow> key \<in> set
     [''password'', ''secret'', ''token'', ''api_key'', ''apikey'', ''access_token'',
      ''refresh_token'', ''consumer_secret'', ''access_token_secret'', ''private_key'',
      ''client_secret'', ''auth_token'', ''credentials'']"

function sanitize_json_value :: "(string \<Rightarrow> string \<Rightarrow> string) \<Rightarrow> json \<Rightarrow> json" where
  "sanitize_json_value rx (JString s) = JString (scrub_credentials rx s)"
| "sanitize_json_value rx (JArray arr) = JArray (map (sanitize_json_value rx) arr)"
| "sanitize_json_value rx (JObject m) =
     JObject (map (\<lambda>(key, val).
       (key, if is_sensitive_key (to_lowercase key) then JString redacted
             else sanitize_json_value rx val)) m)"
| "sanitize_json_value rx JNull = JNull"
| "sanitize_json_value rx (JBool b) = JBool b"
| "sanitize_json_value rx (JNumber n) = JNumber n"
  by pat_completeness auto
termination
proof (relation "measure (\<lambda>(_, v). size v)", goal_cases)
  case (2 rx arr x)
  then show ?case by (simp add: size_list_estimation' less_Suc_eq_le)
next
  case (3 rx m kv key val)
  then have "size val \<le> size_list (size_prod (\<lambda>_. 0) size) m"
    by (intro size_list_estimation') auto
  then show ?case by simp
qed auto

definition sanitize_header_pair :: "json \<Rightarrow> json" where
  "sanitize_header_pair pair =
     (case pair of
        JArray [name_json, _] \<Rightarrow>
          let name = (case as_str name_json of None \<Rightarrow> [] | Some n \<Rightarrow> n) in
          if is_sensitive_header_name name then JArray [JString name, JString redacted] else pair
      | _ \<Rightarrow> pair)"

definition sanitize_raw_payload :: "(string \<Rightarrow> string \<Rightarrow> string) \<Rightarrow> json \<Rightarrow> json" where
  "sanitize_raw_payload rx payload =
     (case payload of
        JObject obj \<Rightarrow>
          let obj1 = (case map_of obj ''headers'' of
                        Some (JArray arr) \<Rightarrow>
                          AList.update ''headers'' (JArray (map sanitize_header_pair arr)) obj
                      | _ \<Rightarrow> obj);
              obj2 = (case map_of obj1 ''body'' of
                        Some body \<Rightarrow> AList.update ''body'' (sanitize_json_value rx body) obj1
                      | None \<Rightarrow> obj1);
              obj3 = (case Option.bind (map_of obj2 ''url'') as_str of
                        Some url \<Rightarrow>
                          AList.update ''url'' (JString (scrub_credentials rx url)) obj2
                      | None \<Rightarrow> obj2)
          in JObject obj3
      | _ \<Rightarrow> payload)"

definition sanitize_summary :: "(string \<Rightarrow> string \<Rightarrow> string) \<Rightarrow> string \<Rightarrow> string" where
  "sanitize_summary rx summary = scrub_credentials rx summary"

section \<open>What a scrub removes\<close>

text \<open>
  A text that no marker can produce: not empty, without brackets, and not inside the marker
  of any of the given names.
\<close>

definition scrubbable :: "string set \<Rightarrow> string \<Rightarrow> bool" where
  "scrubbable names f \<longleftrightarrow> f \<noteq> [] \<and> CHR ''['' \<notin> set f \<and> CHR '']'' \<notin> set f
     \<and> (\<forall>n \<in> names. \<not> contains (marker_text n) f)"

lemma redact_removes:
  assumes "scrubbable names f" and "name \<in> names"
  shows "\<not> contains (fst (redact f (marker name) r)) f"
  using assms replace_marker_removes [of f "marker_text name" "fst r"]
  by (auto simp: redact_def scrubbable_def marker_def split: prod.splits)

lemma redact_keeps_absent:
  assumes "scrubbable names f" and "name \<in> names" and "\<not> contains (fst r) f"
  shows "\<not> contains (fst (redact pat (marker name) r)) f"
  using assms contains_replace_marker [of f "fst r" pat "marker_text name"]
  by (auto simp: redact_def scrubbable_def marker_def split: prod.splits)

text \<open>The forms of a secret that are looked for in a text.\<close>

definition scrub_forms :: "externals \<Rightarrow> string \<Rightarrow> string set" where
  "scrub_forms X v = {v, base64_std X v, base64_url_no_pad X v, urlencod v}"

lemma scrub_one_removes:
  assumes "v \<noteq> []" and "f \<in> scrub_forms X v" and "scrubbable names f" and "name \<in> names"
  shows "\<not> contains (fst (scrub_one X result name v)) f"
proof -
  have rem: "\<not> contains (fst (redact g (marker name) r)) g" if "scrubbable names g" for g r
    by (rule redact_removes [OF that assms(4)])
  have keep: "\<not> contains (fst (redact pat (marker name) r)) g"
    if "scrubbable names g" "\<not> contains (fst r) g" for g pat r
    by (rule redact_keeps_absent [OF that(1) assms(4) that(2)])
  show ?thesis
    using assms(1-3) unfolding scrub_forms_def scrub_one_def Let_def
    by (elim insertE emptyE) (auto simp: rem keep)
qed

lemma scrub_one_keeps_absent:
  assumes "scrubbable names f" and "name \<in> names" and "\<not> contains result f"
  shows "\<not> contains (fst (scrub_one X result name v)) f"
  using redact_keeps_absent [OF assms(1,2)] assms(3)
  by (auto simp: scrub_one_def Let_def)

lemma scrub_all_keeps_absent:
  assumes "scrubbable names f" and "fst ` set ps \<subseteq> names" and "\<not> contains (fst r) f"
  shows "\<not> contains (fst (scrub_all X ps r)) f"
  using assms(2,3)
proof (induction X ps r rule: scrub_all.induct)
  case (2 X name v ps result dn)
  obtain result' d where s: "scrub_one X result name v = (result', d)" by fastforce
  have "\<not> contains result' f"
    using scrub_one_keeps_absent [OF assms(1), of name result X v] 2(2,3) s by simp
  then show ?case using 2(1) [OF s [symmetric] refl] 2(2) s by simp
qed simp

lemma scrub_all_removes:
  assumes "(name, v) \<in> set ps" and "v \<noteq> []" and "f \<in> scrub_forms X v"
    and "scrubbable names f" and "fst ` set ps \<subseteq> names"
  shows "\<not> contains (fst (scrub_all X ps r)) f"
  using assms(1,3,5)
proof (induction X ps r rule: scrub_all.induct)
  case (2 X name' v' ps result dn)
  obtain result' d where s: "scrub_one X result name' v' = (result', d)" by fastforce
  show ?case
  proof (cases "(name, v) \<in> set ps")
    case True
    then show ?thesis using 2(1) [OF s [symmetric] refl True 2(3)] 2(4) s by simp
  next
    case False
    then have "(name', v') = (name, v)" using 2(2) by auto
    then have "\<not> contains result' f"
      using scrub_one_removes [OF assms(2) 2(3) assms(4), of name result] 2(4) s by simp
    then show ?thesis
      using scrub_all_keeps_absent [OF assms(4), of ps "(result', dn \<or> d)" X] 2(4) s by simp
  qed
qed simp

text \<open>The flag tells the truth: without it the text is as it was.\<close>

lemma redact_unflagged: "\<not> snd (redact f m r) \<Longrightarrow> fst (redact f m r) = fst r \<and> \<not> snd r"
  by (auto simp: redact_def split: prod.splits if_splits)

lemma scrub_one_unflagged:
  "\<not> snd (scrub_one X result name v) \<Longrightarrow> fst (scrub_one X result name v) = result"
  by (auto simp: scrub_one_def Let_def split: if_splits dest!: redact_unflagged)

lemma scrub_all_unflagged: "\<not> snd (scrub_all X ps r) \<Longrightarrow> fst (scrub_all X ps r) = fst r \<and> \<not> snd r"
proof (induction X ps r rule: scrub_all.induct)
  case (2 X name v ps result dn)
  obtain result' d where s: "scrub_one X result name v = (result', d)" by fastforce
  from 2(1) [OF s [symmetric] refl] 2(2) s have "fst (scrub_all X ps (result', dn \<or> d)) = result'"
    "\<not> dn" "\<not> d" by auto
  with scrub_one_unflagged [of X result name v] s show ?case by simp
qed simp

text \<open>And a text without any of the forms is left alone.\<close>

lemma redact_absent: "\<not> contains (fst r) f \<Longrightarrow> redact f m r = r"
  by (auto simp: redact_def split: prod.splits)

lemma scrub_all_absent:
  assumes "\<forall>(name, v) \<in> set ps. v = [] \<or> (\<forall>f \<in> scrub_forms X v. \<not> contains result f)"
  shows "scrub_all X ps (result, dn) = (result, dn)"
  using assms
proof (induction ps arbitrary: dn)
  case (Cons p ps)
  obtain name v where p: "p = (name, v)" by fastforce
  have "scrub_one X result name v = (result, False)"
    using Cons.prems p by (auto simp: scrub_one_def scrub_forms_def Let_def redact_absent)
  then show ?case using Cons p by simp
qed simp

section \<open>Encodings\<close>

lemma urlencod_not_Nil: "v \<noteq> [] \<Longrightarrow> urlencod v \<noteq> []"
  by (cases v) (auto simp: urlencod_def percent_byte_def Let_def)

lemma hex_upper_bracket: "n < 16 \<Longrightarrow> hex_upper n \<noteq> CHR ''['' \<and> hex_upper n \<noteq> CHR '']''"
proof -
  assume "n < 16"
  then have "n \<in> set [0..<16]" by simp
  moreover have "\<forall>n \<in> set [0..<16]. hex_upper n \<noteq> CHR ''['' \<and> hex_upper n \<noteq> CHR '']''" by code_simp
  ultimately show ?thesis by blast
qed

lemma percent_byte_bracket: "CHR ''['' \<notin> set (percent_byte b)" "CHR '']'' \<notin> set (percent_byte b)"
proof -
  have "(of_char b :: nat) < 16 * 16" by simp
  then have "(of_char b :: nat) div 16 < 16" by (rule less_mult_imp_div_less)
  with hex_upper_bracket [of "of_char b div 16"] hex_upper_bracket [of "of_char b mod 16"]
  show "CHR ''['' \<notin> set (percent_byte b)" "CHR '']'' \<notin> set (percent_byte b)"
    by (auto simp: percent_byte_def Let_def)
qed

lemma urlencod_no_bracket: "CHR ''['' \<notin> set (urlencod v)" "CHR '']'' \<notin> set (urlencod v)"
proof -
  have u: "\<not> unreserved CHR ''[''" "\<not> unreserved CHR '']''" by code_simp+
  show "CHR ''['' \<notin> set (urlencod v)" "CHR '']'' \<notin> set (urlencod v)"
    using u percent_byte_bracket by (auto simp: urlencod_def split: if_splits)
qed


section \<open>Secrets\<close>

text \<open>The secrets of a list of credentials: the non-empty values and their string leaves.\<close>

definition is_secret :: "externals \<Rightarrow> (string \<times> string) list \<Rightarrow> string \<Rightarrow> bool" where
  "is_secret X creds v \<longleftrightarrow> v \<noteq> [] \<and> list_ex (\<lambda>(_, value).
     value \<noteq> [] \<and> (v = value \<or> list_ex (\<lambda>(_, leaf). leaf = v) (json_leaves X value))) creds"

text \<open>The names that can occur in a marker.\<close>

definition marker_names :: "externals \<Rightarrow> (string \<times> string) list \<Rightarrow> string set" where
  "marker_names X creds = fst ` set (scrub_list X creds)"

lemma is_secretE:
  assumes "is_secret X creds v"
  obtains (whole) name where "(name, v) \<in> set creds" "v \<noteq> []"
  | (leaf) name val k where "(name, val) \<in> set creds" "val \<noteq> []" "(k, v) \<in> set (json_leaves X val)"
      "v \<noteq> []"
  using assms by (auto simp: is_secret_def list_ex_iff)

lemma in_scrub_list:
  "(n, v) \<in> set (scrub_list X creds) \<longleftrightarrow>
     (\<exists>name val. (name, val) \<in> set creds \<and> val \<noteq> []
        \<and> ((n, v) = (name, val) \<or> (\<exists>k. n = name @ ''.'' @ k \<and> (k, v) \<in> set (json_leaves X val))))"
proof (induction creds)
  case (Cons c creds)
  obtain name val where c: "c = (name, val)" by fastforce
  have "scrub_list X (c # creds) =
      (if val = [] then []
       else map (\<lambda>(k, leaf). (name @ ''.'' @ k, leaf)) (json_leaves X val) @ [(name, val)])
      @ scrub_list X creds"
    by (simp add: scrub_list_def c)
  then show ?case using Cons by (auto simp: c)
qed (simp add: scrub_list_def)

lemma in_secret_byte_forms:
  "f \<in> set (secret_byte_forms X creds) \<longleftrightarrow>
     (\<exists>name val. (name, val) \<in> set creds \<and> val \<noteq> []
        \<and> (f \<in> set (secret_forms X val)
           \<or> (\<exists>k leaf. (k, leaf) \<in> set (json_leaves X val) \<and> f \<in> set (secret_forms X leaf))))"
  unfolding secret_byte_forms_def by (fastforce split: if_splits)

lemma is_secret_scrub_list:
  assumes "is_secret X creds v"
  obtains n where "(n, v) \<in> set (scrub_list X creds)"
  using assms
proof (cases rule: is_secretE)
  case (whole name)
  then show ?thesis by (intro that [of name]) (auto simp: in_scrub_list)
next
  case (leaf name val k)
  then show ?thesis by (intro that [of "name @ ''.'' @ k"]) (auto simp: in_scrub_list)
qed

lemma scrub_list_is_secret:
  assumes "(n, v) \<in> set (scrub_list X creds)" and "v \<noteq> []"
  shows "is_secret X creds v"
  using assms unfolding in_scrub_list is_secret_def list_ex_iff by fastforce

lemma is_secret_byte_forms:
  assumes "is_secret X creds v" and "f \<in> set (secret_forms X v)"
  shows "f \<in> set (secret_byte_forms X creds)"
  using assms(1)
proof (cases rule: is_secretE)
  case (whole name)
  with assms(2) show ?thesis unfolding in_secret_byte_forms by blast
next
  case (leaf name val k)
  with assms(2) show ?thesis unfolding in_secret_byte_forms by blast
qed

lemma scrub_list_removes:
  assumes "is_secret X creds v" and "f \<in> scrub_forms X v" and "scrubbable (marker_names X creds) f"
  shows "\<not> contains (fst (scrub_all X (scrub_list X creds) (body, False))) f"
proof -
  obtain n where n: "(n, v) \<in> set (scrub_list X creds)"
    using is_secret_scrub_list [OF assms(1)] .
  show ?thesis
    using assms(1) by (intro scrub_all_removes [OF n _ assms(2,3)]) (auto simp: is_secret_def marker_names_def)
qed

lemma sanitize_text:
  assumes "length body \<le> max_sanitize_size" and "utf8_valid body"
  shows "sr_body (sanitize_response X body creds) = fst (scrub_all X (scrub_list X creds) (body, False))"
  using assms by (simp add: sanitize_response_def from_utf8_def case_prod_unfold Let_def)

section \<open>Properties\<close>

text \<open>No secret survives in a text response. For a UTF-8 body within the size limit, every
  secret of the credentials that were used (a whole value, or a string leaf of a JSON
  credential) is gone from the result in all four forms (verbatim, base64, base64url and
  percent-encoded), for every form that is free of brackets and does not occur in the name
  of a marker.\<close>

lemma sanitized_text_clean:
  assumes "length body \<le> max_sanitize_size" and "utf8_valid body"
    and "is_secret X creds v" and "f \<in> scrub_forms X v" and "scrubbable (marker_names X creds) f"
  shows "\<not> contains (sr_body (sanitize_response X body creds)) f"
  using scrub_list_removes [OF assms(3-5)] assms(1,2) by (simp add: sanitize_text)

definition sample_creds :: "(string \<times> string) list" where
  "sample_creds = [(''gh'', ''s3cr3t'')]"

lemma sample_secret: "is_secret sample_externals sample_creds ''s3cr3t''"
  by (simp add: is_secret_def sample_creds_def)

lemma sample_scrubbable: "scrubbable (marker_names sample_externals sample_creds) ''s3cr3t''"
proof -
  have "marker_names sample_externals sample_creds = {''gh''}"
    by (simp add: marker_names_def scrub_list_def sample_creds_def json_leaves_def sample_externals_def)
  then show ?thesis by (simp add: scrubbable_def marker_text_def)
qed

text \<open>The scrubbing does nothing else: a text response is changed only if it is flagged,
  and one that contains no form of any secret is returned as it came.\<close>

lemma sanitize_text_minimal:
  assumes "length body \<le> max_sanitize_size" and "utf8_valid body"
  shows "(\<not> sr_sanitized (sanitize_response X body creds)
      \<longrightarrow> sr_body (sanitize_response X body creds) = body)
    \<and> ((\<forall>v. is_secret X creds v \<longrightarrow> (\<forall>f \<in> scrub_forms X v. \<not> contains body f))
      \<longrightarrow> sanitize_response X body creds
          = \<lparr>sr_body = body, sr_sanitized = False, sr_skipped = False\<rparr>)"
proof -
  have sr: "sanitize_response X body creds =
      (let r = scrub_all X (scrub_list X creds) (body, False)
       in \<lparr>sr_body = fst r, sr_sanitized = snd r, sr_skipped = False\<rparr>)"
    using assms by (simp add: sanitize_response_def from_utf8_def case_prod_unfold Let_def)
  have "scrub_all X (scrub_list X creds) (body, False) = (body, False)"
    if "\<forall>v. is_secret X creds v \<longrightarrow> (\<forall>f \<in> scrub_forms X v. \<not> contains body f)"
    using that scrub_list_is_secret [of _ _ X creds] by (intro scrub_all_absent) blast
  then show ?thesis
    using scrub_all_unflagged [of X "scrub_list X creds" "(body, False)"]
    by (simp add: sr Let_def)
qed

text \<open>Binary responses fail closed: a body that is not UTF-8 is returned only if it contains
  neither a secret of at least four bytes nor its base64 or base64url form; otherwise a fixed
  notice is returned in its place.\<close>

lemma sanitize_binary_fails_closed:
  assumes "length body \<le> max_sanitize_size" and "\<not> utf8_valid body"
    and "is_secret X creds v" and "4 \<le> length v"
    and "f \<in> {v, base64_std X v, base64_url_no_pad X v}" and "f \<noteq> []"
    and "\<not> contains withheld f"
  shows "\<not> contains (sr_body (sanitize_response X body creds)) f"
proof -
  have "f \<in> set (secret_byte_forms X creds)"
    using is_secret_byte_forms [OF assms(3)] assms(4,5) by (auto simp: secret_forms_def)
  then have "bytes_contain_any body (secret_byte_forms X creds)" if "contains body f"
    using that assms(6) sublist_length_le [of f body]
    unfolding bytes_contain_any_def list_ex_iff contains_iff_sublist by blast
  then show ?thesis
    using assms(1,2,7) by (auto simp: sanitize_response_def from_utf8_def)
qed

text \<open>The size limit is a hole: a response body of more than ten mebibytes is returned as
  it came, with whatever secret it contains.\<close>

lemma oversized_body_unsanitized:
  assumes "max_sanitize_size < length body"
  shows "sr_body (sanitize_response X body creds) = body
    \<and> \<not> sr_sanitized (sanitize_response X body creds)"
  using assms by (simp add: sanitize_response_def)

text \<open>The keys whose values must not be shown, checked at every depth.\<close>

inductive keys_redacted :: "json \<Rightarrow> bool" where
  "keys_redacted JNull"
| "keys_redacted (JBool b)"
| "keys_redacted (JNumber n)"
| "keys_redacted (JString s)"
| "\<forall>v \<in> set arr. keys_redacted v \<Longrightarrow> keys_redacted (JArray arr)"
| "\<forall>(k, v) \<in> set m. keys_redacted v \<and> (is_sensitive_key (to_lowercase k) \<longrightarrow> v = JString redacted)
    \<Longrightarrow> keys_redacted (JObject m)"

lemma sanitize_json_value_redacted: "keys_redacted (sanitize_json_value rx v)"
proof (induction rx v rule: sanitize_json_value.induct)
  case (2 rx arr)
  then show ?case by (simp add: keys_redacted.intros(5))
next
  case (3 rx m)
  have "keys_redacted v \<and> (is_sensitive_key (to_lowercase k) \<longrightarrow> v = JString redacted)"
    if "(k, v) \<in> set (map (\<lambda>(key, val).
       (key, if is_sensitive_key (to_lowercase key) then JString redacted
             else sanitize_json_value rx val)) m)" for k v
    using that 3 by (auto intro: keys_redacted.intros)
  then show ?case by (auto intro!: keys_redacted.intros(6))
qed (auto intro: keys_redacted.intros)

text \<open>What is shown to an approver: in the sanitised body every value under a sensitive key
  is replaced at every depth of the JSON, and in the sanitised header list every sensitive
  header is replaced while the names and their order are kept.\<close>

lemma shown_payload_redacted:
  "keys_redacted (sanitize_json_value rx v)
    \<and> map fst (sanitize_headers hs) = map fst hs
    \<and> (is_sensitive_header_name n \<and> (n, x) \<in> set (sanitize_headers hs) \<longrightarrow> x = redacted)"
  using sanitize_json_value_redacted [of rx v]
  by (auto simp: sanitize_headers_def split: if_splits prod.splits)

end
