(* ===== verification/Placeholder.thy ===== *)
theory Placeholder
  imports Types
begin

text \<open>
  Credential placeholders (\<open>tap-proxy/src/placeholder.rs\<close>): finding \<open><CREDENTIAL:name>\<close> and
  \<open><CREDENTIAL:name.field>\<close> in headers and body, refusing them outside authentication
  positions, and substituting the secret. The regular expression
  \<open><CREDENTIAL:([a-zA-Z0-9_-]+)(?:\.([a-zA-Z0-9_-]+))?>\<close> is written out as a scanner: the
  class excludes the characters that may follow it, so the greedy match is the only one.
\<close>

section \<open>The pattern\<close>

definition word_char :: "char \<Rightarrow> bool" where
  "word_char c =
     (let n = of_char c :: nat in
      65 \<le> n \<and> n \<le> 90 \<or> 97 \<le> n \<and> n \<le> 122 \<or> 48 \<le> n \<and> n \<le> 57 \<or> c = CHR ''_'' \<or> c = CHR ''-'')"

definition placeholder_text :: "string \<Rightarrow> string option \<Rightarrow> string" where
  "placeholder_text name field =
     ''<CREDENTIAL:'' @ name @ (case field of None \<Rightarrow> [] | Some f \<Rightarrow> ''.'' @ f) @ ''>''"

text \<open>A match at the start of the text: the two groups and what follows the match.\<close>

definition match_placeholder :: "string \<Rightarrow> (string \<times> string option \<times> string) option" where
  "match_placeholder s =
     (case strip_prefix s ''<CREDENTIAL:'' of
        None \<Rightarrow> None
      | Some r \<Rightarrow>
          let name = takeWhile word_char r; r1 = dropWhile word_char r in
          if name = [] then None
          else case r1 of
            [] \<Rightarrow> None
          | c # r2 \<Rightarrow>
              if c = CHR ''>'' then Some (name, None, r2)
              else if c = CHR ''.'' then
                let field = takeWhile word_char r2; r3 = dropWhile word_char r2 in
                if field = [] then None
                else (case r3 of
                    [] \<Rightarrow> None
                  | d # rest \<Rightarrow> if d = CHR ''>'' then Some (name, Some field, rest) else None)
              else None)"

datatype token = Lit char | Ref string "string option"

lemma match_placeholder_Some:
  assumes "match_placeholder s = Some (name, field, rest)"
  shows "s = placeholder_text name field @ rest"
proof -
  obtain r where s: "s = ''<CREDENTIAL:'' @ r"
    using assms by (auto simp: match_placeholder_def strip_prefix_Some split: option.splits)
  obtain c r2 where r1: "dropWhile word_char r = c # r2" and name: "name = takeWhile word_char r"
    using assms unfolding s
    by (auto simp: match_placeholder_def strip_prefix_def Let_def split: if_splits list.splits)
  have r: "r = name @ c # r2" using takeWhile_dropWhile_id [of word_char r] r1 name by simp
  show ?thesis
  proof (cases "c = CHR ''>''")
    case True
    then show ?thesis
      using assms r1 r unfolding s
      by (auto simp: match_placeholder_def strip_prefix_def Let_def placeholder_text_def
          split: if_splits)
  next
    case False
    then obtain d where c: "c = CHR ''.''" "field = Some (takeWhile word_char r2)"
        "dropWhile word_char r2 = CHR ''>'' # rest" and d: "d = CHR ''>''"
      using assms r1 unfolding s
      by (auto simp: match_placeholder_def strip_prefix_def Let_def split: if_splits list.splits)
    then have "r2 = takeWhile word_char r2 @ CHR ''>'' # rest"
      by (metis takeWhile_dropWhile_id)
    then show ?thesis using r c s by (simp add: placeholder_text_def)
  qed
qed

lemma match_placeholder_shorter:
  "match_placeholder s = Some (name, field, rest) \<Longrightarrow> length rest < length s"
  by (auto dest!: match_placeholder_Some simp: placeholder_text_def)

text \<open>The matches from left to right, without overlap, and the characters between them.\<close>

function tokens :: "string \<Rightarrow> token list" where
  "tokens [] = []"
| "tokens (c # s) =
     (case match_placeholder (c # s) of
        Some (name, field, rest) \<Rightarrow> Ref name field # tokens rest
      | None \<Rightarrow> Lit c # tokens s)"
  by pat_completeness auto
termination
  by (relation "measure length") (auto dest: match_placeholder_shorter)

declare tokens.simps(2) [simp del]

definition captures :: "string \<Rightarrow> (string \<times> string option) list" where
  "captures s = List.map_filter (\<lambda>t. case t of Lit _ \<Rightarrow> None | Ref n f \<Rightarrow> Some (n, f)) (tokens s)"

section \<open>Positions\<close>

definition allowed_auth_headers :: "string list" where
  "allowed_auth_headers = [''authorization'', ''x-api-key'', ''x-auth-token'']"

definition allowed_header_for_credential ::
  "(string \<rightharpoonup> credential_config) \<Rightarrow> string \<Rightarrow> string \<Rightarrow> bool" where
  "allowed_header_for_credential configs cred header =
     (case configs cred of
        Some config \<Rightarrow>
          if cc_auth_bindings config \<noteq> []
          then list_ex (\<lambda>b. eq_ignore_ascii_case (ab_header b) header) (cc_auth_bindings config)
          else to_lowercase header \<in> set allowed_auth_headers
      | None \<Rightarrow> to_lowercase header \<in> set allowed_auth_headers)"

definition allowed_auth_body_keys :: "string list" where
  "allowed_auth_body_keys =
     [''token'', ''access_token'', ''refresh_token'', ''api_key'', ''apikey'', ''auth_token'',
      ''bearer_token'', ''client_secret'', ''password'', ''secret'', ''credentials'',
      ''oauth_token'']"

definition is_object :: "json \<Rightarrow> bool" where
  "is_object v = (case v of JObject _ \<Rightarrow> True | _ \<Rightarrow> False)"

function json_placeholder_in_auth_field :: "json \<Rightarrow> string \<Rightarrow> bool" where
  "json_placeholder_in_auth_field (JObject m) p =
     list_all (\<lambda>(key, val).
       (case val of
          JString s \<Rightarrow> contains s p \<longrightarrow> to_lowercase key \<in> set allowed_auth_body_keys
        | _ \<Rightarrow> True)
       \<and> (is_object val \<longrightarrow> json_placeholder_in_auth_field val p)) m"
| "json_placeholder_in_auth_field (JString s) p = (\<not> contains s p)"
| "json_placeholder_in_auth_field (JArray arr) p =
     list_all (\<lambda>v. json_placeholder_in_auth_field v p) arr"
| "json_placeholder_in_auth_field JNull p = True"
| "json_placeholder_in_auth_field (JBool b) p = True"
| "json_placeholder_in_auth_field (JNumber n) p = True"
  by pat_completeness auto
termination
proof (relation "measure (\<lambda>(v, _). size v)", goal_cases)
  case (2 m p kv key val)
  then have "size val \<le> size_list (size_prod (\<lambda>_. 0) size) m"
    by (intro size_list_estimation') auto
  then show ?case by simp
next
  case (3 arr p x)
  then show ?case by (simp add: size_list_estimation' less_Suc_eq_le)
qed auto

definition form_placeholder_in_auth_field :: "string \<Rightarrow> string \<Rightarrow> bool" where
  "form_placeholder_in_auth_field body p =
     list_all (\<lambda>pair.
       case split_once CHR ''='' pair of
         None \<Rightarrow> True
       | Some (key, val) \<Rightarrow>
           contains val p \<longrightarrow> to_lowercase key \<in> set allowed_auth_body_keys)
       (split_on CHR ''&'' body)"

definition validate_body_placeholder_position ::
  "externals \<Rightarrow> string \<Rightarrow> string \<Rightarrow> string option \<Rightarrow> string \<Rightarrow> (agent_sec_error, unit) result" where
  "validate_body_placeholder_position X body cred field content_type =
     (let p = placeholder_text cred field;
          violation = (\<lambda>loc. Inl (PlaceholderPositionViolation cred loc));
          ct = to_ascii_lowercase content_type
      in if \<not> contains body p then Inr ()
         else if contains ct ''json'' then
           (case json_parse X body of
              Some v \<Rightarrow>
                if json_placeholder_in_auth_field v p then Inr ()
                else violation ''body content field (not a recognized auth field)''
            | None \<Rightarrow> violation ''body declared a JSON content-type but did not parse as JSON'')
         else if contains ct ''x-www-form-urlencoded'' then
           (if form_placeholder_in_auth_field body p then Inr ()
            else violation ''body form field (not a recognized auth field)'')
         else violation ''body of a content-type whose auth-field position cannot be verified'')"

section \<open>Parsing a request\<close>

text \<open>
  The debug format of a list of content types; the characters that it would escape do not
  occur in a content type.
\<close>

definition debug_list :: "string list \<Rightarrow> string" where
  "debug_list ts = ''['' @ join '', '' (map dquoted ts) @ '']''"

fun check_header_refs ::
  "(string \<rightharpoonup> credential_config) \<Rightarrow> string \<Rightarrow> (string \<times> string option) list
    \<Rightarrow> placeholder list \<Rightarrow> (agent_sec_error, placeholder list) result" where
  "check_header_refs configs header [] acc = Inr acc"
| "check_header_refs configs header ((cred, field) # refs) acc =
     (if cred = [] then check_header_refs configs header refs acc
      else if field = None \<and> \<not> allowed_header_for_credential configs cred header
      then Inl (PlaceholderPositionViolation cred
             (''header '' @ quoted header @ '' is not an allowed auth header for this credential''))
      else check_header_refs configs header refs
             (acc @ [\<lparr>ph_credential_name = cred, ph_field = field, ph_position = Header header\<rparr>]))"

fun parse_header_placeholders ::
  "(string \<rightharpoonup> credential_config) \<Rightarrow> headers \<Rightarrow> placeholder list
    \<Rightarrow> (agent_sec_error, placeholder list) result" where
  "parse_header_placeholders configs [] acc = Inr acc"
| "parse_header_placeholders configs ((name, val) # hs) acc =
     (case check_header_refs configs name (captures val) acc of
        Inl e \<Rightarrow> Inl e
      | Inr acc' \<Rightarrow> parse_header_placeholders configs hs acc')"

fun check_body_refs ::
  "externals \<Rightarrow> (string \<rightharpoonup> credential_config) \<Rightarrow> string \<Rightarrow> string \<Rightarrow> (string \<times> string option) list
    \<Rightarrow> placeholder list \<Rightarrow> (agent_sec_error, placeholder list) result" where
  "check_body_refs X configs body ct [] acc = Inr acc"
| "check_body_refs X configs body ct ((cred, field) # refs) acc =
     (if cred = [] then check_body_refs X configs body ct refs acc
      else
        let body_enabled = (case configs cred of None \<Rightarrow> False | Some c \<Rightarrow> sub_body (cc_substitution c));
            allowed_types =
              (case configs cred of None \<Rightarrow> [] | Some c \<Rightarrow> sub_body_content_types (cc_substitution c))
        in if \<not> body_enabled
           then Inl (PlaceholderPositionViolation cred
                  ''body (body substitution not enabled for this credential)'')
           else if \<not> list_ex (\<lambda>t. starts_with ct t) allowed_types
           then Inl (PlaceholderPositionViolation cred
                  (''body with content-type '' @ quoted ct @ '' (not in allowed types: ''
                     @ debug_list allowed_types @ '')''))
           else case validate_body_placeholder_position X body cred field ct of
             Inl e \<Rightarrow> Inl e
           | Inr _ \<Rightarrow> check_body_refs X configs body ct refs
               (acc @ [\<lparr>ph_credential_name = cred, ph_field = field, ph_position = Body\<rparr>]))"

definition parse_placeholders ::
  "externals \<Rightarrow> headers \<Rightarrow> bytes option \<Rightarrow> string option \<Rightarrow> (string \<rightharpoonup> credential_config)
    \<Rightarrow> (agent_sec_error, placeholder list) result" where
  "parse_placeholders X hs body content_type configs =
     (case parse_header_placeholders configs hs [] of
        Inl e \<Rightarrow> Inl e
      | Inr placeholders \<Rightarrow>
          (case body of
             None \<Rightarrow> Inr placeholders
           | Some body_bytes \<Rightarrow>
               (case from_utf8 body_bytes of
                  None \<Rightarrow> Inr placeholders
                | Some body_str \<Rightarrow>
                    check_body_refs X configs body_str
                      (case content_type of None \<Rightarrow> [] | Some ct \<Rightarrow> ct) (captures body_str)
                      placeholders)))"

section \<open>Substitution\<close>

definition resolve_ref ::
  "externals \<Rightarrow> (string \<rightharpoonup> string) \<Rightarrow> string \<Rightarrow> string option \<Rightarrow> string" where
  "resolve_ref X vals cred field =
     (let original = placeholder_text cred field in
      case vals cred of
        None \<Rightarrow> original
      | Some cred_value \<Rightarrow>
          (case field of
             Some f \<Rightarrow>
               (case json_parse X cred_value of
                  Some (JObject m) \<Rightarrow>
                    (case Option.bind (map_of m f) as_str of Some s \<Rightarrow> s | None \<Rightarrow> original)
                | _ \<Rightarrow> original)
           | None \<Rightarrow>
               (case json_parse X cred_value of
                  Some (JObject _) \<Rightarrow> original
                | _ \<Rightarrow> cred_value)))"

definition render :: "(string \<Rightarrow> string option \<Rightarrow> string) \<Rightarrow> token list \<Rightarrow> string" where
  "render f ts = concat (map (\<lambda>t. case t of Lit c \<Rightarrow> [c] | Ref n fld \<Rightarrow> f n fld) ts)"

definition substitute_in_str :: "externals \<Rightarrow> string \<Rightarrow> (string \<rightharpoonup> string) \<Rightarrow> string" where
  "substitute_in_str X text vals = render (resolve_ref X vals) (tokens text)"

definition substitute_headers :: "externals \<Rightarrow> headers \<Rightarrow> (string \<rightharpoonup> string) \<Rightarrow> headers" where
  "substitute_headers X hs vals = map (\<lambda>(n, v). (n, substitute_in_str X v vals)) hs"

definition substitute_body :: "externals \<Rightarrow> bytes \<Rightarrow> (string \<rightharpoonup> string) \<Rightarrow> bytes" where
  "substitute_body X body vals =
     (case from_utf8 body of None \<Rightarrow> body | Some s \<Rightarrow> substitute_in_str X s vals)"

section \<open>The scanner\<close>

lemma match_placeholder_name: "match_placeholder s = Some (n, f, rest) \<Longrightarrow> n \<noteq> []"
  by (auto simp: match_placeholder_def Let_def split: option.splits if_splits list.splits)

lemma tokens_match:
  "match_placeholder s = Some (n, f, rest) \<Longrightarrow> tokens s = Ref n f # tokens rest"
  by (cases s) (auto simp: tokens.simps(2) match_placeholder_def strip_prefix_def)

lemma tokens_lit: "match_placeholder (c # s) = None \<Longrightarrow> tokens (c # s) = Lit c # tokens s"
  by (simp add: tokens.simps(2))

text \<open>Induction along the scan.\<close>

lemma tokens_induct [case_names Nil Ref Lit]:
  assumes "P []"
    and "\<And>s n f rest. match_placeholder s = Some (n, f, rest) \<Longrightarrow> P rest \<Longrightarrow> P s"
    and "\<And>c s. match_placeholder (c # s) = None \<Longrightarrow> P s \<Longrightarrow> P (c # s)"
  shows "P s"
proof (induction s rule: length_induct)
  case (1 s)
  show ?case
  proof (cases "match_placeholder s")
    case None
    then show ?thesis using 1 assms(1,3) by (cases s) auto
  next
    case (Some m)
    then obtain n f rest where "match_placeholder s = Some (n, f, rest)" by (cases m) auto
    then show ?thesis using 1 assms(2) match_placeholder_shorter by blast
  qed
qed

lemma render_tokens: "render placeholder_text (tokens s) = s"
proof (induction s rule: tokens_induct)
  case (Ref s n f rest)
  then show ?case using match_placeholder_Some [OF Ref(1)] by (simp add: tokens_match render_def)
qed (simp_all add: tokens_lit render_def)

lemma takeWhile_boundary:
  assumes "\<forall>x \<in> set xs. P x" and "\<not> P c"
  shows "takeWhile P (xs @ c # ys) = xs" and "dropWhile P (xs @ c # ys) = c # ys"
  using assms by (auto simp: takeWhile_append dropWhile_append)

lemma not_word_char: "\<not> word_char CHR ''.''" "\<not> word_char CHR ''>''"
  by code_simp+

lemma match_placeholder_text:
  assumes "n \<noteq> []" and "\<forall>x \<in> set n. word_char x"
    and "case fld of None \<Rightarrow> True | Some f \<Rightarrow> f \<noteq> [] \<and> (\<forall>x \<in> set f. word_char x)"
  shows "match_placeholder (placeholder_text n fld @ rest) = Some (n, fld, rest)"
proof (cases fld)
  case None
  then show ?thesis
    using takeWhile_boundary [OF assms(2) not_word_char(2), of rest] assms(1)
    by (simp add: match_placeholder_def placeholder_text_def strip_prefix_def)
next
  case (Some f)
  then show ?thesis
    using takeWhile_boundary [OF assms(2) not_word_char(1), of "f @ CHR ''>'' # rest"] assms
      takeWhile_boundary [of f word_char "CHR ''>''" rest] not_word_char(2)
    by (simp add: match_placeholder_def placeholder_text_def strip_prefix_def)
qed

text \<open>A text is read in exactly one way, as literals without placeholders between the placeholders.\<close>

definition valid_ref :: "string \<Rightarrow> string option \<Rightarrow> bool" where
  "valid_ref n f \<longleftrightarrow> n \<noteq> [] \<and> list_all word_char n
     \<and> (case f of None \<Rightarrow> True | Some g \<Rightarrow> g \<noteq> [] \<and> list_all word_char g)"

definition no_placeholder :: "string \<Rightarrow> bool" where
  "no_placeholder t \<longleftrightarrow> \<not> (\<exists>n f. valid_ref n f \<and> contains t (placeholder_text n f))"

lemma match_placeholder_iff:
  "match_placeholder s = Some (n, f, rest) \<longleftrightarrow> valid_ref n f \<and> s = placeholder_text n f @ rest"
proof
  assume m: "match_placeholder s = Some (n, f, rest)"
  have "list_all word_char (takeWhile word_char r)" for r by (auto simp: list_all_iff dest: set_takeWhileD)
  with m have "valid_ref n f"
    by (auto simp: match_placeholder_def valid_ref_def Let_def split: option.splits if_splits list.splits)
  with m match_placeholder_Some show "valid_ref n f \<and> s = placeholder_text n f @ rest" by blast
next
  assume "valid_ref n f \<and> s = placeholder_text n f @ rest"
  then show "match_placeholder s = Some (n, f, rest)"
    using match_placeholder_text [of n f rest] by (auto simp: valid_ref_def list_all_iff split: option.splits)
qed

lemma no_placeholder_Nil: "no_placeholder []"
  by (simp add: no_placeholder_def placeholder_text_def)

lemma no_placeholder_Cons:
  assumes "no_placeholder lit" and "match_placeholder (c # lit @ s) = None"
  shows "no_placeholder (c # lit)"
  unfolding no_placeholder_def
proof
  assume "\<exists>n f. valid_ref n f \<and> contains (c # lit) (placeholder_text n f)"
  then obtain n f where r: "valid_ref n f" "contains (c # lit) (placeholder_text n f)" by blast
  from r(2) consider r' where "c # lit = placeholder_text n f @ r'" | "contains lit (placeholder_text n f)"
    by (auto simp: prefix_def)
  then show False
  proof cases
    case (1 r')
    then have "c # lit @ s = placeholder_text n f @ r' @ s" by (metis append_Cons append_assoc)
    with r(1) assms(2) match_placeholder_iff [of "c # lit @ s" n f "r' @ s"] show False by simp
  next
    case 2
    with assms(1) r(1) show False by (auto simp: no_placeholder_def)
  qed
qed

lemma render_split:
  "\<exists>ps tail. s = concat (map (\<lambda>(lit, n, f). lit @ placeholder_text n f) ps) @ tail
    \<and> list_all (\<lambda>(lit, n, f). no_placeholder lit \<and> valid_ref n f) ps \<and> no_placeholder tail
    \<and> (\<forall>g. render g (tokens s) = concat (map (\<lambda>(lit, n, f). lit @ g n f) ps) @ tail)"
proof (induction s rule: tokens_induct)
  case Nil
  show ?case by (rule exI [of _ "[]"], rule exI [of _ "[]"]) (simp add: no_placeholder_Nil render_def)
next
  case (Ref s n f rest)
  then obtain ps tail where p: "rest = concat (map (\<lambda>(lit, n, f). lit @ placeholder_text n f) ps) @ tail"
    "list_all (\<lambda>(lit, n, f). no_placeholder lit \<and> valid_ref n f) ps" "no_placeholder tail"
    "\<forall>g. render g (tokens rest) = concat (map (\<lambda>(lit, n, f). lit @ g n f) ps) @ tail" by blast
  have "valid_ref n f" "s = placeholder_text n f @ rest" using Ref(1) by (simp_all add: match_placeholder_iff)
  then show ?case
    using p tokens_match [OF Ref(1)]
    by (intro exI [of _ "([], n, f) # ps"] exI [of _ tail]) (auto simp: no_placeholder_Nil render_def)
next
  case (Lit c s)
  then obtain ps tail where p: "s = concat (map (\<lambda>(lit, n, f). lit @ placeholder_text n f) ps) @ tail"
    "list_all (\<lambda>(lit, n, f). no_placeholder lit \<and> valid_ref n f) ps" "no_placeholder tail"
    "\<forall>g. render g (tokens s) = concat (map (\<lambda>(lit, n, f). lit @ g n f) ps) @ tail" by blast
  have r: "render g (tokens (c # s)) = c # render g (tokens s)" for g
    by (simp add: tokens_lit [OF Lit(1)] render_def)
  show ?case
  proof (cases ps)
    case Nil
    with p Lit(1) have "no_placeholder (c # tail)" using no_placeholder_Cons [of tail c "[]"] by simp
    then show ?thesis using p r Nil by (intro exI [of _ "[]"] exI [of _ "c # tail"]) simp
  next
    case (Cons q qs)
    obtain lit n f where q: "q = (lit, n, f)" by (cases q)
    have "no_placeholder (c # lit)"
      using p(1,2) Lit(1) by (intro no_placeholder_Cons) (auto simp: Cons q)
    then show ?thesis
      using p r by (intro exI [of _ "(c # lit, n, f) # qs"] exI [of _ tail]) (auto simp: Cons q)
  qed
qed

lemma captures_simps:
  "captures [] = []"
  "match_placeholder s = Some (n, f, rest) \<Longrightarrow> captures s = (n, f) # captures rest"
  "match_placeholder (c # t) = None \<Longrightarrow> captures (c # t) = captures t"
  by (simp_all add: captures_def tokens_match tokens_lit List.map_filter_simps)

lemma captures_name: "(n, f) \<in> set (captures s) \<Longrightarrow> n \<noteq> []"
  by (induction s rule: tokens_induct) (auto simp: captures_simps dest: match_placeholder_name)

section \<open>Accepted requests\<close>

definition header_refs :: "string \<Rightarrow> string \<Rightarrow> placeholder list" where
  "header_refs h v =
     map (\<lambda>(n, f). \<lparr>ph_credential_name = n, ph_field = f, ph_position = Header h\<rparr>) (captures v)"

lemma check_header_refs_ok:
  assumes "check_header_refs configs h refs acc = Inr r" and "\<forall>(n, f) \<in> set refs. n \<noteq> []"
  shows "r = acc @ map (\<lambda>(n, f). \<lparr>ph_credential_name = n, ph_field = f, ph_position = Header h\<rparr>) refs
    \<and> (\<forall>n. (n, None) \<in> set refs \<longrightarrow> allowed_header_for_credential configs n h)"
  using assms
  by (induction configs h refs acc rule: check_header_refs.induct) (auto split: if_splits)

lemma parse_header_placeholders_ok:
  assumes "parse_header_placeholders configs hs acc = Inr r"
  shows "r = acc @ concat (map (\<lambda>(h, v). header_refs h v) hs)
    \<and> (\<forall>h v n. (h, v) \<in> set hs \<longrightarrow> (n, None) \<in> set (captures v)
        \<longrightarrow> allowed_header_for_credential configs n h)"
  using assms
proof (induction configs hs acc rule: parse_header_placeholders.induct)
  case (2 configs name val hs acc)
  obtain acc' where a: "check_header_refs configs name (captures val) acc = Inr acc'"
    and p: "parse_header_placeholders configs hs acc' = Inr r"
    using 2(2) by (auto split: sum.splits)
  have "\<forall>(n, f) \<in> set (captures val). n \<noteq> []" using captures_name by blast
  from check_header_refs_ok [OF a this] 2(1) [OF a p] show ?case by (auto simp: header_refs_def)
qed simp

text \<open>What is checked for one placeholder of the body.\<close>

definition body_ref_ok ::
  "externals \<Rightarrow> (string \<rightharpoonup> credential_config) \<Rightarrow> string \<Rightarrow> string \<Rightarrow> string \<Rightarrow> string option \<Rightarrow> bool" where
  "body_ref_ok X configs body ct n f \<longleftrightarrow>
     (\<exists>c. configs n = Some c \<and> sub_body (cc_substitution c)
        \<and> list_ex (starts_with ct) (sub_body_content_types (cc_substitution c)))
     \<and> validate_body_placeholder_position X body n f ct = Inr ()"

lemma check_body_refs_ok:
  assumes "check_body_refs X configs body ct refs acc = Inr r" and "\<forall>(n, f) \<in> set refs. n \<noteq> []"
  shows "r = acc @ map (\<lambda>(n, f). \<lparr>ph_credential_name = n, ph_field = f, ph_position = Body\<rparr>) refs
    \<and> (\<forall>(n, f) \<in> set refs. body_ref_ok X configs body ct n f)"
  using assms
proof (induction X configs body ct refs acc rule: check_body_refs.induct)
  case (2 X configs body ct cred field refs acc)
  have ne: "cred \<noteq> []" using 2(4) by simp
  obtain c where c: "configs cred = Some c" "sub_body (cc_substitution c)"
    "list_ex (starts_with ct) (sub_body_content_types (cc_substitution c))"
    and v: "validate_body_placeholder_position X body cred field ct = Inr ()"
    and r: "check_body_refs X configs body ct refs
       (acc @ [\<lparr>ph_credential_name = cred, ph_field = field, ph_position = Body\<rparr>]) = Inr r"
    using 2(3) ne by (auto simp: Let_def split: if_splits sum.splits option.splits)
  have "body_ref_ok X configs body ct cred field" using c v by (simp add: body_ref_ok_def)
  moreover have "r = (acc @ [\<lparr>ph_credential_name = cred, ph_field = field, ph_position = Body\<rparr>])
      @ map (\<lambda>(n, f). \<lparr>ph_credential_name = n, ph_field = f, ph_position = Body\<rparr>) refs
    \<and> (\<forall>(n, f) \<in> set refs. body_ref_ok X configs body ct n f)"
    by (rule 2(2) [OF ne refl refl _ _ v r]) (use c 2(4) in auto)
  ultimately show ?case by simp
qed simp

text \<open>The parts of a JSON body that the position check visits.\<close>

inductive visited :: "json \<Rightarrow> json \<Rightarrow> bool" where
  here: "visited v v"
| item: "x \<in> set arr \<Longrightarrow> visited x w \<Longrightarrow> visited (JArray arr) w"
| member: "(k, JObject m') \<in> set m \<Longrightarrow> visited (JObject m') w \<Longrightarrow> visited (JObject m) w"

lemma visited_checked:
  assumes "visited v w" and "json_placeholder_in_auth_field v p"
  shows "json_placeholder_in_auth_field w p"
  using assms
proof (induction rule: visited.induct)
  case (item x arr w)
  then show ?case by (auto simp: list_all_iff)
next
  case (member k m' m w)
  have "json_placeholder_in_auth_field (JObject m') p"
    using member(1,4) by (fastforce simp: list_all_iff is_object_def)
  then show ?case by (rule member.IH)
qed

lemma checked_member:
  assumes "json_placeholder_in_auth_field (JObject m) p" and "(k, JString s) \<in> set m"
    and "contains s p"
  shows "to_lowercase k \<in> set allowed_auth_body_keys"
  using assms by (fastforce simp: list_all_iff)

section \<open>Properties\<close>

text \<open>C24. Where a whole secret can go in the headers. If a request is accepted, every plain
  placeholder of every header stands in a header that is bound to its credential (or, for a
  credential without bindings, in one of the three standard authentication headers), and
  the reported placeholders of the headers are exactly those that occur, in order.\<close>

theorem header_placeholders_positioned:
  assumes "parse_placeholders X hs body ct configs = Inr phs"
  shows "((h, v) \<in> set hs \<and> (n, None) \<in> set (captures v)
        \<longrightarrow> allowed_header_for_credential configs n h)
    \<and> (\<exists>rest. phs = concat (map (\<lambda>(h, v). header_refs h v) hs) @ rest
        \<and> list_all (\<lambda>ph. ph_position ph = Body) rest)"
proof -
  obtain a where a: "parse_header_placeholders configs hs [] = Inr a"
    using assms by (auto simp: parse_placeholders_def split: sum.splits)
  note ok = parse_header_placeholders_ok [OF a]
  have "\<exists>rest. phs = a @ rest \<and> list_all (\<lambda>ph. ph_position ph = Body) rest"
  proof (cases "\<exists>b s. body = Some b \<and> from_utf8 b = Some s")
    case True
    then obtain b s where b: "body = Some b" "from_utf8 b = Some s" by blast
    have "\<forall>(n, f) \<in> set (captures s). n \<noteq> []" using captures_name by blast
    moreover have "check_body_refs X configs s (case ct of None \<Rightarrow> [] | Some c \<Rightarrow> c) (captures s) a
        = Inr phs"
      using assms a b by (simp add: parse_placeholders_def)
    ultimately show ?thesis
      using check_body_refs_ok by (fastforce simp: list_all_iff)
  next
    case False
    then have "phs = a" using assms a by (auto simp: parse_placeholders_def split: option.splits)
    then show ?thesis by simp
  qed
  then show ?thesis using ok by auto
qed

definition github_config :: credential_config where
  "github_config =
     \<lparr>cc_description = [], cc_api_base = None,
      cc_substitution = \<lparr>sub_headers = True, sub_body = True,
        sub_body_content_types = default_body_content_types\<rparr>,
      cc_connector = Direct, cc_relative_target = False, cc_auth_header_format = None,
      cc_auth_bindings = [], cc_end_user_id = None, cc_allowed_hosts = []\<rparr>"

theorem header_placeholders_positioned_witness:
  "allowed_header_for_credential [''gh'' \<mapsto> github_config] ''gh'' ''Authorization''"
proof -
  let ?hs = "[(''Authorization'', ''Bearer <CREDENTIAL:gh>'')]"
  have "parse_placeholders sample_externals ?hs None None [''gh'' \<mapsto> github_config]
      = Inr [\<lparr>ph_credential_name = ''gh'', ph_field = None, ph_position = Header ''Authorization''\<rparr>]"
    "(''gh'', None) \<in> set (captures ''Bearer <CREDENTIAL:gh>'')"
    by code_simp+
  from header_placeholders_positioned [OF this(1), of "''Authorization''"
      "''Bearer <CREDENTIAL:gh>''" "''gh''"] this(2) show ?thesis by simp
qed

text \<open>Where a secret can go in a JSON body. If a request with a UTF-8 body is accepted, then
  for every placeholder of the body the credential has opted in to bodies of this content
  type; and if the content type is JSON, the body parses and every string member that
  contains the placeholder, of the top-level value or of an object nested in objects or in
  top-level arrays, stands under a recognised authentication key.\<close>

lemma body_placeholders_positioned:
  assumes "parse_placeholders X hs (Some b) (Some ct) configs = Inr phs" and "utf8_valid b"
    and "(n, f) \<in> set (captures b)"
  shows "(\<exists>c. configs n = Some c \<and> sub_body (cc_substitution c)
        \<and> list_ex (starts_with ct) (sub_body_content_types (cc_substitution c)))
    \<and> (contains (to_ascii_lowercase ct) ''json'' \<and> contains b (placeholder_text n f) \<longrightarrow>
        (\<exists>v. json_parse X b = Some v
          \<and> (\<forall>m k s. visited v (JObject m) \<longrightarrow> (k, JString s) \<in> set m
                \<longrightarrow> contains s (placeholder_text n f)
                \<longrightarrow> to_lowercase k \<in> set allowed_auth_body_keys)))"
proof -
  obtain a where a: "check_body_refs X configs b ct (captures b) a = Inr phs"
    using assms(1,2) by (auto simp: parse_placeholders_def from_utf8_def split: sum.splits)
  have "\<forall>(n, f) \<in> set (captures b). n \<noteq> []" using captures_name by blast
  with check_body_refs_ok [OF a] assms(3) have ok: "body_ref_ok X configs b ct n f" by blast
  then have "validate_body_placeholder_position X b n f ct = Inr ()" by (simp add: body_ref_ok_def)
  then have "\<exists>v. json_parse X b = Some v \<and> json_placeholder_in_auth_field v (placeholder_text n f)"
    if "contains (to_ascii_lowercase ct) ''json''" "contains b (placeholder_text n f)"
    using that
    by (auto simp: validate_body_placeholder_position_def Let_def split: option.splits if_splits)
  then show ?thesis
    using ok unfolding body_ref_ok_def by (meson visited_checked checked_member)
qed

text \<open>An instance of the parser that knows two bodies.\<close>

definition token_body :: string where
  "token_body = ''{'' @ dquoted ''token'' @ '':'' @ dquoted ''<CREDENTIAL:gh>'' @ ''}''"

definition array_body :: string where
  "array_body = ''{'' @ dquoted ''text'' @ '':['' @ dquoted ''<CREDENTIAL:gh>'' @ '']}''"

definition body_externals :: externals where
  "body_externals = sample_externals\<lparr>json_parse := (\<lambda>s.
     if s = token_body then Some (JObject [(''token'', JString ''<CREDENTIAL:gh>'')])
     else if s = array_body then Some (JObject [(''text'', JArray [JString ''<CREDENTIAL:gh>''])])
     else None)\<rparr>"

text \<open>The check of JSON bodies stops at arrays below an object: a placeholder inside an array
  under a content key is accepted, and the secret is substituted there.\<close>

lemma array_member_unchecked:
  "parse_placeholders body_externals [] (Some array_body) (Some ''application/json'')
      [''gh'' \<mapsto> github_config]
     = Inr [\<lparr>ph_credential_name = ''gh'', ph_field = None, ph_position = Body\<rparr>]
   \<and> substitute_body body_externals array_body [''gh'' \<mapsto> ''s3cr3t'']
     = ''{'' @ dquoted ''text'' @ '':['' @ dquoted ''s3cr3t'' @ '']}''
   \<and> ''text'' \<notin> set allowed_auth_body_keys"
proof (intro conjI)
  show "parse_placeholders body_externals [] (Some array_body) (Some ''application/json'')
      [''gh'' \<mapsto> github_config]
     = Inr [\<lparr>ph_credential_name = ''gh'', ph_field = None, ph_position = Body\<rparr>]" by code_simp
  show "substitute_body body_externals array_body [''gh'' \<mapsto> ''s3cr3t'']
     = ''{'' @ dquoted ''text'' @ '':['' @ dquoted ''s3cr3t'' @ '']}''" by code_simp
  show "''text'' \<notin> set allowed_auth_body_keys" by code_simp
qed

text \<open>C38. Substitution replaces the placeholders and nothing else. Every text is a sequence of
  literals that contain no placeholder and of placeholders, and its substitution keeps the literals
  as they are and puts for each placeholder what it stands for, without scanning that again. A plain
  placeholder stands for the value of its credential unless that is a JSON object, one with a
  field for the string in that field of the object; one that cannot be resolved stays as it is,
  so that with no values at all the text is unchanged. In headers each value is
  substituted and each name kept, and a body that is not UTF-8 is left alone.\<close>

theorem substitution_exact:
  "(\<exists>ps tail. s = concat (map (\<lambda>(lit, n, f). lit @ placeholder_text n f) ps) @ tail
      \<and> list_all (\<lambda>(lit, n, f). no_placeholder lit \<and> valid_ref n f) ps \<and> no_placeholder tail
      \<and> (\<forall>X vals. substitute_in_str X s vals
           = concat (map (\<lambda>(lit, n, f). lit @ resolve_ref X vals n f) ps) @ tail))
   \<and> resolve_ref X vals n None =
      (case vals n of
         None \<Rightarrow> placeholder_text n None
       | Some v \<Rightarrow> (case json_parse X v of Some (JObject _) \<Rightarrow> placeholder_text n None | _ \<Rightarrow> v))
   \<and> resolve_ref X vals n (Some fld) =
      (case vals n of
         None \<Rightarrow> placeholder_text n (Some fld)
       | Some v \<Rightarrow>
           (case json_parse X v of
              Some (JObject m) \<Rightarrow>
                (case map_of m fld of Some (JString t) \<Rightarrow> t | _ \<Rightarrow> placeholder_text n (Some fld))
            | _ \<Rightarrow> placeholder_text n (Some fld)))
   \<and> substitute_in_str X s Map.empty = s
   \<and> map fst (substitute_headers X hs vals) = map fst hs
   \<and> map snd (substitute_headers X hs vals) = map (\<lambda>v. substitute_in_str X v vals) (map snd hs)
   \<and> substitute_body X b vals = (if utf8_valid b then substitute_in_str X b vals else b)"
proof (intro conjI)
  show "\<exists>ps tail. s = concat (map (\<lambda>(lit, n, f). lit @ placeholder_text n f) ps) @ tail
      \<and> list_all (\<lambda>(lit, n, f). no_placeholder lit \<and> valid_ref n f) ps \<and> no_placeholder tail
      \<and> (\<forall>X vals. substitute_in_str X s vals
           = concat (map (\<lambda>(lit, n, f). lit @ resolve_ref X vals n f) ps) @ tail)"
    using render_split [of s] unfolding substitute_in_str_def by blast
  have "resolve_ref X Map.empty = placeholder_text" by (intro ext) (simp add: resolve_ref_def)
  then show "substitute_in_str X s Map.empty = s" by (simp add: substitute_in_str_def render_tokens)
qed (auto simp: resolve_ref_def substitute_headers_def substitute_body_def from_utf8_def Let_def
    split: option.splits json.splits)

lemma substitution_in_markup:
  "substitute_in_str sample_externals ''<a><b>x<CREDENTIAL:gh></b><CREDENTIAL:gh'' [''gh'' \<mapsto> ''s3cr3t'']
   = ''<a><b>xs3cr3t</b><CREDENTIAL:gh''"
  by code_simp

end
