(* ===== verification/Forward.thy ===== *)
theory Forward
  imports Types
begin

unbundle bit_operations_syntax

text \<open>
  Forwarding to the target (\<open>tap-proxy/src/forward.rs\<close>) and the choice of the client
  (\<open>tap-core/src/http_client.rs\<close>): the address ranges an agent must not reach, the guard
  over name resolution, the egress route and the request that is put on the wire. The
  resolver, the environment and the HTTP exchange are arguments.
\<close>

section \<open>Addresses (std::net)\<close>

fun v4_is_loopback :: "ipv4 \<Rightarrow> bool" where
  "v4_is_loopback (a, b, c, d) \<longleftrightarrow> a = 127"

fun v4_is_private :: "ipv4 \<Rightarrow> bool" where
  "v4_is_private (a, b, c, d) \<longleftrightarrow>
     a = 10 \<or> a = 172 \<and> 16 \<le> b \<and> b \<le> 31 \<or> a = 192 \<and> b = 168"

fun v4_is_link_local :: "ipv4 \<Rightarrow> bool" where
  "v4_is_link_local (a, b, c, d) \<longleftrightarrow> a = 169 \<and> b = 254"

fun v4_is_unspecified :: "ipv4 \<Rightarrow> bool" where
  "v4_is_unspecified (a, b, c, d) \<longleftrightarrow> a = 0 \<and> b = 0 \<and> c = 0 \<and> d = 0"

fun v4_is_broadcast :: "ipv4 \<Rightarrow> bool" where
  "v4_is_broadcast (a, b, c, d) \<longleftrightarrow> a = 255 \<and> b = 255 \<and> c = 255 \<and> d = 255"

fun v4_is_multicast :: "ipv4 \<Rightarrow> bool" where
  "v4_is_multicast (a, b, c, d) \<longleftrightarrow> 224 \<le> a \<and> a \<le> 239"

fun v4_is_documentation :: "ipv4 \<Rightarrow> bool" where
  "v4_is_documentation (a, b, c, d) \<longleftrightarrow>
     a = 192 \<and> b = 0 \<and> c = 2 \<or> a = 198 \<and> b = 51 \<and> c = 100 \<or> a = 203 \<and> b = 0 \<and> c = 113"

fun v6_is_loopback :: "ipv6 \<Rightarrow> bool" where
  "v6_is_loopback s \<longleftrightarrow> s = (0, 0, 0, 0, 0, 0, 0, 1)"

fun v6_is_unspecified :: "ipv6 \<Rightarrow> bool" where
  "v6_is_unspecified s \<longleftrightarrow> s = (0, 0, 0, 0, 0, 0, 0, 0)"

fun v6_is_multicast :: "ipv6 \<Rightarrow> bool" where
  "v6_is_multicast (s0, s1, s2, s3, s4, s5, s6, s7) \<longleftrightarrow> s0 AND 0xff00 = 0xff00"

fun to_ipv4_mapped :: "ipv6 \<Rightarrow> ipv4 option" where
  "to_ipv4_mapped (s0, s1, s2, s3, s4, s5, s6, s7) =
     (if s0 = 0 \<and> s1 = 0 \<and> s2 = 0 \<and> s3 = 0 \<and> s4 = 0 \<and> s5 = 0xffff
      then Some (ucast (drop_bit 8 s6), ucast s6, ucast (drop_bit 8 s7), ucast s7)
      else None)"

section \<open>Internal ranges\<close>

fun is_internal_v4 :: "ipv4 \<Rightarrow> bool" where
  "is_internal_v4 (a, b, c, d) \<longleftrightarrow>
     v4_is_loopback (a, b, c, d) \<or> v4_is_private (a, b, c, d) \<or> v4_is_link_local (a, b, c, d)
     \<or> v4_is_unspecified (a, b, c, d) \<or> v4_is_broadcast (a, b, c, d)
     \<or> v4_is_multicast (a, b, c, d) \<or> v4_is_documentation (a, b, c, d)
     \<or> a = 100 \<and> b AND 0xc0 = 0x40"

fun is_internal_ip :: "ip_addr \<Rightarrow> bool" where
  "is_internal_ip (V4 v4) = is_internal_v4 v4"
| "is_internal_ip (V6 v6) =
     (case to_ipv4_mapped v6 of
        Some v4 \<Rightarrow> is_internal_v4 v4
      | None \<Rightarrow>
          let s0 = fst v6 in
          v6_is_loopback v6 \<or> v6_is_unspecified v6 \<or> v6_is_multicast v6
          \<or> s0 AND 0xfe00 = 0xfc00 \<or> s0 AND 0xffc0 = 0xfe80)"

section \<open>Printing addresses\<close>

fun show_v4 :: "ipv4 \<Rightarrow> string" where
  "show_v4 (a, b, c, d) =
     join ''.'' [show_nat (unat a), show_nat (unat b), show_nat (unat c), show_nat (unat d)]"

definition hex_digit :: "nat \<Rightarrow> char" where
  "hex_digit n = (if n < 10 then char_of (48 + n) else char_of (87 + n))"

fun show_hex :: "nat \<Rightarrow> string" where
  "show_hex n = (if n < 16 then [hex_digit n] else show_hex (n div 16) @ [hex_digit (n mod 16)])"

declare show_hex.simps [simp del]

definition segments :: "ipv6 \<Rightarrow> 16 word list" where
  "segments v = (case v of (s0, s1, s2, s3, s4, s5, s6, s7) \<Rightarrow> [s0, s1, s2, s3, s4, s5, s6, s7])"

text \<open>The first longest run of zero segments, as start and length.\<close>

fun longest_zeroes :: "nat \<Rightarrow> nat \<times> nat \<Rightarrow> nat \<times> nat \<Rightarrow> 16 word list \<Rightarrow> nat \<times> nat" where
  "longest_zeroes i current longest [] = longest"
| "longest_zeroes i (start, len) longest (s # ss) =
     (if s = 0
      then let current = (if len = 0 then i else start, Suc len);
               longest' = (if snd current > snd longest then current else longest)
           in longest_zeroes (Suc i) current longest' ss
      else longest_zeroes (Suc i) (0, 0) longest ss)"

definition show_segments :: "16 word list \<Rightarrow> string" where
  "show_segments ss = join '':'' (map (\<lambda>s. show_hex (unat s)) ss)"

definition show_v6 :: "ipv6 \<Rightarrow> string" where
  "show_v6 v =
     (case to_ipv4_mapped v of
        Some v4 \<Rightarrow> ''::ffff:'' @ show_v4 v4
      | None \<Rightarrow>
          let ss = segments v; (start, len) = longest_zeroes 0 (0, 0) (0, 0) ss in
          if len > 1
          then show_segments (take start ss) @ ''::'' @ show_segments (drop (start + len) ss)
          else show_segments ss)"

fun show_ip :: "ip_addr \<Rightarrow> string" where
  "show_ip (V4 v) = show_v4 v"
| "show_ip (V6 v) = show_v6 v"

section \<open>The guard\<close>

definition private_targets_allowed :: "string option \<Rightarrow> bool" where
  "private_targets_allowed env =
     (case env of None \<Rightarrow> False | Some v \<Rightarrow> v = ''1'' \<or> eq_ignore_ascii_case v ''true'')"

definition blocked_target :: "string \<Rightarrow> ip_addr \<Rightarrow> agent_sec_error" where
  "blocked_target target_url ip =
     Upstream (''X-TAP-Target '' @ quoted target_url @ '' resolves to internal address ''
       @ show_ip ip @ ''; forwarding to loopback, link-local, private, or ''
       @ ''cloud-metadata ranges is not allowed'')"

text \<open>
  The environment variable is \<open>env\<close>; \<open>resolve\<close> is the name resolution at the moment of the
  check, from the name and port to an error or the list of addresses.
\<close>

definition validate_public_target ::
  "externals \<Rightarrow> string option \<Rightarrow> (string \<Rightarrow> nat \<Rightarrow> (string, ip_addr list) result) \<Rightarrow> string
    \<Rightarrow> (agent_sec_error, unit) result" where
  "validate_public_target X env resolve target_url =
     (if private_targets_allowed env then Inr ()
      else case url_parse X target_url of
        None \<Rightarrow> Inl (Upstream (''X-TAP-Target '' @ quoted target_url @ '' is not a valid absolute URL''))
      | Some url \<Rightarrow>
          (case u_host url of
             None \<Rightarrow> Inl (Upstream (''X-TAP-Target '' @ quoted target_url @ '' has no host''))
           | Some (Ipv4 ip) \<Rightarrow>
               if is_internal_ip (V4 ip) then Inl (blocked_target target_url (V4 ip)) else Inr ()
           | Some (Ipv6 ip) \<Rightarrow>
               if is_internal_ip (V6 ip) then Inl (blocked_target target_url (V6 ip)) else Inr ()
           | Some (Domain domain) \<Rightarrow>
               let port = (case u_port_or_known_default url of None \<Rightarrow> 443 | Some p \<Rightarrow> p) in
               (case resolve domain port of
                  Inl e \<Rightarrow> Inl (Upstream (''X-TAP-Target host '' @ quoted domain
                             @ '' could not be resolved: '' @ e))
                | Inr addrs \<Rightarrow>
                    (case find is_internal_ip addrs of
                       Some ip \<Rightarrow> Inl (blocked_target target_url ip)
                     | None \<Rightarrow>
                         if addrs = []
                         then Inl (Upstream (''X-TAP-Target host '' @ quoted domain
                                @ '' resolved to no addresses''))
                         else Inr ()))))"

section \<open>Routes\<close>

datatype client_route = DirectRoute | EgressProxy

definition client_route_for_target :: "externals \<Rightarrow> string \<Rightarrow> client_route" where
  "client_route_for_target X target_url =
     (case url_parse X target_url of
        None \<Rightarrow> EgressProxy
      | Some url \<Rightarrow>
          (case u_host_str url of
             None \<Rightarrow> EgressProxy
           | Some host \<Rightarrow>
               if eq_ignore_ascii_case host ''localhost'' \<or> \<not> contains host ''.'' then DirectRoute
               else (case u_host url of
                   Some (Ipv4 ip) \<Rightarrow>
                     if v4_is_loopback ip \<or> v4_is_private ip \<or> v4_is_link_local ip
                        \<or> v4_is_unspecified ip
                     then DirectRoute else EgressProxy
                 | Some (Ipv6 ip) \<Rightarrow>
                     if v6_is_loopback ip \<or> v6_is_unspecified ip then DirectRoute else EgressProxy
                 | _ \<Rightarrow> EgressProxy)))"

text \<open>The proxy the client is given, from \<open>TAP_EGRESS_PROXY_URL\<close>.\<close>

definition configure_client :: "string option \<Rightarrow> client_route \<Rightarrow> string option" where
  "configure_client env route =
     (case route of
        DirectRoute \<Rightarrow> None
      | EgressProxy \<Rightarrow>
          (case env of
             None \<Rightarrow> None
           | Some proxy_url \<Rightarrow> if trim proxy_url \<noteq> [] then Some (trim proxy_url) else None))"

section \<open>The request on the wire\<close>

definition default_user_agent :: string where
  "default_user_agent = ''TAP-Proxy/1.0 (+https://tap.human.tech)''"

record wire_request =
  wr_proxy :: "string option"
  wr_method :: string
  wr_url :: string
  wr_headers :: headers
  wr_body :: "bytes option"

record forward_result =
  fr_status :: nat
  fr_headers :: headers
  fr_body :: bytes

definition hop_header :: "string \<Rightarrow> bool" where
  "hop_header name =
     (let lower = to_lowercase name in
      lower = ''host'' \<or> lower = ''content-length'' \<or> lower = ''transfer-encoding'')"

definition wire_headers :: "headers \<Rightarrow> headers" where
  "wire_headers hs =
     filter (\<lambda>(n, _). \<not> hop_header n) hs
     @ (if list_ex (\<lambda>(n, _). eq_ignore_ascii_case n ''user-agent'') hs then []
        else [(''User-Agent'', default_user_agent)])"

text \<open>
  The exchange itself (\<open>send\<close>) yields the upstream's answer or a transport error; the
  method names that the HTTP crate accepts are \<open>method_ok\<close>.
\<close>

definition forward_request ::
  "externals \<Rightarrow> (string \<Rightarrow> bool) \<Rightarrow> (wire_request \<Rightarrow> (agent_sec_error, forward_result) result)
    \<Rightarrow> string option \<Rightarrow> string \<Rightarrow> string \<Rightarrow> headers \<Rightarrow> bytes option
    \<Rightarrow> (agent_sec_error, forward_result) result" where
  "forward_request X method_ok send egress_env target_url method hs body =
     (let proxy = configure_client egress_env (client_route_for_target X target_url) in
      if \<not> starts_with target_url ''http://'' \<and> \<not> starts_with target_url ''https://''
      then Inl (Upstream (''X-TAP-Target '' @ quoted target_url @ '' is not a valid URL''))
      else if \<not> method_ok method then Inl (Internal ''Invalid HTTP method'')
      else send \<lparr>wr_proxy = proxy, wr_method = method, wr_url = target_url,
                 wr_headers = wire_headers hs, wr_body = body\<rparr>)"

section \<open>Ranges as address blocks\<close>

lemma and_high_bits:
  fixes w :: "'a :: len word"
  assumes "m = NOT (mask k)" and "drop_bit k t = v" and "push_bit k v = t"
  shows "w AND m = t \<longleftrightarrow> drop_bit k w = v"
proof
  assume "w AND m = t"
  moreover have "drop_bit k (w AND NOT (mask k)) = drop_bit k w"
    by (rule bit_word_eqI) (auto simp: bit_simps dest: bit_imp_le_length)
  ultimately show "drop_bit k w = v" using assms by simp
next
  assume "drop_bit k w = v"
  moreover have "w AND NOT (mask k) = push_bit k (drop_bit k w)"
    by (rule bit_word_eqI) (auto simp: bit_simps)
  ultimately show "w AND m = t" using assms by simp
qed

lemma drop_bit_iff_div:
  fixes w :: "'a :: len word"
  shows "drop_bit k w = v \<longleftrightarrow> unat w div 2 ^ k = unat v"
  unfolding word_unat_eq_iff unat_drop_bit_eq by (simp add: drop_bit_eq_div)

lemma cgnat_bits: "(b :: 8 word) AND 0xc0 = 0x40 \<longleftrightarrow> unat b div 64 = 1"
proof -
  have "(0xc0 :: 8 word) = NOT (mask 6)" "drop_bit 6 (0x40 :: 8 word) = 1" "push_bit 6 (1 :: 8 word) = 0x40"
    by code_simp+
  from and_high_bits [OF this, of b] show ?thesis by (simp add: drop_bit_iff_div)
qed

lemma ula_bits: "(s :: 16 word) AND 0xfe00 = 0xfc00 \<longleftrightarrow> unat s div 512 = 0x7e"
proof -
  have "(0xfe00 :: 16 word) = NOT (mask 9)" "drop_bit 9 (0xfc00 :: 16 word) = 0x7e"
    "push_bit 9 (0x7e :: 16 word) = 0xfc00"
    by code_simp+
  from and_high_bits [OF this, of s] show ?thesis by (simp add: drop_bit_iff_div)
qed

lemma link_local_bits: "(s :: 16 word) AND 0xffc0 = 0xfe80 \<longleftrightarrow> unat s div 64 = 0x3fa"
proof -
  have "(0xffc0 :: 16 word) = NOT (mask 6)" "drop_bit 6 (0xfe80 :: 16 word) = 0x3fa"
    "push_bit 6 (0x3fa :: 16 word) = 0xfe80"
    by code_simp+
  from and_high_bits [OF this, of s] show ?thesis by (simp add: drop_bit_iff_div)
qed

lemma multicast_bits: "(s :: 16 word) AND 0xff00 = 0xff00 \<longleftrightarrow> unat s div 256 = 0xff"
proof -
  have "(0xff00 :: 16 word) = NOT (mask 8)" "drop_bit 8 (0xff00 :: 16 word) = 0xff"
    "push_bit 8 (0xff :: 16 word) = 0xff00"
    by code_simp+
  from and_high_bits [OF this, of s] show ?thesis by (simp add: drop_bit_iff_div)
qed

text \<open>An address as a number, and membership in the block \<open>a.b.c.d/len\<close>.\<close>

fun v4_num :: "ipv4 \<Rightarrow> nat" where
  "v4_num (a, b, c, d) = ((unat a * 256 + unat b) * 256 + unat c) * 256 + unat d"

definition in_block :: "ipv4 \<Rightarrow> ipv4 \<times> nat \<Rightarrow> bool" where
  "in_block ip = (\<lambda>(base, len). v4_num ip div 2 ^ (32 - len) = v4_num base div 2 ^ (32 - len))"

definition internal_blocks :: "(ipv4 \<times> nat) list" where
  "internal_blocks =
     [((127, 0, 0, 0), 8), ((10, 0, 0, 0), 8), ((172, 16, 0, 0), 12), ((192, 168, 0, 0), 16),
      ((169, 254, 0, 0), 16), ((0, 0, 0, 0), 32), ((255, 255, 255, 255), 32),
      ((224, 0, 0, 0), 4), ((192, 0, 2, 0), 24), ((198, 51, 100, 0), 24),
      ((203, 0, 113, 0), 24), ((100, 64, 0, 0), 10)]"

lemma unat_u8: "unat (x :: 8 word) < 256"
proof -
  have "unat x < 2 ^ LENGTH(8)" by (rule unsigned_less)
  then show ?thesis by simp
qed

lemma num_div:
  fixes a b c d :: nat
  assumes "b < 256" and "c < 256" and "d < 256"
  shows "(((a * 256 + b) * 256 + c) * 256 + d) div 256 = (a * 256 + b) * 256 + c"
    and "(((a * 256 + b) * 256 + c) * 256 + d) div 65536 = a * 256 + b"
    and "(((a * 256 + b) * 256 + c) * 256 + d) div 16777216 = a"
    and "(((a * 256 + b) * 256 + c) * 256 + d) div 1048576 = a * 16 + b div 16"
    and "(((a * 256 + b) * 256 + c) * 256 + d) div 4194304 = a * 4 + b div 64"
    and "(((a * 256 + b) * 256 + c) * 256 + d) div 268435456 = a div 16"
proof -
  let ?n = "((a * 256 + b) * 256 + c) * 256 + d"
  show 1: "?n div 256 = (a * 256 + b) * 256 + c" using assms by simp
  have "?n div 65536 = ?n div 256 div 256" by (simp add: div_mult2_eq [symmetric])
  also have "\<dots> = a * 256 + b" using 1 assms by simp
  finally show 2: "?n div 65536 = a * 256 + b" .
  have "?n div 16777216 = ?n div 65536 div 256" by (simp add: div_mult2_eq [symmetric])
  also have "\<dots> = a" unfolding 2 using assms by simp
  finally show 3: "?n div 16777216 = a" .
  have "?n div 1048576 = ?n div 65536 div 16" by (simp add: div_mult2_eq [symmetric])
  also have "\<dots> = a * 16 + b div 16" unfolding 2 by simp
  finally show "?n div 1048576 = a * 16 + b div 16" .
  have "?n div 4194304 = ?n div 65536 div 64" by (simp add: div_mult2_eq [symmetric])
  also have "\<dots> = a * 4 + b div 64" unfolding 2 by simp
  finally show "?n div 4194304 = a * 4 + b div 64" .
  have "?n div 268435456 = ?n div 16777216 div 16" by (simp add: div_mult2_eq [symmetric])
  then show "?n div 268435456 = a div 16" unfolding 3 .
qed

lemma v4_num_div:
  "v4_num (a, b, c, d) div 2 ^ 8 = (unat a * 256 + unat b) * 256 + unat c"
  "v4_num (a, b, c, d) div 2 ^ 16 = unat a * 256 + unat b"
  "v4_num (a, b, c, d) div 2 ^ 24 = unat a"
  "v4_num (a, b, c, d) div 2 ^ 20 = unat a * 16 + unat b div 16"
  "v4_num (a, b, c, d) div 2 ^ 22 = unat a * 4 + unat b div 64"
  "v4_num (a, b, c, d) div 2 ^ 28 = unat a div 16"
proof -
  have e: "(2 :: nat) ^ 8 = 256" "(2 :: nat) ^ 16 = 65536" "(2 :: nat) ^ 24 = 16777216"
    "(2 :: nat) ^ 20 = 1048576" "(2 :: nat) ^ 22 = 4194304" "(2 :: nat) ^ 28 = 268435456"
    by simp_all
  note num_div [OF unat_u8 unat_u8 unat_u8, of "unat a" b c d]
  then show "v4_num (a, b, c, d) div 2 ^ 8 = (unat a * 256 + unat b) * 256 + unat c"
    "v4_num (a, b, c, d) div 2 ^ 16 = unat a * 256 + unat b"
    "v4_num (a, b, c, d) div 2 ^ 24 = unat a"
    "v4_num (a, b, c, d) div 2 ^ 20 = unat a * 16 + unat b div 16"
    "v4_num (a, b, c, d) div 2 ^ 22 = unat a * 4 + unat b div 64"
    "v4_num (a, b, c, d) div 2 ^ 28 = unat a div 16"
    unfolding e v4_num.simps .
qed

lemma in_block_eval:
  "in_block (a, b, c, d) ((p, q, r, t), 8) \<longleftrightarrow> a = p"
  "in_block (a, b, c, d) ((p, q, r, t), 16) \<longleftrightarrow> a = p \<and> b = q"
  "in_block (a, b, c, d) ((p, q, r, t), 24) \<longleftrightarrow> a = p \<and> b = q \<and> c = r"
  "in_block (a, b, c, d) ((p, q, r, t), 32) \<longleftrightarrow> a = p \<and> b = q \<and> c = r \<and> d = t"
  "in_block (a, b, c, d) ((p, q, r, t), 12) \<longleftrightarrow> a = p \<and> unat b div 16 = unat q div 16"
  "in_block (a, b, c, d) ((p, q, r, t), 10) \<longleftrightarrow> a = p \<and> unat b div 64 = unat q div 64"
  "in_block (a, b, c, d) ((p, q, r, t), 4) \<longleftrightarrow> unat a div 16 = unat p div 16"
proof -
  have pair: "x * n + y = x' * n + y' \<longleftrightarrow> x = x' \<and> y = y'" if "y < n" "y' < n" for x y x' y' n :: nat
  proof
    assume e: "x * n + y = x' * n + y'"
    have "(x * n + y) div n = x" "(x' * n + y') div n = x'" using that by simp_all
    with e show "x = x' \<and> y = y'" by simp
  qed simp
  have u: "unat x = unat y \<longleftrightarrow> x = y" for x y :: "8 word" by (simp add: word_unat_eq_iff)
  have s16: "unat (x :: 8 word) div 16 < 16" "unat (x :: 8 word) div 64 < 4" for x
    using unat_u8 [of x] by (simp_all add: less_mult_imp_div_less)
  have k: "(32 :: nat) - 8 = 24" "(32 :: nat) - 16 = 16" "(32 :: nat) - 24 = 8" "(32 :: nat) - 32 = 0"
    "(32 :: nat) - 12 = 20" "(32 :: nat) - 10 = 22" "(32 :: nat) - 4 = 28" by simp_all
  note ib = in_block_def split_conv k v4_num_div pair [OF unat_u8 unat_u8] u
  show "in_block (a, b, c, d) ((p, q, r, t), 8) \<longleftrightarrow> a = p" by (simp only: ib)
  show "in_block (a, b, c, d) ((p, q, r, t), 16) \<longleftrightarrow> a = p \<and> b = q" by (simp only: ib)
  show "in_block (a, b, c, d) ((p, q, r, t), 24) \<longleftrightarrow> a = p \<and> b = q \<and> c = r"
    by (simp only: ib conj_assoc)
  show "in_block (a, b, c, d) ((p, q, r, t), 32) \<longleftrightarrow> a = p \<and> b = q \<and> c = r \<and> d = t"
    by (simp only: ib v4_num.simps power_0 div_by_1 conj_assoc)
  show "in_block (a, b, c, d) ((p, q, r, t), 12) \<longleftrightarrow> a = p \<and> unat b div 16 = unat q div 16"
    by (simp only: ib pair [OF s16(1) s16(1)])
  show "in_block (a, b, c, d) ((p, q, r, t), 10) \<longleftrightarrow> a = p \<and> unat b div 64 = unat q div 64"
    by (simp only: ib pair [OF s16(2) s16(2)])
  show "in_block (a, b, c, d) ((p, q, r, t), 4) \<longleftrightarrow> unat a div 16 = unat p div 16"
    by (simp only: ib)
qed

lemma is_internal_v4_blocks: "is_internal_v4 ip \<longleftrightarrow> list_ex (in_block ip) internal_blocks"
proof -
  obtain a b c d where ip: "ip = (a, b, c, d)" by (cases ip)
  have "16 \<le> b \<and> b \<le> 31 \<longleftrightarrow> unat b div 16 = 1" "224 \<le> a \<and> a \<le> 239 \<longleftrightarrow> unat a div 16 = 14"
    by (auto simp: word_le_nat_alt)
  then show ?thesis
    by (auto simp: ip internal_blocks_def in_block_eval cgnat_bits)
qed

section \<open>Properties\<close>

text \<open>C39. The ranges that the guard refuses are the documented address blocks: an IPv4 address
  is internal exactly when it lies in one of the twelve CIDR blocks (loopback, private,
  link-local, unspecified, broadcast, multicast, documentation, shared); an IPv4-mapped IPv6
  address is judged as the address it embeds; any other IPv6 address is internal exactly
  when it is \<open>::\<close> or \<open>::1\<close> or lies in \<open>ff00::/8\<close>, \<open>fc00::/7\<close> or \<open>fe80::/10\<close>.\<close>

theorem internal_ranges_exact:
  "is_internal_ip (V4 ip) = list_ex (in_block ip) internal_blocks
   \<and> is_internal_ip (V6 (0, 0, 0, 0, 0, 0xffff, s6, s7))
       = is_internal_ip (V4 (ucast (drop_bit 8 s6), ucast s6, ucast (drop_bit 8 s7), ucast s7))
   \<and> (to_ipv4_mapped v = None \<longrightarrow>
       is_internal_ip (V6 v) =
         (v = (0, 0, 0, 0, 0, 0, 0, 0) \<or> v = (0, 0, 0, 0, 0, 0, 0, 1)
          \<or> unat (fst v) div 2 ^ 8 = 0xff \<or> unat (fst v) div 2 ^ 9 = 0xfc00 div 2 ^ 9
          \<or> unat (fst v) div 2 ^ 6 = 0xfe80 div 2 ^ 6))"
proof (intro conjI impI)
  assume n: "to_ipv4_mapped v = None"
  obtain s0 s1 s2 s3 s4 s5 s6 s7 where "v = (s0, s1, s2, s3, s4, s5, s6, s7)"
    by (metis surj_pair)
  with n show "is_internal_ip (V6 v) =
         (v = (0, 0, 0, 0, 0, 0, 0, 0) \<or> v = (0, 0, 0, 0, 0, 0, 0, 1)
          \<or> unat (fst v) div 2 ^ 8 = 0xff \<or> unat (fst v) div 2 ^ 9 = 0xfc00 div 2 ^ 9
          \<or> unat (fst v) div 2 ^ 6 = 0xfe80 div 2 ^ 6)"
    by (simp add: multicast_bits ula_bits link_local_bits Let_def disj_commute disj_left_commute)
qed (simp_all add: is_internal_v4_blocks del: is_internal_v4.simps)

theorem internal_ranges_exact_witness:
  "is_internal_ip (V6 (0xfe80, 0, 0, 0, 0, 0, 0, 5)) \<and> \<not> is_internal_ip (V6 (0x2606, 0, 0, 0, 0, 0, 0, 5))"
proof -
  have "to_ipv4_mapped (0xfe80, 0, 0, 0, 0, 0, 0, 5) = None"
    "to_ipv4_mapped (0x2606, 0, 0, 0, 0, 0, 0, 5) = None" by simp_all
  with internal_ranges_exact [of "(0, 0, 0, 0)" 0 0 "(0xfe80, 0, 0, 0, 0, 0, 0, 5)"]
    internal_ranges_exact [of "(0, 0, 0, 0)" 0 0 "(0x2606, 0, 0, 0, 0, 0, 0, 5)"]
  show ?thesis by simp
qed

text \<open>C17. The guard against server-side request forgery. Unless the override is switched on, a
  target that passes is an absolute URL whose host is an address outside the internal
  ranges, or a name that resolved to at least one address and to none inside them.\<close>

theorem ssrf_guard_sound:
  assumes "validate_public_target X env resolve target = Inr ()"
    and "\<not> private_targets_allowed env"
  shows "\<exists>u h. url_parse X target = Some u \<and> u_host u = Some h
    \<and> (case h of
         Ipv4 ip \<Rightarrow> \<not> is_internal_ip (V4 ip)
       | Ipv6 ip \<Rightarrow> \<not> is_internal_ip (V6 ip)
       | Domain d \<Rightarrow> \<exists>addrs. resolve d (case u_port_or_known_default u of None \<Rightarrow> 443 | Some p \<Rightarrow> p)
             = Inr addrs \<and> addrs \<noteq> [] \<and> list_all (\<lambda>a. \<not> is_internal_ip a) addrs)"
proof -
  obtain u where u: "url_parse X target = Some u"
    using assms by (auto simp: validate_public_target_def split: option.splits)
  obtain h where h: "u_host u = Some h"
    using assms u by (auto simp: validate_public_target_def split: option.splits)
  show ?thesis
    using assms u h
    by (cases h)
       (auto simp: validate_public_target_def Let_def find_None_iff list_all_iff
         simp del: is_internal_ip.simps split: if_splits sum.splits option.splits)
qed

definition sample_resolve :: "string \<Rightarrow> nat \<Rightarrow> (string, ip_addr list) result" where
  "sample_resolve d p = Inr [if d = ''a.b'' then V4 (93, 184, 216, 34) else V4 (127, 0, 0, 1)]"

theorem ssrf_guard_sound_witness:
  "\<exists>u. url_parse sample_externals ''https://a.b/x'' = Some u \<and> u_host u = Some (Domain ''a.b'')
     \<and> sample_resolve ''a.b'' 443 = Inr [V4 (93, 184, 216, 34)]
     \<and> \<not> is_internal_ip (V4 (93, 184, 216, 34))"
proof -
  have v: "validate_public_target sample_externals None sample_resolve ''https://a.b/x'' = Inr ()"
    "\<not> private_targets_allowed None"
    "url_parse sample_externals ''https://a.b/x'' = Some (sample_url ''a.b'' ''/x'')"
    "sample_resolve ''a.b'' 443 = Inr [V4 (93, 184, 216, 34)]"
    by code_simp+
  from ssrf_guard_sound [OF v(1,2)] v(3,4) show ?thesis
    by (auto simp: sample_url_def simp del: is_internal_ip.simps)
qed

text \<open>The egress proxy is bypassed for every IPv6 literal: the serialised host of such a URL
  has no dot, so the test for dotless names sends it out directly, public addresses
  included, before the test for internal addresses is reached.\<close>

lemma ipv6_literals_bypass_egress:
  assumes "url_parse X target = Some u" and "u_host u = Some (Ipv6 ip)"
    and "u_host_str u = Some host" and "CHR ''.'' \<notin> set host"
  shows "client_route_for_target X target = DirectRoute"
proof -
  have "\<not> contains host ''.''"
    using assms(4) by (auto simp: contains_iff_sublist sublist_def)
  then show ?thesis using assms by (simp add: client_route_for_target_def)
qed

definition ipv6_externals :: externals where
  "ipv6_externals = sample_externals\<lparr>url_parse := (\<lambda>s.
     if s = ''https://[2606:4700::1111]/''
     then Some ((sample_url ''[2606:4700::1111]'' ''/'')\<lparr>u_host :=
            Some (Ipv6 (0x2606, 0x4700, 0, 0, 0, 0, 0, 0x1111))\<rparr>)
     else None)\<rparr>"

end
