(* ===== verification/Routing.thy ===== *)
theory Routing
  imports Types
begin

text \<open>
  Unified routing (\<open>tap-proxy/src/routing.rs\<close>) with the credential bundles it recognises
  (\<open>signing.rs\<close>, \<open>microsoft_oauth.rs\<close>, \<open>google_oauth.rs\<close>, \<open>oauth1.rs\<close>,
  \<open>aws_sigv4.rs\<close>, \<open>oauth_client_credentials.rs\<close>): which host a secret may go to, which
  headers carry it, and which inline authentication the proxy has to perform. The derived
  JSON deserialisers of the bundles are arguments, as is the environment.
\<close>

section \<open>Bundles\<close>

datatype algorithm = Secp256k1 | Ed25519 | P256

fun algorithm_as_str :: "algorithm \<Rightarrow> string" where
  "algorithm_as_str Secp256k1 = ''secp256k1''"
| "algorithm_as_str Ed25519 = ''ed25519''"
| "algorithm_as_str P256 = ''p256''"

definition parse_algorithm :: "string \<Rightarrow> algorithm option" where
  "parse_algorithm s =
     (if s = ''secp256k1'' then Some Secp256k1
      else if s = ''ed25519'' then Some Ed25519
      else if s = ''p256'' then Some P256
      else None)"

record signing_credential =
  sg_algorithm :: algorithm
  sg_private_key :: string
  sg_key_encoding :: "string option"

record microsoft_oauth_credential =
  ms_client_id :: string
  ms_client_secret :: string
  ms_refresh_token :: string
  ms_token_url :: string
  ms_scopes :: "string option"

record google_oauth_credential =
  go_client_id :: string
  go_client_secret :: string
  go_refresh_token :: string
  go_scopes :: "string option"

record twitter_oauth_credential =
  tw_consumer_key :: string
  tw_consumer_secret :: string
  tw_access_token :: string
  tw_access_token_secret :: string

record x_bearer_credential =
  xb_bearer_token :: string
  xb_bearer_token_camel :: string
  xb_app_bearer_token :: string

record aws_credential =
  aw_access_key_id :: string
  aw_secret_access_key :: string
  aw_region :: "string option"
  aw_service :: "string option"

record oauth_client_credentials =
  oc_client_id :: string
  oc_client_secret :: string
  oc_token_url :: string
  oc_scope :: "string option"

text \<open>\<open>serde_json::from_str\<close> at each of these types.\<close>

record deserializers =
  de_signing :: "string \<Rightarrow> signing_credential option"
  de_microsoft :: "string \<Rightarrow> microsoft_oauth_credential option"
  de_google :: "string \<Rightarrow> google_oauth_credential option"
  de_x_bearer :: "string \<Rightarrow> x_bearer_credential option"
  de_twitter :: "string \<Rightarrow> twitter_oauth_credential option"
  de_aws :: "string \<Rightarrow> aws_credential option"
  de_oauth_cc :: "string \<Rightarrow> oauth_client_credentials option"

definition parse_signing_credential :: "deserializers \<Rightarrow> string \<Rightarrow> signing_credential option" where
  "parse_signing_credential D v =
     (case de_signing D v of
        None \<Rightarrow> None
      | Some p \<Rightarrow> if trim (sg_private_key p) = [] then None else Some p)"

definition parse_microsoft_oauth ::
  "deserializers \<Rightarrow> string \<Rightarrow> microsoft_oauth_credential option" where
  "parse_microsoft_oauth D v =
     (case de_microsoft D v of
        None \<Rightarrow> None
      | Some c \<Rightarrow>
          if ms_client_id c = [] \<or> ms_client_secret c = [] \<or> ms_refresh_token c = []
             \<or> ms_token_url c = []
          then None else Some c)"

definition parse_google_oauth :: "deserializers \<Rightarrow> string \<Rightarrow> google_oauth_credential option" where
  "parse_google_oauth D v = de_google D v"

definition parse_x_bearer_token :: "deserializers \<Rightarrow> string \<Rightarrow> string option" where
  "parse_x_bearer_token D v =
     (case de_x_bearer D v of
        None \<Rightarrow> None
      | Some p \<Rightarrow>
          find (\<lambda>t. t \<noteq> [])
            (map trim [xb_bearer_token p, xb_bearer_token_camel p, xb_app_bearer_token p]))"

definition parse_twitter_oauth :: "deserializers \<Rightarrow> string \<Rightarrow> twitter_oauth_credential option" where
  "parse_twitter_oauth D v =
     (case de_twitter D v of
        None \<Rightarrow> None
      | Some p \<Rightarrow>
          if tw_consumer_key p = [] \<or> tw_consumer_secret p = [] \<or> tw_access_token p = []
             \<or> tw_access_token_secret p = []
          then None else Some p)"

definition parse_aws_credential :: "deserializers \<Rightarrow> string \<Rightarrow> aws_credential option" where
  "parse_aws_credential D v =
     (case de_aws D v of
        None \<Rightarrow> None
      | Some p \<Rightarrow> if aw_access_key_id p = [] \<or> aw_secret_access_key p = [] then None else Some p)"

definition parse_oauth_client_credentials ::
  "deserializers \<Rightarrow> string \<Rightarrow> oauth_client_credentials option" where
  "parse_oauth_client_credentials D v = de_oauth_cc D v"

section \<open>Modes, routes and errors\<close>

datatype x_auth_mode = Auto | Bearer | OAuth1

definition parse_x_auth_mode :: "string \<Rightarrow> x_auth_mode option" where
  "parse_x_auth_mode v =
     (let m = to_ascii_lowercase (trim v) in
      if m \<in> set [[], ''auto''] then Some Auto
      else if m \<in> set [''bearer'', ''app'', ''app-only'', ''app_only''] then Some Bearer
      else if m \<in> set [''oauth1'', ''oauth1a'', ''oauth-1.0a'', ''user'', ''user-context'',
                       ''user_context''] then Some OAuth1
      else None)"

definition method_is_read_like :: "string \<Rightarrow> bool" where
  "method_is_read_like m \<longleftrightarrow> to_ascii_uppercase m \<in> set [''GET'', ''HEAD'', ''OPTIONS'']"

record unified_route =
  ur_effective_target :: string
  ur_display_target :: string
  ur_headers :: headers
  ur_google_oauth :: "google_oauth_credential option"
  ur_microsoft_oauth :: "microsoft_oauth_credential option"
  ur_twitter_oauth :: "twitter_oauth_credential option"
  ur_aws_sigv4 :: "aws_credential option"
  ur_oauth_client_credentials :: "oauth_client_credentials option"

datatype route_error =
    RouteCredentialNotFound string
  | CredentialValueMissing string
  | ConfigError string
  | PathTraversal
  | SigningCredential string
  | HostNotAllowed string string
  | MultiSecretUnbound string
  | CredentialFieldMissing string string

section \<open>Hosts\<close>

definition host_of :: "externals \<Rightarrow> string \<Rightarrow> string option" where
  "host_of X target_url =
     (case url_parse X target_url of
        None \<Rightarrow> None
      | Some parsed \<Rightarrow> map_option to_ascii_lowercase (u_host_str parsed))"

definition host_is_allowed :: "string \<Rightarrow> string \<Rightarrow> bool" where
  "host_is_allowed pattern host =
     (let pattern = to_ascii_lowercase (trim pattern) in
      case strip_prefix pattern ''*.'' of
        Some sfx \<Rightarrow> host = sfx \<or> ends_with host (''.'' @ sfx)
      | None \<Rightarrow> host = pattern)"

text \<open>
  \<open>env\<close> is \<open>TAP_EMBEDDED_TELEGRAM_BASE\<close>; \<open>enclave\<close> says whether the crate was built with
  that feature.
\<close>

definition rewrite_sidecar_base :: "string option \<Rightarrow> bool \<Rightarrow> string \<Rightarrow> string" where
  "rewrite_sidecar_base env enclave base =
     (if contains base ''telegram-client:8082'' then
        (case env of
           Some b \<Rightarrow>
             if trim b \<noteq> [] then b
             else if enclave then ''http://127.0.0.1:8082'' else base
         | None \<Rightarrow> if enclave then ''http://127.0.0.1:8082'' else base)
      else base)"

section \<open>Header templates\<close>

fun replace_fields :: "(string \<Rightarrow> string) \<Rightarrow> (string \<times> json) list \<Rightarrow> string \<Rightarrow> string" where
  "replace_fields f [] s = s"
| "replace_fields f ((key, v) # m) s =
     (case as_str v of
        Some x \<Rightarrow> replace_fields f m (replace s (f key) x)
      | None \<Rightarrow> replace_fields f m s)"

definition resolve_value_refs :: "externals \<Rightarrow> string \<Rightarrow> string \<Rightarrow> string" where
  "resolve_value_refs X expr cred_value =
     (case json_parse X cred_value of
        Some (JObject m) \<Rightarrow>
          let result = replace_fields (\<lambda>key. ''value.'' @ key) m expr in
          if result = ''value'' then cred_value else result
      | _ \<Rightarrow> replace expr ''value'' cred_value)"

function substitute_base64_expressions :: "externals \<Rightarrow> string \<Rightarrow> string \<Rightarrow> string" where
  "substitute_base64_expressions X input cred_value =
     (case find_str ''{base64('' input of
        None \<Rightarrow> input
      | Some (before, after_start) \<Rightarrow>
          (case find_str '')}'' after_start of
             Some (expr, rest) \<Rightarrow>
               before @ base64_std X (resolve_value_refs X expr cred_value)
                 @ substitute_base64_expressions X rest cred_value
           | None \<Rightarrow> input))"
  by pat_completeness auto
termination
proof (relation "measure (\<lambda>(_, s, _). length s)", goal_cases)
  case 1
  show ?case by simp
next
  case (2 X input cred_value p before after_start q expr rest)
  then have "input = before @ ''{base64('' @ after_start" "after_start = expr @ '')}'' @ rest"
    using find_str_Some by metis+
  then show ?case by simp
qed

declare substitute_base64_expressions.simps [simp del]

definition substitute_credential_value :: "externals \<Rightarrow> string \<Rightarrow> string \<Rightarrow> string" where
  "substitute_credential_value X fmt cred_value =
     (let substituted =
        (case json_parse X cred_value of
           Some (JObject m) \<Rightarrow>
             replace (replace_fields (\<lambda>key. ''{value.'' @ key @ ''}'') m fmt) ''{value}'' cred_value
         | _ \<Rightarrow> replace fmt ''{value}'' cred_value)
      in substitute_base64_expressions X substituted cred_value)"

section \<open>Resolution\<close>

definition without_header :: "string \<Rightarrow> headers \<Rightarrow> headers" where
  "without_header name hs = filter (\<lambda>(n, _). to_lowercase n \<noteq> name) hs"

definition plain_route :: "string \<Rightarrow> headers \<Rightarrow> unified_route" where
  "plain_route target_url hs =
     \<lparr>ur_effective_target = target_url, ur_display_target = target_url, ur_headers = hs,
      ur_google_oauth = None, ur_microsoft_oauth = None, ur_twitter_oauth = None,
      ur_aws_sigv4 = None, ur_oauth_client_credentials = None\<rparr>"

text \<open>The destination check.\<close>

definition check_host ::
  "externals \<Rightarrow> string \<Rightarrow> string \<Rightarrow> credential_config \<Rightarrow> route_error option" where
  "check_host X cred target_url config =
     (if \<not> cc_relative_target config \<and> cc_allowed_hosts config \<noteq> [] then
        (case host_of X target_url of
           None \<Rightarrow> Some (HostNotAllowed cred target_url)
         | Some host \<Rightarrow>
             if list_ex (\<lambda>pat. host_is_allowed pat host) (cc_allowed_hosts config) then None
             else Some (HostNotAllowed cred host))
      else None)"

fun bind_headers ::
  "externals \<Rightarrow> string \<Rightarrow> string \<Rightarrow> auth_binding list \<Rightarrow> headers \<Rightarrow> (route_error, headers) result" where
  "bind_headers X cred cred_value [] hs = Inr hs"
| "bind_headers X cred cred_value (b # bs) hs =
     (let v = substitute_credential_value X (ab_format b) cred_value in
      if contains v ''{value.'' then Inl (CredentialFieldMissing cred (ab_header b))
      else bind_headers X cred cred_value bs (hs @ [(ab_header b, v)]))"

definition direct_route ::
  "externals \<Rightarrow> string \<Rightarrow> string \<Rightarrow> headers \<Rightarrow> credential_config \<Rightarrow> string option
    \<Rightarrow> (route_error, unified_route) result" where
  "direct_route X cred target_url hs config val =
     (case val of
        None \<Rightarrow> Inl (CredentialValueMissing cred)
      | Some cred_value \<Rightarrow>
          if cc_auth_bindings config = [] then
            if cc_auth_header_format config = None
               \<and> (case json_parse X cred_value of Some (JObject _) \<Rightarrow> True | _ \<Rightarrow> False)
            then Inl (MultiSecretUnbound cred)
            else
              let auth_value = (case cc_auth_header_format config of
                    Some fmt \<Rightarrow> substitute_credential_value X fmt cred_value
                  | None \<Rightarrow> ''Bearer '' @ cred_value)
              in Inr (plain_route target_url
                   (without_header ''authorization'' hs @ [(''Authorization'', auth_value)]))
          else
            let bound = map (\<lambda>b. to_lowercase (ab_header b)) (cc_auth_bindings config) in
            (case bind_headers X cred cred_value (cc_auth_bindings config)
                    (filter (\<lambda>(n, _). to_lowercase n \<notin> set bound) hs) of
               Inl e \<Rightarrow> Inl e
             | Inr hs' \<Rightarrow> Inr (plain_route target_url hs')))"

text \<open>The choice between the two ways to authenticate to X.\<close>

definition choose_x_mode ::
  "string \<Rightarrow> string \<Rightarrow> string option \<Rightarrow> twitter_oauth_credential option \<Rightarrow> x_auth_mode option
    \<Rightarrow> (route_error, x_auth_mode option) result" where
  "choose_x_mode cred method_str bearer twitter mode =
     (case (case mode of None \<Rightarrow> Auto | Some m \<Rightarrow> m) of
        Bearer \<Rightarrow>
          if bearer = None
          then Inl (ConfigError (''credential '' @ quoted cred @ '' does not contain an X bearer_token''))
          else Inr (Some Bearer)
      | OAuth1 \<Rightarrow>
          if twitter = None
          then Inl (ConfigError (''credential '' @ quoted cred @ '' does not contain OAuth 1.0a fields''))
          else Inr (Some OAuth1)
      | Auto \<Rightarrow>
          (if bearer \<noteq> None \<and> twitter \<noteq> None
           then (if method_is_read_like method_str then Inr (Some Bearer) else Inr (Some OAuth1))
           else if bearer \<noteq> None then Inr (Some Bearer)
           else if twitter \<noteq> None then Inr (Some OAuth1)
           else Inr None))"

text \<open>The standard sidecar, after every inline bundle has been ruled out.\<close>

definition sidecar_route ::
  "string option \<Rightarrow> bool \<Rightarrow> string \<Rightarrow> string \<Rightarrow> string \<Rightarrow> headers \<Rightarrow> credential_config \<Rightarrow> string option
    \<Rightarrow> (route_error, unified_route) result" where
  "sidecar_route env enclave cred target_url method_str hs config val =
     (case cc_api_base config of
        None \<Rightarrow> Inl (ConfigError (''credential '' @ quoted cred
                  @ '' has connector=sidecar but no api_base''))
      | Some base0 \<Rightarrow>
          let sidecar_base = rewrite_sidecar_base env enclave base0;
              headers =
                hs @ [(''X-OAuth-Credential'', cred)]
                @ (if cc_relative_target config then [] else [(''X-OAuth-Target'', target_url)])
                @ [(''X-TAP-Method'', method_str)]
                @ (case val of None \<Rightarrow> [] | Some v \<Rightarrow> [(''X-OAuth-Credential-Data'', v)])
          in if cc_relative_target config then
               if contains target_url ''..'' then Inl PathTraversal
               else
                 let base = trim_end_matches CHR ''/'' sidecar_base;
                     path = (if starts_with target_url ''/'' then target_url else ''/'' @ target_url)
                 in Inr ((plain_route target_url headers)\<lparr>ur_effective_target := base @ path\<rparr>)
             else Inr ((plain_route target_url headers)\<lparr>ur_effective_target := sidecar_base\<rparr>))"

definition sidecar_connector_route ::
  "deserializers \<Rightarrow> string option \<Rightarrow> bool \<Rightarrow> string \<Rightarrow> string \<Rightarrow> string \<Rightarrow> headers \<Rightarrow> credential_config
    \<Rightarrow> string option \<Rightarrow> x_auth_mode option \<Rightarrow> (route_error, unified_route) result" where
  "sidecar_connector_route D env enclave cred target_url method_str hs config val mode =
     (let unauth = plain_route target_url (without_header ''authorization'' hs);
          microsoft = Option.bind val (parse_microsoft_oauth D);
          google = Option.bind val (parse_google_oauth D);
          bearer = Option.bind val (parse_x_bearer_token D);
          twitter = Option.bind val (parse_twitter_oauth D);
          aws = Option.bind val (parse_aws_credential D);
          oauth_cc = Option.bind val (parse_oauth_client_credentials D)
      in if microsoft \<noteq> None then Inr (unauth\<lparr>ur_microsoft_oauth := microsoft\<rparr>)
         else if google \<noteq> None then Inr (unauth\<lparr>ur_google_oauth := google\<rparr>)
         else case choose_x_mode cred method_str bearer twitter mode of
           Inl e \<Rightarrow> Inl e
         | Inr chosen \<Rightarrow>
             if chosen = Some Bearer then
               Inr (plain_route target_url
                 (without_header ''authorization'' hs
                  @ [(''Authorization'', ''Bearer '' @ (case bearer of Some t \<Rightarrow> t | None \<Rightarrow> []))]))
             else if twitter \<noteq> None then Inr (unauth\<lparr>ur_twitter_oauth := twitter\<rparr>)
             else if aws \<noteq> None then
               Inr ((plain_route target_url
                  (filter (\<lambda>(n, _). let nl = to_lowercase n in
                     nl \<noteq> ''authorization'' \<and> nl \<noteq> ''x-amz-date'' \<and> nl \<noteq> ''x-amz-content-sha256'') hs))
                 \<lparr>ur_aws_sigv4 := aws\<rparr>)
             else if oauth_cc \<noteq> None
             then Inr (unauth\<lparr>ur_oauth_client_credentials := oauth_cc\<rparr>)
             else sidecar_route env enclave cred target_url method_str hs config val)"

definition resolve_unified_route_with_config_and_auth_mode ::
  "externals \<Rightarrow> deserializers \<Rightarrow> string option \<Rightarrow> bool \<Rightarrow> string \<Rightarrow> string \<Rightarrow> string \<Rightarrow> headers
    \<Rightarrow> credential_config \<Rightarrow> string option \<Rightarrow> x_auth_mode option
    \<Rightarrow> (route_error, unified_route) result" where
  "resolve_unified_route_with_config_and_auth_mode X D env enclave cred target_url method_str hs
       config val mode =
     (if Option.bind val (parse_signing_credential D) \<noteq> None then Inl (SigningCredential cred)
      else case check_host X cred target_url config of
        Some e \<Rightarrow> Inl e
      | None \<Rightarrow>
          (case cc_connector config of
             Direct \<Rightarrow> direct_route X cred target_url hs config val
           | Sidecar \<Rightarrow>
               sidecar_connector_route D env enclave cred target_url method_str hs config val mode))"

definition resolve_unified_route_with_config ::
  "externals \<Rightarrow> deserializers \<Rightarrow> string option \<Rightarrow> bool \<Rightarrow> string \<Rightarrow> string \<Rightarrow> string \<Rightarrow> headers
    \<Rightarrow> credential_config \<Rightarrow> string option \<Rightarrow> (route_error, unified_route) result" where
  "resolve_unified_route_with_config X D env enclave cred target_url method_str hs config val =
     resolve_unified_route_with_config_and_auth_mode X D env enclave cred target_url method_str hs
       config val None"

definition resolve_unified_route_with_auth_mode ::
  "externals \<Rightarrow> deserializers \<Rightarrow> string option \<Rightarrow> bool \<Rightarrow> string \<Rightarrow> string \<Rightarrow> string \<Rightarrow> headers
    \<Rightarrow> agent_sec_config \<Rightarrow> (string \<rightharpoonup> string) \<Rightarrow> x_auth_mode option
    \<Rightarrow> (route_error, unified_route) result" where
  "resolve_unified_route_with_auth_mode X D env enclave cred target_url method_str hs cfg vals mode =
     (case map_of (cfg_credentials cfg) cred of
        None \<Rightarrow> Inl (RouteCredentialNotFound cred)
      | Some config \<Rightarrow>
          resolve_unified_route_with_config_and_auth_mode X D env enclave cred target_url method_str
            hs config (vals cred) mode)"

definition resolve_unified_route ::
  "externals \<Rightarrow> deserializers \<Rightarrow> string option \<Rightarrow> bool \<Rightarrow> string \<Rightarrow> string \<Rightarrow> string \<Rightarrow> headers
    \<Rightarrow> agent_sec_config \<Rightarrow> (string \<rightharpoonup> string) \<Rightarrow> (route_error, unified_route) result" where
  "resolve_unified_route X D env enclave cred target_url method_str hs cfg vals =
     resolve_unified_route_with_auth_mode X D env enclave cred target_url method_str hs cfg vals None"

text \<open>The text of an error; the dash of the signing message is the three bytes of U+2014.\<close>

fun route_error_display :: "route_error \<Rightarrow> string" where
  "route_error_display (RouteCredentialNotFound n) = ''Credential '' @ quoted n @ '' not found''"
| "route_error_display (CredentialValueMissing n) =
     ''Credential '' @ quoted n @ '' value not configured''"
| "route_error_display (ConfigError msg) = ''Config error: '' @ msg"
| "route_error_display PathTraversal = ''Path traversal not allowed in relative target''"
| "route_error_display (SigningCredential n) =
     ''Credential '' @ quoted n @ '' is a signing key '' @ [CHR 0xE2, CHR 0x80, CHR 0x94]
       @ '' use POST /sign, not /forward''"
| "route_error_display (HostNotAllowed cred host) =
     ''Credential '' @ quoted cred @ '' is not allowed to be sent to host '' @ quoted host
       @ ''. Add this host to the credential'' @ [CHR 0x27] @ ''s allowed_hosts in the dashboard.''"
| "route_error_display (MultiSecretUnbound n) =
     ''Credential '' @ quoted n @ '' holds multiple secret fields but has no field-to-header ''
       @ ''bindings configured, so the proxy doesn'' @ [CHR 0x27]
       @ ''t know which header receives which field.''"
| "route_error_display (CredentialFieldMissing cred b) =
     ''Credential '' @ quoted cred @ '': the binding for header '' @ quoted b
       @ '' references a field the stored credential value doesn'' @ [CHR 0x27] @ ''t have.''"

section \<open>What a successful resolution means\<close>

lemma host_is_allowedD:
  assumes "host_is_allowed pat host"
  shows "host = to_ascii_lowercase (trim pat)
    \<or> (\<exists>sfx. to_ascii_lowercase (trim pat) = ''*.'' @ sfx
         \<and> (host = sfx \<or> (\<exists>sub. host = sub @ ''.'' @ sfx)))"
proof (cases "strip_prefix (to_ascii_lowercase (trim pat)) ''*.''")
  case None
  then show ?thesis using assms by (simp add: host_is_allowed_def)
next
  case (Some sfx)
  then have "to_ascii_lowercase (trim pat) = ''*.'' @ sfx" by (simp add: strip_prefix_Some)
  moreover have "host = sfx \<or> (\<exists>sub. host = sub @ ''.'' @ sfx)"
    using assms Some by (auto simp: host_is_allowed_def ends_with_def suffix_def)
  ultimately show ?thesis by blast
qed

lemma check_host_None:
  assumes "check_host X cred target config = None" and "\<not> cc_relative_target config"
    and "cc_allowed_hosts config \<noteq> []"
  obtains host pat where "host_of X target = Some host" "pat \<in> set (cc_allowed_hosts config)"
    "host_is_allowed pat host"
  using assms by (auto simp: check_host_def list_ex_iff split: option.splits if_splits)

lemma bind_headers_ok:
  assumes "bind_headers X cred v bs hs = Inr hs'"
  shows "hs' = hs @ map (\<lambda>b. (ab_header b, substitute_credential_value X (ab_format b) v)) bs
    \<and> (\<forall>b \<in> set bs. \<not> contains (substitute_credential_value X (ab_format b) v) ''{value.'')"
  using assms
  by (induction X cred v bs hs rule: bind_headers.induct) (auto simp: Let_def split: if_splits)

lemma plain_route_simps [simp]:
  "ur_effective_target (plain_route t hs) = t" "ur_display_target (plain_route t hs) = t"
  "ur_headers (plain_route t hs) = hs"
  by (simp_all add: plain_route_def)

text \<open>A credential value that none of the inline parsers recognises.\<close>

definition no_inline_bundle :: "deserializers \<Rightarrow> string option \<Rightarrow> bool" where
  "no_inline_bundle D val \<longleftrightarrow>
     Option.bind val (parse_microsoft_oauth D) = None \<and> Option.bind val (parse_google_oauth D) = None
     \<and> Option.bind val (parse_x_bearer_token D) = None \<and> Option.bind val (parse_twitter_oauth D) = None
     \<and> Option.bind val (parse_aws_credential D) = None
     \<and> Option.bind val (parse_oauth_client_credentials D) = None"

lemma sidecar_target:
  assumes "sidecar_connector_route D env enclave cred target m hs config val mode = Inr r"
  shows "ur_effective_target r = target
    \<or> (no_inline_bundle D val \<and> sidecar_route env enclave cred target m hs config val = Inr r)"
  using assms
  by (auto simp: sidecar_connector_route_def Let_def choose_x_mode_def no_inline_bundle_def
      split: if_splits sum.splits x_auth_mode.splits option.splits)

lemma resolve_ok_cases:
  assumes "resolve_unified_route_with_config_and_auth_mode X D env enclave cred target m hs config val mode
      = Inr r"
  shows "Option.bind val (parse_signing_credential D) = None \<and> check_host X cred target config = None
    \<and> (cc_connector config = Direct \<longrightarrow> direct_route X cred target hs config val = Inr r)
    \<and> (cc_connector config = Sidecar \<longrightarrow>
        sidecar_connector_route D env enclave cred target m hs config val mode = Inr r)"
  using assms
  by (auto simp: resolve_unified_route_with_config_and_auth_mode_def
      split: if_splits option.splits connector_type.splits)

lemma direct_target: "direct_route X cred target hs config val = Inr r \<Longrightarrow> ur_effective_target r = target"
  by (auto simp: direct_route_def Let_def split: option.splits if_splits sum.splits)

section \<open>Properties\<close>

text \<open>C8. The destination of a secret. If a credential with a host list (and without the
  relative-target flag) is routed, then the target is an absolute URL whose host is one of
  the listed hosts, or a subdomain at a dot boundary (or the apex) of a listed wildcard; the
  request goes to that target or, through a standard sidecar, to the configured base; and a
  signing key is never routed at all.\<close>

theorem host_binding_enforced:
  assumes "resolve_unified_route_with_config_and_auth_mode X D env enclave cred target m hs config val mode
      = Inr r"
    and "\<not> cc_relative_target config" and "cc_allowed_hosts config \<noteq> []"
  shows "(\<exists>u h pat p. url_parse X target = Some u \<and> u_host_str u = Some h
        \<and> pat \<in> set (cc_allowed_hosts config) \<and> p = to_ascii_lowercase (trim pat)
        \<and> (to_ascii_lowercase h = p
           \<or> (\<exists>sfx. p = ''*.'' @ sfx \<and> (to_ascii_lowercase h = sfx
                \<or> (\<exists>sub. to_ascii_lowercase h = sub @ ''.'' @ sfx)))))
    \<and> (ur_effective_target r = target
       \<or> (\<exists>base. cc_api_base config = Some base
            \<and> ur_effective_target r = rewrite_sidecar_base env enclave base))
    \<and> (\<forall>v. val = Some v \<longrightarrow> parse_signing_credential D v = None)"
proof -
  note ok = resolve_ok_cases [OF assms(1)]
  obtain host pat where h: "host_of X target = Some host" "pat \<in> set (cc_allowed_hosts config)"
    "host_is_allowed pat host"
    using check_host_None ok assms(2,3) by metis
  then obtain u h' where u: "url_parse X target = Some u" "u_host_str u = Some h'"
    "host = to_ascii_lowercase h'"
    by (auto simp: host_of_def split: option.splits)
  have tgt: "ur_effective_target r = target
       \<or> (\<exists>base. cc_api_base config = Some base
            \<and> ur_effective_target r = rewrite_sidecar_base env enclave base)"
  proof (cases "cc_connector config")
    case Direct
    then show ?thesis using ok direct_target by blast
  next
    case Sidecar
    then have "sidecar_connector_route D env enclave cred target m hs config val mode = Inr r"
      using ok by blast
    from sidecar_target [OF this] assms(2) show ?thesis
      by (auto simp: sidecar_route_def Let_def split: option.splits)
  qed
  have sg: "\<forall>v. val = Some v \<longrightarrow> parse_signing_credential D v = None" using ok by auto
  define p where "p = to_ascii_lowercase (trim pat)"
  have "to_ascii_lowercase h' = p
       \<or> (\<exists>sfx. p = ''*.'' @ sfx \<and> (to_ascii_lowercase h' = sfx
                \<or> (\<exists>sub. to_ascii_lowercase h' = sub @ ''.'' @ sfx)))"
    using host_is_allowedD [OF h(3)] unfolding u(3) p_def .
  then show ?thesis
    using tgt sg h(2) u(1,2) p_def
    by (intro conjI exI [of _ u] exI [of _ h'] exI [of _ pat] exI [of _ p]) assumption+
qed

definition no_bundles :: deserializers where
  "no_bundles = \<lparr>de_signing = (\<lambda>_. None), de_microsoft = (\<lambda>_. None), de_google = (\<lambda>_. None),
     de_x_bearer = (\<lambda>_. None), de_twitter = (\<lambda>_. None), de_aws = (\<lambda>_. None),
     de_oauth_cc = (\<lambda>_. None)\<rparr>"

definition bound_config :: credential_config where
  "bound_config =
     \<lparr>cc_description = [], cc_api_base = None, cc_substitution = default_substitution,
      cc_connector = Direct, cc_relative_target = False, cc_auth_header_format = None,
      cc_auth_bindings = [], cc_end_user_id = None, cc_allowed_hosts = [''*.B'']\<rparr>"

theorem host_binding_enforced_witness:
  "\<exists>r. resolve_unified_route_with_config_and_auth_mode sample_externals no_bundles None False ''gh''
      ''https://a.b/x'' ''GET'' [] bound_config (Some ''s3cr3t'') None = Inr r
    \<and> ur_effective_target r = ''https://a.b/x''"
proof -
  obtain r where r: "resolve_unified_route_with_config_and_auth_mode sample_externals no_bundles None
      False ''gh'' ''https://a.b/x'' ''GET'' [] bound_config (Some ''s3cr3t'') None = Inr r"
  proof -
    have "resolve_unified_route_with_config_and_auth_mode sample_externals no_bundles None
      False ''gh'' ''https://a.b/x'' ''GET'' [] bound_config (Some ''s3cr3t'') None
      = Inr (plain_route ''https://a.b/x'' [(''Authorization'', ''Bearer s3cr3t'')])" by code_simp
    then show thesis using that by blast
  qed
  have "\<not> cc_relative_target bound_config" "cc_allowed_hosts bound_config \<noteq> []"
    "cc_api_base bound_config = None" by (simp_all add: bound_config_def)
  with host_binding_enforced [OF r] r show ?thesis by auto
qed

text \<open>The headers of a directly connected credential: what the agent sent under a header
  that carries the secret is dropped, everything else is kept in order, and the secret is
  added exactly once per binding (or once in \<open>Authorization\<close> where there are no bindings);
  no template is sent with an unresolved field.\<close>

lemma direct_headers_exact:
  assumes "resolve_unified_route_with_config_and_auth_mode X D env enclave cred target m hs config val mode
      = Inr r"
    and "cc_connector config = Direct"
  shows "\<exists>v bound injected. val = Some v
    \<and> bound = (if cc_auth_bindings config = [] then [''authorization'']
               else map (\<lambda>b. to_lowercase (ab_header b)) (cc_auth_bindings config))
    \<and> ur_headers r = filter (\<lambda>(n, _). to_lowercase n \<notin> set bound) hs @ injected
    \<and> map (\<lambda>(n, _). to_lowercase n) injected = bound
    \<and> (cc_auth_bindings config \<noteq> [] \<longrightarrow> list_all (\<lambda>(_, x). \<not> contains x ''{value.'') injected)
    \<and> (cc_auth_bindings config = [] \<and> cc_auth_header_format config = None
        \<longrightarrow> injected = [(''Authorization'', ''Bearer '' @ v)])"
proof -
  have d: "direct_route X cred target hs config val = Inr r"
    using resolve_ok_cases [OF assms(1)] assms(2) by blast
  then obtain v where v: "val = Some v" by (auto simp: direct_route_def split: option.splits)
  have low: "to_lowercase ''Authorization'' = ''authorization''" by code_simp
  show ?thesis
  proof (cases "cc_auth_bindings config = []")
    case True
    with d v obtain a where "ur_headers r = without_header ''authorization'' hs @ [(''Authorization'', a)]"
      "cc_auth_header_format config = None \<longrightarrow> a = ''Bearer '' @ v"
      by (auto simp: direct_route_def Let_def split: if_splits option.splits)
    with True v low show ?thesis
      by (intro exI [of _ v] exI [of _ "[''authorization'']"] exI [of _ "[(''Authorization'', a)]"])
         (simp add: without_header_def)
  next
    case False
    let ?bound = "map (\<lambda>b. to_lowercase (ab_header b)) (cc_auth_bindings config)"
    obtain hs' where "bind_headers X cred v (cc_auth_bindings config)
        (filter (\<lambda>(n, _). to_lowercase n \<notin> set ?bound) hs) = Inr hs'" "ur_headers r = hs'"
      using d v False by (auto simp: direct_route_def Let_def split: sum.splits)
    with bind_headers_ok [OF this(1)] v False show ?thesis
      by (auto simp: list_all_iff comp_def case_prod_unfold)
  qed
qed

text \<open>A relative target stays at its sidecar: for a relative-target sidecar whose value is
  none of the inline bundles, the request goes to the configured base followed by a path
  that starts with a slash and has no dot-dot.\<close>

lemma relative_target_pinned:
  assumes "resolve_unified_route_with_config_and_auth_mode X D env enclave cred target m hs config val mode
      = Inr r"
    and "cc_connector config = Sidecar" and "cc_relative_target config" and "no_inline_bundle D val"
  shows "\<exists>base path. cc_api_base config = Some base
    \<and> ur_effective_target r = trim_end_matches CHR ''/'' (rewrite_sidecar_base env enclave base) @ ''/'' @ path
    \<and> \<not> contains target ''..''"
proof -
  have "sidecar_connector_route D env enclave cred target m hs config val mode = Inr r"
    using resolve_ok_cases [OF assms(1)] assms(2) by blast
  then have s: "sidecar_route env enclave cred target m hs config val = Inr r"
    using assms(4)
    by (auto simp: sidecar_connector_route_def Let_def choose_x_mode_def no_inline_bundle_def
        split: if_splits sum.splits x_auth_mode.splits option.splits)
  then obtain base where base: "cc_api_base config = Some base"
    by (auto simp: sidecar_route_def split: option.splits)
  have "\<exists>path. (if starts_with target ''/'' then target else ''/'' @ target) = ''/'' @ path"
    by (auto simp: starts_with_def prefix_def)
  then show ?thesis
    using s base assms(3) by (auto simp: sidecar_route_def Let_def split: if_splits)
qed

definition relative_config :: credential_config where
  "relative_config = bound_config\<lparr>cc_connector := Sidecar, cc_relative_target := True,
     cc_api_base := Some ''http://sidecar:8080/''\<rparr>"

definition google_bundle :: deserializers where
  "google_bundle = no_bundles\<lparr>de_google := (\<lambda>_. Some \<lparr>go_client_id = ''c'', go_client_secret = ''s'',
     go_refresh_token = ''r'', go_scopes = None\<rparr>)\<rparr>"

text \<open>The host list is not consulted for a relative-target sidecar even when its value is an
  inline bundle, whose request goes to the target the agent named: a Google credential that
  is bound to one host is routed to any other.\<close>

lemma relative_inline_bundle_escapes_binding:
  "\<exists>r. resolve_unified_route_with_config_and_auth_mode sample_externals google_bundle None False ''gmail''
      ''https://evil.example/x'' ''GET'' [] (relative_config\<lparr>cc_allowed_hosts := [''gmail.googleapis.com'']\<rparr>)
      (Some ''bundle'') None = Inr r
    \<and> ur_effective_target r = ''https://evil.example/x'' \<and> ur_google_oauth r \<noteq> None"
  by (simp add: resolve_unified_route_with_config_and_auth_mode_def parse_signing_credential_def
      google_bundle_def no_bundles_def check_host_def relative_config_def bound_config_def
      sidecar_connector_route_def parse_microsoft_oauth_def parse_google_oauth_def)

text \<open>A field reference inside a base64 expression is resolved by plain text replacement, so a
  field whose name starts another one takes its place: with the fields \<open>user\<close> and
  \<open>username\<close>, the reference to the second yields the value of the first with the rest of
  the name appended.\<close>

definition basic_externals :: externals where
  "basic_externals = sample_externals\<lparr>json_parse := (\<lambda>_. Some (JObject
     [(''password'', JString ''pw''), (''user'', JString ''bob''), (''username'', JString ''alice'')])),
     base64_std := id\<rparr>"

lemma base64_field_prefix_confused:
  "substitute_credential_value basic_externals ''Basic {base64(value.username:value.password)}'' ''json''
     = ''Basic bobname:pw''"
  by code_simp

end
