(* ===== verification/Approvals.thy ===== *)
theory Approvals
  imports Types Claims "HOL-Library.AList"
begin

text \<open>
  The approval tables of the store (\<open>tap-core/src/store.rs\<close>): \<open>pending_approvals\<close>, which
  every channel resolves, \<open>async_approvals\<close>, which holds the outcome an agent polls for, and
  \<open>pending_policy_changes\<close>, the staged changes that need an end-user's passkey. A table is
  an association list from its primary key; \<open>now\<close> is the clock of the statement, in seconds.
\<close>

section \<open>Pending approvals\<close>

record pending_row =
  pa_details_json :: string
  pa_status :: string
  pa_resolved_by :: "string option"
  pa_created_at :: timestamp
  pa_expires_at :: timestamp
  pa_team_id :: "string option"
  pa_required_end_user :: "string option"
  pa_matrix_room_id :: "string option"
  pa_matrix_event_id :: "string option"
  pa_telegram_chat_id :: "string option"
  pa_telegram_message_id :: "int option"
  pa_allowed_approvers_json :: "string option"
  pa_approval_count :: int
  pa_min_approvals :: int
  pa_approval_challenge :: "string option"

type_synonym pending_table = "(string \<times> pending_row) list"

text \<open>A row as an \<open>INSERT\<close> leaves it, with the defaults of the schema.\<close>

definition new_pending :: "string \<Rightarrow> string \<Rightarrow> timestamp \<Rightarrow> timestamp \<Rightarrow> pending_row" where
  "new_pending details status created expires =
     \<lparr>pa_details_json = details, pa_status = status, pa_resolved_by = None,
      pa_created_at = created, pa_expires_at = expires, pa_team_id = None,
      pa_required_end_user = None, pa_matrix_room_id = None, pa_matrix_event_id = None,
      pa_telegram_chat_id = None, pa_telegram_message_id = None,
      pa_allowed_approvers_json = None, pa_approval_count = 0, pa_min_approvals = 1,
      pa_approval_challenge = None\<rparr>"

text \<open>SQL \<open>COALESCE\<close> of two nullable values.\<close>

definition coalesce :: "'a option \<Rightarrow> 'a option \<Rightarrow> 'a option" where
  "coalesce x y = (case x of None \<Rightarrow> y | Some _ \<Rightarrow> x)"

definition save_pending_approval_scoped ::
  "string \<Rightarrow> string \<Rightarrow> timestamp \<Rightarrow> string option \<Rightarrow> string option \<Rightarrow> timestamp \<Rightarrow> pending_table
    \<Rightarrow> pending_table" where
  "save_pending_approval_scoped txn details expires team required now t =
     (case map_of t txn of
        None \<Rightarrow> AList.update txn ((new_pending details ''pending'' now expires)
            \<lparr>pa_team_id := team, pa_required_end_user := required\<rparr>) t
      | Some p \<Rightarrow> AList.update txn (p\<lparr>pa_details_json := details,
            pa_status := (if pa_status p = ''pending'' then ''pending'' else pa_status p),
            pa_resolved_by := (if pa_status p = ''pending'' then None else pa_resolved_by p),
            pa_expires_at := expires,
            pa_team_id := coalesce team (pa_team_id p),
            pa_required_end_user := coalesce required (pa_required_end_user p)\<rparr>) t)"

definition save_pending_approval_with_team ::
  "string \<Rightarrow> string \<Rightarrow> timestamp \<Rightarrow> string option \<Rightarrow> timestamp \<Rightarrow> pending_table \<Rightarrow> pending_table" where
  "save_pending_approval_with_team txn details expires team now t =
     save_pending_approval_scoped txn details expires team None now t"

definition save_pending_approval ::
  "string \<Rightarrow> string \<Rightarrow> timestamp \<Rightarrow> timestamp \<Rightarrow> pending_table \<Rightarrow> pending_table" where
  "save_pending_approval txn details expires now t =
     save_pending_approval_with_team txn details expires None now t"

record pending_approval_row =
  pw_txn_id :: string
  pw_details_json :: string
  pw_created_at :: timestamp
  pw_expires_at :: timestamp

definition list_pending_approvals_for_team ::
  "string \<Rightarrow> timestamp \<Rightarrow> pending_table \<Rightarrow> pending_approval_row list" where
  "list_pending_approvals_for_team team now t =
     rev (sort_key pw_created_at
       (map (\<lambda>(k, p). \<lparr>pw_txn_id = k, pw_details_json = pa_details_json p,
                      pw_created_at = pa_created_at p, pw_expires_at = pa_expires_at p\<rparr>)
         (filter (\<lambda>(_, p). pa_team_id p = Some team \<and> pa_status p = ''pending''
                    \<and> pa_expires_at p > now \<and> pa_required_end_user p = None) t)))"

definition get_pending_approval_details ::
  "string \<Rightarrow> timestamp \<Rightarrow> pending_table \<Rightarrow> string option" where
  "get_pending_approval_details txn now t =
     (case map_of t txn of
        None \<Rightarrow> None
      | Some p \<Rightarrow>
          if pa_status p = ''pending'' \<and> pa_expires_at p > now then Some (pa_details_json p)
          else None)"

definition get_pending_approval_min_approvals :: "string \<Rightarrow> pending_table \<Rightarrow> 32 word option" where
  "get_pending_approval_min_approvals txn t =
     map_option (\<lambda>p. word_of_int (pa_min_approvals p)) (map_of t txn)"

definition get_pending_approval_status :: "string \<Rightarrow> pending_table \<Rightarrow> string option" where
  "get_pending_approval_status txn t = map_option pa_status (map_of t txn)"

definition get_pending_approval_resolved_by :: "string \<Rightarrow> pending_table \<Rightarrow> string option" where
  "get_pending_approval_resolved_by txn t = Option.bind (map_of t txn) pa_resolved_by"

text \<open>An upsert whose conflict arm is guarded; the result says whether a row was written.\<close>

definition resolve_pending_approval ::
  "string \<Rightarrow> string \<Rightarrow> string option \<Rightarrow> timestamp \<Rightarrow> pending_table \<Rightarrow> bool \<times> pending_table" where
  "resolve_pending_approval txn status resolved_by now t =
     (case map_of t txn of
        None \<Rightarrow> (True, AList.update txn
            ((new_pending ''{}'' status now (now + 20 * 60))\<lparr>pa_resolved_by := resolved_by\<rparr>) t)
      | Some p \<Rightarrow>
          if (pa_status p = ''pending'' \<or> pa_status p = status)
             \<and> (status \<noteq> ''approved'' \<or> pa_required_end_user p = None)
          then (True, AList.update txn (p\<lparr>pa_status := status,
                  pa_resolved_by := coalesce resolved_by (pa_resolved_by p)\<rparr>) t)
          else (False, t))"

definition claim_pending_approval_for_grant ::
  "string \<Rightarrow> string option \<Rightarrow> pending_table \<Rightarrow> bool \<times> pending_table" where
  "claim_pending_approval_for_grant txn resolved_by t =
     (case map_of t txn of
        None \<Rightarrow> (False, t)
      | Some p \<Rightarrow>
          if pa_status p = ''pending'' \<and> pa_required_end_user p = None
          then (True, AList.update txn (p\<lparr>pa_status := ''approved'',
                  pa_resolved_by := coalesce resolved_by (pa_resolved_by p)\<rparr>) t)
          else (False, t))"

definition resolve_pending_approval_as_end_user ::
  "string \<Rightarrow> string \<Rightarrow> string \<Rightarrow> string option \<Rightarrow> pending_table \<Rightarrow> bool \<times> pending_table" where
  "resolve_pending_approval_as_end_user txn status ext_id resolved_by t =
     (case map_of t txn of
        None \<Rightarrow> (False, t)
      | Some p \<Rightarrow>
          if pa_status p = ''pending'' \<and> pa_required_end_user p = Some ext_id
          then (True, AList.update txn (p\<lparr>pa_status := status,
                  pa_resolved_by := coalesce resolved_by (pa_resolved_by p)\<rparr>) t)
          else (False, t))"

definition delete_pending_approval :: "string \<Rightarrow> pending_table \<Rightarrow> pending_table" where
  "delete_pending_approval txn t = AList.delete txn t"

section \<open>Channel data\<close>

definition set_pending_approval_telegram_message ::
  "string \<Rightarrow> string \<Rightarrow> int \<Rightarrow> timestamp \<Rightarrow> pending_table \<Rightarrow> pending_table" where
  "set_pending_approval_telegram_message txn chat msg now t =
     (let p = (case map_of t txn of
                 None \<Rightarrow> new_pending ''{}'' ''pending'' now (now + 20 * 60) | Some p \<Rightarrow> p)
      in AList.update txn (p\<lparr>pa_telegram_chat_id := Some chat, pa_telegram_message_id := Some msg\<rparr>) t)"

definition get_pending_approval_telegram_message ::
  "string \<Rightarrow> pending_table \<Rightarrow> (string \<times> int) option" where
  "get_pending_approval_telegram_message txn t =
     (case map_of t txn of
        None \<Rightarrow> None
      | Some p \<Rightarrow>
          (case (pa_telegram_chat_id p, pa_telegram_message_id p) of
             (Some c, Some m) \<Rightarrow> if c \<noteq> [] then Some (c, m) else None
           | _ \<Rightarrow> None))"

definition set_pending_approval_matrix_data ::
  "string \<Rightarrow> string \<Rightarrow> string \<Rightarrow> string \<Rightarrow> nat \<Rightarrow> timestamp \<Rightarrow> pending_table \<Rightarrow> pending_table" where
  "set_pending_approval_matrix_data txn room event approvers_json min_approvals now t =
     (let p = (case map_of t txn of
                 None \<Rightarrow> new_pending ''{}'' ''pending'' now (now + 20 * 60) | Some p \<Rightarrow> p)
      in AList.update txn (p\<lparr>pa_matrix_room_id := Some room, pa_matrix_event_id := Some event,
           pa_allowed_approvers_json := Some approvers_json,
           pa_min_approvals := int min_approvals\<rparr>) t)"

record matrix_approval_data =
  md_txn_id :: string
  md_room_id :: string
  md_event_id :: string
  md_allowed_approvers_json :: string
  md_approval_count :: nat
  md_min_approvals :: nat
  md_status :: string

definition get_pending_approval_by_matrix_event ::
  "string \<Rightarrow> pending_table \<Rightarrow> matrix_approval_data option" where
  "get_pending_approval_by_matrix_event event t =
     (case find (\<lambda>(_, p). pa_matrix_event_id p = Some event) t of
        None \<Rightarrow> None
      | Some (k, p) \<Rightarrow> Some
          \<lparr>md_txn_id = k,
           md_room_id = (case pa_matrix_room_id p of None \<Rightarrow> [] | Some r \<Rightarrow> r),
           md_event_id = event,
           md_allowed_approvers_json =
             (case pa_allowed_approvers_json p of None \<Rightarrow> ''[]'' | Some j \<Rightarrow> j),
           md_approval_count = nat (pa_approval_count p mod 2 ^ 64),
           md_min_approvals = nat (pa_min_approvals p mod 2 ^ 64),
           md_status = pa_status p\<rparr>)"

text \<open>
  Two statements: the increment, and a read of the row. Other requests may run between
  them (\<open>between\<close>).
\<close>

definition increment_pending_approval_count ::
  "string \<Rightarrow> (pending_table \<Rightarrow> pending_table) \<Rightarrow> pending_table
    \<Rightarrow> (agent_sec_error, nat \<times> nat) result \<times> pending_table" where
  "increment_pending_approval_count txn between t =
     (let t1 = (case map_of t txn of
                  None \<Rightarrow> t
                | Some p \<Rightarrow> AList.update txn (p\<lparr>pa_approval_count := pa_approval_count p + 1\<rparr>) t);
          t2 = between t1
      in case map_of t2 txn of
           Some p \<Rightarrow> (Inr (nat (pa_approval_count p mod 2 ^ 64), nat (pa_min_approvals p mod 2 ^ 64)), t2)
         | None \<Rightarrow> (Inl (Config (''No pending approval row found for txn_id='' @ txn)), t2))"

definition get_pending_approval_matrix_message ::
  "string \<Rightarrow> pending_table \<Rightarrow> (string \<times> string) option" where
  "get_pending_approval_matrix_message txn t =
     (case map_of t txn of
        None \<Rightarrow> None
      | Some p \<Rightarrow>
          if pa_status p \<noteq> ''pending'' then None
          else (case (pa_matrix_room_id p, pa_matrix_event_id p) of
              (Some r, Some e) \<Rightarrow> if r \<noteq> [] \<and> e \<noteq> [] then Some (r, e) else None
            | _ \<Rightarrow> None))"

section \<open>Passkey challenges\<close>

text \<open>A new challenge also gives the row another 20 minutes, and makes the row if there is none.\<close>

definition set_pending_approval_challenge ::
  "string \<Rightarrow> string \<Rightarrow> timestamp \<Rightarrow> pending_table \<Rightarrow> pending_table" where
  "set_pending_approval_challenge txn challenge now t =
     (case map_of t txn of
        None \<Rightarrow> AList.update txn ((new_pending ''{}'' ''pending'' now (now + 20 * 60))
            \<lparr>pa_approval_challenge := Some challenge\<rparr>) t
      | Some p \<Rightarrow>
          if pa_status p = ''pending''
          then AList.update txn (p\<lparr>pa_approval_challenge := Some challenge, pa_expires_at := now + 20 * 60\<rparr>) t
          else t)"

definition take_pending_approval_challenge ::
  "string \<Rightarrow> timestamp \<Rightarrow> pending_table \<Rightarrow> string option \<times> pending_table" where
  "take_pending_approval_challenge txn now t =
     (case map_of t txn of
        None \<Rightarrow> (None, t)
      | Some p \<Rightarrow>
          if pa_status p = ''pending'' \<and> pa_expires_at p > now \<and> pa_approval_challenge p \<noteq> None
          then (pa_approval_challenge p, AList.update txn (p\<lparr>pa_approval_challenge := None\<rparr>) t)
          else (None, t))"

section \<open>Asynchronous approvals\<close>

record async_approval_row =
  as_txn_id :: string
  as_agent_id :: string
  as_team_id :: string
  as_status :: string
  as_created_at :: timestamp
  as_expires_at :: timestamp
  as_response_status :: "nat option"
  as_response_headers_json :: "string option"
  as_response_body :: "bytes option"
  as_response_error :: "string option"

type_synonym async_table = "(string \<times> async_approval_row) list"

definition create_async_approval ::
  "string \<Rightarrow> string \<Rightarrow> string \<Rightarrow> timestamp \<Rightarrow> timestamp \<Rightarrow> async_table
    \<Rightarrow> (agent_sec_error, async_table) result" where
  "create_async_approval txn agent team expires now t =
     (if map_of t txn \<noteq> None then Inl (Config ''Failed to create async approval'')
      else Inr (AList.update txn
        \<lparr>as_txn_id = txn, as_agent_id = agent, as_team_id = team, as_status = ''pending'',
         as_created_at = now, as_expires_at = expires, as_response_status = None,
         as_response_headers_json = None, as_response_body = None, as_response_error = None\<rparr> t))"

definition get_async_approval :: "string \<Rightarrow> async_table \<Rightarrow> async_approval_row option" where
  "get_async_approval txn t = map_of t txn"

definition resolve_async_approval ::
  "string \<Rightarrow> string \<Rightarrow> nat option \<Rightarrow> string option \<Rightarrow> bytes option \<Rightarrow> string option \<Rightarrow> async_table
    \<Rightarrow> async_table" where
  "resolve_async_approval txn status rstatus rheaders rbody rerror t =
     (case map_of t txn of
        None \<Rightarrow> t
      | Some p \<Rightarrow> AList.update txn (p\<lparr>as_status := status, as_response_status := rstatus,
            as_response_headers_json := rheaders, as_response_body := rbody,
            as_response_error := rerror\<rparr>) t)"

definition cleanup_expired_rows ::
  "timestamp \<Rightarrow> pending_table \<Rightarrow> async_table \<Rightarrow> (nat \<times> nat) \<times> pending_table \<times> async_table" where
  "cleanup_expired_rows now t a =
     (let dead = (\<lambda>(_, p). pa_expires_at p < now \<and> pa_status p \<noteq> ''pending'');
          gone = (\<lambda>(_, r). as_expires_at r < now)
      in ((length (filter dead t), length (filter gone a)),
          filter (\<lambda>x. \<not> dead x) t, filter (\<lambda>x. \<not> gone x) a))"

section \<open>Staged policy changes\<close>

record policy_change_row =
  pcr_team_id :: string
  pcr_credential_name :: string
  pcr_required_end_user :: string
  pcr_proposed_policy_json :: string
  pcr_status :: string
  pcr_created_at :: timestamp
  pcr_expires_at :: timestamp

type_synonym policy_change_table = "(string \<times> policy_change_row) list"

definition create_pending_policy_change ::
  "string \<Rightarrow> string \<Rightarrow> string \<Rightarrow> string \<Rightarrow> string \<Rightarrow> timestamp \<Rightarrow> timestamp \<Rightarrow> policy_change_table
    \<Rightarrow> (agent_sec_error, policy_change_table) result" where
  "create_pending_policy_change txn team cred ext json expires now t =
     (if map_of t txn \<noteq> None then Inl (Config ''Failed to stage policy change'')
      else Inr (AList.update txn
        \<lparr>pcr_team_id = team, pcr_credential_name = cred, pcr_required_end_user = ext,
         pcr_proposed_policy_json = json, pcr_status = ''pending'', pcr_created_at = now,
         pcr_expires_at = expires\<rparr> t))"

definition get_pending_policy_change ::
  "string \<Rightarrow> policy_change_table \<Rightarrow> policy_change_row option" where
  "get_pending_policy_change txn t = map_of t txn"

definition claim_pending_policy_change ::
  "string \<Rightarrow> string \<Rightarrow> timestamp \<Rightarrow> policy_change_table \<Rightarrow> bool \<times> policy_change_table" where
  "claim_pending_policy_change txn ext_id now t =
     (case map_of t txn of
        None \<Rightarrow> (False, t)
      | Some p \<Rightarrow>
          if pcr_status p = ''pending'' \<and> pcr_required_end_user p = ext_id \<and> pcr_expires_at p > now
          then (True, AList.update txn (p\<lparr>pcr_status := ''applied''\<rparr>) t)
          else (False, t))"

section \<open>Histories of the approvals table\<close>

text \<open>The statements that the team's channels issue, apart from deletion.\<close>

datatype team_op =
    SaveScoped string string timestamp "string option" "string option" timestamp
  | Resolve string string "string option" timestamp
  | GrantClaim string "string option"
  | TelegramMessage string string int timestamp
  | MatrixData string string string string nat timestamp
  | Increment string
  | SetChallenge string string timestamp
  | TakeChallenge string timestamp

fun run_op :: "team_op \<Rightarrow> pending_table \<Rightarrow> pending_table" where
  "run_op (SaveScoped txn d e tm req now) t = save_pending_approval_scoped txn d e tm req now t"
| "run_op (Resolve txn st who now) t = snd (resolve_pending_approval txn st who now t)"
| "run_op (GrantClaim txn who) t = snd (claim_pending_approval_for_grant txn who t)"
| "run_op (TelegramMessage txn c m now) t = set_pending_approval_telegram_message txn c m now t"
| "run_op (MatrixData txn r e a n now) t = set_pending_approval_matrix_data txn r e a n now t"
| "run_op (Increment txn) t = snd (increment_pending_approval_count txn id t)"
| "run_op (SetChallenge txn c now) t = set_pending_approval_challenge txn c now t"
| "run_op (TakeChallenge txn now) t = snd (take_pending_approval_challenge txn now t)"

lemmas pending_ops = save_pending_approval_scoped_def resolve_pending_approval_def
  claim_pending_approval_for_grant_def set_pending_approval_telegram_message_def
  set_pending_approval_matrix_data_def increment_pending_approval_count_def
  resolve_pending_approval_as_end_user_def set_pending_approval_challenge_def
  take_pending_approval_challenge_def

text \<open>What every such statement does to a row that exists.\<close>

definition row_keeps :: "pending_row \<Rightarrow> pending_row \<Rightarrow> bool" where
  "row_keeps p q \<longleftrightarrow>
     (pa_status p \<noteq> ''pending'' \<longrightarrow> pa_status q = pa_status p)
     \<and> (pa_required_end_user p \<noteq> None \<longrightarrow> pa_required_end_user q \<noteq> None
          \<and> (pa_status p \<noteq> ''approved'' \<longrightarrow> pa_status q \<noteq> ''approved''))"

lemma row_keeps_refl: "row_keeps p p"
  by (simp add: row_keeps_def)

lemma run_op_row:
  assumes "map_of t txn = Some p"
  shows "\<exists>q. map_of (run_op x t) txn = Some q \<and> row_keeps p q"
proof (cases x)
  case (Resolve k st who now)
  show ?thesis
  proof (cases "k = txn")
    case True
    then show ?thesis
      using assms Resolve
      by (simp add: pending_ops AList.update_conv' row_keeps_def) auto
  next
    case False
    then show ?thesis
      using assms Resolve
      by (auto simp: pending_ops AList.update_conv' row_keeps_refl split: option.splits)
  qed
qed (use assms in \<open>auto simp: pending_ops AList.update_conv' Let_def coalesce_def row_keeps_def
        split: option.splits\<close>)

section \<open>Claims\<close>

definition approval_spent :: "string \<Rightarrow> pending_table \<Rightarrow> bool" where
  "approval_spent txn t =
     (case map_of t txn of None \<Rightarrow> False | Some p \<Rightarrow> pa_status p \<noteq> ''pending'')"

lemma approval_spent_op: "approval_spent txn t \<Longrightarrow> approval_spent txn (run_op x t)"
  using run_op_row [of t txn _ x]
  by (cases "map_of t txn") (auto simp: approval_spent_def row_keeps_def split: option.splits)

interpretation grant_decision:
  one_shot_claim claim_pending_approval_for_grant run_op approval_spent
proof
  fix k k' a s s' b x
  show "claim_pending_approval_for_grant k a s = (True, s') \<Longrightarrow> approval_spent k s'"
    by (auto simp: pending_ops approval_spent_def AList.update_conv' split: option.splits if_splits)
  show "approval_spent k s \<Longrightarrow> claim_pending_approval_for_grant k a s = (b, s') \<Longrightarrow> \<not> b"
    by (auto simp: pending_ops approval_spent_def split: option.splits if_splits)
  show "approval_spent k s \<Longrightarrow> claim_pending_approval_for_grant k' a s = (b, s') \<Longrightarrow> approval_spent k s'"
    using approval_spent_op [of k s "GrantClaim k' a"] by (metis snd_conv run_op.simps(3))
  show "approval_spent k s \<Longrightarrow> approval_spent k (run_op x s)" by (rule approval_spent_op)
qed

text \<open>The claim of a staged policy change, by an end-user at an instant.\<close>

definition claim_change :: "string \<Rightarrow> string \<times> timestamp \<Rightarrow> policy_change_table \<Rightarrow> bool \<times> policy_change_table" where
  "claim_change txn = (\<lambda>(ext, now). claim_pending_policy_change txn ext now)"

definition stage_change ::
  "string \<times> string \<times> string \<times> string \<times> string \<times> timestamp \<times> timestamp \<Rightarrow> policy_change_table
    \<Rightarrow> policy_change_table" where
  "stage_change = (\<lambda>(txn, team, cred, ext, json, expires, now) t.
     case create_pending_policy_change txn team cred ext json expires now t of Inl _ \<Rightarrow> t | Inr t' \<Rightarrow> t')"

definition change_spent :: "string \<Rightarrow> policy_change_table \<Rightarrow> bool" where
  "change_spent txn t =
     (case map_of t txn of None \<Rightarrow> False | Some p \<Rightarrow> pcr_status p \<noteq> ''pending'')"

interpretation staged_change: one_shot_claim claim_change stage_change change_spent
proof
  fix k k' a s s' b x
  show "claim_change k a s = (True, s') \<Longrightarrow> change_spent k s'"
    by (auto simp: claim_change_def claim_pending_policy_change_def change_spent_def
        AList.update_conv' split: option.splits if_splits prod.splits)
  show "change_spent k s \<Longrightarrow> claim_change k a s = (b, s') \<Longrightarrow> \<not> b"
    by (auto simp: claim_change_def claim_pending_policy_change_def change_spent_def
        split: option.splits if_splits prod.splits)
  show "change_spent k s \<Longrightarrow> claim_change k' a s = (b, s') \<Longrightarrow> change_spent k s'"
    by (auto simp: claim_change_def claim_pending_policy_change_def change_spent_def
        AList.update_conv' split: option.splits if_splits prod.splits)
  show "change_spent k s \<Longrightarrow> change_spent k (stage_change x s)"
    by (auto simp: stage_change_def create_pending_policy_change_def change_spent_def
        AList.update_conv' split: option.splits if_splits prod.splits)
qed

section \<open>Properties\<close>

text \<open>C28. Single use of the two approval claims. Over every history of claims, other resolutions,
  re-saved rows and channel updates, a request is approved with a grant at most once (and
  never once it has been resolved), and over every history of staged policy changes, each is
  applied at most once.\<close>

theorem approval_claims_single_use:
  "wins txn (fst (run_events claim_pending_approval_for_grant run_op es t))
     \<le> (if approval_spent txn t then 0 else 1)
   \<and> wins chg (fst (run_events claim_change stage_change cs u)) \<le> 1"
  using grant_decision.won_at_most_once [of txn es t] grant_decision.never_won_again [of txn t es]
    staged_change.won_at_most_once [of chg cs u] by auto

text \<open>C12. The default-deny gate. A row that is reserved for a managed end-user and not approved
  stays unapproved and reserved through every sequence of statements the team's channels can
  issue (saves, resolutions, grant claims, channel updates, counts), whatever their
  arguments.\<close>

theorem end_user_gate_holds:
  assumes "map_of t txn = Some p" and "pa_required_end_user p \<noteq> None"
    and "pa_status p \<noteq> ''approved''"
  shows "\<exists>q. map_of (fold run_op ops t) txn = Some q \<and> pa_required_end_user q \<noteq> None
    \<and> pa_status q \<noteq> ''approved''"
  using assms
proof (induction ops arbitrary: t p)
  case (Cons x ops)
  obtain q where "map_of (run_op x t) txn = Some q" "pa_required_end_user q \<noteq> None"
    "pa_status q \<noteq> ''approved''"
    using run_op_row [OF Cons.prems(1), of x] Cons.prems(2,3) by (auto simp: row_keeps_def)
  from Cons.IH [OF this] show ?case by simp
qed simp

definition reserved_table :: pending_table where
  "reserved_table = save_pending_approval_scoped ''t1'' ''{}'' 100 (Some ''acme'') (Some ''alice'') 0 []"

theorem end_user_gate_holds_witness:
  "\<exists>q. map_of (fold run_op [Resolve ''t1'' ''approved'' (Some ''boss'') 5, GrantClaim ''t1'' None]
        reserved_table) ''t1'' = Some q \<and> pa_status q \<noteq> ''approved''"
proof -
  have "map_of reserved_table ''t1'' = Some ((new_pending ''{}'' ''pending'' 0 100)
      \<lparr>pa_team_id := Some ''acme'', pa_required_end_user := Some ''alice''\<rparr>)"
    by (simp add: reserved_table_def save_pending_approval_scoped_def)
  from end_user_gate_holds [OF this, of "[Resolve ''t1'' ''approved'' (Some ''boss'') 5,
      GrantClaim ''t1'' None]"]
  show ?thesis by (auto simp: new_pending_def)
qed

text \<open>The gate depends on the row being there first: resolving an unknown transaction as
  approved inserts an approved row, and saving the request afterwards with an end-user
  reservation keeps it approved.\<close>

lemma phantom_approval_passes_gate:
  assumes "map_of t txn = None"
  shows "\<exists>t1 q. resolve_pending_approval txn ''approved'' who now t = (True, t1)
    \<and> map_of (save_pending_approval_scoped txn d e tm (Some ext) later t1) txn = Some q
    \<and> pa_required_end_user q = Some ext \<and> pa_status q = ''approved''"
  using assms
  by (simp add: resolve_pending_approval_def save_pending_approval_scoped_def AList.update_conv'
      new_pending_def coalesce_def)

end
