(* ===== verification/Matrix_Channel.thy ===== *)
theory Matrix_Channel
  imports Approvals Grants
begin

text \<open>
  The Matrix approval channel (\<open>tap-bot/src/matrix.rs\<close>): the reactions of approvers, the
  count of approvals where several are required, the decision that is sent to the waiting
  request, and the reaction that approves with a grant. The hash maps of \<open>MatrixChannel\<close>
  are maps; \<open>mc_pending\<close> holds the sender of a waiting request together with whether its
  receiver is still there, and \<open>mc_delivered\<close> records what was sent. Messages to the room
  are not modelled beyond the outcome they report.
\<close>

section \<open>State\<close>

record matrix_channel =
  mc_pending :: "string \<rightharpoonup> bool"
  mc_delivered :: "(string \<times> approval_status) list"
  mc_allowed_approvers :: "string \<rightharpoonup> string list"
  mc_event_to_request :: "string \<rightharpoonup> string"
  mc_sent_messages :: "string \<rightharpoonup> string \<times> string"
  mc_counts :: "string \<rightharpoonup> nat \<times> nat"
  mc_store :: "pending_table option"
  mc_grants :: grant_store

text \<open>Which calls to the database fail or time out.\<close>

record mc_faults =
  mf_lookup :: bool
  mf_increment :: bool
  mf_resolve :: bool
  mf_details :: bool
  mf_member :: bool

definition no_faults :: mc_faults where
  "no_faults = \<lparr>mf_lookup = False, mf_increment = False, mf_resolve = False, mf_details = False,
     mf_member = False\<rparr>"

definition approve_reaction :: string where
  "approve_reaction = [CHR 0xE2, CHR 0x9C, CHR 0x85]"

definition deny_reaction :: string where
  "deny_reaction = [CHR 0xE2, CHR 0x9D, CHR 0x8C]"

definition grant_reaction :: string where
  "grant_reaction = [CHR 0xE2, CHR 0x8F, CHR 0xB3]"

fun status_str :: "approval_status \<Rightarrow> string" where
  "status_str Approved = ''approved''"
| "status_str Denied = ''denied''"
| "status_str Timeout = ''expired''"
| "status_str Pending = ''pending''"

section \<open>Requests\<close>

definition register_pending :: "string \<Rightarrow> matrix_channel \<Rightarrow> matrix_channel" where
  "register_pending rid c = c\<lparr>mc_pending := (mc_pending c)(rid \<mapsto> True)\<rparr>"

text \<open>
  Sending a request: the bookkeeping around the message, whose event identifier is
  \<open>event\<close> (None when the homeserver refused it). \<open>to_json\<close> is the serialiser of the list.
\<close>

definition request_approvers :: "approval_routing \<Rightarrow> string list option" where
  "request_approvers routing =
     (case (case ar_matrix routing of
              Some m \<Rightarrow> if mx_allowed_approvers m \<noteq> [] then Some (mx_allowed_approvers m) else None
            | None \<Rightarrow> None) of
        Some l \<Rightarrow> Some l
      | None \<Rightarrow> if ar_allowed_approvers routing \<noteq> [] then Some (ar_allowed_approvers routing) else None)"

definition routing_min :: "approval_routing option \<Rightarrow> nat" where
  "routing_min routing =
     (case routing of None \<Rightarrow> 1 | Some r \<Rightarrow> unat (max (ar_min_approvals r) 1))"

definition send_approval_request ::
  "(string list \<Rightarrow> string) \<Rightarrow> string \<Rightarrow> string \<Rightarrow> approval_routing option \<Rightarrow> string option \<Rightarrow> timestamp
    \<Rightarrow> matrix_channel \<Rightarrow> bool \<times> matrix_channel" where
  "send_approval_request to_json default_room rid routing event now c =
     (let c0 = register_pending rid c;
          approvers = Option.bind routing request_approvers;
          c1 = (case approvers of
                  None \<Rightarrow> c0
                | Some l \<Rightarrow> c0\<lparr>mc_allowed_approvers := (mc_allowed_approvers c0)(rid \<mapsto> l)\<rparr>);
          c2 = (if routing_min routing > 1
                then c1\<lparr>mc_counts := (mc_counts c1)(rid \<mapsto> (0, routing_min routing))\<rparr> else c1);
          room = (case Option.bind (Option.bind routing ar_matrix) mx_room_id of
                    None \<Rightarrow> default_room | Some r \<Rightarrow> r)
      in case event of
           None \<Rightarrow> (False, c2\<lparr>mc_pending := (mc_pending c2)(rid := None),
                     mc_allowed_approvers := (mc_allowed_approvers c2)(rid := None)\<rparr>)
         | Some ev \<Rightarrow>
             (True, c2\<lparr>mc_sent_messages := (mc_sent_messages c2)(rid \<mapsto> (room, ev)),
                mc_event_to_request := (mc_event_to_request c2)(ev \<mapsto> rid),
                mc_store := map_option (set_pending_approval_matrix_data rid room ev
                  (to_json (case mc_allowed_approvers c2 rid of None \<Rightarrow> [] | Some l \<Rightarrow> l))
                  (routing_min routing) now) (mc_store c2)\<rparr>))"

section \<open>Decisions\<close>

text \<open>Wake the waiter of a request, if there is one.\<close>

definition signal :: "string \<Rightarrow> approval_status \<Rightarrow> matrix_channel \<Rightarrow> matrix_channel" where
  "signal rid status c =
     (case mc_pending c rid of
        None \<Rightarrow> c
      | Some alive \<Rightarrow> c\<lparr>mc_pending := (mc_pending c)(rid := None),
          mc_allowed_approvers := (mc_allowed_approvers c)(rid := None),
          mc_counts := (mc_counts c)(rid := None),
          mc_delivered := mc_delivered c @ (if alive then [(rid, status)] else [])\<rparr>)"

definition resolve_approval_as ::
  "mc_faults \<Rightarrow> string \<Rightarrow> approval_status \<Rightarrow> string option \<Rightarrow> timestamp \<Rightarrow> matrix_channel
    \<Rightarrow> bool \<times> matrix_channel" where
  "resolve_approval_as F rid status who now c =
     (let (db_resolved, store') =
        (case mc_store c of
           None \<Rightarrow> (False, None)
         | Some t \<Rightarrow>
             if mf_resolve F then (False, Some t)
             else (let (b, t') = resolve_pending_approval rid (status_str status) who now t
                   in (b, Some t')));
        c1 = c\<lparr>mc_store := store'\<rparr>
      in case mc_pending c1 rid of
           Some alive \<Rightarrow> (alive \<or> db_resolved, signal rid status c1)
         | None \<Rightarrow> (db_resolved, c1))"

definition claim_approval_for_grant ::
  "mc_faults \<Rightarrow> string \<Rightarrow> string \<Rightarrow> matrix_channel \<Rightarrow> bool \<times> matrix_channel" where
  "claim_approval_for_grant F rid who c =
     (case mc_store c of
        None \<Rightarrow> (False, c)
      | Some t \<Rightarrow>
          if mf_resolve F then (False, c)
          else (case claim_pending_approval_for_grant rid (Some who) t of
              (True, t') \<Rightarrow> (True, signal rid Approved (c\<lparr>mc_store := Some t'\<rparr>))
            | (False, t') \<Rightarrow> (False, c\<lparr>mc_store := Some t'\<rparr>)))"

text \<open>The decision another process may have stored, as the waiter polls it.\<close>

definition persisted_decision :: "mc_faults \<Rightarrow> string \<Rightarrow> matrix_channel \<Rightarrow> approval_status option" where
  "persisted_decision F rid c =
     (case mc_store c of
        None \<Rightarrow> None
      | Some t \<Rightarrow>
          if mf_lookup F then None
          else (case get_pending_approval_status rid t of
              None \<Rightarrow> None
            | Some st \<Rightarrow>
                if st = ''approved'' then Some Approved
                else if st = ''denied'' then Some Denied
                else if st \<in> set [''expired'', ''timed_out'', ''timeout''] then Some Timeout
                else None))"

section \<open>The grant reaction\<close>

datatype grant_outcome =
    NoDatabase
  | UnknownReactor
  | NeedsMultiple
  | NoLongerPending
  | DetailsUnavailable
  | NotEnoughDetail
  | NotLinked
  | RoleUnavailable
  | OnlyOwnersAdmins
  | NotRecorded
  | ApprovedWithGrant grant_row
  | ApprovedWithoutGrant grant_refused

text \<open>Indexing a JSON object by a string, with the empty text as default.\<close>

definition json_field :: "json option \<Rightarrow> string \<Rightarrow> string" where
  "json_field j k =
     (case Option.bind (Option.bind (Option.bind j as_object) (\<lambda>m. map_of m k)) as_str of
        None \<Rightarrow> [] | Some s \<Rightarrow> s)"

text \<open>\<open>members\<close> maps a team and a linked Matrix account to the member's email and role.\<close>

definition handle_grant_reaction ::
  "mc_faults \<Rightarrow> externals \<Rightarrow> (string \<Rightarrow> string \<Rightarrow> (string \<times> string) option) \<Rightarrow> string \<Rightarrow> timestamp
    \<Rightarrow> string \<Rightarrow> string option \<Rightarrow> bool \<Rightarrow> matrix_channel \<Rightarrow> grant_outcome \<times> matrix_channel" where
  "handle_grant_reaction F X members new_id now rid user min_gt_one c =
     (case mc_store c of
        None \<Rightarrow> (NoDatabase, c)
      | Some t \<Rightarrow>
          (case user of
             None \<Rightarrow> (UnknownReactor, c)
           | Some uid \<Rightarrow>
               if min_gt_one then (NeedsMultiple, c)
               else if mf_details F then (DetailsUnavailable, c)
               else (case get_pending_approval_details rid now t of
                   None \<Rightarrow> (NoLongerPending, c)
                 | Some details_json \<Rightarrow>
                     let d = json_parse X details_json;
                         team = json_field d ''team_id''; cred = json_field d ''credential_name'';
                         method = json_field d ''method''; target = json_field d ''target_url''
                     in if team = [] \<or> cred = [] \<or> method = [] \<or> target = []
                        then (NotEnoughDetail, c)
                        else if mf_member F then (RoleUnavailable, c)
                        else (case members team uid of
                            None \<Rightarrow> (NotLinked, c)
                          | Some (email, role) \<Rightarrow>
                              if role \<noteq> ''owner'' \<and> role \<noteq> ''admin'' then (OnlyOwnersAdmins, c)
                              else (case claim_approval_for_grant F rid uid c of
                                  (False, c') \<Rightarrow> (NotRecorded, c')
                                | (True, c') \<Rightarrow>
                                    (let c2 = c'\<lparr>mc_sent_messages := (mc_sent_messages c')(rid := None)\<rparr>
                                     in case create_grant_for_request X new_id team cred method target
                                            email grant_default_ttl_minutes None now (mc_grants c') of
                                          Inr (g, gs) \<Rightarrow> (ApprovedWithGrant g, c2\<lparr>mc_grants := gs\<rparr>)
                                        | Inl e \<Rightarrow> (ApprovedWithoutGrant e, c2)))))))"

section \<open>Reactions\<close>

datatype reaction_outcome =
    Ignored
  | NotAuthorised string
  | Partial nat nat
  | GrantReaction grant_outcome
  | Processed approval_status bool

definition reaction_status :: "string \<Rightarrow> approval_status option" where
  "reaction_status key =
     (if key = approve_reaction \<or> key = grant_reaction then Some Approved
      else if key = deny_reaction then Some Denied
      else None)"

text \<open>\<open>serde_json::from_str\<close> at a list of strings, with the empty list as default.\<close>

definition parse_approvers :: "externals \<Rightarrow> string \<Rightarrow> string list" where
  "parse_approvers X j =
     (case json_parse X j of
        Some (JArray vs) \<Rightarrow>
          if list_all (\<lambda>v. as_str v \<noteq> None) vs then List.map_filter as_str vs else []
      | _ \<Rightarrow> [])"

text \<open>A reaction to a message this process did not send, found through the database.\<close>

definition reaction_from_db ::
  "mc_faults \<Rightarrow> externals \<Rightarrow> (string \<Rightarrow> string \<Rightarrow> (string \<times> string) option) \<Rightarrow> string \<Rightarrow> timestamp
    \<Rightarrow> matrix_approval_data \<Rightarrow> string \<Rightarrow> string option \<Rightarrow> matrix_channel
    \<Rightarrow> reaction_outcome \<times> matrix_channel" where
  "reaction_from_db F X members new_id now d key user c =
     (if md_status d \<noteq> ''pending'' then (Ignored, c)
      else case reaction_status key of
        None \<Rightarrow> (Ignored, c)
      | Some status \<Rightarrow>
          let j = md_allowed_approvers_json d; allowed = parse_approvers X j; rid = md_txn_id d in
          if (case user of
                None \<Rightarrow> False
              | Some uid \<Rightarrow> j \<noteq> [] \<and> j \<noteq> ''[]'' \<and> allowed \<noteq> [] \<and> uid \<notin> set allowed)
          then (NotAuthorised rid, c)
          else if key = grant_reaction then
            (case handle_grant_reaction F X members new_id now rid user (md_min_approvals d > 1) c of
               (g, c') \<Rightarrow> (GrantReaction g, c'))
          else
            let counted = (status = Approved \<and> md_min_approvals d > 1 \<and> \<not> mf_increment F);
                inc = (if counted
                       then map_option (increment_pending_approval_count rid id) (mc_store c)
                       else None);
                c1 = (case inc of None \<Rightarrow> c | Some (_, t) \<Rightarrow> c\<lparr>mc_store := Some t\<rparr>)
            in case (case inc of
                       Some (Inr (n, m), _) \<Rightarrow> if n < m then Some (n, m) else None
                     | _ \<Rightarrow> None) of
                 Some (n, m) \<Rightarrow> (Partial n m, c1)
               | None \<Rightarrow>
                   (let c2 = c1\<lparr>mc_sent_messages := (mc_sent_messages c1)(rid := None)\<rparr>
                    in case resolve_approval_as F rid status user now c2 of
                         (b, c3) \<Rightarrow> (Processed status b, c3)))"

text \<open>The count of a request that needs several approvals, in memory.\<close>

definition count_approval ::
  "string \<Rightarrow> matrix_channel \<Rightarrow> (nat \<times> nat) option \<times> matrix_channel" where
  "count_approval rid c =
     (case mc_counts c rid of
        None \<Rightarrow> (None, c)
      | Some (n, m) \<Rightarrow>
          if n + 1 < m then (Some (n + 1, m), c\<lparr>mc_counts := (mc_counts c)(rid \<mapsto> (n + 1, m))\<rparr>)
          else (None, c\<lparr>mc_counts := (mc_counts c)(rid := None)\<rparr>))"

definition handle_reaction ::
  "mc_faults \<Rightarrow> externals \<Rightarrow> (string \<Rightarrow> string \<Rightarrow> (string \<times> string) option) \<Rightarrow> string \<Rightarrow> timestamp
    \<Rightarrow> string \<Rightarrow> string \<Rightarrow> string option \<Rightarrow> matrix_channel \<Rightarrow> reaction_outcome \<times> matrix_channel" where
  "handle_reaction F X members new_id now event key user c =
     (case mc_event_to_request c event of
        None \<Rightarrow>
          (case mc_store c of
             None \<Rightarrow> (Ignored, c)
           | Some t \<Rightarrow>
               if mf_lookup F then (Ignored, c)
               else (case get_pending_approval_by_matrix_event event t of
                   None \<Rightarrow> (Ignored, c)
                 | Some d \<Rightarrow> reaction_from_db F X members new_id now d key user c))
      | Some rid \<Rightarrow>
          (case reaction_status key of
             None \<Rightarrow> (Ignored, c)
           | Some status \<Rightarrow>
               if (case (user, mc_allowed_approvers c rid) of
                     (Some uid, Some allowed) \<Rightarrow> allowed \<noteq> [] \<and> uid \<notin> set allowed
                   | _ \<Rightarrow> False)
               then (NotAuthorised rid, c)
               else if key = grant_reaction then
                 (case handle_grant_reaction F X members new_id now rid user (mc_counts c rid \<noteq> None) c of
                    (g, c') \<Rightarrow> (GrantReaction g,
                      c'\<lparr>mc_event_to_request := (mc_event_to_request c')(event := None)\<rparr>))
               else
                 (case (if status = Approved then count_approval rid c else (None, c)) of
                    (Some (n, m), c1) \<Rightarrow> (Partial n m, c1)
                  | (None, c1) \<Rightarrow>
                      (let c2 = c1\<lparr>mc_sent_messages := (mc_sent_messages c1)(rid := None)\<rparr>
                       in case resolve_approval_as F rid status user now c2 of
                            (b, c3) \<Rightarrow> (Processed status b,
                              c3\<lparr>mc_event_to_request := (mc_event_to_request c3)(event := None)\<rparr>)))))"

section \<open>Single reactions\<close>

lemma reactions_distinct [simp]:
  "approve_reaction \<noteq> grant_reaction" "deny_reaction \<noteq> grant_reaction" "approve_reaction \<noteq> deny_reaction"
  by code_simp+

lemma reaction_status_approve [simp]: "reaction_status approve_reaction = Some Approved"
  by (simp add: reaction_status_def)

text \<open>A user who is not among the approvers of the request, as the channel knows them.\<close>

definition refused_user :: "externals \<Rightarrow> string \<Rightarrow> string \<Rightarrow> matrix_channel \<Rightarrow> bool" where
  "refused_user X event uid c =
     (case mc_event_to_request c event of
        Some rid \<Rightarrow>
          (case mc_allowed_approvers c rid of
             None \<Rightarrow> False | Some allowed \<Rightarrow> allowed \<noteq> [] \<and> uid \<notin> set allowed)
      | None \<Rightarrow>
          (case Option.bind (mc_store c) (get_pending_approval_by_matrix_event event) of
             None \<Rightarrow> True
           | Some d \<Rightarrow>
               (let j = md_allowed_approvers_json d; allowed = parse_approvers X j
                in j \<noteq> [] \<and> j \<noteq> ''[]'' \<and> allowed \<noteq> [] \<and> uid \<notin> set allowed)))"

lemma refused_user_inert:
  assumes "refused_user X event uid c"
  shows "snd (handle_reaction F X members new_id now event key (Some uid) c) = c"
proof (cases "mc_event_to_request c event")
  case None
  then show ?thesis
    using assms
    by (cases "mc_store c"; cases "Option.bind (mc_store c) (get_pending_approval_by_matrix_event event)";
        cases "reaction_status key")
      (simp_all add: handle_reaction_def reaction_from_db_def refused_user_def Let_def)
next
  case (Some rid)
  then show ?thesis
    using assms
    by (cases "mc_allowed_approvers c rid"; cases "reaction_status key")
      (simp_all add: handle_reaction_def refused_user_def)
qed

text \<open>A vote in memory: what an approving reaction does to a request that is being counted.\<close>

definition may_vote :: "string \<Rightarrow> string option \<Rightarrow> matrix_channel \<Rightarrow> bool" where
  "may_vote rid user c =
     (case (user, mc_allowed_approvers c rid) of
        (Some uid, Some allowed) \<Rightarrow> allowed = [] \<or> uid \<in> set allowed
      | _ \<Rightarrow> True)"

definition vote ::
  "mc_faults \<Rightarrow> externals \<Rightarrow> (string \<Rightarrow> string \<Rightarrow> (string \<times> string) option) \<Rightarrow> timestamp \<Rightarrow> string
    \<Rightarrow> string option \<Rightarrow> matrix_channel \<Rightarrow> matrix_channel" where
  "vote F X members now event user c =
     snd (handle_reaction F X members [] now event approve_reaction user c)"

lemma vote_counted:
  assumes "mc_event_to_request c event = Some rid" and "mc_counts c rid = Some (k, n)"
    and "k + 1 < n"
  shows "vote F X members now event user c =
    (if may_vote rid user c then c\<lparr>mc_counts := (mc_counts c)(rid \<mapsto> (k + 1, n))\<rparr> else c)"
  using assms
  by (auto simp: vote_def handle_reaction_def count_approval_def may_vote_def split: option.splits)

lemma signal_simps:
  "mc_delivered (signal rid st c) =
     mc_delivered c @ (if mc_pending c rid = Some True then [(rid, st)] else [])"
  "mc_store (signal rid st c) = mc_store c"
  by (auto simp: signal_def split: option.splits)

lemma resolve_approval_as_delivered:
  "mc_delivered (snd (resolve_approval_as F rid st who now c)) =
     mc_delivered c @ (if mc_pending c rid = Some True then [(rid, st)] else [])"
  by (auto simp: resolve_approval_as_def signal_simps Let_def split: option.splits prod.splits)

lemma vote_decides:
  assumes "mc_event_to_request c event = Some rid" and "mc_counts c rid = Some (k, n)"
    and "n \<le> k + 1" and "may_vote rid user c" and "mc_pending c rid = Some True"
  shows "mc_delivered (vote F X members now event user c) = mc_delivered c @ [(rid, Approved)]"
proof -
  let ?c = "c\<lparr>mc_counts := (mc_counts c)(rid := None),
      mc_sent_messages := (mc_sent_messages c)(rid := None)\<rparr>"
  have "vote F X members now event user c =
      (let c3 = snd (resolve_approval_as F rid Approved user now ?c)
       in c3\<lparr>mc_event_to_request := (mc_event_to_request c3)(event := None)\<rparr>)"
    using assms(1-4)
    by (auto simp: vote_def handle_reaction_def count_approval_def may_vote_def Let_def
        split: option.splits prod.splits)
  then show ?thesis
    using assms(5) resolve_approval_as_delivered [of F rid Approved user now ?c] by (simp add: Let_def)
qed

interpretation matrix_votes: vote_counting "vote F X members now event"
  "\<lambda>k c. mc_event_to_request c event = Some rid \<and> mc_counts c rid = Some (k, n)"
  "\<lambda>c. (mc_delivered c, mc_store c)" n for F X members now event rid n
  by unfold_locales (auto simp: vote_counted)

section \<open>Properties\<close>

text \<open>C36. Below the threshold nothing is decided. While a request that needs \<open>n\<close> approvals is
  being counted, fewer than \<open>n\<close> approving reactions, by whomever, send no decision to the
  waiting request and write none to the database; and a reaction by a user who is not among
  the approvers of its request (in memory or, after a restart, in the database) changes
  nothing at all, whatever the reaction.\<close>

theorem fewer_votes_decide_nothing:
  assumes "mc_event_to_request c event = Some rid" and "mc_counts c rid = Some (0, n)"
    and "length users < n"
  shows "mc_delivered (fold (vote F X members now event) users c) = mc_delivered c
    \<and> mc_store (fold (vote F X members now event) users c) = mc_store c
    \<and> (refused_user X ev uid c'
        \<longrightarrow> snd (handle_reaction F X members new_id now ev key (Some uid) c') = c')"
  using matrix_votes.below_threshold [where k = 0 and c = c and us = users and rid = rid and event = event
      and F = F and X = X and members = members and now = now, of n] assms refused_user_inert by simp

definition two_of_n :: matrix_channel where
  "two_of_n =
     \<lparr>mc_pending = [''r1'' \<mapsto> True], mc_delivered = [],
      mc_allowed_approvers = [''r1'' \<mapsto> [''@alice'', ''@bob'']],
      mc_event_to_request = [''$e1'' \<mapsto> ''r1''], mc_sent_messages = [''r1'' \<mapsto> (''!room'', ''$e1'')],
      mc_counts = [''r1'' \<mapsto> (0, 2)],
      mc_store = Some (set_pending_approval_matrix_data ''r1'' ''!room'' ''$e1'' ''list'' 2 0 []),
      mc_grants = sample_grant_store\<rparr>"

definition no_members :: "string \<Rightarrow> string \<Rightarrow> (string \<times> string) option" where
  "no_members team uid = None"

theorem fewer_votes_decide_nothing_witness:
  "mc_delivered (fold (vote no_faults sample_externals no_members 1 ''$e1'') [Some ''@alice''] two_of_n) = []
   \<and> snd (handle_reaction no_faults sample_externals no_members [] 1 ''$e1'' deny_reaction
        (Some ''@mallory'') two_of_n) = two_of_n"
proof -
  have "mc_event_to_request two_of_n ''$e1'' = Some ''r1''" "mc_counts two_of_n ''r1'' = Some (0, 2)"
    "length [Some ''@alice''] < 2" "refused_user sample_externals ''$e1'' ''@mallory'' two_of_n"
    by (simp_all add: two_of_n_def refused_user_def)
  with fewer_votes_decide_nothing [OF this(1-3)] show ?thesis by (simp add: two_of_n_def)
qed

text \<open>The count is of reactions, not of approvers: on a request that needs two approvals, two
  approving reactions by one and the same allowed user send the approval to the waiting
  request.\<close>

lemma one_approver_counts_twice:
  assumes "mc_event_to_request c event = Some rid" and "mc_counts c rid = Some (0, 2)"
    and "may_vote rid user c" and "mc_pending c rid = Some True"
  shows "mc_delivered (fold (vote F X members now event) [user, user] c)
    = mc_delivered c @ [(rid, Approved)]"
proof -
  let ?c = "c\<lparr>mc_counts := (mc_counts c)(rid \<mapsto> (1, 2))\<rparr>"
  have "vote F X members now event user c = ?c"
    using vote_counted [OF assms(1,2)] assms(3) by simp
  moreover have "mc_delivered (vote F X members now event user ?c) = mc_delivered ?c @ [(rid, Approved)]"
    using assms by (intro vote_decides [where k = 1 and n = 2]) (auto simp: may_vote_def)
  ultimately show ?thesis by simp
qed

text \<open>The count fails open: when a reaction is handled through the database and the increment
  fails or times out, a single approving reaction approves a request that needs several
  approvals.\<close>

lemma failed_count_approves:
  assumes "mc_event_to_request c event = None" and "mc_store c = Some t"
    and "get_pending_approval_by_matrix_event event t = Some d" and "md_status d = ''pending''"
    and "parse_approvers X (md_allowed_approvers_json d) = [] \<or> uid \<in> set (parse_approvers X (md_allowed_approvers_json d))"
    and "1 < md_min_approvals d" and "mf_increment F" and "\<not> mf_lookup F" and "\<not> mf_resolve F"
    and "map_of t (md_txn_id d) = Some p" and "pa_status p = ''pending''"
    and "pa_required_end_user p = None"
  shows "\<exists>b c' t'. handle_reaction F X members new_id now event approve_reaction (Some uid) c
      = (Processed Approved b, c') \<and> mc_store c' = Some t'
    \<and> map_option pa_status (map_of t' (md_txn_id d)) = Some ''approved''"
proof -
  have r: "handle_reaction F X members new_id now event approve_reaction (Some uid) c =
      (let c2 = c\<lparr>mc_sent_messages := (mc_sent_messages c)(md_txn_id d := None)\<rparr>;
           r = resolve_approval_as F (md_txn_id d) Approved (Some uid) now c2
       in (Processed Approved (fst r), snd r))"
    using assms(1-9)
    by (auto simp: handle_reaction_def reaction_from_db_def Let_def split: prod.splits)
  show ?thesis
    unfolding r using assms(2,9-12)
    by (auto simp: Let_def resolve_approval_as_def resolve_pending_approval_def signal_simps
        AList.update_conv' split: option.splits)
qed

text \<open>C40. The waiting request is woken whatever the database says: when the durable row refuses
  the approval (it was denied elsewhere, or it is reserved for an end-user), a request that
  waits in this process still receives it.\<close>

theorem refused_approval_still_delivered:
  assumes "mc_store c = Some t" and "fst (resolve_pending_approval rid ''approved'' who now t) = False"
    and "mc_pending c rid = Some True"
  shows "mc_delivered (snd (resolve_approval_as no_faults rid Approved who now c))
      = mc_delivered c @ [(rid, Approved)]
    \<and> mc_store (snd (resolve_approval_as no_faults rid Approved who now c)) = Some t"
proof -
  have "snd (resolve_pending_approval rid ''approved'' who now t) = t"
    using assms(2) by (auto simp: resolve_pending_approval_def split: option.splits if_splits)
  then have "mc_store (snd (resolve_approval_as no_faults rid Approved who now c)) = Some t"
    using assms(1)
    by (auto simp: resolve_approval_as_def no_faults_def signal_simps Let_def
        split: option.splits prod.splits)
  then show ?thesis using resolve_approval_as_delivered [of no_faults rid Approved who now c] assms(3)
    by simp
qed

theorem refused_approval_still_delivered_witness:
  "mc_delivered (snd (resolve_approval_as no_faults ''r1'' Approved None 1
      (two_of_n\<lparr>mc_store := Some (snd (resolve_pending_approval ''r1'' ''denied'' None 0 []))\<rparr>)))
    = [(''r1'', Approved)]"
proof -
  let ?t = "snd (resolve_pending_approval ''r1'' ''denied'' None 0 [])"
  have "fst (resolve_pending_approval ''r1'' ''approved'' None 1 ?t) = False"
    by (simp add: resolve_pending_approval_def new_pending_def)
  from refused_approval_still_delivered [OF _ this, of "two_of_n\<lparr>mc_store := Some ?t\<rparr>"]
  show ?thesis by (simp add: two_of_n_def)
qed

text \<open>C37. Approving with a grant. If a reaction mints a grant, the reactor is linked to an owner or
  admin of the request's team, the request does not need several approvals, its row was
  pending and not reserved for an end-user and is now approved, and the grant is for that
  team.\<close>

theorem grant_reaction_guarded:
  assumes "handle_grant_reaction F X members new_id now rid user min_gt_one c = (ApprovedWithGrant g, c')"
  shows "\<exists>uid t t' p team email role. user = Some uid \<and> \<not> min_gt_one \<and> mc_store c = Some t
    \<and> map_of t rid = Some p \<and> pa_status p = ''pending'' \<and> pa_required_end_user p = None
    \<and> team = json_field (json_parse X (pa_details_json p)) ''team_id''
    \<and> members team uid = Some (email, role) \<and> role \<in> {''owner'', ''admin''}
    \<and> gr_team_id g = team \<and> gr_granted_by g = email
    \<and> mc_store c' = Some t' \<and> map_option pa_status (map_of t' rid) = Some ''approved''"
proof -
  obtain t where t: "mc_store c = Some t"
    using assms by (auto simp: handle_grant_reaction_def split: option.splits)
  obtain uid where u: "user = Some uid" "\<not> min_gt_one"
    using assms t by (auto simp: handle_grant_reaction_def split: option.splits if_splits)
  obtain dj where dj: "get_pending_approval_details rid now t = Some dj"
    using assms t u by (auto simp: handle_grant_reaction_def split: option.splits if_splits)
  let ?d = "json_parse X dj"
  obtain email role where m: "members (json_field ?d ''team_id'') uid = Some (email, role)"
      "role \<in> {''owner'', ''admin''}"
    using assms t u dj
    by (auto simp: handle_grant_reaction_def Let_def split: option.splits if_splits)
  obtain c1 where c1: "claim_approval_for_grant F rid uid c = (True, c1)"
    using assms t u dj m
    by (auto simp: handle_grant_reaction_def Let_def split: option.splits if_splits prod.splits bool.splits)
  obtain gs where g: "create_grant_for_request X new_id (json_field ?d ''team_id'')
        (json_field ?d ''credential_name'') (json_field ?d ''method'') (json_field ?d ''target_url'')
        email grant_default_ttl_minutes None now (mc_grants c1) = Inr (g, gs)"
      and c': "mc_store c' = mc_store c1"
    using assms t u dj m c1
    by (auto simp: handle_grant_reaction_def Let_def split: if_splits sum.splits)
  have gt: "gr_team_id g = json_field ?d ''team_id''" "gr_granted_by g = email"
    using g by (auto simp: create_grant_for_request_def Let_def split: if_splits option.splits sum.splits)
  obtain t' p where p: "map_of t rid = Some p" "pa_status p = ''pending''" "pa_required_end_user p = None"
      "mc_store c1 = Some t'" "map_option pa_status (map_of t' rid) = Some ''approved''"
    using c1 t
    by (auto simp: claim_approval_for_grant_def claim_pending_approval_for_grant_def signal_simps
        AList.update_conv' split: option.splits if_splits)
  have "dj = pa_details_json p"
    using dj p(1) by (auto simp: get_pending_approval_details_def split: if_splits)
  with t u m gt p c' show ?thesis by metis
qed

definition details_externals :: externals where
  "details_externals = sample_externals
     \<lparr>json_parse := (\<lambda>_. Some (JObject
        [(''team_id'', JString ''acme''), (''credential_name'', JString ''plain''),
         (''method'', JString ''post''), (''target_url'', JString ''https://a.b/v1/send'')]))\<rparr>"

definition one_admin :: "string \<Rightarrow> string \<Rightarrow> (string \<times> string) option" where
  "one_admin team uid = (if uid = ''@alice'' then Some (''a@acme'', ''admin'') else None)"

definition single_request :: matrix_channel where
  "single_request = two_of_n
     \<lparr>mc_counts := Map.empty,
      mc_store := Some [(''r1'', new_pending ''{}'' ''pending'' 0 1200)],
      mc_grants := sample_grant_store
        \<lparr>gs_props := pending_store\<lparr>ps_credentials := [(''acme'', ''plain'') \<mapsto> None]\<rparr>\<rparr>\<rparr>"

lemma details_scope:
  "scope_from_target details_externals ''https://a.b/v1/send'' = Some ''a.b/v1/send''"
  by code_simp

theorem grant_reaction_guarded_witness:
  "\<exists>g c'. handle_grant_reaction no_faults details_externals one_admin ''g2'' 1 ''r1'' (Some ''@alice'')
      False single_request = (ApprovedWithGrant g, c') \<and> gr_team_id g = ''acme''"
proof -
  have f: "json_field (json_parse details_externals ''{}'') ''team_id'' = ''acme''"
    "json_field (json_parse details_externals ''{}'') ''credential_name'' = ''plain''"
    "json_field (json_parse details_externals ''{}'') ''method'' = ''post''"
    "json_field (json_parse details_externals ''{}'') ''target_url'' = ''https://a.b/v1/send''"
    by code_simp+
  have d: "get_pending_approval_details ''r1'' 1 [(''r1'', new_pending ''{}'' ''pending'' 0 1200)] = Some ''{}''"
    by (simp add: get_pending_approval_details_def new_pending_def)
  note d = d [unfolded new_pending_def]
  obtain g c' where g: "handle_grant_reaction no_faults details_externals one_admin ''g2'' 1 ''r1''
      (Some ''@alice'') False single_request = (ApprovedWithGrant g, c')"
    by (simp add: handle_grant_reaction_def single_request_def two_of_n_def no_faults_def d f Let_def
        one_admin_def claim_approval_for_grant_def claim_pending_approval_for_grant_def new_pending_def
        signal_def create_grant_for_request_def details_scope starts_with_def grant_max_ttl_minutes_def
        grant_default_ttl_minutes_def get_policy_def sample_defs sample_grant_store_def
        create_approval_grant_def)
  from grant_reaction_guarded [OF this] have "gr_team_id g = ''acme''"
    using f(1) by (auto simp: single_request_def new_pending_def)
  with g show ?thesis by blast
qed

end
