(* ===== verification/Access.thy ===== *)
theory Access
  imports Types Claims "HOL-Library.AList" "HOL-Library.List_Lexorder" "HOL-Library.Char_ord"
begin

text \<open>
  Who may use which credential: the tables \<open>credentials\<close>, \<open>roles\<close>, \<open>agents\<close>, their
  assignments and \<open>end_users\<close> of \<open>tap-core/src/store.rs\<close>. A table is an association list
  from its primary key in insertion order, an assignment table a list of its key columns.
  Primary keys, unique columns and foreign keys of the schema are checked where a statement
  inserts, and \<open>ON DELETE CASCADE\<close> is written out where one deletes. An error of the
  database carries the context the code gives it; the driver's own text is left out. Lists
  that a query orders by name are ordered bytewise.
\<close>

section \<open>Rows (store.rs)\<close>

record credential_row =
  cr_name :: string
  cr_team_id :: string
  cr_description :: string
  cr_connector :: string
  cr_api_base :: "string option"
  cr_relative_target :: bool
  cr_auth_header_format :: "string option"
  cr_auth_bindings_json :: "string option"
  cr_allowed_hosts_json :: "string option"
  cr_end_user_id :: "string option"
  cr_app_id :: "string option"
  cr_created_at :: timestamp
  cr_updated_at :: timestamp

record agent_row =
  aw_id :: string
  aw_team_id :: string
  aw_description :: "string option"
  aw_api_key_hash :: string
  aw_rate_limit_per_hour :: "int option"
  aw_enabled :: bool
  aw_is_admin :: bool
  aw_owner_user_id :: "string option"
  aw_kind :: string
  aw_all_credentials :: bool
  aw_created_at :: timestamp
  aw_updated_at :: timestamp

definition is_app :: "agent_row \<Rightarrow> bool" where
  "is_app a \<longleftrightarrow> aw_kind a = ''app''"

record role_row =
  ro_name :: string
  ro_team_id :: string
  ro_description :: "string option"
  ro_rate_limit_per_hour :: "int option"
  ro_created_at :: timestamp

record end_user_row =
  eu_team_id :: string
  eu_ext_id :: string
  eu_display_name :: "string option"
  eu_status :: string
  eu_created_at :: timestamp
  eu_last_seen_at :: "timestamp option"

text \<open>A credential row is stored with its encrypted value.\<close>

record access_store =
  ax_teams :: "string list"
  ax_users :: "string list"
  ax_credentials :: "((string \<times> string) \<times> credential_row \<times> bytes option) list"
  ax_roles :: "((string \<times> string) \<times> role_row) list"
  ax_agents :: "((string \<times> string) \<times> agent_row) list"
  ax_role_credentials :: "(string \<times> string \<times> string) list"
  ax_agent_roles :: "(string \<times> string \<times> string) list"
  ax_agent_credentials :: "(string \<times> string \<times> string) list"
  ax_end_users :: "((string \<times> string) \<times> end_user_row) list"

section \<open>Encryption at rest\<close>

text \<open>
  The cipher is a parameter: \<open>seal\<close> and \<open>unseal\<close> of a key, a nonce of twelve bytes and a
  text. A stored value is the nonce followed by what the cipher returns.
\<close>

record cipher =
  seal :: "bytes \<Rightarrow> bytes \<Rightarrow> bytes \<Rightarrow> bytes option"
  unseal :: "bytes \<Rightarrow> bytes \<Rightarrow> bytes \<Rightarrow> bytes option"

definition encrypt :: "cipher \<Rightarrow> bytes \<Rightarrow> bytes \<Rightarrow> bytes \<Rightarrow> (string, bytes) result" where
  "encrypt K key nonce plaintext =
     (case seal K key nonce plaintext of
        None \<Rightarrow> Inl ''Encryption failed''
      | Some c \<Rightarrow> Inr (nonce @ c))"

definition decrypt :: "cipher \<Rightarrow> bytes \<Rightarrow> bytes \<Rightarrow> (string, bytes) result" where
  "decrypt K key stored =
     (if length stored < 12 then Inl ''Data too short for nonce''
      else case unseal K key (take 12 stored) (drop 12 stored) of
        None \<Rightarrow> Inl ''Decryption failed''
      | Some p \<Rightarrow> Inr p)"

section \<open>Credentials\<close>

text \<open>The columns of an \<open>INSERT INTO credentials\<close>.\<close>

definition create_credential_scoped_for_app ::
  "cipher \<Rightarrow> bytes \<Rightarrow> bytes \<Rightarrow> credential_row \<Rightarrow> bytes option \<Rightarrow> timestamp \<Rightarrow> access_store
    \<Rightarrow> (agent_sec_error, access_store) result" where
  "create_credential_scoped_for_app K key nonce row plaintext now s =
     (case (case plaintext of
              None \<Rightarrow> Inr None
            | Some p \<Rightarrow> (case encrypt K key nonce p of Inl e \<Rightarrow> Inl e | Inr c \<Rightarrow> Inr (Some c))) of
        Inl e \<Rightarrow> Inl (Encryption e)
      | Inr enc \<Rightarrow>
          if map_of (ax_credentials s) (cr_team_id row, cr_name row) \<noteq> None
          then Inl (AlreadyExists (''credential '' @ quoted (cr_name row) @ '' already exists''))
          else if cr_team_id row \<notin> set (ax_teams s) then Inl (Config ''Failed to create credential'')
          else Inr (s\<lparr>ax_credentials := ax_credentials s
                 @ [((cr_team_id row, cr_name row),
                     row\<lparr>cr_allowed_hosts_json := None, cr_created_at := now, cr_updated_at := now\<rparr>,
                     enc)]\<rparr>))"

definition create_credential_scoped ::
  "cipher \<Rightarrow> bytes \<Rightarrow> bytes \<Rightarrow> credential_row \<Rightarrow> bytes option \<Rightarrow> timestamp \<Rightarrow> access_store
    \<Rightarrow> (agent_sec_error, access_store) result" where
  "create_credential_scoped K key nonce row plaintext now s =
     create_credential_scoped_for_app K key nonce (row\<lparr>cr_app_id := None\<rparr>) plaintext now s"

definition create_credential ::
  "cipher \<Rightarrow> bytes \<Rightarrow> bytes \<Rightarrow> credential_row \<Rightarrow> bytes option \<Rightarrow> timestamp \<Rightarrow> access_store
    \<Rightarrow> (agent_sec_error, access_store) result" where
  "create_credential K key nonce row plaintext now s =
     create_credential_scoped K key nonce (row\<lparr>cr_end_user_id := None\<rparr>) plaintext now s"

text \<open>An update: \<open>None\<close> leaves a column, and a clear flag wins over a new text.\<close>

record credential_update =
  cu_description :: "string option"
  cu_connector :: "string option"
  cu_api_base :: "string option"
  cu_clear_api_base :: bool
  cu_relative_target :: "bool option"
  cu_auth_header_format :: "string option"
  cu_clear_auth_header_format :: bool
  cu_auth_bindings_json :: "string option"
  cu_clear_auth_bindings :: bool

definition set_or_clear :: "bool \<Rightarrow> 'a option \<Rightarrow> 'a option \<Rightarrow> 'a option" where
  "set_or_clear clear new old = (if clear then None else case new of None \<Rightarrow> old | Some v \<Rightarrow> Some v)"

definition apply_update :: "credential_update \<Rightarrow> timestamp \<Rightarrow> credential_row \<Rightarrow> credential_row" where
  "apply_update u now r =
     r\<lparr>cr_description := (case cu_description u of None \<Rightarrow> cr_description r | Some d \<Rightarrow> d),
       cr_connector := (case cu_connector u of None \<Rightarrow> cr_connector r | Some c \<Rightarrow> c),
       cr_api_base := set_or_clear (cu_clear_api_base u) (cu_api_base u) (cr_api_base r),
       cr_relative_target :=
         (case cu_relative_target u of None \<Rightarrow> cr_relative_target r | Some b \<Rightarrow> b),
       cr_auth_header_format := set_or_clear (cu_clear_auth_header_format u)
         (cu_auth_header_format u) (cr_auth_header_format r),
       cr_auth_bindings_json := set_or_clear (cu_clear_auth_bindings u)
         (cu_auth_bindings_json u) (cr_auth_bindings_json r),
       cr_updated_at := now\<rparr>"

definition update_credential_config ::
  "string \<Rightarrow> string \<Rightarrow> credential_update \<Rightarrow> timestamp \<Rightarrow> access_store \<Rightarrow> bool \<times> access_store" where
  "update_credential_config team name u now s =
     (map_of (ax_credentials s) (team, name) \<noteq> None,
      s\<lparr>ax_credentials :=
          AList.map_entry (team, name) (\<lambda>(r, v). (apply_update u now r, v)) (ax_credentials s)\<rparr>)"

text \<open>\<open>to_json\<close> is the serialiser of a list of strings.\<close>

definition set_credential_allowed_hosts ::
  "(string list \<Rightarrow> string) \<Rightarrow> string \<Rightarrow> string \<Rightarrow> string list \<Rightarrow> timestamp \<Rightarrow> access_store
    \<Rightarrow> bool \<times> access_store" where
  "set_credential_allowed_hosts to_json team name hosts now s =
     (map_of (ax_credentials s) (team, name) \<noteq> None,
      s\<lparr>ax_credentials := AList.map_entry (team, name)
          (\<lambda>(r, v). (r\<lparr>cr_allowed_hosts_json := (if hosts = [] then None else Some (to_json hosts)),
                     cr_updated_at := now\<rparr>, v)) (ax_credentials s)\<rparr>)"

definition get_credential :: "string \<Rightarrow> string \<Rightarrow> access_store \<Rightarrow> credential_row option" where
  "get_credential team name s = map_option fst (map_of (ax_credentials s) (team, name))"

definition list_credentials :: "string \<Rightarrow> access_store \<Rightarrow> credential_row list" where
  "list_credentials team s =
     sort_key cr_name (filter (\<lambda>r. cr_team_id r = team) (map (fst \<circ> snd) (ax_credentials s)))"

definition list_end_user_credentials :: "string \<Rightarrow> string \<Rightarrow> access_store \<Rightarrow> credential_row list" where
  "list_end_user_credentials team ext s =
     filter (\<lambda>r. cr_end_user_id r = Some ext) (list_credentials team s)"

definition delete_credential :: "string \<Rightarrow> string \<Rightarrow> access_store \<Rightarrow> access_store" where
  "delete_credential team name s =
     s\<lparr>ax_credentials := AList.delete (team, name) (ax_credentials s),
       ax_role_credentials :=
         filter (\<lambda>(t, _, c). (t, c) \<noteq> (team, name)) (ax_role_credentials s),
       ax_agent_credentials :=
         filter (\<lambda>(t, _, c). (t, c) \<noteq> (team, name)) (ax_agent_credentials s)\<rparr>"

definition set_credential_value ::
  "cipher \<Rightarrow> bytes \<Rightarrow> bytes \<Rightarrow> string \<Rightarrow> string \<Rightarrow> bytes \<Rightarrow> timestamp \<Rightarrow> access_store
    \<Rightarrow> (agent_sec_error, access_store) result" where
  "set_credential_value K key nonce team name plaintext now s =
     (case encrypt K key nonce plaintext of
        Inl e \<Rightarrow> Inl (Encryption e)
      | Inr c \<Rightarrow> Inr (s\<lparr>ax_credentials := AList.map_entry (team, name)
            (\<lambda>(r, _). (r\<lparr>cr_updated_at := now\<rparr>, Some c)) (ax_credentials s)\<rparr>))"

definition get_credential_value ::
  "cipher \<Rightarrow> bytes \<Rightarrow> string \<Rightarrow> string \<Rightarrow> access_store \<Rightarrow> (agent_sec_error, bytes option) result" where
  "get_credential_value K key team name s =
     (case map_of (ax_credentials s) (team, name) of
        Some (_, Some blob) \<Rightarrow>
          (case decrypt K key blob of Inl e \<Rightarrow> Inl (Encryption e) | Inr p \<Rightarrow> Inr (Some p))
      | _ \<Rightarrow> Inr None)"

text \<open>
  The hint the dashboard shows for a stored value. \<open>chars\<close> of a text are its code points:
  the bytes that continue one stay with it.
\<close>

fun code_points :: "string \<Rightarrow> string list" where
  "code_points [] = []"
| "code_points (c # s) =
     (case code_points s of
        [] \<Rightarrow> [[c]]
      | p # ps \<Rightarrow> if utf8_cont (hd p) then (c # p) # ps else [c] # p # ps)"

definition credential_value_hint :: "externals \<Rightarrow> bytes \<Rightarrow> string" where
  "credential_value_hint X plaintext =
     (case from_utf8 plaintext of
        None \<Rightarrow> ''[binary]''
      | Some t \<Rightarrow>
          let s = trim t;
              hint = (let cs = code_points s; n = length cs
                      in if n \<le> 4 then ''***''
                         else concat (take 2 cs) @ ''***'' @ concat (drop (n - 2) cs))
          in if starts_with s ''{''
             then (case json_parse X s of
                     Some (JObject m) \<Rightarrow> ''{'' @ join '', '' (map fst m) @ ''}''
                   | _ \<Rightarrow> hint)
             else hint)"

definition list_credential_value_hints ::
  "externals \<Rightarrow> cipher \<Rightarrow> bytes \<Rightarrow> string \<Rightarrow> access_store \<Rightarrow> (string \<times> string) list" where
  "list_credential_value_hints X K key team s =
     List.map_filter
       (\<lambda>((t, n), _, blob).
          if t \<noteq> team then None
          else case blob of
            None \<Rightarrow> None
          | Some b \<Rightarrow> (case decrypt K key b of
                Inl _ \<Rightarrow> None | Inr p \<Rightarrow> Some (n, credential_value_hint X p)))
       (ax_credentials s)"

section \<open>Managed end-users\<close>

definition upsert_end_user ::
  "string \<Rightarrow> string \<Rightarrow> string option \<Rightarrow> timestamp \<Rightarrow> access_store
    \<Rightarrow> (agent_sec_error, access_store) result" where
  "upsert_end_user team ext display_name now s =
     (case map_of (ax_end_users s) (team, ext) of
        Some r \<Rightarrow> Inr (s\<lparr>ax_end_users := AList.update (team, ext)
            (r\<lparr>eu_last_seen_at := Some now,
               eu_display_name := (case display_name of None \<Rightarrow> eu_display_name r | Some d \<Rightarrow> Some d)\<rparr>)
            (ax_end_users s)\<rparr>)
      | None \<Rightarrow>
          if team \<notin> set (ax_teams s) then Inl (Config ''Failed to upsert end-user'')
          else Inr (s\<lparr>ax_end_users := ax_end_users s
              @ [((team, ext), \<lparr>eu_team_id = team, eu_ext_id = ext, eu_display_name = display_name,
                   eu_status = ''active'', eu_created_at = now, eu_last_seen_at = Some now\<rparr>)]\<rparr>))"

definition touch_end_user :: "string \<Rightarrow> string \<Rightarrow> timestamp \<Rightarrow> access_store \<Rightarrow> access_store" where
  "touch_end_user team ext now s =
     s\<lparr>ax_end_users :=
         AList.map_entry (team, ext) (\<lambda>r. r\<lparr>eu_last_seen_at := Some now\<rparr>) (ax_end_users s)\<rparr>"

definition get_end_user :: "string \<Rightarrow> string \<Rightarrow> access_store \<Rightarrow> end_user_row option" where
  "get_end_user team ext s = map_of (ax_end_users s) (team, ext)"

definition list_end_users :: "string \<Rightarrow> access_store \<Rightarrow> end_user_row list" where
  "list_end_users team s =
     sort_key eu_ext_id (filter (\<lambda>r. eu_team_id r = team) (map snd (ax_end_users s)))"

section \<open>Agents\<close>

definition create_agent_with_admin ::
  "string \<Rightarrow> string \<Rightarrow> string option \<Rightarrow> string \<Rightarrow> int option \<Rightarrow> bool \<Rightarrow> string option \<Rightarrow> string \<Rightarrow> bool
    \<Rightarrow> timestamp \<Rightarrow> access_store \<Rightarrow> (agent_sec_error, access_store) result" where
  "create_agent_with_admin team aid description key_hash rate_limit is_admin owner kind all_creds now s =
     (if map_of (ax_agents s) (team, aid) \<noteq> None
         \<or> key_hash \<in> set (map (aw_api_key_hash \<circ> snd) (ax_agents s))
         \<or> team \<notin> set (ax_teams s)
         \<or> (case owner of None \<Rightarrow> False | Some u \<Rightarrow> u \<notin> set (ax_users s))
      then Inl (Config ''Failed to create agent'')
      else Inr (s\<lparr>ax_agents := ax_agents s
          @ [((team, aid),
              \<lparr>aw_id = aid, aw_team_id = team, aw_description = description,
               aw_api_key_hash = key_hash, aw_rate_limit_per_hour = rate_limit, aw_enabled = True,
               aw_is_admin = is_admin, aw_owner_user_id = owner, aw_kind = kind,
               aw_all_credentials = all_creds, aw_created_at = now, aw_updated_at = now\<rparr>)]\<rparr>))"

definition create_agent ::
  "string \<Rightarrow> string \<Rightarrow> string option \<Rightarrow> string \<Rightarrow> int option \<Rightarrow> timestamp \<Rightarrow> access_store
    \<Rightarrow> (agent_sec_error, access_store) result" where
  "create_agent team aid description key_hash rate_limit now s =
     create_agent_with_admin team aid description key_hash rate_limit False None ''agent'' False now s"

definition create_agent_all_credentials ::
  "string \<Rightarrow> string \<Rightarrow> string option \<Rightarrow> string \<Rightarrow> int option \<Rightarrow> timestamp \<Rightarrow> access_store
    \<Rightarrow> (agent_sec_error, access_store) result" where
  "create_agent_all_credentials team aid description key_hash rate_limit now s =
     create_agent_with_admin team aid description key_hash rate_limit False None ''agent'' True now s"

definition create_app ::
  "string \<Rightarrow> string \<Rightarrow> string option \<Rightarrow> string \<Rightarrow> int option \<Rightarrow> timestamp \<Rightarrow> access_store
    \<Rightarrow> (agent_sec_error, access_store) result" where
  "create_app team aid description key_hash rate_limit now s =
     create_agent_with_admin team aid description key_hash rate_limit False None ''app'' False now s"

definition create_admin_agent ::
  "string \<Rightarrow> string \<Rightarrow> string option \<Rightarrow> string \<Rightarrow> timestamp \<Rightarrow> access_store
    \<Rightarrow> (agent_sec_error, access_store) result" where
  "create_admin_agent team aid description key_hash now s =
     create_agent_with_admin team aid description key_hash None True None ''agent'' False now s"

definition create_agent_owned ::
  "string \<Rightarrow> string \<Rightarrow> string option \<Rightarrow> string \<Rightarrow> int option \<Rightarrow> string \<Rightarrow> timestamp \<Rightarrow> access_store
    \<Rightarrow> (agent_sec_error, access_store) result" where
  "create_agent_owned team aid description key_hash rate_limit owner now s =
     create_agent_with_admin team aid description key_hash rate_limit False (Some owner) ''agent'' False
       now s"

definition update_agent ::
  "string \<Rightarrow> string \<Rightarrow> (agent_row \<Rightarrow> agent_row) \<Rightarrow> access_store \<Rightarrow> access_store" where
  "update_agent team aid f s = s\<lparr>ax_agents := AList.map_entry (team, aid) f (ax_agents s)\<rparr>"

definition set_agent_all_credentials ::
  "string \<Rightarrow> string \<Rightarrow> bool \<Rightarrow> timestamp \<Rightarrow> access_store \<Rightarrow> access_store" where
  "set_agent_all_credentials team aid b now s =
     update_agent team aid (\<lambda>a. a\<lparr>aw_all_credentials := b, aw_updated_at := now\<rparr>) s"

definition get_agent :: "string \<Rightarrow> string \<Rightarrow> access_store \<Rightarrow> agent_row option" where
  "get_agent team aid s = map_of (ax_agents s) (team, aid)"

definition list_agents :: "string \<Rightarrow> access_store \<Rightarrow> agent_row list" where
  "list_agents team s =
     sort_key aw_id (filter (\<lambda>a. aw_team_id a = team \<and> aw_kind a = ''agent'') (map snd (ax_agents s)))"

definition list_apps :: "string \<Rightarrow> access_store \<Rightarrow> agent_row list" where
  "list_apps team s =
     sort_key aw_id (filter (\<lambda>a. aw_team_id a = team \<and> aw_kind a = ''app'') (map snd (ax_agents s)))"

definition list_agents_for_owner :: "string \<Rightarrow> string \<Rightarrow> access_store \<Rightarrow> agent_row list" where
  "list_agents_for_owner team owner s =
     sort_key aw_id (filter (\<lambda>a. aw_team_id a = team \<and> aw_owner_user_id a = Some owner
       \<and> aw_kind a = ''agent'') (map snd (ax_agents s)))"

definition delete_agent :: "string \<Rightarrow> string \<Rightarrow> access_store \<Rightarrow> access_store" where
  "delete_agent team aid s =
     s\<lparr>ax_agents := AList.delete (team, aid) (ax_agents s),
       ax_agent_roles := filter (\<lambda>(t, a, _). (t, a) \<noteq> (team, aid)) (ax_agent_roles s),
       ax_agent_credentials := filter (\<lambda>(t, a, _). (t, a) \<noteq> (team, aid)) (ax_agent_credentials s)\<rparr>"

definition enable_agent :: "string \<Rightarrow> string \<Rightarrow> timestamp \<Rightarrow> access_store \<Rightarrow> access_store" where
  "enable_agent team aid now s =
     update_agent team aid (\<lambda>a. a\<lparr>aw_enabled := True, aw_updated_at := now\<rparr>) s"

definition disable_agent :: "string \<Rightarrow> string \<Rightarrow> timestamp \<Rightarrow> access_store \<Rightarrow> access_store" where
  "disable_agent team aid now s =
     update_agent team aid (\<lambda>a. a\<lparr>aw_enabled := False, aw_updated_at := now\<rparr>) s"

definition rotate_agent_api_key ::
  "string \<Rightarrow> string \<Rightarrow> string \<Rightarrow> timestamp \<Rightarrow> access_store \<Rightarrow> (agent_sec_error, access_store) result" where
  "rotate_agent_api_key team aid key_hash now s =
     (case get_agent team aid s of
        None \<Rightarrow> Inl (Config (''Agent '' @ quoted aid @ '' not found''))
      | Some a \<Rightarrow>
          if list_ex (\<lambda>(k, b). k \<noteq> (team, aid) \<and> aw_api_key_hash b = key_hash) (ax_agents s)
          then Inl (Config ''Failed to rotate agent API key'')
          else Inr (update_agent team aid
                 (\<lambda>a. a\<lparr>aw_api_key_hash := key_hash, aw_updated_at := now\<rparr>) s))"

text \<open>The set of the query is the list of its rows.\<close>

definition get_agent_effective_credentials :: "string \<Rightarrow> string \<Rightarrow> access_store \<Rightarrow> string list" where
  "get_agent_effective_credentials team aid s =
     map (\<lambda>(_, _, c). c) (filter (\<lambda>(t, a, _). t = team \<and> a = aid) (ax_agent_credentials s))
     @ concat (map (\<lambda>(_, _, r).
         map (\<lambda>(_, _, c). c) (filter (\<lambda>(t, r', _). t = team \<and> r' = r) (ax_role_credentials s)))
       (filter (\<lambda>(t, a, _). t = team \<and> a = aid) (ax_agent_roles s)))"

definition authenticate_agent :: "string \<Rightarrow> access_store \<Rightarrow> agent_row option" where
  "authenticate_agent key_hash s =
     find (\<lambda>a. aw_api_key_hash a = key_hash) (map snd (ax_agents s))"

section \<open>Roles and assignments\<close>

definition create_role ::
  "string \<Rightarrow> string \<Rightarrow> string option \<Rightarrow> int option \<Rightarrow> timestamp \<Rightarrow> access_store
    \<Rightarrow> (agent_sec_error, access_store) result" where
  "create_role team name description rate_limit now s =
     (if map_of (ax_roles s) (team, name) \<noteq> None \<or> team \<notin> set (ax_teams s)
      then Inl (Config ''Failed to create role'')
      else Inr (s\<lparr>ax_roles := ax_roles s
          @ [((team, name), \<lparr>ro_name = name, ro_team_id = team, ro_description = description,
               ro_rate_limit_per_hour = rate_limit, ro_created_at = now\<rparr>)]\<rparr>))"

definition list_roles :: "string \<Rightarrow> access_store \<Rightarrow> role_row list" where
  "list_roles team s = sort_key ro_name (filter (\<lambda>r. ro_team_id r = team) (map snd (ax_roles s)))"

definition update_role ::
  "string \<Rightarrow> string \<Rightarrow> string option \<Rightarrow> int option \<Rightarrow> access_store \<Rightarrow> access_store" where
  "update_role team name description rate_limit s =
     s\<lparr>ax_roles := AList.map_entry (team, name)
         (\<lambda>r. r\<lparr>ro_description := description, ro_rate_limit_per_hour := rate_limit\<rparr>) (ax_roles s)\<rparr>"

definition list_role_credentials :: "string \<Rightarrow> string \<Rightarrow> access_store \<Rightarrow> string list" where
  "list_role_credentials team role s =
     sort (map (\<lambda>(_, _, c). c) (filter (\<lambda>(t, r, _). t = team \<and> r = role) (ax_role_credentials s)))"

definition delete_role :: "string \<Rightarrow> string \<Rightarrow> access_store \<Rightarrow> access_store" where
  "delete_role team name s =
     s\<lparr>ax_roles := AList.delete (team, name) (ax_roles s),
       ax_role_credentials := filter (\<lambda>(t, r, _). (t, r) \<noteq> (team, name)) (ax_role_credentials s),
       ax_agent_roles := filter (\<lambda>(t, _, r). (t, r) \<noteq> (team, name)) (ax_agent_roles s)\<rparr>"

definition add_credential_to_role ::
  "string \<Rightarrow> string \<Rightarrow> string \<Rightarrow> access_store \<Rightarrow> (agent_sec_error, access_store) result" where
  "add_credential_to_role team role cred s =
     (if (team, role, cred) \<in> set (ax_role_credentials s) then Inr s
      else if map_of (ax_roles s) (team, role) = None \<or> map_of (ax_credentials s) (team, cred) = None
      then Inl (Config ''Failed to add credential to role'')
      else Inr (s\<lparr>ax_role_credentials := ax_role_credentials s @ [(team, role, cred)]\<rparr>))"

definition remove_credential_from_role ::
  "string \<Rightarrow> string \<Rightarrow> string \<Rightarrow> access_store \<Rightarrow> access_store" where
  "remove_credential_from_role team role cred s =
     s\<lparr>ax_role_credentials := removeAll (team, role, cred) (ax_role_credentials s)\<rparr>"

definition assign_role_to_agent ::
  "string \<Rightarrow> string \<Rightarrow> string \<Rightarrow> access_store \<Rightarrow> (agent_sec_error, access_store) result" where
  "assign_role_to_agent team aid role s =
     (if (team, aid, role) \<in> set (ax_agent_roles s) then Inr s
      else if map_of (ax_agents s) (team, aid) = None \<or> map_of (ax_roles s) (team, role) = None
      then Inl (Config ''Failed to assign role'')
      else Inr (s\<lparr>ax_agent_roles := ax_agent_roles s @ [(team, aid, role)]\<rparr>))"

definition remove_role_from_agent ::
  "string \<Rightarrow> string \<Rightarrow> string \<Rightarrow> access_store \<Rightarrow> access_store" where
  "remove_role_from_agent team aid role s =
     s\<lparr>ax_agent_roles := removeAll (team, aid, role) (ax_agent_roles s)\<rparr>"

definition get_agent_direct_credentials :: "string \<Rightarrow> string \<Rightarrow> access_store \<Rightarrow> string list" where
  "get_agent_direct_credentials team aid s =
     map (\<lambda>(_, _, c). c) (filter (\<lambda>(t, a, _). t = team \<and> a = aid) (ax_agent_credentials s))"

definition get_agent_roles :: "string \<Rightarrow> string \<Rightarrow> access_store \<Rightarrow> string list" where
  "get_agent_roles team aid s =
     map (\<lambda>(_, _, r). r) (filter (\<lambda>(t, a, _). t = team \<and> a = aid) (ax_agent_roles s))"

definition add_direct_credential ::
  "string \<Rightarrow> string \<Rightarrow> string \<Rightarrow> access_store \<Rightarrow> (agent_sec_error, access_store) result" where
  "add_direct_credential team aid cred s =
     (if (team, aid, cred) \<in> set (ax_agent_credentials s) then Inr s
      else if map_of (ax_agents s) (team, aid) = None \<or> map_of (ax_credentials s) (team, cred) = None
      then Inl (Config ''Failed to add direct credential'')
      else Inr (s\<lparr>ax_agent_credentials := ax_agent_credentials s @ [(team, aid, cred)]\<rparr>))"

definition remove_direct_credential ::
  "string \<Rightarrow> string \<Rightarrow> string \<Rightarrow> access_store \<Rightarrow> access_store" where
  "remove_direct_credential team aid cred s =
     s\<lparr>ax_agent_credentials := removeAll (team, aid, cred) (ax_agent_credentials s)\<rparr>"

section \<open>Histories\<close>

text \<open>
  One successful statement, labelled with the team it names. Failed statements change
  nothing and are left out.
\<close>

inductive access_step :: "string \<Rightarrow> access_store \<Rightarrow> access_store \<Rightarrow> bool" where
  credential: "create_credential_scoped_for_app K key nonce row p now s = Inr s'
    \<Longrightarrow> access_step (cr_team_id row) s s'"
| update_credential: "access_step team s (snd (update_credential_config team name u now s))"
| allowed_hosts: "access_step team s (snd (set_credential_allowed_hosts js team name hosts now s))"
| drop_credential: "access_step team s (delete_credential team name s)"
| set_value: "set_credential_value K key nonce team name p now s = Inr s' \<Longrightarrow> access_step team s s'"
| end_user: "upsert_end_user team ext d now s = Inr s' \<Longrightarrow> access_step team s s'"
| touch: "access_step team s (touch_end_user team ext now s)"
| agent: "create_agent_with_admin team aid d h rl adm own kind alls now s = Inr s'
    \<Longrightarrow> access_step team s s'"
| all_credentials: "access_step team s (set_agent_all_credentials team aid b now s)"
| drop_agent: "access_step team s (delete_agent team aid s)"
| enable: "access_step team s (enable_agent team aid now s)"
| disable: "access_step team s (disable_agent team aid now s)"
| rotate: "rotate_agent_api_key team aid h now s = Inr s' \<Longrightarrow> access_step team s s'"
| new_role: "create_role team name d rl now s = Inr s' \<Longrightarrow> access_step team s s'"
| change_role: "access_step team s (update_role team name d rl s)"
| drop_role: "access_step team s (delete_role team name s)"
| role_credential: "add_credential_to_role team r c s = Inr s' \<Longrightarrow> access_step team s s'"
| unrole_credential: "access_step team s (remove_credential_from_role team r c s)"
| assign: "assign_role_to_agent team aid r s = Inr s' \<Longrightarrow> access_step team s s'"
| unassign: "access_step team s (remove_role_from_agent team aid r s)"
| direct: "add_direct_credential team aid c s = Inr s' \<Longrightarrow> access_step team s s'"
| undirect: "access_step team s (remove_direct_credential team aid c s)"

text \<open>A history, with the teams its statements name.\<close>

inductive access_run :: "string list \<Rightarrow> access_store \<Rightarrow> access_store \<Rightarrow> bool" where
  no_step: "access_run [] s s"
| next_step: "access_run ts s s' \<Longrightarrow> access_step t s' s'' \<Longrightarrow> access_run (t # ts) s s''"

lemmas access_defs =
  create_credential_scoped_for_app_def update_credential_config_def set_credential_allowed_hosts_def
  delete_credential_def set_credential_value_def upsert_end_user_def touch_end_user_def
  create_agent_with_admin_def set_agent_all_credentials_def delete_agent_def enable_agent_def
  disable_agent_def rotate_agent_api_key_def create_role_def update_role_def delete_role_def
  add_credential_to_role_def remove_credential_from_role_def assign_role_to_agent_def
  remove_role_from_agent_def add_direct_credential_def remove_direct_credential_def update_agent_def

lemmas access_frame_defs =
  upsert_end_user_def touch_end_user_def create_role_def update_role_def delete_role_def
  add_credential_to_role_def remove_credential_from_role_def assign_role_to_agent_def
  remove_role_from_agent_def add_direct_credential_def remove_direct_credential_def

section \<open>Association lists\<close>

lemma fst_map_entry [simp]: "map fst (AList.map_entry k f xs) = map fst xs"
  by (induction xs) auto

lemma in_map_entry:
  "(k', v') \<in> set (AList.map_entry k f xs) \<Longrightarrow>
     (k', v') \<in> set xs \<or> (k' = k \<and> (\<exists>v. (k, v) \<in> set xs \<and> v' = f v))"
  by (induction xs) (auto split: if_splits)

lemma keys_map_entry [simp]: "fst ` set (AList.map_entry k f xs) = fst ` set xs"
  by (metis fst_map_entry set_map)

lemma map_of_map_entry: "map_of (AList.map_entry k f xs) k' =
    (if k' = k then map_option f (map_of xs k) else map_of xs k')"
  by (induction xs) auto

lemma map_of_delete: "map_of (AList.delete k xs) k' = (if k' = k then None else map_of xs k')"
  by (simp add: AList.delete_conv')

lemma in_delete: "x \<in> set (AList.delete k xs) \<longleftrightarrow> x \<in> set xs \<and> fst x \<noteq> k"
  by (auto simp: AList.delete_eq)

lemma keys_map_of: "k \<in> fst ` set xs \<longleftrightarrow> map_of xs k \<noteq> None"
  by (metis map_of_eq_None_iff)

section \<open>The invariant of the schema\<close>

definition keys_agree :: "access_store \<Rightarrow> bool" where
  "keys_agree s \<longleftrightarrow>
     (\<forall>((t, n), r, v) \<in> set (ax_credentials s). cr_team_id r = t \<and> cr_name r = n)
     \<and> (\<forall>((t, i), a) \<in> set (ax_agents s). aw_team_id a = t \<and> aw_id a = i)
     \<and> distinct (map fst (ax_credentials s)) \<and> distinct (map fst (ax_agents s))"

definition refs_valid :: "access_store \<Rightarrow> bool" where
  "refs_valid s \<longleftrightarrow>
     (\<forall>(t, r, c) \<in> set (ax_role_credentials s).
        (t, r) \<in> dom (map_of (ax_roles s)) \<and> (t, c) \<in> dom (map_of (ax_credentials s)))
     \<and> (\<forall>(t, a, r) \<in> set (ax_agent_roles s).
        (t, a) \<in> dom (map_of (ax_agents s)) \<and> (t, r) \<in> dom (map_of (ax_roles s)))
     \<and> (\<forall>(t, a, c) \<in> set (ax_agent_credentials s).
        (t, a) \<in> dom (map_of (ax_agents s)) \<and> (t, c) \<in> dom (map_of (ax_credentials s)))"

definition hashes_unique :: "access_store \<Rightarrow> bool" where
  "hashes_unique s \<longleftrightarrow>
     (\<forall>k a k' b. (k, a) \<in> set (ax_agents s) \<longrightarrow> (k', b) \<in> set (ax_agents s)
        \<longrightarrow> aw_api_key_hash a = aw_api_key_hash b \<longrightarrow> k = k')"

lemma apply_update_key [simp]:
  "cr_team_id (apply_update u now r) = cr_team_id r" "cr_name (apply_update u now r) = cr_name r"
  by (simp_all add: apply_update_def)

lemma create_credential_ok:
  assumes "create_credential_scoped_for_app K key nonce row p now s = Inr s'"
  shows "map_of (ax_credentials s) (cr_team_id row, cr_name row) = None
    \<and> (\<exists>enc. s' = s\<lparr>ax_credentials := ax_credentials s
         @ [((cr_team_id row, cr_name row),
             row\<lparr>cr_allowed_hosts_json := None, cr_created_at := now, cr_updated_at := now\<rparr>, enc)]\<rparr>)"
  using assms
  by (auto simp: create_credential_scoped_for_app_def
      simp del: not_None_eq not_Some_eq split_paired_Ex split_paired_All
      split: option.splits sum.splits if_splits)

lemma set_credential_value_ok:
  "set_credential_value K key nonce team name p now s = Inr s' \<Longrightarrow>
     \<exists>c. s' = s\<lparr>ax_credentials :=
       AList.map_entry (team, name) (\<lambda>(r, _). (r\<lparr>cr_updated_at := now\<rparr>, Some c)) (ax_credentials s)\<rparr>"
  by (auto simp: set_credential_value_def split: sum.splits)

lemma rotate_ok:
  assumes "rotate_agent_api_key team aid h now s = Inr s'"
  shows "s' = update_agent team aid (\<lambda>a. a\<lparr>aw_api_key_hash := h, aw_updated_at := now\<rparr>) s"
    and "(k, b) \<in> set (ax_agents s) \<Longrightarrow> k \<noteq> (team, aid) \<Longrightarrow> aw_api_key_hash b \<noteq> h"
  using assms by (auto simp: rotate_agent_api_key_def list_ex_iff split: option.splits if_splits)

lemma keys_agree_credential_entry:
  assumes "keys_agree s" and "ax_agents s' = ax_agents s"
    and "ax_credentials s' = AList.map_entry k f (ax_credentials s)"
    and "\<And>r v. cr_team_id (fst (f (r, v))) = cr_team_id r \<and> cr_name (fst (f (r, v))) = cr_name r"
  shows "keys_agree s'"
proof -
  have old: "cr_team_id r = t \<and> cr_name r = n"
    if "((t, n), r, v) \<in> set (ax_credentials s)" for t n r v
    using that assms(1) by (auto simp: keys_agree_def)
  have "cr_team_id r = t \<and> cr_name r = n"
    if new: "((t, n), r, v) \<in> set (ax_credentials s')" for t n r v
  proof (cases "((t, n), r, v) \<in> set (ax_credentials s)")
    case False
    with new obtain r' v' where "((t, n), r', v') \<in> set (ax_credentials s)" "(r, v) = f (r', v')"
      using in_map_entry [of "(t, n)" "(r, v)" k f "ax_credentials s"] assms(3) by fastforce
    then show ?thesis using old [of t n r' v'] assms(4) [of r' v'] by (metis fst_conv)
  qed (rule old)
  with assms(1-3) show ?thesis by (auto simp: keys_agree_def)
qed

lemma update_agent_simps [simp]:
  "ax_credentials (update_agent t i f s) = ax_credentials s" "ax_roles (update_agent t i f s) = ax_roles s"
  "ax_role_credentials (update_agent t i f s) = ax_role_credentials s"
  "ax_agent_roles (update_agent t i f s) = ax_agent_roles s"
  "ax_agent_credentials (update_agent t i f s) = ax_agent_credentials s"
  "ax_agents (update_agent t i f s) = AList.map_entry (t, i) f (ax_agents s)"
  by (simp_all add: update_agent_def)

lemma keys_agree_update_agent:
  assumes "keys_agree s" and "\<And>a. aw_team_id (f a) = aw_team_id a \<and> aw_id (f a) = aw_id a"
  shows "keys_agree (update_agent t i f s)"
proof -
  have "aw_team_id a = t' \<and> aw_id a = i'" if "((t', i'), a) \<in> set (AList.map_entry (t, i) f (ax_agents s))"
    for t' i' a
    using that assms by (fastforce simp: keys_agree_def dest: in_map_entry)
  with assms(1) show ?thesis by (auto simp: keys_agree_def)
qed

lemma access_step_keys:
  assumes "access_step t s s'" and "keys_agree s"
  shows "keys_agree s'"
  using assms(1)
proof (cases rule: access_step.cases)
  case (credential K key nonce row p now)
  from create_credential_ok [OF credential(2)] show ?thesis
    using assms(2) by (auto simp: keys_agree_def map_of_eq_None_iff)
next
  case (update_credential name u now)
  then show ?thesis
    by (intro keys_agree_credential_entry [OF assms(2)]) (auto simp: update_credential_config_def)
next
  case (allowed_hosts js name hosts now)
  then show ?thesis
    by (intro keys_agree_credential_entry [OF assms(2)]) (auto simp: set_credential_allowed_hosts_def)
next
  case (drop_credential name)
  then show ?thesis using assms(2)
    by (auto simp: delete_credential_def keys_agree_def in_delete AList.distinct_delete)
next
  case (set_value K key nonce name p now)
  from set_credential_value_ok [OF this] obtain c where "s' = s\<lparr>ax_credentials :=
      AList.map_entry (t, name) (\<lambda>(r, _). (r\<lparr>cr_updated_at := now\<rparr>, Some c)) (ax_credentials s)\<rparr>" ..
  then show ?thesis by (intro keys_agree_credential_entry [OF assms(2)]) auto
next
  case (agent aid d h rl adm own kind alls now)
  then show ?thesis using assms(2)
    by (auto simp: create_agent_with_admin_def keys_agree_def map_of_eq_None_iff split: if_splits)
next
  case (drop_agent aid)
  then show ?thesis using assms(2)
    by (auto simp: delete_agent_def keys_agree_def in_delete AList.distinct_delete)
next
  case (rotate aid h now)
  from rotate_ok [OF this] show ?thesis using assms(2) by (simp add: keys_agree_update_agent)
next
  case all_credentials
  then show ?thesis using assms(2) by (simp add: set_agent_all_credentials_def keys_agree_update_agent)
next
  case enable
  then show ?thesis using assms(2) by (simp add: enable_agent_def keys_agree_update_agent)
next
  case disable
  then show ?thesis using assms(2) by (simp add: disable_agent_def keys_agree_update_agent)
qed (use assms(2) in \<open>auto simp: access_frame_defs keys_agree_def split: option.splits if_splits\<close>)

lemma step_credentials_elsewhere:
  assumes "access_step t s s'" and "t' \<noteq> t"
  shows "map_of (ax_credentials s') (t', n) = map_of (ax_credentials s) (t', n)"
  using assms(1)
proof (cases rule: access_step.cases)
  case credential
  then show ?thesis using assms(2) by (auto dest!: create_credential_ok simp: map_add_def split: option.splits)
qed (use assms(2) in \<open>auto simp: access_defs map_of_map_entry map_of_delete
    split: option.splits sum.splits if_splits\<close>)

lemma step_agents_elsewhere:
  assumes "access_step t s s'" and "t' \<noteq> t"
  shows "map_of (ax_agents s') (t', i) = map_of (ax_agents s) (t', i)"
  using assms(1)
proof (cases rule: access_step.cases)
  case credential
  then show ?thesis by (auto dest!: create_credential_ok)
qed (use assms(2) in \<open>auto simp: access_defs map_of_map_entry map_of_delete map_add_def
    split: option.splits sum.splits if_splits\<close>)

text \<open>The rows of an assignment table that belong to a team.\<close>

definition of_team :: "string \<Rightarrow> (string \<times> 'a) list \<Rightarrow> (string \<times> 'a) list" where
  "of_team t xs = filter (\<lambda>(t', _). t' = t) xs"

lemma of_team_append [simp]: "of_team t (xs @ ys) = of_team t xs @ of_team t ys"
  by (simp add: of_team_def)

lemma of_team_filter [simp]:
  assumes "\<And>x. P (t, x)"
  shows "of_team t (filter P xs) = of_team t xs"
  using assms by (auto simp: of_team_def intro!: filter_cong)

lemma of_team_other [simp]: "t' \<noteq> t \<Longrightarrow> of_team t' [(t, x)] = []"
  by (simp add: of_team_def)

lemma of_team_removeAll [simp]: "t' \<noteq> t \<Longrightarrow> of_team t' (removeAll (t, x) xs) = of_team t' xs"
  by (auto simp: of_team_def removeAll_filter_not_eq intro!: filter_cong)

lemma step_assignments_elsewhere:
  assumes "access_step t s s'" and "t' \<noteq> t"
  shows "of_team t' (ax_role_credentials s') = of_team t' (ax_role_credentials s)
    \<and> of_team t' (ax_agent_roles s') = of_team t' (ax_agent_roles s)
    \<and> of_team t' (ax_agent_credentials s') = of_team t' (ax_agent_credentials s)"
  using assms(1)
proof (cases rule: access_step.cases)
  case credential
  then show ?thesis by (auto dest!: create_credential_ok)
qed (use assms(2) in \<open>auto simp: access_defs split: option.splits sum.splits if_splits\<close>)

lemma effective_of_team:
  "get_agent_effective_credentials team aid s =
     map (\<lambda>(_, _, c). c) (filter (\<lambda>(_, a, _). a = aid) (of_team team (ax_agent_credentials s)))
     @ concat (map (\<lambda>(_, _, r).
         map (\<lambda>(_, _, c). c) (filter (\<lambda>(_, r', _). r' = r) (of_team team (ax_role_credentials s))))
       (filter (\<lambda>(_, a, _). a = aid) (of_team team (ax_agent_roles s))))"
  by (auto simp: get_agent_effective_credentials_def of_team_def filter_filter split_def
      conj_commute intro!: arg_cong2 [where f = "(@)"] arg_cong [where f = concat])

lemma step_effective_elsewhere:
  assumes "access_step t s s'" and "t' \<noteq> t"
  shows "get_agent_effective_credentials t' i s' = get_agent_effective_credentials t' i s"
  using step_assignments_elsewhere [OF assms] by (simp add: effective_of_team)

section \<open>References\<close>

lemma in_effective:
  "c \<in> set (get_agent_effective_credentials team aid s) \<longleftrightarrow>
     (team, aid, c) \<in> set (ax_agent_credentials s)
     \<or> (\<exists>r. (team, aid, r) \<in> set (ax_agent_roles s) \<and> (team, r, c) \<in> set (ax_role_credentials s))"
proof -
  have rows: "set (concat (map (\<lambda>(_, _, r). F r) (filter (\<lambda>(t, a, _). t = u \<and> a = v) xs)))
      = (\<Union>r \<in> {r. (u, v, r) \<in> set xs}. set (F r))" for F :: "string \<Rightarrow> string list" and xs u v
    by auto
  have column: "set (map (\<lambda>(_, _, c). c) (filter (\<lambda>(t, a, _). t = u \<and> a = v) xs))
      = {c. (u, v, c) \<in> set xs}" for xs :: "(string \<times> string \<times> string) list" and u v
    by (auto simp: image_iff)
  show ?thesis
    unfolding get_agent_effective_credentials_def set_append rows column by auto
qed

lemma refs_valid_grow:
  assumes "refs_valid s"
    and "set (ax_role_credentials s') \<subseteq> set (ax_role_credentials s)"
    and "set (ax_agent_roles s') \<subseteq> set (ax_agent_roles s)"
    and "set (ax_agent_credentials s') \<subseteq> set (ax_agent_credentials s)"
    and "dom (map_of (ax_credentials s)) \<subseteq> dom (map_of (ax_credentials s'))"
    and "dom (map_of (ax_roles s)) \<subseteq> dom (map_of (ax_roles s'))"
    and "dom (map_of (ax_agents s)) \<subseteq> dom (map_of (ax_agents s'))"
  shows "refs_valid s'"
  using assms unfolding refs_valid_def by blast

lemma dom_map_entry [simp]: "dom (map_of (AList.map_entry k f xs)) = dom (map_of xs)"
  by (simp add: dom_map_of_conv_image_fst)

lemma access_step_refs:
  assumes "access_step t s s'" and "refs_valid s"
  shows "refs_valid s'"
  using assms(1)
proof (cases rule: access_step.cases)
  case credential
  then show ?thesis
    by (intro refs_valid_grow [OF assms(2)]) (auto dest!: create_credential_ok)
next
  case (set_value K key nonce name p now)
  from set_credential_value_ok [OF this] obtain c where "s' = s\<lparr>ax_credentials :=
      AList.map_entry (t, name) (\<lambda>(r, _). (r\<lparr>cr_updated_at := now\<rparr>, Some c)) (ax_credentials s)\<rparr>" ..
  then show ?thesis by (intro refs_valid_grow [OF assms(2)]) simp_all
next
  case (drop_credential name)
  then show ?thesis
    using assms(2) by (auto simp: delete_credential_def refs_valid_def domIff map_of_delete)
next
  case (drop_agent aid)
  then show ?thesis
    using assms(2) by (auto simp: delete_agent_def refs_valid_def domIff map_of_delete)
next
  case (drop_role name)
  then show ?thesis
    using assms(2) by (auto simp: delete_role_def refs_valid_def domIff map_of_delete)
next
  case (role_credential r c)
  then show ?thesis
    using assms(2) by (auto simp: add_credential_to_role_def refs_valid_def
      simp del: not_None_eq split_paired_Ex split: if_splits)
next
  case (assign aid r)
  then show ?thesis
    using assms(2) by (auto simp: assign_role_to_agent_def refs_valid_def
      simp del: not_None_eq split_paired_Ex split: if_splits)
next
  case (direct aid c)
  then show ?thesis
    using assms(2) by (auto simp: add_direct_credential_def refs_valid_def
      simp del: not_None_eq split_paired_Ex split: if_splits)
next
  case (rotate aid h now)
  from rotate_ok [OF this] show ?thesis by (intro refs_valid_grow [OF assms(2)]) simp_all
qed (intro refs_valid_grow [OF assms(2)]; auto simp: access_defs
    split: option.splits sum.splits if_splits)+

lemma hashes_uniqueD:
  "hashes_unique s \<Longrightarrow> (k, a) \<in> set (ax_agents s) \<Longrightarrow> (k', b) \<in> set (ax_agents s)
    \<Longrightarrow> aw_api_key_hash a = aw_api_key_hash b \<Longrightarrow> k = k'"
  unfolding hashes_unique_def by blast

lemma find_not_None: "P x \<Longrightarrow> x \<in> set xs \<Longrightarrow> find P xs \<noteq> None"
  by (induction xs) auto

lemma hashes_unique_sub:
  assumes "hashes_unique s"
    and "\<And>k b. (k, b) \<in> set (ax_agents s') \<Longrightarrow>
      \<exists>a. (k, a) \<in> set (ax_agents s) \<and> aw_api_key_hash a = aw_api_key_hash b"
  shows "hashes_unique s'"
  using assms unfolding hashes_unique_def by metis

lemma hashes_unique_cong: "hashes_unique s \<Longrightarrow> ax_agents s' = ax_agents s \<Longrightarrow> hashes_unique s'"
  by (simp add: hashes_unique_def)

lemma hashes_unique_update:
  assumes "hashes_unique s" and "\<And>a. aw_api_key_hash (f a) = aw_api_key_hash a"
  shows "hashes_unique (update_agent t i f s)"
  by (rule hashes_unique_sub [OF assms(1)]) (auto dest!: in_map_entry simp: assms(2))

lemma access_step_hashes:
  assumes "access_step t s s'" and "hashes_unique s"
  shows "hashes_unique s'"
  using assms(1)
proof (cases rule: access_step.cases)
  case credential
  then show ?thesis by (intro hashes_unique_cong [OF assms(2)]) (auto dest!: create_credential_ok)
next
  case agent
  then have new: "\<exists>a. ax_agents s' = ax_agents s @ [a]
      \<and> aw_api_key_hash (snd a) \<notin> set (map (aw_api_key_hash \<circ> snd) (ax_agents s))"
    by (auto simp: create_agent_with_admin_def split: if_splits)
  then obtain x where x: "ax_agents s' = ax_agents s @ [x]"
      "\<And>k b. (k, b) \<in> set (ax_agents s) \<Longrightarrow> aw_api_key_hash b \<noteq> aw_api_key_hash (snd x)" by force
  show ?thesis unfolding hashes_unique_def x(1)
  proof (intro allI impI)
    fix k a k' b
    assume "(k, a) \<in> set (ax_agents s @ [x])" "(k', b) \<in> set (ax_agents s @ [x])"
      "aw_api_key_hash a = aw_api_key_hash b"
    with x(2) [of k a] x(2) [of k' b] show "k = k'" by (auto dest: hashes_uniqueD [OF assms(2)])
  qed
next
  case drop_agent
  then show ?thesis
    by (intro hashes_unique_sub [OF assms(2)]) (auto simp: delete_agent_def in_delete)
next
  case (rotate aid h now)
  note r = rotate_ok [OF this]
  show ?thesis unfolding hashes_unique_def
  proof (intro allI impI)
    fix k a k' b
    assume "(k, a) \<in> set (ax_agents s')" "(k', b) \<in> set (ax_agents s')"
      and eq: "aw_api_key_hash a = aw_api_key_hash b"
    then consider "(k, a) \<in> set (ax_agents s)" "(k', b) \<in> set (ax_agents s)"
      | "k = (t, aid)" "k' = (t, aid)"
      | "k \<noteq> (t, aid)" "(k, a) \<in> set (ax_agents s)" "aw_api_key_hash b = h"
      | "k' \<noteq> (t, aid)" "(k', b) \<in> set (ax_agents s)" "aw_api_key_hash a = h"
      unfolding r(1) by (fastforce dest!: in_map_entry)
    then show "k = k'"
    proof cases
      case 1
      then show ?thesis using eq by (rule hashes_uniqueD [OF assms(2)])
    qed (use r(2) eq in auto)
  qed
next
  case all_credentials
  then show ?thesis using assms(2) by (simp add: set_agent_all_credentials_def hashes_unique_update)
next
  case enable
  then show ?thesis using assms(2) by (simp add: enable_agent_def hashes_unique_update)
next
  case disable
  then show ?thesis using assms(2) by (simp add: disable_agent_def hashes_unique_update)
qed (intro hashes_unique_cong [OF assms(2)];
    auto simp: access_defs split: option.splits sum.splits if_splits)+

definition access_wf :: "access_store \<Rightarrow> bool" where
  "access_wf s \<longleftrightarrow> keys_agree s \<and> refs_valid s \<and> hashes_unique s"

lemma access_step_wf: "access_step t s s' \<Longrightarrow> access_wf s \<Longrightarrow> access_wf s'"
  by (simp add: access_wf_def access_step_keys access_step_refs access_step_hashes)

lemma access_run_wf: "access_run ts s s' \<Longrightarrow> access_wf s \<Longrightarrow> access_wf s'"
  by (induction rule: access_run.induct) (auto intro: access_step_wf)

text \<open>A database without agents, roles, credentials and assignments.\<close>

definition no_rows :: "access_store \<Rightarrow> bool" where
  "no_rows s \<longleftrightarrow> ax_credentials s = [] \<and> ax_roles s = [] \<and> ax_agents s = []
     \<and> ax_role_credentials s = [] \<and> ax_agent_roles s = [] \<and> ax_agent_credentials s = []"

lemma no_rows_wf: "no_rows s \<Longrightarrow> access_wf s"
  by (simp add: no_rows_def access_wf_def keys_agree_def refs_valid_def hashes_unique_def)

lemma authenticate_row:
  assumes "authenticate_agent h s = Some a"
  obtains k where "(k, a) \<in> set (ax_agents s)" "aw_api_key_hash a = h"
proof -
  from assms have "a \<in> set (map snd (ax_agents s))" "aw_api_key_hash a = h"
    unfolding authenticate_agent_def by (auto dest!: find_SomeD)
  with that show ?thesis by auto
qed

lemma authenticate_agent_iff:
  assumes "access_wf s"
  shows "authenticate_agent h s = Some a \<longleftrightarrow>
    get_agent (aw_team_id a) (aw_id a) s = Some a \<and> aw_api_key_hash a = h"
proof
  assume "authenticate_agent h s = Some a"
  then obtain t i where "((t, i), a) \<in> set (ax_agents s)" "aw_api_key_hash a = h"
    by (auto elim: authenticate_row)
  then show "get_agent (aw_team_id a) (aw_id a) s = Some a \<and> aw_api_key_hash a = h"
    using assms by (auto simp: access_wf_def keys_agree_def get_agent_def)
next
  assume r: "get_agent (aw_team_id a) (aw_id a) s = Some a \<and> aw_api_key_hash a = h"
  then have a: "((aw_team_id a, aw_id a), a) \<in> set (ax_agents s)"
    by (auto simp: get_agent_def dest: map_of_SomeD)
  then have "authenticate_agent h s \<noteq> None"
    using r unfolding authenticate_agent_def by (intro find_not_None [of _ a]) force+
  then obtain b where b: "authenticate_agent h s = Some b" by blast
  then obtain k where k: "(k, b) \<in> set (ax_agents s)" "aw_api_key_hash b = h"
    by (rule authenticate_row)
  have "k = (aw_team_id a, aw_id a)"
    using a k r assms hashes_uniqueD [OF _ k(1) a] by (simp add: access_wf_def)
  then have "b = a"
    using a k(1) assms eq_key_imp_eq_value [of "ax_agents s" k b a]
    by (simp add: access_wf_def keys_agree_def)
  with b show "authenticate_agent h s = Some a" by simp
qed


section \<open>Properties\<close>

lemma access_run_elsewhere:
  assumes "access_run ts s s'" and "t \<notin> set ts"
  shows "map_of (ax_credentials s') (t, n) = map_of (ax_credentials s) (t, n)"
    "map_of (ax_agents s') (t, i) = map_of (ax_agents s) (t, i)"
    "get_agent_effective_credentials t i s' = get_agent_effective_credentials t i s"
  using assms
  by (induction rule: access_run.induct)
    (auto simp: step_credentials_elsewhere step_agents_elsewhere step_effective_elsewhere)

lemma in_columns:
  "c \<in> set (get_agent_direct_credentials team aid s) \<longleftrightarrow> (team, aid, c) \<in> set (ax_agent_credentials s)"
  "r \<in> set (get_agent_roles team aid s) \<longleftrightarrow> (team, aid, r) \<in> set (ax_agent_roles s)"
  "c \<in> set (list_role_credentials team r s) \<longleftrightarrow> (team, r, c) \<in> set (ax_role_credentials s)"
  by (force simp: get_agent_direct_credentials_def get_agent_roles_def list_role_credentials_def)+

lemma effective_after_deletion:
  "c \<notin> set (get_agent_effective_credentials team aid (delete_credential team c s))"
  "get_agent_effective_credentials team aid (delete_agent team aid s) = []"
  "c \<in> set (get_agent_effective_credentials team aid (delete_role team r s)) \<longleftrightarrow>
     (team, aid, c) \<in> set (ax_agent_credentials s)
     \<or> (\<exists>r'. r' \<noteq> r \<and> (team, aid, r') \<in> set (ax_agent_roles s) \<and> (team, r', c) \<in> set (ax_role_credentials s))"
proof -
  have "c \<notin> set (get_agent_effective_credentials team aid (delete_agent team aid s))" for c
    unfolding in_effective by (auto simp: delete_agent_def)
  then show "get_agent_effective_credentials team aid (delete_agent team aid s) = []"
    by (metis ex_in_conv set_empty)
qed (auto simp: in_effective delete_credential_def delete_role_def)

text \<open>C18. What an agent may use follows the rows, in every reachable database: whatever agents, roles,
  credentials and assignments were created, changed and deleted before, the effective credentials of
  an agent are exactly those assigned to it directly and those held by a role that exists and is
  assigned to it; each of them exists in the agent's own team, and so does the agent. Deleting
  a credential takes it from every agent, deleting an agent leaves it nothing, and deleting a
  role leaves exactly what the agent has directly or through its other roles. An API key
  authenticates at most one agent, the one that is stored under the key's team and
  identifier.\<close>

theorem effective_credentials_exist:
  assumes "no_rows s0" and "access_run ts s0 s"
  shows "(c \<in> set (get_agent_effective_credentials team aid s) \<longrightarrow>
      get_agent team aid s \<noteq> None \<and> get_credential team c s \<noteq> None)
    \<and> (c \<in> set (get_agent_effective_credentials team aid s) \<longleftrightarrow>
        c \<in> set (get_agent_direct_credentials team aid s)
        \<or> (\<exists>r. map_of (ax_roles s) (team, r) \<noteq> None \<and> r \<in> set (get_agent_roles team aid s)
             \<and> c \<in> set (list_role_credentials team r s)))
    \<and> c \<notin> set (get_agent_effective_credentials team aid (delete_credential team c s))
    \<and> get_agent_effective_credentials team aid (delete_agent team aid s) = []
    \<and> (c \<in> set (get_agent_effective_credentials team aid (delete_role team r s)) \<longleftrightarrow>
        c \<in> set (get_agent_direct_credentials team aid s)
        \<or> (\<exists>r'. r' \<noteq> r \<and> r' \<in> set (get_agent_roles team aid s)
             \<and> c \<in> set (list_role_credentials team r' s)))
    \<and> (authenticate_agent h s = Some a \<longleftrightarrow>
        get_agent (aw_team_id a) (aw_id a) s = Some a \<and> aw_api_key_hash a = h)"
proof -
  have wf: "access_wf s" using no_rows_wf [OF assms(1)] access_run_wf [OF assms(2)] by simp
  then have "c \<in> set (get_agent_effective_credentials team aid s) \<longrightarrow>
      (team, aid) \<in> dom (map_of (ax_agents s)) \<and> (team, c) \<in> dom (map_of (ax_credentials s))"
    by (auto simp: in_effective access_wf_def refs_valid_def)
  then have exist: "c \<in> set (get_agent_effective_credentials team aid s) \<longrightarrow>
      get_agent team aid s \<noteq> None \<and> get_credential team c s \<noteq> None"
    by (auto simp: get_agent_def get_credential_def domIff)
  have "map_of (ax_roles s) (team, r) \<noteq> None" if "(team, aid, r) \<in> set (ax_agent_roles s)" for r
    using wf that by (auto simp: access_wf_def refs_valid_def)
  then have exact: "c \<in> set (get_agent_effective_credentials team aid s) \<longleftrightarrow> (team, aid, c) \<in> set (ax_agent_credentials s)
      \<or> (\<exists>r. map_of (ax_roles s) (team, r) \<noteq> None \<and> (team, aid, r) \<in> set (ax_agent_roles s)
           \<and> (team, r, c) \<in> set (ax_role_credentials s))"
    unfolding in_effective by blast
  show ?thesis
    unfolding in_columns effective_after_deletion(3)
    by (intro conjI exist exact authenticate_agent_iff [OF wf] effective_after_deletion refl)
qed

definition one_team :: access_store where
  "one_team = \<lparr>ax_teams = [''acme'', ''evil''], ax_users = [], ax_credentials = [], ax_roles = [],
     ax_agents = [], ax_role_credentials = [], ax_agent_roles = [], ax_agent_credentials = [],
     ax_end_users = []\<rparr>"

definition bot_row :: "string \<Rightarrow> agent_row" where
  "bot_row team = \<lparr>aw_id = ''bot'', aw_team_id = team, aw_description = None,
     aw_api_key_hash = team @ ''-hash'', aw_rate_limit_per_hour = None, aw_enabled = True,
     aw_is_admin = False, aw_owner_user_id = None, aw_kind = ''agent'', aw_all_credentials = False,
     aw_created_at = 0, aw_updated_at = 0\<rparr>"

definition one_bot :: access_store where
  "one_bot = one_team\<lparr>ax_agents := [((''acme'', ''bot''), bot_row ''acme'')]\<rparr>"

lemma one_bot_run: "access_run [''acme''] one_team one_bot"
proof (rule next_step [OF no_step])
  have "create_agent_with_admin ''acme'' ''bot'' None ''acme-hash'' None False None ''agent'' False 0 one_team
      = Inr one_bot"
    by (simp add: create_agent_with_admin_def one_team_def one_bot_def bot_row_def)
  then show "access_step ''acme'' one_team one_bot" by (rule access_step.agent)
qed

definition reversing_cipher :: cipher where
  "reversing_cipher = \<lparr>seal = (\<lambda>k n p. Some (rev p)), unseal = (\<lambda>k n c. Some (rev c))\<rparr>"

definition acme_credential :: credential_row where
  "acme_credential = \<lparr>cr_name = ''gh'', cr_team_id = ''acme'', cr_description = [], cr_connector = ''direct'',
     cr_api_base = None, cr_relative_target = False, cr_auth_header_format = None,
     cr_auth_bindings_json = None, cr_allowed_hosts_json = None, cr_end_user_id = None,
     cr_app_id = None, cr_created_at = 0, cr_updated_at = 0\<rparr>"

text \<open>A credential, and the bot that has it through a role.\<close>

definition bot_through_role :: access_store where
  "bot_through_role = one_bot\<lparr>ax_credentials := [((''acme'', ''gh''), acme_credential, None)],
     ax_roles := [((''acme'', ''dev''), \<lparr>ro_name = ''dev'', ro_team_id = ''acme'', ro_description = None,
       ro_rate_limit_per_hour = None, ro_created_at = 0\<rparr>)],
     ax_role_credentials := [(''acme'', ''dev'', ''gh'')], ax_agent_roles := [(''acme'', ''bot'', ''dev'')]\<rparr>"

lemma bot_through_role_run: "access_run (replicate 5 ''acme'') one_team bot_through_role"
proof -
  let ?t = "''acme''"
  let ?s2 = "one_bot\<lparr>ax_credentials := [((''acme'', ''gh''), acme_credential, None)]\<rparr>"
  let ?s3 = "?s2\<lparr>ax_roles := ax_roles bot_through_role\<rparr>"
  let ?s4 = "?s3\<lparr>ax_role_credentials := [(''acme'', ''dev'', ''gh'')]\<rparr>"
  note eval = one_bot_def one_team_def bot_through_role_def acme_credential_def
  have "create_credential_scoped_for_app reversing_cipher [] [] acme_credential None 0 one_bot = Inr ?s2"
    by (simp add: create_credential_scoped_for_app_def eval)
  then have 2: "access_step ?t one_bot ?s2"
    using access_step.credential [of _ _ _ acme_credential] by (simp add: acme_credential_def)
  have 3: "access_step ?t ?s2 ?s3"
    by (rule access_step.new_role [of _ "''dev''" None None 0]) (simp add: create_role_def eval)
  have 4: "access_step ?t ?s3 ?s4"
    by (rule access_step.role_credential [of _ "''dev''" "''gh''"]) (simp add: add_credential_to_role_def eval)
  have 5: "access_step ?t ?s4 bot_through_role"
    by (rule access_step.assign [of _ "''bot''" "''dev''"]) (simp add: assign_role_to_agent_def eval)
  have "access_run [?t, ?t, ?t, ?t, ?t] one_team bot_through_role"
    by (rule next_step [OF next_step [OF next_step [OF next_step [OF one_bot_run 2] 3] 4] 5])
  then show ?thesis by (simp add: eval_nat_numeral)
qed

theorem effective_credentials_exist_witness:
  "''gh'' \<in> set (get_agent_effective_credentials ''acme'' ''bot'' bot_through_role)
   \<and> get_credential ''acme'' ''gh'' bot_through_role \<noteq> None
   \<and> ''gh'' \<notin> set (get_agent_effective_credentials ''acme'' ''bot'' (delete_role ''acme'' ''dev'' bot_through_role))
   \<and> authenticate_agent ''acme-hash'' bot_through_role = Some (bot_row ''acme'')"
proof -
  have n: "no_rows one_team" by (simp add: no_rows_def one_team_def)
  have "''gh'' \<in> set (get_agent_effective_credentials ''acme'' ''bot'' bot_through_role)"
    "''gh'' \<notin> set (get_agent_direct_credentials ''acme'' ''bot'' bot_through_role)"
    "get_agent_roles ''acme'' ''bot'' bot_through_role = [''dev'']"
    "get_agent ''acme'' ''bot'' bot_through_role = Some (bot_row ''acme'')"
    by (simp_all add: in_effective in_columns get_agent_roles_def get_agent_def bot_through_role_def one_bot_def one_team_def)
  then show ?thesis
    using effective_credentials_exist [OF n bot_through_role_run, of "''gh''" "''acme''" "''bot''" "''dev''"
        "''acme-hash''" "bot_row ''acme''"]
    by (simp add: bot_row_def)
qed

text \<open>C19. Teams do not interfere: a history of statements that name other teams changes nothing of
  what a team's keys can do. Its agents authenticate and have the same effective
  credentials as before, and its credentials and their stored values are untouched, whatever
  agents, roles and credentials of the same names the other teams created or deleted.\<close>

theorem teams_do_not_interfere:
  assumes "no_rows s0" and "access_run us s0 s" and "access_run ts s s'" and "t \<notin> set ts"
  shows "get_agent_effective_credentials t i s' = get_agent_effective_credentials t i s
    \<and> get_credential t n s' = get_credential t n s
    \<and> get_credential_value K key t n s' = get_credential_value K key t n s
    \<and> (aw_team_id a = t \<longrightarrow> (authenticate_agent h s' = Some a \<longleftrightarrow> authenticate_agent h s = Some a))"
proof -
  have "access_wf s" using no_rows_wf [OF assms(1)] access_run_wf [OF assms(2)] by simp
  moreover from access_run_wf [OF assms(3) this] have "access_wf s'" .
  ultimately show ?thesis
    using access_run_elsewhere [OF assms(3,4)]
    by (auto simp: authenticate_agent_iff get_agent_def get_credential_def get_credential_value_def)
qed

theorem teams_do_not_interfere_witness:
  "authenticate_agent ''acme-hash'' (delete_agent ''evil'' ''bot'' one_bot) = Some (bot_row ''acme'')"
proof -
  have "no_rows one_team" by (simp add: no_rows_def one_team_def)
  moreover have "access_run [''evil''] one_bot (delete_agent ''evil'' ''bot'' one_bot)"
    by (rule next_step [OF no_step access_step.drop_agent])
  ultimately show ?thesis
    using teams_do_not_interfere [OF _ one_bot_run, of "[''evil'']" _ "''acme''" _ _ _ _ "bot_row ''acme''" "''acme-hash''"]
    by (simp add: authenticate_agent_def one_bot_def bot_row_def)
qed

text \<open>C23. A stored value comes back: under a cipher that opens what it sealed with the same key and
  nonce, reading a credential after its value was set returns exactly that value, the
  values of all other credentials are unchanged, and the configuration of no credential
  changes except for the time of its last update.\<close>

theorem credential_value_roundtrip:
  assumes "\<And>n p c. seal K key n p = Some c \<Longrightarrow> unseal K key n c = Some p" and "length nonce = 12"
    and "set_credential_value K key nonce team name p now s = Inr s'"
    and "get_credential team name s \<noteq> None"
  shows "get_credential_value K key team name s' = Inr (Some p)
    \<and> ((t, n) \<noteq> (team, name) \<longrightarrow> get_credential_value K key t n s' = get_credential_value K key t n s)
    \<and> map_option (\<lambda>r. r\<lparr>cr_updated_at := 0\<rparr>) (get_credential t n s')
        = map_option (\<lambda>r. r\<lparr>cr_updated_at := 0\<rparr>) (get_credential t n s)"
proof -
  obtain c where c: "seal K key nonce p = Some c"
      and s': "s' = s\<lparr>ax_credentials := AList.map_entry (team, name)
        (\<lambda>(r, _). (r\<lparr>cr_updated_at := now\<rparr>, Some (nonce @ c))) (ax_credentials s)\<rparr>"
    using assms(3) by (auto simp: set_credential_value_def encrypt_def split: option.splits)
  have "decrypt K key (nonce @ c) = Inr p"
    using assms(1) [OF c] assms(2) by (simp add: decrypt_def)
  moreover obtain r v where "map_of (ax_credentials s) (team, name) = Some (r, v)"
    using assms(4) by (auto simp: get_credential_def)
  ultimately show ?thesis
    by (auto simp: s' get_credential_value_def get_credential_def map_of_map_entry option.map_comp
        comp_def split_def)
qed

theorem credential_value_roundtrip_witness:
  "\<exists>s'. set_credential_value reversing_cipher ''k'' ''abcdefghijkl'' ''acme'' ''gh'' ''s3cret'' 5
      (one_team\<lparr>ax_credentials := [((''acme'', ''gh''), acme_credential, None)]\<rparr>) = Inr s'
    \<and> get_credential_value reversing_cipher ''k'' ''acme'' ''gh'' s' = Inr (Some ''s3cret'')"
proof -
  let ?s = "one_team\<lparr>ax_credentials := [((''acme'', ''gh''), acme_credential, None)]\<rparr>"
  obtain s' where s': "set_credential_value reversing_cipher ''k'' ''abcdefghijkl'' ''acme'' ''gh'' ''s3cret'' 5 ?s
      = Inr s'"
    by (simp add: set_credential_value_def encrypt_def reversing_cipher_def)
  have "seal reversing_cipher ''k'' n p = Some c \<Longrightarrow> unseal reversing_cipher ''k'' n c = Some p" for n p c
    by (auto simp: reversing_cipher_def)
  from credential_value_roundtrip [OF this _ s'] show ?thesis
    using s' by (simp add: get_credential_def)
qed

end
