(* ===== verification/Members.thy ===== *)
theory Members
  imports Proposals Access
begin

text \<open>
  People and teams: the tables \<open>teams\<close>, \<open>users\<close>, \<open>memberships\<close>, \<open>approver_credentials\<close> and
  \<open>admin_invites\<close> of \<open>tap-core/src/store.rs\<close>, and the handlers of \<open>tap-proxy/src/admin.rs\<close>
  that invite, accept, remove and promote members. A handler gets the member its session
  resolved to; it was read before the handler's own statements, so a step of the history
  may run with a member that has changed since. The hash of a token and of a password are
  computed by third-party code and are arguments.
\<close>

section \<open>Rows (store.rs)\<close>

record team_row =
  tm_id :: string
  tm_name :: string
  tm_tier :: string
  tm_stripe_customer_id :: "string option"
  tm_default_approval_mode :: string
  tm_created_at :: timestamp

record user =
  us_id :: string
  us_email :: string
  us_password_hash :: string
  us_email_verified :: bool
  us_display_name :: "string option"
  us_matrix_user_id :: "string option"
  us_telegram_user_id :: "string option"
  us_created_at :: timestamp
  us_updated_at :: timestamp

record membership =
  mb_user_id :: string
  mb_team_id :: string
  mb_member_role :: string
  mb_created_at :: timestamp

text \<open>A user in the context of one team.\<close>

record member =
  me_id :: string
  me_team_id :: string
  me_email :: string
  me_password_hash :: string
  me_email_verified :: bool
  me_member_role :: string
  me_created_at :: timestamp
  me_updated_at :: timestamp
  me_display_name :: "string option"
  me_matrix_user_id :: "string option"
  me_telegram_user_id :: "string option"

definition is_owner :: "member \<Rightarrow> bool" where
  "is_owner m \<longleftrightarrow> me_member_role m = ''owner''"

record admin_invite_row =
  iv_id :: string
  iv_team_id :: string
  iv_email :: string
  iv_role :: string
  iv_token_hash :: string
  iv_invited_by_user_id :: string
  iv_expires_at :: timestamp
  iv_created_at :: timestamp

record member_store =
  mt_teams :: "(string \<times> team_row) list"
  mt_users :: "(string \<times> user) list"
  mt_memberships :: "((string \<times> string) \<times> membership) list"
  mt_approver_credentials :: "(string \<times> string \<times> string) list"
  mt_invites :: "(string \<times> admin_invite_row) list"

section \<open>Teams\<close>

definition new_team :: "string \<Rightarrow> string \<Rightarrow> string \<Rightarrow> timestamp \<Rightarrow> team_row" where
  "new_team i name mode now =
     \<lparr>tm_id = i, tm_name = name, tm_tier = ''free'', tm_stripe_customer_id = None,
      tm_default_approval_mode = mode, tm_created_at = now\<rparr>"

definition team_taken :: "string \<Rightarrow> string \<Rightarrow> member_store \<Rightarrow> bool" where
  "team_taken i name s \<longleftrightarrow>
     map_of (mt_teams s) i \<noteq> None \<or> name \<in> set (map (tm_name \<circ> snd) (mt_teams s))"

definition create_team ::
  "string \<Rightarrow> string \<Rightarrow> timestamp \<Rightarrow> member_store \<Rightarrow> (agent_sec_error, member_store) result" where
  "create_team i name now s =
     (if team_taken i name s then Inl (Config ''Failed to create team'')
      else Inr (s\<lparr>mt_teams := mt_teams s @ [(i, new_team i name ''autonomous'' now)]\<rparr>))"

definition ensure_team :: "string \<Rightarrow> string \<Rightarrow> timestamp \<Rightarrow> member_store \<Rightarrow> member_store" where
  "ensure_team i name now s =
     (if team_taken i name s then s
      else s\<lparr>mt_teams := mt_teams s @ [(i, new_team i name ''gated'' now)]\<rparr>)"

definition get_team :: "string \<Rightarrow> member_store \<Rightarrow> team_row option" where
  "get_team i s = map_of (mt_teams s) i"

definition get_team_by_name :: "string \<Rightarrow> member_store \<Rightarrow> team_row option" where
  "get_team_by_name name s = find (\<lambda>t. tm_name t = name) (map snd (mt_teams s))"

definition get_team_by_stripe_customer :: "string \<Rightarrow> member_store \<Rightarrow> team_row option" where
  "get_team_by_stripe_customer c s =
     find (\<lambda>t. tm_stripe_customer_id t = Some c) (map snd (mt_teams s))"

definition get_team_default_approval_mode :: "string \<Rightarrow> member_store \<Rightarrow> approval_mode" where
  "get_team_default_approval_mode i s =
     (case map_of (mt_teams s) i of
        None \<Rightarrow> Gated
      | Some t \<Rightarrow> from_stored (tm_default_approval_mode t))"

definition update_team :: "string \<Rightarrow> (team_row \<Rightarrow> team_row) \<Rightarrow> member_store \<Rightarrow> member_store" where
  "update_team i f s = s\<lparr>mt_teams := AList.map_entry i f (mt_teams s)\<rparr>"

definition set_team_default_approval_mode ::
  "string \<Rightarrow> approval_mode \<Rightarrow> member_store \<Rightarrow> member_store" where
  "set_team_default_approval_mode i mode s =
     update_team i (\<lambda>t. t\<lparr>tm_default_approval_mode := approval_mode_as_str mode\<rparr>) s"

definition update_team_tier :: "string \<Rightarrow> string \<Rightarrow> member_store \<Rightarrow> member_store" where
  "update_team_tier i tier s = update_team i (\<lambda>t. t\<lparr>tm_tier := tier\<rparr>) s"

definition set_stripe_customer_id :: "string \<Rightarrow> string \<Rightarrow> member_store \<Rightarrow> member_store" where
  "set_stripe_customer_id i c s = update_team i (\<lambda>t. t\<lparr>tm_stripe_customer_id := Some c\<rparr>) s"

section \<open>Users and memberships\<close>

definition new_user :: "string \<Rightarrow> string \<Rightarrow> string \<Rightarrow> timestamp \<Rightarrow> user" where
  "new_user i email h now =
     \<lparr>us_id = i, us_email = email, us_password_hash = h, us_email_verified = False,
      us_display_name = None, us_matrix_user_id = None, us_telegram_user_id = None,
      us_created_at = now, us_updated_at = now\<rparr>"

definition get_user_by_email :: "string \<Rightarrow> member_store \<Rightarrow> user option" where
  "get_user_by_email email s = find (\<lambda>u. us_email u = email) (map snd (mt_users s))"

definition get_user :: "string \<Rightarrow> member_store \<Rightarrow> user option" where
  "get_user i s = map_of (mt_users s) i"

text \<open>
  \<open>INSERT \<dots> ON CONFLICT (email) DO NOTHING\<close>: the flag says whether a row was inserted. A
  clash of the identifier is an error.
\<close>

definition create_user_strict ::
  "string \<Rightarrow> string \<Rightarrow> string \<Rightarrow> timestamp \<Rightarrow> member_store
    \<Rightarrow> (agent_sec_error, bool \<times> member_store) result" where
  "create_user_strict i email h now s =
     (if get_user_by_email email s \<noteq> None then Inr (False, s)
      else if get_user i s \<noteq> None then Inl (Config ''Failed to create user'')
      else Inr (True, s\<lparr>mt_users := mt_users s @ [(i, new_user i email h now)]\<rparr>))"

definition create_user ::
  "string \<Rightarrow> string \<Rightarrow> string \<Rightarrow> timestamp \<Rightarrow> member_store
    \<Rightarrow> (agent_sec_error, string \<times> member_store) result" where
  "create_user i email h now s =
     (case create_user_strict i email h now s of
        Inl e \<Rightarrow> Inl e
      | Inr (_, s') \<Rightarrow>
          (case get_user_by_email email s' of
             None \<Rightarrow> Inl (Config ''Failed to load user after create'')
           | Some u \<Rightarrow> Inr (us_id u, s')))"

definition add_membership ::
  "string \<Rightarrow> string \<Rightarrow> string \<Rightarrow> timestamp \<Rightarrow> member_store
    \<Rightarrow> (agent_sec_error, member_store) result" where
  "add_membership uid team role now s =
     (if map_of (mt_memberships s) (uid, team) \<noteq> None then Inr s
      else if get_user uid s = None \<or> get_team team s = None
      then Inl (Config ''Failed to create membership'')
      else Inr (s\<lparr>mt_memberships := mt_memberships s
          @ [((uid, team), \<lparr>mb_user_id = uid, mb_team_id = team, mb_member_role = role,
               mb_created_at = now\<rparr>)]\<rparr>))"

definition create_user_with_membership ::
  "string \<Rightarrow> string \<Rightarrow> string \<Rightarrow> string \<Rightarrow> string \<Rightarrow> timestamp \<Rightarrow> member_store
    \<Rightarrow> (agent_sec_error, string \<times> member_store) result" where
  "create_user_with_membership i team email h role now s =
     (case create_user i email h now s of
        Inl e \<Rightarrow> Inl e
      | Inr (uid, s') \<Rightarrow>
          (case add_membership uid team role now s' of
             Inl e \<Rightarrow> Inl e
           | Inr s'' \<Rightarrow> Inr (uid, s'')))"

definition update_member_role :: "string \<Rightarrow> string \<Rightarrow> string \<Rightarrow> member_store \<Rightarrow> member_store" where
  "update_member_role uid team role s =
     s\<lparr>mt_memberships :=
         AList.map_entry (uid, team) (\<lambda>m. m\<lparr>mb_member_role := role\<rparr>) (mt_memberships s)\<rparr>"

definition delete_membership :: "string \<Rightarrow> string \<Rightarrow> member_store \<Rightarrow> member_store" where
  "delete_membership uid team s =
     s\<lparr>mt_memberships := AList.delete (uid, team) (mt_memberships s)\<rparr>"

definition update_user :: "string \<Rightarrow> (user \<Rightarrow> user) \<Rightarrow> member_store \<Rightarrow> member_store" where
  "update_user i f s = s\<lparr>mt_users := AList.map_entry i f (mt_users s)\<rparr>"

definition set_user_email_verified :: "string \<Rightarrow> timestamp \<Rightarrow> member_store \<Rightarrow> member_store" where
  "set_user_email_verified i now s =
     update_user i (\<lambda>u. u\<lparr>us_email_verified := True, us_updated_at := now\<rparr>) s"

definition update_user_identity ::
  "string \<Rightarrow> string option \<Rightarrow> string option \<Rightarrow> string option \<Rightarrow> timestamp \<Rightarrow> member_store
    \<Rightarrow> member_store" where
  "update_user_identity i display mx tg now s =
     update_user i (\<lambda>u. u\<lparr>us_display_name := display, us_matrix_user_id := mx,
       us_telegram_user_id := tg, us_updated_at := now\<rparr>) s"

text \<open>\<open>MEMBER_SELECT\<close>: a user joined with one membership.\<close>

definition member_of :: "user \<Rightarrow> membership \<Rightarrow> member" where
  "member_of u m =
     \<lparr>me_id = us_id u, me_team_id = mb_team_id m, me_email = us_email u,
      me_password_hash = us_password_hash u, me_email_verified = us_email_verified u,
      me_member_role = mb_member_role m, me_created_at = mb_created_at m,
      me_updated_at = us_updated_at u, me_display_name = us_display_name u,
      me_matrix_user_id = us_matrix_user_id u, me_telegram_user_id = us_telegram_user_id u\<rparr>"

definition members :: "member_store \<Rightarrow> member list" where
  "members s = List.map_filter
     (\<lambda>((uid, _), m). map_option (\<lambda>u. member_of u m) (get_user uid s)) (mt_memberships s)"

definition get_member :: "string \<Rightarrow> string \<Rightarrow> member_store \<Rightarrow> member option" where
  "get_member uid team s = find (\<lambda>m. me_id m = uid \<and> me_team_id m = team) (members s)"

definition get_member_by_email_and_team :: "string \<Rightarrow> string \<Rightarrow> member_store \<Rightarrow> member option" where
  "get_member_by_email_and_team email team s =
     find (\<lambda>m. me_email m = email \<and> me_team_id m = team) (members s)"

definition get_member_by_telegram_id :: "string \<Rightarrow> string \<Rightarrow> member_store \<Rightarrow> member option" where
  "get_member_by_telegram_id team tg s =
     find (\<lambda>m. me_team_id m = team \<and> me_telegram_user_id m = Some tg) (members s)"

definition get_member_by_matrix_id :: "string \<Rightarrow> string \<Rightarrow> member_store \<Rightarrow> member option" where
  "get_member_by_matrix_id team mx s =
     find (\<lambda>m. me_team_id m = team \<and> me_matrix_user_id m = Some mx) (members s)"

definition list_team_members :: "string \<Rightarrow> member_store \<Rightarrow> member list" where
  "list_team_members team s =
     sort_key me_created_at (filter (\<lambda>m. me_team_id m = team) (members s))"

text \<open>Ordered by the time of joining and then by the name of the team.\<close>

definition list_user_teams :: "string \<Rightarrow> member_store \<Rightarrow> (string \<times> string \<times> string) list" where
  "list_user_teams uid s =
     map snd (sort_key fst (sort_key (\<lambda>(_, _, name, _). name) (List.map_filter
       (\<lambda>((u, t), m). if u = uid
          then map_option (\<lambda>r. (mb_created_at m, t, tm_name r, mb_member_role m)) (get_team t s)
          else None) (mt_memberships s))))"

definition first_owner_member :: "member_store \<Rightarrow> member option" where
  "first_owner_member s =
     (case sort_key me_created_at (filter is_owner (members s)) of [] \<Rightarrow> None | m # _ \<Rightarrow> Some m)"

section \<open>Credentials of approvers\<close>

text \<open>The foreign key on \<open>credentials\<close> is checked in the store of the credentials.\<close>

definition assign_credential_to_approver ::
  "access_store \<Rightarrow> string \<Rightarrow> string \<Rightarrow> string \<Rightarrow> member_store
    \<Rightarrow> (agent_sec_error, member_store) result" where
  "assign_credential_to_approver ax team uid cred s =
     (if (team, uid, cred) \<in> set (mt_approver_credentials s) then Inr s
      else if get_user uid s = None \<or> get_credential team cred ax = None
      then Inl (Config ''Failed to assign credential to approver'')
      else Inr (s\<lparr>mt_approver_credentials := mt_approver_credentials s @ [(team, uid, cred)]\<rparr>))"

definition remove_credential_from_approver ::
  "string \<Rightarrow> string \<Rightarrow> string \<Rightarrow> member_store \<Rightarrow> member_store" where
  "remove_credential_from_approver team uid cred s =
     s\<lparr>mt_approver_credentials := removeAll (team, uid, cred) (mt_approver_credentials s)\<rparr>"

definition list_approver_credentials :: "string \<Rightarrow> string \<Rightarrow> member_store \<Rightarrow> string list" where
  "list_approver_credentials team uid s =
     sort (map (\<lambda>(_, _, c). c)
       (filter (\<lambda>(t, u, _). t = team \<and> u = uid) (mt_approver_credentials s)))"

section \<open>Invites\<close>

definition create_invite ::
  "admin_invite_row \<Rightarrow> timestamp \<Rightarrow> member_store \<Rightarrow> (agent_sec_error, member_store) result" where
  "create_invite iv now s =
     (if map_of (mt_invites s) (iv_id iv) \<noteq> None
         \<or> iv_token_hash iv \<in> set (map (iv_token_hash \<circ> snd) (mt_invites s))
         \<or> get_team (iv_team_id iv) s = None \<or> get_user (iv_invited_by_user_id iv) s = None
      then Inl (Config ''Failed to create invite'')
      else Inr (s\<lparr>mt_invites := mt_invites s @ [(iv_id iv, iv\<lparr>iv_created_at := now\<rparr>)]\<rparr>))"

definition get_invite_by_token_hash :: "string \<Rightarrow> member_store \<Rightarrow> admin_invite_row option" where
  "get_invite_by_token_hash h s = find (\<lambda>iv. iv_token_hash iv = h) (map snd (mt_invites s))"

definition delete_invite :: "string \<Rightarrow> member_store \<Rightarrow> member_store" where
  "delete_invite i s = s\<lparr>mt_invites := AList.delete i (mt_invites s)\<rparr>"

definition list_pending_invites ::
  "string \<Rightarrow> timestamp \<Rightarrow> member_store \<Rightarrow> admin_invite_row list" where
  "list_pending_invites team now s =
     rev (sort_key iv_created_at
       (filter (\<lambda>iv. iv_team_id iv = team \<and> iv_expires_at iv > now) (map snd (mt_invites s))))"

definition list_invites_by_email ::
  "string \<Rightarrow> timestamp \<Rightarrow> member_store \<Rightarrow> admin_invite_row list" where
  "list_invites_by_email email now s =
     sort_key iv_created_at
       (filter (\<lambda>iv. iv_email iv = email \<and> iv_expires_at iv > now) (map snd (mt_invites s)))"

section \<open>Permissions (admin.rs)\<close>

definition user_can_manage_workspace :: "member \<Rightarrow> bool" where
  "user_can_manage_workspace m \<longleftrightarrow> role_can_manage_workspace (me_member_role m)"

definition capabilities_for_role :: "string \<Rightarrow> bool \<Rightarrow> string list" where
  "capabilities_for_role role owner =
     (let caps = [''view_profile'', ''manage_profile'', ''manage_passkeys'', ''view_team'',
                  ''approve_requests'']
      in if role = ''approver'' then caps @ [''view_assigned_credentials'', ''manage_own_agents'']
         else caps
           @ (if role = ''owner'' \<or> role = ''admin''
              then [''manage_credentials'', ''manage_agents'', ''manage_roles'', ''manage_policies'',
                    ''manage_members'', ''manage_notification_channels'', ''manage_billing'']
              else [])
           @ (if owner then [''manage_owners''] else []))"

definition user_capabilities :: "member \<Rightarrow> string list" where
  "user_capabilities m = capabilities_for_role (me_member_role m) (is_owner m)"

definition user_can_manage_own_agents :: "member \<Rightarrow> bool" where
  "user_can_manage_own_agents m \<longleftrightarrow> me_member_role m = ''approver''"

definition user_can_access_agent :: "member \<Rightarrow> agent_row \<Rightarrow> bool" where
  "user_can_access_agent m a \<longleftrightarrow>
     user_can_manage_workspace m \<or> aw_owner_user_id a = Some (me_id m)"

text \<open>
  The answers of the handlers below; a refusal for a missing permission names the action.
\<close>

datatype member_response =
    OnlyOwnersAndAdmins string           \<comment> \<open>403\<close>
  | CannotAccessAgent string             \<comment> \<open>403\<close>
  | NoPermission string                  \<comment> \<open>403\<close>
  | ApproverRolesRefused                 \<comment> \<open>403\<close>
  | NotAssignedToYou string              \<comment> \<open>403\<close>
  | InvalidEmail                         \<comment> \<open>400\<close>
  | InvalidRole                          \<comment> \<open>400\<close>
  | OnlyOwnersInviteOwners               \<comment> \<open>403\<close>
  | AlreadyMember                        \<comment> \<open>409\<close>
  | TeamMissing                          \<comment> \<open>500\<close>
  | StoreFailure string                  \<comment> \<open>500\<close>
  | Invited string                       \<comment> \<open>200\<close>
  | PasswordTooShort                     \<comment> \<open>400\<close>
  | InvalidInvite                        \<comment> \<open>404\<close>
  | InviteExpired                        \<comment> \<open>410\<close>
  | LoginToAccept                        \<comment> \<open>409\<close>
  | InviteAccepted string                \<comment> \<open>200\<close>
  | CannotRemoveYourself                 \<comment> \<open>400\<close>
  | MemberNotFound                       \<comment> \<open>404\<close>
  | CannotRemoveOwner                    \<comment> \<open>403\<close>
  | MemberRemoved                        \<comment> \<open>200\<close>
  | InviteNotFound                       \<comment> \<open>404\<close>
  | InviteCancelled                      \<comment> \<open>200\<close>
  | OnlyOwnersChangeRoles                \<comment> \<open>403\<close>
  | CannotChangeOwnRole                  \<comment> \<open>400\<close>
  | RoleUpdated string string            \<comment> \<open>200\<close>
  | MemberCredentialNotFound             \<comment> \<open>404\<close>
  | CredentialAssigned                   \<comment> \<open>200\<close>
  | CredentialRemoved                    \<comment> \<open>200\<close>
  | AssignedCredentials "string list"    \<comment> \<open>200\<close>
  | InvalidApprovalMode string           \<comment> \<open>400\<close>
  | ApprovalModeSet string               \<comment> \<open>200\<close>
  | IdentityUpdated                      \<comment> \<open>200\<close>

definition require_workspace_manager :: "member \<Rightarrow> string \<Rightarrow> (member_response, unit) result" where
  "require_workspace_manager m action =
     (if user_can_manage_workspace m then Inr () else Inl (OnlyOwnersAndAdmins action))"

definition require_agent_access ::
  "member \<Rightarrow> agent_row \<Rightarrow> string \<Rightarrow> (member_response, unit) result" where
  "require_agent_access m a action =
     (if user_can_access_agent m a then Inr () else Inl (CannotAccessAgent action))"

definition require_agent_manager :: "member \<Rightarrow> string \<Rightarrow> (member_response, unit) result" where
  "require_agent_manager m action =
     (if user_can_manage_workspace m \<or> user_can_manage_own_agents m then Inr ()
      else Inl (NoPermission action))"

definition validate_approver_agent_scope ::
  "member \<Rightarrow> string list option \<Rightarrow> string list option \<Rightarrow> member_store
    \<Rightarrow> (member_response, unit) result" where
  "validate_approver_agent_scope m credentials roles s =
     (if (case roles of None \<Rightarrow> False | Some rs \<Rightarrow> rs \<noteq> []) then Inl ApproverRolesRefused
      else case credentials of
        None \<Rightarrow> Inr ()
      | Some cs \<Rightarrow>
          (case find (\<lambda>c. c \<notin> set (list_approver_credentials (me_team_id m) (me_id m) s)) cs of
             Some c \<Rightarrow> Inl (NotAssignedToYou c)
           | None \<Rightarrow> Inr ()))"

section \<open>Handlers (admin.rs)\<close>

definition valid_role :: "string \<Rightarrow> bool" where
  "valid_role r \<longleftrightarrow> r = ''owner'' \<or> r = ''admin'' \<or> r = ''approver''"

text \<open>The invite of 48 hours; the mail that carries the token is not modelled.\<close>

definition handle_invite_team_member ::
  "member \<Rightarrow> string \<Rightarrow> string option \<Rightarrow> string \<Rightarrow> string \<Rightarrow> timestamp \<Rightarrow> member_store
    \<Rightarrow> member_response \<times> member_store" where
  "handle_invite_team_member admin raw_email raw_role invite_id token_hash now s =
     (let email = to_lowercase (trim raw_email);
          role = (case raw_role of None \<Rightarrow> ''approver'' | Some r \<Rightarrow> r)
      in case require_workspace_manager admin ''invite team members'' of
        Inl resp \<Rightarrow> (resp, s)
      | Inr _ \<Rightarrow>
          if \<not> contains email ''@'' \<or> \<not> contains email ''.'' then (InvalidEmail, s)
          else if \<not> valid_role role then (InvalidRole, s)
          else if role = ''owner'' \<and> \<not> is_owner admin then (OnlyOwnersInviteOwners, s)
          else if get_member_by_email_and_team email (me_team_id admin) s \<noteq> None
          then (AlreadyMember, s)
          else if get_team (me_team_id admin) s = None then (TeamMissing, s)
          else case create_invite
              \<lparr>iv_id = invite_id, iv_team_id = me_team_id admin, iv_email = email, iv_role = role,
               iv_token_hash = token_hash, iv_invited_by_user_id = me_id admin,
               iv_expires_at = now + 48 * 60 * 60, iv_created_at = now\<rparr> now s of
            Inl _ \<Rightarrow> (StoreFailure ''Failed to create invite'', s)
          | Inr s' \<Rightarrow> (Invited email, s'))"

record invite_resolution =
  ir_team_name :: string
  ir_already_member :: bool
  ir_has_account :: bool
  ir_action :: string

definition resolve_invite_action :: "admin_invite_row \<Rightarrow> member_store \<Rightarrow> invite_resolution" where
  "resolve_invite_action iv s =
     (let already = get_member_by_email_and_team (iv_email iv) (iv_team_id iv) s \<noteq> None;
          account = get_user_by_email (iv_email iv) s \<noteq> None
      in \<lparr>ir_team_name = (case get_team (iv_team_id iv) s of None \<Rightarrow> [] | Some t \<Rightarrow> tm_name t),
          ir_already_member = already, ir_has_account = account,
          ir_action = (if already then ''already_member''
                       else if account then ''login_to_accept'' else ''create_account'')\<rparr>)"

text \<open>
  Accepting with a token whose hash is \<open>token_hash\<close>; \<open>hashed\<close> is the password's hash, or none
  when hashing failed.
\<close>

definition handle_accept_invite ::
  "string \<Rightarrow> string \<Rightarrow> string option \<Rightarrow> string \<Rightarrow> timestamp \<Rightarrow> member_store
    \<Rightarrow> member_response \<times> member_store" where
  "handle_accept_invite token_hash password hashed new_id now s =
     (if length password < 8 then (PasswordTooShort, s)
      else case get_invite_by_token_hash token_hash s of
        None \<Rightarrow> (InvalidInvite, s)
      | Some iv \<Rightarrow>
          if now > iv_expires_at iv then (InviteExpired, delete_invite (iv_id iv) s)
          else
            let action = ir_action (resolve_invite_action iv s) in
            if action = ''already_member'' then (AlreadyMember, delete_invite (iv_id iv) s)
            else if action = ''login_to_accept'' then (LoginToAccept, s)
            else case hashed of
              None \<Rightarrow> (StoreFailure ''Failed to hash password'', s)
            | Some h \<Rightarrow>
                (case create_user_with_membership new_id (iv_team_id iv) (iv_email iv) h (iv_role iv)
                        now s of
                   Inl _ \<Rightarrow> (StoreFailure ''Failed to create account'', s)
                 | Inr (uid, s') \<Rightarrow>
                     (InviteAccepted (iv_email iv),
                      delete_invite (iv_id iv) (set_user_email_verified uid now s'))))"

definition handle_remove_team_member ::
  "member \<Rightarrow> string \<Rightarrow> member_store \<Rightarrow> member_response \<times> member_store" where
  "handle_remove_team_member admin target s =
     (case require_workspace_manager admin ''remove team members'' of
        Inl resp \<Rightarrow> (resp, s)
      | Inr _ \<Rightarrow>
          if me_id admin = target then (CannotRemoveYourself, s)
          else case get_member target (me_team_id admin) s of
            None \<Rightarrow> (MemberNotFound, s)
          | Some m \<Rightarrow>
              if is_owner m then (CannotRemoveOwner, s)
              else (MemberRemoved, delete_membership target (me_team_id admin) s))"

definition handle_cancel_invite ::
  "member \<Rightarrow> string \<Rightarrow> timestamp \<Rightarrow> member_store \<Rightarrow> member_response \<times> member_store" where
  "handle_cancel_invite admin i now s =
     (case require_workspace_manager admin ''cancel invites'' of
        Inl resp \<Rightarrow> (resp, s)
      | Inr _ \<Rightarrow>
          if list_ex (\<lambda>iv. iv_id iv = i) (list_pending_invites (me_team_id admin) now s)
          then (InviteCancelled, delete_invite i s)
          else (InviteNotFound, s))"

definition handle_change_member_role ::
  "member \<Rightarrow> string \<Rightarrow> string \<Rightarrow> member_store \<Rightarrow> member_response \<times> member_store" where
  "handle_change_member_role admin target role s =
     (if \<not> is_owner admin then (OnlyOwnersChangeRoles, s)
      else if me_id admin = target then (CannotChangeOwnRole, s)
      else if \<not> valid_role role then (InvalidRole, s)
      else case get_member target (me_team_id admin) s of
        None \<Rightarrow> (MemberNotFound, s)
      | Some m \<Rightarrow>
          (RoleUpdated target role, update_member_role target (me_team_id admin) role s))"

definition handle_assign_approver_credential ::
  "access_store \<Rightarrow> member \<Rightarrow> string \<Rightarrow> string \<Rightarrow> member_store \<Rightarrow> member_response \<times> member_store" where
  "handle_assign_approver_credential ax admin target cred s =
     (case require_workspace_manager admin ''assign credentials'' of
        Inl resp \<Rightarrow> (resp, s)
      | Inr _ \<Rightarrow>
          if get_member target (me_team_id admin) s = None then (MemberNotFound, s)
          else if get_credential (me_team_id admin) cred ax = None then (MemberCredentialNotFound, s)
          else case assign_credential_to_approver ax (me_team_id admin) target cred s of
            Inl _ \<Rightarrow> (StoreFailure ''Failed to assign credential'', s)
          | Inr s' \<Rightarrow> (CredentialAssigned, s'))"

definition handle_remove_approver_credential ::
  "member \<Rightarrow> string \<Rightarrow> string \<Rightarrow> member_store \<Rightarrow> member_response \<times> member_store" where
  "handle_remove_approver_credential admin target cred s =
     (case require_workspace_manager admin ''remove credential assignments'' of
        Inl resp \<Rightarrow> (resp, s)
      | Inr _ \<Rightarrow>
          if get_member target (me_team_id admin) s = None then (MemberNotFound, s)
          else (CredentialRemoved,
                remove_credential_from_approver (me_team_id admin) target cred s))"

definition handle_list_approver_credentials ::
  "member \<Rightarrow> string \<Rightarrow> member_store \<Rightarrow> member_response" where
  "handle_list_approver_credentials admin target s =
     (case require_workspace_manager admin ''view credential assignments'' of
        Inl resp \<Rightarrow> resp
      | Inr _ \<Rightarrow>
          if get_member target (me_team_id admin) s = None then MemberNotFound
          else AssignedCredentials (list_approver_credentials (me_team_id admin) target s))"

definition handle_set_team_settings ::
  "member \<Rightarrow> string \<Rightarrow> member_store \<Rightarrow> member_response \<times> member_store" where
  "handle_set_team_settings admin mode s =
     (case require_workspace_manager admin ''manage team settings'' of
        Inl resp \<Rightarrow> (resp, s)
      | Inr _ \<Rightarrow>
          if mode = ''autonomous''
          then (ApprovalModeSet mode, set_team_default_approval_mode (me_team_id admin) Autonomous s)
          else if mode = ''gated''
          then (ApprovalModeSet mode, set_team_default_approval_mode (me_team_id admin) Gated s)
          else (InvalidApprovalMode mode, s))"

definition handle_update_my_identity ::
  "member \<Rightarrow> string option \<Rightarrow> string option \<Rightarrow> string option \<Rightarrow> timestamp \<Rightarrow> member_store
    \<Rightarrow> member_response \<times> member_store" where
  "handle_update_my_identity admin display mx tg now s =
     (IdentityUpdated, update_user_identity (me_id admin) display mx tg now s)"

text \<open>
  Joining the teams an address was invited to, oldest invite first; an invite whose
  membership cannot be written stays.
\<close>

fun consume_invites ::
  "string \<Rightarrow> timestamp \<Rightarrow> admin_invite_row list \<Rightarrow> member_store
    \<Rightarrow> (string \<times> string \<times> string) list \<times> member_store" where
  "consume_invites uid now [] s = ([], s)"
| "consume_invites uid now (iv # ivs) s =
     (case add_membership uid (iv_team_id iv) (iv_role iv) now s of
        Inl _ \<Rightarrow> consume_invites uid now ivs s
      | Inr s' \<Rightarrow>
          let name = (case get_team (iv_team_id iv) s' of None \<Rightarrow> [] | Some t \<Rightarrow> tm_name t);
              (joined, s'') = consume_invites uid now ivs (delete_invite (iv_id iv) s')
          in ((iv_team_id iv, name, iv_role iv) # joined, s''))"

definition consume_pending_invites ::
  "string \<Rightarrow> string \<Rightarrow> timestamp \<Rightarrow> member_store
    \<Rightarrow> (string \<times> string \<times> string) list \<times> member_store" where
  "consume_pending_invites uid email now s =
     consume_invites uid now (list_invites_by_email email now s) s"

definition resolve_active_team ::
  "string \<Rightarrow> member_store \<Rightarrow> ((string \<times> string \<times> string) \<times> (string \<times> string \<times> string) list) option" where
  "resolve_active_team uid s =
     (case list_user_teams uid s of [] \<Rightarrow> None | t # ts \<Rightarrow> Some (t, t # ts))"

section \<open>Histories\<close>

text \<open>
  One request, with the member who makes it, or none for a request that carries a token or
  opens an account. The session of a member is resolved in the state the handler starts in.
\<close>

definition signed_in :: "member \<Rightarrow> member_store \<Rightarrow> bool" where
  "signed_in a s \<longleftrightarrow> get_member (me_id a) (me_team_id a) s = Some a"

inductive member_step :: "member option \<Rightarrow> member_store \<Rightarrow> member_store \<Rightarrow> bool" where
  invite: "signed_in a s \<Longrightarrow> handle_invite_team_member a e r i h now s = (resp, s') \<Longrightarrow> member_step (Some a) s s'"
| remove: "signed_in a s \<Longrightarrow> handle_remove_team_member a u s = (resp, s') \<Longrightarrow> member_step (Some a) s s'"
| cancel: "signed_in a s \<Longrightarrow> handle_cancel_invite a i now s = (resp, s') \<Longrightarrow> member_step (Some a) s s'"
| change_role: "signed_in a s \<Longrightarrow> handle_change_member_role a u r s = (resp, s') \<Longrightarrow> member_step (Some a) s s'"
| assign: "signed_in a s \<Longrightarrow> handle_assign_approver_credential ax a u c s = (resp, s')
    \<Longrightarrow> member_step (Some a) s s'"
| unassign: "signed_in a s \<Longrightarrow> handle_remove_approver_credential a u c s = (resp, s')
    \<Longrightarrow> member_step (Some a) s s'"
| settings: "signed_in a s \<Longrightarrow> handle_set_team_settings a m s = (resp, s') \<Longrightarrow> member_step (Some a) s s'"
| identity: "signed_in a s \<Longrightarrow> handle_update_my_identity a d mx tg now s = (resp, s')
    \<Longrightarrow> member_step (Some a) s s'"
| accept: "handle_accept_invite h p hashed i now s = (resp, s') \<Longrightarrow> member_step None s s'"
| log_in: "consume_pending_invites u e now s = (joined, s') \<Longrightarrow> member_step None s s'"
| found_team: "create_team t name now s = Inr s1
    \<Longrightarrow> create_user_with_membership i t e h ''owner'' now s1 = Inr (u, s')
    \<Longrightarrow> member_step None s s'"

inductive member_run :: "member option list \<Rightarrow> member_store \<Rightarrow> member_store \<Rightarrow> bool" where
  start: "member_run [] s s"
| step: "member_run as s s' \<Longrightarrow> member_step a s' s'' \<Longrightarrow> member_run (a # as) s s''"

section \<open>The invariant of the tables\<close>

definition member_wf :: "member_store \<Rightarrow> bool" where
  "member_wf s \<longleftrightarrow>
     (\<forall>((u, t), r) \<in> set (mt_memberships s). mb_team_id r = t \<and> get_team t s \<noteq> None)
     \<and> (\<forall>(i, u) \<in> set (mt_users s). us_id u = i)
     \<and> distinct (map fst (mt_memberships s)) \<and> distinct (map fst (mt_users s))
     \<and> distinct (map (us_email \<circ> snd) (mt_users s))"

definition owners :: "string \<Rightarrow> member_store \<Rightarrow> string set" where
  "owners t s = {u. \<exists>r. map_of (mt_memberships s) (u, t) = Some r \<and> mb_member_role r = ''owner''}"

definition owner_invites :: "string \<Rightarrow> member_store \<Rightarrow> string set" where
  "owner_invites t s =
     {i. \<exists>iv. (i, iv) \<in> set (mt_invites s) \<and> iv_team_id iv = t \<and> iv_role iv = ''owner''}"

lemma in_members:
  "m \<in> set (members s) \<longleftrightarrow>
     (\<exists>u t r us. ((u, t), r) \<in> set (mt_memberships s) \<and> get_user u s = Some us \<and> m = member_of us r)"
  by (force simp: members_def List.map_filter_def split: option.splits)

lemma get_userD: "member_wf s \<Longrightarrow> get_user i s = Some u \<Longrightarrow> us_id u = i"
  unfolding member_wf_def get_user_def by (auto dest!: map_of_SomeD)

lemma members_key:
  assumes "member_wf s" and "m \<in> set (members s)"
  obtains r us where "map_of (mt_memberships s) (me_id m, me_team_id m) = Some r"
    and "get_user (me_id m) s = Some us" and "m = member_of us r"
proof -
  from assms(2) obtain u t r us where m: "((u, t), r) \<in> set (mt_memberships s)"
    "get_user u s = Some us" "m = member_of us r" by (auto simp: in_members)
  moreover from m(1) assms(1) have "mb_team_id r = t" by (auto simp: member_wf_def)
  moreover have "us_id us = u" using get_userD [OF assms(1) m(2)] .
  moreover have "map_of (mt_memberships s) (u, t) = Some r"
    using m(1) assms(1) by (auto simp: member_wf_def intro: map_of_is_SomeI)
  ultimately show thesis using that by (auto simp: member_of_def)
qed

lemma get_member_Some:
  assumes "member_wf s" and "get_member u t s = Some m"
  shows "me_id m = u \<and> me_team_id m = t
    \<and> (\<exists>r us. map_of (mt_memberships s) (u, t) = Some r \<and> get_user u s = Some us \<and> m = member_of us r)"
proof -
  from assms(2) have "m \<in> set (members s)" "me_id m = u" "me_team_id m = t"
    by (auto simp: get_member_def dest: find_SomeD)
  with members_key [OF assms(1), of m] show ?thesis by metis
qed

lemma owners_iff: "u \<in> owners t s \<longleftrightarrow>
    (\<exists>r. map_of (mt_memberships s) (u, t) = Some r \<and> mb_member_role r = ''owner'')"
  by (simp add: owners_def)

lemma signed_in_owner:
  assumes "member_wf s" and "signed_in a s"
  shows "is_owner a \<longleftrightarrow> me_id a \<in> owners (me_team_id a) s"
  using get_member_Some [OF assms(1), of "me_id a" "me_team_id a" a] assms(2)
  by (auto simp: signed_in_def is_owner_def owners_iff member_of_def)

lemma update_role_owners:
  "owners t (update_member_role u t' r s) =
     (if t = t' \<and> map_of (mt_memberships s) (u, t) \<noteq> None
      then (if r = ''owner'' then insert u (owners t s) else owners t s - {u}) else owners t s)"
  by (auto simp: owners_iff update_member_role_def map_of_map_entry split: if_splits)

lemma delete_owners:
  "owners t (delete_membership u t' s) = (if t = t' then owners t s - {u} else owners t s)"
  by (auto simp: owners_iff delete_membership_def map_of_delete split: if_splits)

section \<open>What the statements keep\<close>

lemma wf_membership_update:
  "member_wf s \<Longrightarrow> member_wf (update_member_role u t r s)"
  "member_wf s \<Longrightarrow> member_wf (delete_membership u t s)"
proof -
  assume wf: "member_wf s"
  have "mb_team_id x = t' \<and> get_team t' s \<noteq> None"
    if "((u', t'), x) \<in> set (AList.map_entry (u, t) (\<lambda>m. m\<lparr>mb_member_role := r\<rparr>) (mt_memberships s))"
    for u' t' x
    using in_map_entry [OF that] wf by (auto simp: member_wf_def)
  with wf show "member_wf (update_member_role u t r s)"
    by (auto simp: member_wf_def update_member_role_def get_team_def)
  show "member_wf (delete_membership u t s)"
    using wf by (auto simp: member_wf_def delete_membership_def get_team_def in_delete
        intro: distinct_delete)
qed

lemma map_entry_email:
  assumes "\<And>x. us_email (f x) = us_email x"
  shows "map (us_email \<circ> snd) (AList.map_entry i f xs) = map (us_email \<circ> snd) xs"
  using assms by (induction xs) auto

lemma wf_update_user:
  assumes "member_wf s" and "\<And>x. us_id (f x) = us_id x" and "\<And>x. us_email (f x) = us_email x"
  shows "member_wf (update_user i f s)"
proof -
  have "us_id u = j" if "(j, u) \<in> set (AList.map_entry i f (mt_users s))" for j u
    using in_map_entry [OF that] assms(1,2) by (auto simp: member_wf_def)
  then show ?thesis
    using assms(1) by (auto simp: member_wf_def update_user_def get_team_def map_entry_email assms(3))
qed

lemma wf_frame:
  assumes "member_wf s" and "mt_users s' = mt_users s" and "mt_memberships s' = mt_memberships s"
    and "\<And>t. get_team t s \<noteq> None \<Longrightarrow> get_team t s' \<noteq> None"
  shows "member_wf s'"
  using assms unfolding member_wf_def by fastforce

lemma create_user_strict_ok:
  assumes "create_user_strict i e h now s = Inr (b, s')"
  shows "s' = s \<or> (get_user_by_email e s = None \<and> get_user i s = None
    \<and> s' = s\<lparr>mt_users := mt_users s @ [(i, new_user i e h now)]\<rparr>)"
  using assms by (auto simp: create_user_strict_def split: if_splits)

lemma create_user_ok:
  assumes "create_user i e h now s = Inr (u, s')"
  shows "s' = s \<or> (get_user_by_email e s = None \<and> get_user i s = None
    \<and> s' = s\<lparr>mt_users := mt_users s @ [(i, new_user i e h now)]\<rparr>)"
  using assms create_user_strict_ok [of i e h now s]
  by (auto simp: create_user_def split: sum.splits option.splits)

lemma wf_create_user:
  assumes "member_wf s" and "create_user i e h now s = Inr (u, s')"
  shows "member_wf s'"
proof -
  have fresh: "i \<notin> fst ` set (mt_users s)" if "get_user i s = None"
    using that by (simp add: get_user_def map_of_eq_None_iff)
  have email: "e \<notin> us_email ` snd ` set (mt_users s)" if "get_user_by_email e s = None"
    using that by (auto simp: get_user_by_email_def find_None_iff)
  show ?thesis
    using create_user_ok [OF assms(2)] assms(1) fresh email
    by (auto simp: member_wf_def new_user_def get_team_def image_comp comp_def)
qed

lemma add_membership_ok:
  assumes "add_membership u t r now s = Inr s'"
  shows "s' = s \<or> (map_of (mt_memberships s) (u, t) = None \<and> get_team t s \<noteq> None
    \<and> s' = s\<lparr>mt_memberships := mt_memberships s
        @ [((u, t), \<lparr>mb_user_id = u, mb_team_id = t, mb_member_role = r, mb_created_at = now\<rparr>)]\<rparr>)"
  using assms by (auto simp: add_membership_def split: if_splits)

lemma wf_add_membership:
  assumes "member_wf s" and "add_membership u t r now s = Inr s'"
  shows "member_wf s'"
proof -
  have "(u, t) \<notin> fst ` set (mt_memberships s)" if "map_of (mt_memberships s) (u, t) = None"
    using that by (simp add: map_of_eq_None_iff)
  then show ?thesis
    using add_membership_ok [OF assms(2)] assms(1) by (auto simp: member_wf_def get_team_def)
qed

lemma add_membership_owners:
  assumes "add_membership u t r now s = Inr s'"
  shows "owners t' s \<subseteq> owners t' s'"
    and "owners t' s' \<subseteq> owners t' s \<union> (if t' = t \<and> r = ''owner'' then {u} else {})"
    and "mt_invites s' = mt_invites s"
  using add_membership_ok [OF assms] by (auto simp: owners_iff map_add_def split: option.splits if_splits)

text \<open>
  What every request does to a team that no owner of it asked for: its owners stay the same
  and no invite for an owner appears.
\<close>

definition owners_kept :: "string \<Rightarrow> member_store \<Rightarrow> member_store \<Rightarrow> bool" where
  "owners_kept t s s' \<longleftrightarrow> owners t s' = owners t s \<and> owner_invites t s' \<subseteq> owner_invites t s"

lemma owners_cong: "mt_memberships s' = mt_memberships s \<Longrightarrow> owners t s' = owners t s"
  by (simp add: owners_def)

lemma delete_invite_simps [simp]:
  "owners t (delete_invite i s) = owners t s" "mt_teams (delete_invite i s) = mt_teams s"
  "mt_memberships (delete_invite i s) = mt_memberships s" "mt_users (delete_invite i s) = mt_users s"
  "get_team t (delete_invite i s) = get_team t s"
  by (simp_all add: delete_invite_def owners_def get_team_def)

lemma delete_invite_subset: "set (mt_invites (delete_invite i s)) \<subseteq> set (mt_invites s)"
  by (auto simp: delete_invite_def in_delete)

lemma owner_invites_mono:
  "set (mt_invites s') \<subseteq> set (mt_invites s) \<Longrightarrow> owner_invites t s' \<subseteq> owner_invites t s"
  by (auto simp: owner_invites_def)

lemma wf_delete_invite [simp]: "member_wf (delete_invite i s) \<longleftrightarrow> member_wf s"
  by (simp add: member_wf_def)

lemma add_membership_frame:
  assumes "add_membership u t r now s = Inr s'"
  shows "mt_teams s' = mt_teams s" "mt_users s' = mt_users s" "mt_invites s' = mt_invites s"
  using add_membership_ok [OF assms] by auto

lemma consume_invites_keeps:
  assumes "consume_invites u now ivs s = (j, s')" and "member_wf s"
  shows "member_wf s' \<and> owners t s \<subseteq> owners t s' \<and> mt_teams s' = mt_teams s
    \<and> set (mt_invites s') \<subseteq> set (mt_invites s)
    \<and> (owners t s' \<subseteq> owners t s \<or> (\<exists>iv \<in> set ivs. iv_team_id iv = t \<and> iv_role iv = ''owner''))"
  using assms
proof (induction ivs arbitrary: s j)
  case (Cons iv ivs)
  show ?case
  proof (cases "add_membership u (iv_team_id iv) (iv_role iv) now s")
    case (Inr s1)
    let ?s2 = "delete_invite (iv_id iv) s1"
    obtain j' where run: "consume_invites u now ivs ?s2 = (j', s')"
      using Cons.prems(1) Inr by (auto simp: Let_def split: prod.splits)
    have "member_wf ?s2" using wf_add_membership [OF Cons.prems(2) Inr] by simp
    from Cons.IH [OF run this] show ?thesis
      using add_membership_owners(1,2) [OF Inr, of t] add_membership_frame [OF Inr]
        delete_invite_subset [of "iv_id iv" s1]
      by (auto split: if_splits)
  qed (use Cons in auto)
qed simp

lemma create_user_frame:
  assumes "create_user i e h now s = Inr (u, s')"
  shows "mt_teams s' = mt_teams s" "mt_memberships s' = mt_memberships s" "mt_invites s' = mt_invites s"
  using create_user_ok [OF assms] by auto

lemma create_user_with_membership_keeps:
  assumes "create_user_with_membership i t0 e h r now s = Inr (u, s')" and "member_wf s"
  shows "member_wf s' \<and> owners t s \<subseteq> owners t s' \<and> mt_teams s' = mt_teams s
    \<and> mt_invites s' = mt_invites s
    \<and> (owners t s' \<subseteq> owners t s \<or> t = t0 \<and> r = ''owner'')"
proof -
  from assms(1) obtain s1 where 1: "create_user i e h now s = Inr (u, s1)"
    and 2: "add_membership u t0 r now s1 = Inr s'"
    by (auto simp: create_user_with_membership_def split: sum.splits)
  have "owners t s1 = owners t s" using create_user_frame(2) [OF 1] by (rule owners_cong)
  moreover have "member_wf s'" using wf_add_membership [OF wf_create_user [OF assms(2) 1] 2] .
  ultimately show ?thesis
    using create_user_frame [OF 1] add_membership_frame [OF 2] add_membership_owners(1,2) [OF 2, of t]
    by (auto split: if_splits)
qed

lemma owner_invites_nonempty:
  assumes "iv \<in> snd ` set (mt_invites s)" and "iv_team_id iv = t" and "iv_role iv = ''owner''"
  shows "owner_invites t s \<noteq> {}"
proof -
  from assms(1) obtain i where "(i, iv) \<in> set (mt_invites s)" by auto
  with assms(2,3) have "i \<in> owner_invites t s" by (auto simp: owner_invites_def)
  then show ?thesis by blast
qed

lemma accept_keeps:
  assumes "handle_accept_invite th p hashed i now s = (resp, s')" and "member_wf s"
  shows "member_wf s' \<and> owners t s \<subseteq> owners t s' \<and> mt_teams s' = mt_teams s
    \<and> set (mt_invites s') \<subseteq> set (mt_invites s)
    \<and> (owners t s' \<subseteq> owners t s \<or> owner_invites t s \<noteq> {})"
proof (cases "s' = s \<or> (\<exists>j. s' = delete_invite j s)")
  case True
  then show ?thesis using assms(2) delete_invite_subset by auto
next
  case False
  with assms(1) obtain iv u s1 hh where iv: "get_invite_by_token_hash th s = Some iv"
    and new: "create_user_with_membership i (iv_team_id iv) (iv_email iv) hh (iv_role iv) now s = Inr (u, s1)"
    and s': "s' = delete_invite (iv_id iv) (set_user_email_verified u now s1)"
    by (auto simp: handle_accept_invite_def Let_def split: if_splits option.splits sum.splits)
  note k = create_user_with_membership_keeps [OF new assms(2), of t]
  have "owner_invites t s \<noteq> {}" if "iv_team_id iv = t" "iv_role iv = ''owner''"
    using that iv owner_invites_nonempty [of iv s t]
    by (auto simp: get_invite_by_token_hash_def dest!: find_SomeD)
  moreover have "member_wf (set_user_email_verified u now s1)"
    using k by (auto simp: set_user_email_verified_def intro: wf_update_user)
  moreover have "owners t (set_user_email_verified u now s1) = owners t s1"
    "mt_teams (set_user_email_verified u now s1) = mt_teams s1"
    "mt_invites (set_user_email_verified u now s1) = mt_invites s1"
    by (simp_all add: set_user_email_verified_def update_user_def owners_def)
  ultimately show ?thesis
    using k s' delete_invite_subset [of "iv_id iv" "set_user_email_verified u now s1"] by auto
qed

lemma log_in_keeps:
  assumes "consume_pending_invites u e now s = (j, s')" and "member_wf s"
  shows "member_wf s' \<and> owners t s \<subseteq> owners t s' \<and> mt_teams s' = mt_teams s
    \<and> set (mt_invites s') \<subseteq> set (mt_invites s)
    \<and> (owners t s' \<subseteq> owners t s \<or> owner_invites t s \<noteq> {})"
proof -
  have "owner_invites t s \<noteq> {}"
    if "iv \<in> set (list_invites_by_email e now s)" "iv_team_id iv = t" "iv_role iv = ''owner''" for iv
    using that owner_invites_nonempty [of iv s t] by (auto simp: list_invites_by_email_def)
  then show ?thesis
    using consume_invites_keeps [OF assms(1) [unfolded consume_pending_invites_def] assms(2), of t]
    by blast
qed

lemma found_team_keeps:
  assumes "create_team t0 name now s = Inr s1" and "member_wf s"
    and "create_user_with_membership i t0 e h ''owner'' now s1 = Inr (u, s')"
  shows "member_wf s' \<and> owners t s \<subseteq> owners t s' \<and> mt_invites s' = mt_invites s
    \<and> (get_team t s \<noteq> None \<longrightarrow> get_team t s' \<noteq> None \<and> owners t s' \<subseteq> owners t s)"
proof -
  from assms(1) have s1: "s1 = s\<lparr>mt_teams := mt_teams s @ [(t0, new_team t0 name ''autonomous'' now)]\<rparr>"
    "map_of (mt_teams s) t0 = None" by (auto simp: create_team_def team_taken_def split: if_splits)
  then have "member_wf s1" "owners t s1 = owners t s" "get_team t s \<noteq> None \<Longrightarrow> get_team t s1 \<noteq> None"
    using wf_frame [OF assms(2), of s1] by (auto simp: get_team_def owners_def)
  moreover have "get_team t s \<noteq> None \<Longrightarrow> t \<noteq> t0" using s1(2) by (auto simp: get_team_def)
  ultimately show ?thesis
    using create_user_with_membership_keeps [OF assms(3), of t] s1(1) by (auto simp: get_team_def)
qed

lemmas manager_defs =
  handle_invite_team_member_def handle_remove_team_member_def handle_cancel_invite_def
  handle_assign_approver_credential_def handle_remove_approver_credential_def
  handle_set_team_settings_def handle_update_my_identity_def require_workspace_manager_def

lemma invite_keeps:
  assumes "handle_invite_team_member a e r i h now s = (resp, s')"
  shows "mt_memberships s' = mt_memberships s \<and> mt_users s' = mt_users s \<and> mt_teams s' = mt_teams s
    \<and> (owner_invites t s' \<subseteq> owner_invites t s \<or> t = me_team_id a \<and> is_owner a)"
  using assms
  by (auto simp: handle_invite_team_member_def create_invite_def owner_invites_def Let_def
      split: sum.splits if_splits option.splits)

text \<open>The requests that touch neither memberships nor invites.\<close>

lemma frame_keeps:
  assumes "handle_assign_approver_credential ax a u c s = (resp, s')
    \<or> handle_remove_approver_credential a u c s = (resp, s') \<or> handle_set_team_settings a m s = (resp, s')"
  shows "mt_memberships s' = mt_memberships s \<and> mt_users s' = mt_users s
    \<and> mt_invites s' = mt_invites s \<and> (get_team t s \<noteq> None \<longrightarrow> get_team t s' \<noteq> None)"
  using assms
  by (auto simp: manager_defs assign_credential_to_approver_def remove_credential_from_approver_def
      set_team_default_approval_mode_def update_team_def get_team_def map_of_map_entry
      split: sum.splits if_splits)

lemma remove_keeps:
  assumes "handle_remove_team_member a u s = (resp, s')" and "member_wf s"
  shows "member_wf s' \<and> owners t s' = owners t s \<and> mt_invites s' = mt_invites s \<and> mt_teams s' = mt_teams s"
proof (cases "s' = s")
  case False
  with assms(1) obtain m where m: "get_member u (me_team_id a) s = Some m" "\<not> is_owner m"
    and s': "s' = delete_membership u (me_team_id a) s"
    by (auto simp: manager_defs split: sum.splits if_splits option.splits)
  then have "u \<notin> owners (me_team_id a) s"
    using get_member_Some [OF assms(2) m(1)] by (auto simp: owners_iff is_owner_def member_of_def)
  then show ?thesis
    using s' wf_membership_update(2) [OF assms(2)] delete_owners [of t u "me_team_id a" s]
    by (auto simp: delete_membership_def)
qed (use assms in auto)

lemma change_role_keeps:
  assumes "handle_change_member_role a u r s = (resp, s')" and "member_wf s" and "signed_in a s"
  shows "member_wf s' \<and> mt_invites s' = mt_invites s \<and> mt_teams s' = mt_teams s
    \<and> (owners t s' = owners t s \<or> t = me_team_id a \<and> is_owner a)
    \<and> (owners t s \<noteq> {} \<longrightarrow> owners t s' \<noteq> {})"
proof (cases "s' = s")
  case False
  with assms(1) have s': "s' = update_member_role u (me_team_id a) r s"
    and a: "is_owner a" "me_id a \<noteq> u"
    by (auto simp: handle_change_member_role_def split: if_splits option.splits)
  from a(1) have "me_id a \<in> owners (me_team_id a) s" using signed_in_owner [OF assms(2,3)] by simp
  with a(2) have "me_id a \<in> owners (me_team_id a) s'" by (simp add: s' update_role_owners)
  then show ?thesis
    using s' a wf_membership_update(1) [OF assms(2)] update_role_owners [of t u "me_team_id a" r s]
    by (auto simp: update_member_role_def)
qed (use assms in auto)

lemma identity_keeps:
  assumes "handle_update_my_identity a d mx tg now s = (resp, s')" and "member_wf s"
  shows "member_wf s' \<and> mt_memberships s' = mt_memberships s \<and> mt_invites s' = mt_invites s
    \<and> mt_teams s' = mt_teams s"
proof -
  from assms(1) have "s' = update_user_identity (me_id a) d mx tg now s"
    by (simp add: handle_update_my_identity_def)
  then show ?thesis
    using assms(2) wf_update_user [OF assms(2)] by (simp add: update_user_identity_def) (simp add: update_user_def)
qed

lemma get_team_teams: "mt_teams s' = mt_teams s \<Longrightarrow> get_team t s' = get_team t s"
  by (simp add: get_team_def)

lemma member_step_wf:
  assumes "member_step a s s'" and "member_wf s"
  shows "member_wf s' \<and> (get_team t s \<noteq> None \<longrightarrow> get_team t s' \<noteq> None)"
  using assms
proof (cases rule: member_step.cases)
  case (invite b e r i h now resp)
  then show ?thesis
    using invite_keeps [OF invite(3)] wf_frame [OF assms(2), of s'] get_team_teams [of s' s] by metis
next
  case (cancel b i now resp)
  then have "s' = s \<or> s' = delete_invite i s" by (auto simp: manager_defs split: sum.splits if_splits)
  then show ?thesis using assms(2) by auto
next
  case (remove b u resp)
  then show ?thesis using remove_keeps [OF remove(3) assms(2)] get_team_teams [of s' s] by metis
next
  case (change_role b u r resp)
  then show ?thesis using change_role_keeps [OF change_role(3) assms(2) change_role(2)] get_team_teams [of s' s] by metis
next
  case (assign b ax u c resp)
  then show ?thesis using frame_keeps [of ax b u c s resp s'] wf_frame [OF assms(2), of s'] by auto
next
  case (unassign b u c resp)
  then show ?thesis using frame_keeps [of _ b u c s resp s'] wf_frame [OF assms(2), of s'] by auto
next
  case (settings b m resp)
  then show ?thesis using frame_keeps [of _ b _ _ s resp s' m] wf_frame [OF assms(2), of s'] by auto
next
  case (identity b d mx tg now resp)
  then show ?thesis using identity_keeps [OF identity(3) assms(2)] get_team_teams [of s' s] by metis
next
  case (accept h p hashed i now resp)
  then show ?thesis using accept_keeps [OF accept(2) assms(2)] get_team_teams [of s' s] by metis
next
  case (log_in u e now j)
  then show ?thesis using log_in_keeps [OF log_in(2) assms(2)] get_team_teams [of s' s] by metis
next
  case (found_team t0 name now s1 i e h u)
  then show ?thesis using found_team_keeps [OF found_team(2) assms(2) found_team(3)] by blast
qed

text \<open>
  The effect of one request on the owners of a team: unless an owner of the team makes it,
  an owner's invite for the team was open, or the team is new, its owners stay the same and
  no invite for an owner appears; and a team that has an owner keeps one in every case.
\<close>

lemma member_step_owners:
  assumes "member_step a s s'" and wf: "member_wf s"
  shows "(owners t s' = owners t s \<or> (\<exists>b. a = Some b \<and> me_team_id b = t \<and> is_owner b)
      \<or> owner_invites t s \<noteq> {} \<or> get_team t s = None)
    \<and> (owner_invites t s' \<subseteq> owner_invites t s \<or> (\<exists>b. a = Some b \<and> me_team_id b = t \<and> is_owner b))
    \<and> (owners t s \<noteq> {} \<longrightarrow> owners t s' \<noteq> {})"
  using assms(1)
proof (cases rule: member_step.cases)
  case (invite b e r i h now resp)
  then show ?thesis using invite_keeps [OF invite(3), of t] owners_cong [of s' s t] by auto
next
  case (cancel b i now resp)
  then have "s' = s \<or> s' = delete_invite i s" by (auto simp: manager_defs split: sum.splits if_splits)
  then show ?thesis
    using owner_invites_mono [OF delete_invite_subset, of t i s] by auto
next
  case (remove b u resp)
  then show ?thesis
    using remove_keeps [OF remove(3) wf, of t] owner_invites_mono [of s' s t] by auto
next
  case (change_role b u r resp)
  then show ?thesis
    using change_role_keeps [OF change_role(3) wf change_role(2), of t] owner_invites_mono [of s' s t] by auto
next
  case (assign b ax u c resp)
  then show ?thesis
    using frame_keeps [of ax b u c s resp s'] owners_cong [of s' s t] owner_invites_mono [of s' s t] by auto
next
  case (unassign b u c resp)
  then show ?thesis
    using frame_keeps [of _ b u c s resp s'] owners_cong [of s' s t] owner_invites_mono [of s' s t] by auto
next
  case (settings b m resp)
  then show ?thesis
    using frame_keeps [of _ b _ _ s resp s' m] owners_cong [of s' s t] owner_invites_mono [of s' s t] by auto
next
  case (identity b d mx tg now resp)
  then show ?thesis
    using identity_keeps [OF identity(3) wf] owners_cong [of s' s t] owner_invites_mono [of s' s t] by auto
next
  case (accept h p hashed i now resp)
  then show ?thesis using accept_keeps [OF accept(2) wf, of t] owner_invites_mono [of s' s t] by blast
next
  case (log_in u e now j)
  then show ?thesis using log_in_keeps [OF log_in(2) wf, of t] owner_invites_mono [of s' s t] by blast
next
  case (found_team t0 name now s1 i e h u)
  then show ?thesis
    using found_team_keeps [OF found_team(2) wf found_team(3), of t] owner_invites_mono [of s' s t] by auto
qed

lemma member_run_owners:
  assumes "member_run as s s'" and "member_wf s" and "get_team t s \<noteq> None" and "owner_invites t s = {}"
    and "\<And>b. Some b \<in> set as \<Longrightarrow> me_team_id b = t \<Longrightarrow> \<not> is_owner b"
  shows "member_wf s' \<and> get_team t s' \<noteq> None \<and> owner_invites t s' = {} \<and> owners t s' = owners t s"
  using assms
proof (induction rule: member_run.induct)
  case (step as s s' a s'')
  then have old: "member_wf s'" "get_team t s' \<noteq> None" "owner_invites t s' = {}" "owners t s' = owners t s"
    by auto
  moreover have "\<And>b. a = Some b \<Longrightarrow> me_team_id b = t \<Longrightarrow> \<not> is_owner b" using step.prems(4) by auto
  ultimately show ?case
    using member_step_wf [OF step.hyps(2) old(1), of t] member_step_owners [OF step.hyps(2) old(1), of t]
    by (metis subset_empty)
qed simp

lemma member_run_keeps_owner:
  assumes "member_run as s s'" and "member_wf s"
  shows "member_wf s' \<and> (owners t s \<noteq> {} \<longrightarrow> owners t s' \<noteq> {})"
  using assms
proof (induction rule: member_run.induct)
  case (step as s s' a s'')
  then show ?case
    using member_step_wf [OF step.hyps(2)] member_step_owners [OF step.hyps(2), of t] by blast
qed simp

text \<open>C22. Ownership of a team is controlled by its owners: in every history of requests, each made by
  a member as he stands when it is made, a team that has an owner never loses its last one;
  and as long as no owner of the team acts and no invite for an owner of it is open, its
  owners are exactly those it had, whatever admins, approvers, invited people and members of
  other teams do.\<close>

theorem ownership_guarded:
  assumes "member_wf s" and "member_run as s s'"
  shows "(owners t s \<noteq> {} \<longrightarrow> owners t s' \<noteq> {})
    \<and> (get_team t s \<noteq> None \<and> owner_invites t s = {}
        \<and> (\<forall>b. Some b \<in> set as \<and> me_team_id b = t \<longrightarrow> \<not> is_owner b)
       \<longrightarrow> owners t s' = owners t s \<and> owner_invites t s' = {})"
  using member_run_keeps_owner [OF assms(2,1), of t] member_run_owners [OF assms(2,1), of t] by auto

definition sample_user :: "string \<Rightarrow> user" where
  "sample_user i = (new_user i (i @ ''@acme.io'') ''h'' 0)\<lparr>us_email_verified := True\<rparr>"

definition sample_membership :: "string \<Rightarrow> string \<Rightarrow> membership" where
  "sample_membership i role =
     \<lparr>mb_user_id = i, mb_team_id = ''acme'', mb_member_role = role, mb_created_at = 0\<rparr>"

definition acme_members :: member_store where
  "acme_members =
     \<lparr>mt_teams = [(''acme'', new_team ''acme'' ''acme'' ''gated'' 0)],
      mt_users = [(''ann'', sample_user ''ann''), (''bob'', sample_user ''bob''),
                  (''carl'', sample_user ''carl'')],
      mt_memberships = [((''ann'', ''acme''), sample_membership ''ann'' ''owner''),
                        ((''bob'', ''acme''), sample_membership ''bob'' ''owner''),
                        ((''carl'', ''acme''), sample_membership ''carl'' ''admin'')],
      mt_approver_credentials = [], mt_invites = []\<rparr>"

definition acme_member :: "string \<Rightarrow> string \<Rightarrow> member" where
  "acme_member i role = member_of (sample_user i) (sample_membership i role)"

lemmas acme_defs = acme_members_def acme_member_def sample_user_def sample_membership_def
  new_user_def member_of_def new_team_def

lemma acme_members_wf: "member_wf acme_members"
  by (simp add: member_wf_def acme_defs get_team_def)

lemma carl_signed_in: "signed_in (acme_member ''carl'' ''admin'') acme_members"
  by (simp add: signed_in_def get_member_def members_def List.map_filter_def get_user_def acme_defs)

theorem ownership_guarded_witness:
  "owners ''acme'' (snd (handle_invite_team_member (acme_member ''carl'' ''admin'') ''dave@acme.io''
      (Some ''owner'') ''i'' ''h'' 0 acme_members)) = owners ''acme'' acme_members"
proof -
  let ?s' = "snd (handle_invite_team_member (acme_member ''carl'' ''admin'') ''dave@acme.io''
      (Some ''owner'') ''i'' ''h'' 0 acme_members)"
  have run: "member_run [Some (acme_member ''carl'' ''admin'')] acme_members ?s'"
    by (rule member_run.step [OF member_run.start], rule member_step.invite [OF carl_signed_in])
      (rule prod.collapse [symmetric])
  have "get_team ''acme'' acme_members \<noteq> None \<and> owner_invites ''acme'' acme_members = {}
    \<and> \<not> is_owner (acme_member ''carl'' ''admin'')"
    by (simp add: get_team_def owner_invites_def is_owner_def acme_defs)
  then show ?thesis using ownership_guarded [OF acme_members_wf run, of "''acme''"] by auto
qed

text \<open>
  The guard reads the session before it writes: of two owners who demote each other at the
  same time, each request is accepted with the member its session resolved to earlier, and
  the team is left without an owner. One owner also demotes another, which the comment on
  the handler rules out.
\<close>

lemma concurrent_demotion_leaves_no_owner:
  "let ann = acme_member ''ann'' ''owner''; bob = acme_member ''bob'' ''owner'';
       (r1, s1) = handle_change_member_role ann ''bob'' ''admin'' acme_members;
       (r2, s2) = handle_change_member_role bob ''ann'' ''admin'' s1
   in signed_in ann acme_members \<and> signed_in bob acme_members
     \<and> r1 = RoleUpdated ''bob'' ''admin'' \<and> r2 = RoleUpdated ''ann'' ''admin''
     \<and> owners ''acme'' s2 = {}"
  by (auto simp: handle_change_member_role_def signed_in_def get_member_def members_def
      List.map_filter_def get_user_def is_owner_def valid_role_def update_member_role_def
      owners_iff acme_defs split: if_splits)

end
