(* ===== verification/Leases.thy ===== *)
theory Leases
  imports Policy "HOL-Library.AList" "HOL-Library.Sublist" "HOL-Library.List_Lexorder"
    "HOL-Library.Char_ord"
begin

text \<open>
  Time-bound rows that several proxy instances share: the hourly request counters
  (\<open>rate_limit_counters\<close>) with the check of \<open>proxy.rs\<close>, and the single-holder leases of relay
  sessions (\<open>relay_sessions\<close>) with the helpers of \<open>relay.rs\<close>. Each statement is atomic, so a
  history is the sequence of the statements of all instances. The hash in the port of a
  session is a parameter.
\<close>


section \<open>Request counters\<close>

text \<open>The key columns \<open>agent_id\<close> and \<open>window_start\<close>, with the count.\<close>

type_synonym rate_counters = "((string \<times> int) \<times> int) list"

definition current_rate_window_start :: "timestamp \<Rightarrow> int" where
  "current_rate_window_start now = now - now mod 3600"

definition increment_rate_counter :: "string \<Rightarrow> int \<Rightarrow> rate_counters \<Rightarrow> int \<times> rate_counters" where
  "increment_rate_counter agent w c =
     (let n = (case map_of c (agent, w) of None \<Rightarrow> 1 | Some k \<Rightarrow> k + 1);
          c' = AList.update (agent, w) n c
      in (n, filter (\<lambda>((a, v), _). \<not> (a = agent \<and> v < w)) c'))"

text \<open>
  The check of one request of \<open>handle_forward\<close>: \<open>limit\<close> is what the lookup of the agent's limit
  answered and \<open>counter_fails\<close> whether its counter could not be incremented. Without a limit, and when
  either statement fails, the request passes. The counter is kept under the agent's
  identifier alone.
\<close>

definition rate_check ::
  "(agent_sec_error, nat option) result \<Rightarrow> bool \<Rightarrow> string \<Rightarrow> timestamp \<Rightarrow> rate_counters
    \<Rightarrow> (agent_sec_error, unit) result \<times> rate_counters" where
  "rate_check limit counter_fails agent now c =
     (case limit of
        Inr (Some l) \<Rightarrow>
          if counter_fails then (Inr (), c)
          else let (n, c') = increment_rate_counter agent (current_rate_window_start now) c
               in (check_rate_limit (nat n) l, c')
      | Inr None \<Rightarrow> (Inr (), c)
      | Inl _ \<Rightarrow> (Inr (), c))"

text \<open>Requests one after the other, with the team and identifier of the agent and what the database answers.\<close>

record rate_request =
  rq_team :: string
  rq_agent :: string
  rq_now :: timestamp
  rq_limit :: "(agent_sec_error, nat option) result"
  rq_counter_fails :: bool

fun rate_checks :: "rate_request list \<Rightarrow> rate_counters \<Rightarrow> (rate_request \<times> bool) list" where
  "rate_checks [] c = []"
| "rate_checks (r # rs) c =
     (let (answer, c') = rate_check (rq_limit r) (rq_counter_fails r) (rq_agent r) (rq_now r) c
      in (r, answer = Inr ()) # rate_checks rs c')"

section \<open>Relay leases\<close>

record relay_row =
  rl_holder :: string
  rl_connected_at :: int
  rl_last_heartbeat :: int

type_synonym relay_table = "(string \<times> relay_row) list"

text \<open>Times are in milliseconds, the lifetime in seconds.\<close>

definition claim_relay_session ::
  "string \<Rightarrow> string \<Rightarrow> int \<Rightarrow> int \<Rightarrow> relay_table \<Rightarrow> bool \<times> relay_table" where
  "claim_relay_session key holder ttl now t =
     (let stale_before = now - ttl * 1000;
          row = \<lparr>rl_holder = holder, rl_connected_at = now, rl_last_heartbeat = now\<rparr>
      in case map_of t key of
        None \<Rightarrow> (True, AList.update key row t)
      | Some r \<Rightarrow>
          if rl_holder r = holder \<or> rl_last_heartbeat r < stale_before
          then (True, AList.update key row t) else (False, t))"

definition heartbeat_relay_session ::
  "string \<Rightarrow> string \<Rightarrow> int \<Rightarrow> relay_table \<Rightarrow> bool \<times> relay_table" where
  "heartbeat_relay_session key holder now t =
     (case map_of t key of
        None \<Rightarrow> (False, t)
      | Some r \<Rightarrow>
          if rl_holder r = holder then (True, AList.update key (r\<lparr>rl_last_heartbeat := now\<rparr>) t)
          else (False, t))"

definition release_relay_session :: "string \<Rightarrow> string \<Rightarrow> relay_table \<Rightarrow> relay_table" where
  "release_relay_session key holder t =
     (case map_of t key of
        None \<Rightarrow> t
      | Some r \<Rightarrow> if rl_holder r = holder then AList.delete key t else t)"

definition live_relay_holder :: "string \<Rightarrow> int \<Rightarrow> int \<Rightarrow> relay_table \<Rightarrow> string option" where
  "live_relay_holder key ttl now t =
     (case map_of t key of
        None \<Rightarrow> None
      | Some r \<Rightarrow> if rl_last_heartbeat r \<ge> now - ttl * 1000 then Some (rl_holder r) else None)"

definition list_live_relay_sessions :: "int \<Rightarrow> int \<Rightarrow> relay_table \<Rightarrow> string list" where
  "list_live_relay_sessions ttl now t =
     sort (map fst (filter (\<lambda>(_, r). rl_last_heartbeat r \<ge> now - ttl * 1000) t))"

text \<open>The credentials that go through a relay (\<open>relay.rs\<close>), and the interval of the client.\<close>

definition server_enabled :: "string option \<Rightarrow> bool" where
  "server_enabled env \<longleftrightarrow> env = Some ''1''"

definition is_telegram_credential :: "credential_config \<Rightarrow> bool" where
  "is_telegram_credential cfg \<longleftrightarrow>
     cc_connector cfg = Sidecar
     \<and> (case cc_api_base cfg of None \<Rightarrow> False | Some b \<Rightarrow> contains b ''telegram-client'')"

definition credential_uses_relay :: "string option \<Rightarrow> credential_config \<Rightarrow> bool" where
  "credential_uses_relay env cfg \<longleftrightarrow> server_enabled env \<and> is_telegram_credential cfg"

definition relay_ttl_secs :: "int option \<Rightarrow> int" where
  "relay_ttl_secs parsed = (case parsed of None \<Rightarrow> 45 | Some v \<Rightarrow> v)"

definition heartbeat_secs :: "int \<Rightarrow> int" where
  "heartbeat_secs ttl = max (max ttl 15 div 3) 5"

text \<open>The port of a session, from the first four bytes of the hash of its key.\<close>

definition socks_port :: "(string \<Rightarrow> 32 word) \<Rightarrow> string \<Rightarrow> 16 word" where
  "socks_port digest key = 20001 + ucast (digest (''relay-port:'' @ key) mod 40000)"

text \<open>The addition does not wrap: a port is at least the base and below the end of the range.\<close>

lemma socks_port_range: "20001 \<le> socks_port digest key \<and> socks_port digest key \<le> 60000"
proof -
  have "unat (digest (''relay-port:'' @ key) mod 40000) < 40000"
    by (simp add: unat_mod)
  then have "unat (ucast (digest (''relay-port:'' @ key) mod 40000) :: 16 word) < 40000"
    by (simp add: unsigned_ucast_eq take_bit_nat_eq_self)
  then show ?thesis
    unfolding socks_port_def by (simp add: word_le_nat_alt unat_word_ariths)
qed

section \<open>What the counters admit\<close>

definition count_at :: "rate_counters \<Rightarrow> string \<Rightarrow> int \<Rightarrow> int" where
  "count_at c a w = (case map_of c (a, w) of None \<Rightarrow> 0 | Some n \<Rightarrow> n)"

lemma map_of_filter_key:
  assumes "\<And>v. P (k, v) = Q"
  shows "map_of (filter P xs) k = (if Q then map_of xs k else None)"
  using assms by (induction xs) auto

lemma increment_count:
  assumes "increment_rate_counter a w c = (n, c')"
  shows "n = count_at c a w + 1"
    and "count_at c' b v = (if b = a \<and> v = w then n else if b = a \<and> v < w then 0 else count_at c b v)"
proof -
  from assms show n: "n = count_at c a w + 1"
    by (auto simp: increment_rate_counter_def count_at_def Let_def split: option.splits)
  have c': "c' = filter (\<lambda>((a', v), _). \<not> (a' = a \<and> v < w)) (AList.update (a, w) n c)"
    using assms by (auto simp: increment_rate_counter_def Let_def)
  have "map_of c' (b, v) = (if \<not> (b = a \<and> v < w) then map_of (AList.update (a, w) n c) (b, v) else None)"
    unfolding c' by (rule map_of_filter_key) simp
  then show "count_at c' b v = (if b = a \<and> v = w then n else if b = a \<and> v < w then 0 else count_at c b v)"
    by (auto simp: count_at_def update_conv')
qed

lemma window_mono: "now \<le> now' \<Longrightarrow> current_rate_window_start now \<le> current_rate_window_start now'"
proof -
  have "current_rate_window_start x = 3600 * (x div 3600)" for x
    by (simp add: current_rate_window_start_def minus_mod_eq_mult_div)
  then show "now \<le> now' \<Longrightarrow> ?thesis" by (simp add: zdiv_mono1)
qed

definition in_window :: "string \<Rightarrow> int \<Rightarrow> rate_request \<Rightarrow> bool" where
  "in_window a w r \<longleftrightarrow> rq_agent r = a \<and> current_rate_window_start (rq_now r) = w"

text \<open>A request that is counted: a limit was found for it and the counter answered.\<close>

definition counted :: "rate_request \<Rightarrow> bool" where
  "counted r \<longleftrightarrow> \<not> rq_counter_fails r \<and> (case rq_limit r of Inr (Some _) \<Rightarrow> True | _ \<Rightarrow> False)"

definition admitted :: "string \<Rightarrow> int \<Rightarrow> (rate_request \<times> bool) list \<Rightarrow> nat" where
  "admitted a w rs = length (filter (\<lambda>(r, ok). in_window a w r \<and> ok) rs)"

lemma admitted_Cons [simp]:
  "admitted a w ((r, ok) # rs) = (if in_window a w r \<and> ok then 1 else 0) + admitted a w rs"
  by (simp add: admitted_def)

lemma admitted_none:
  "(\<And>r. r \<in> set rs \<Longrightarrow> \<not> in_window a w r) \<Longrightarrow> admitted a w (rate_checks rs c) = 0"
proof (induction rs arbitrary: c)
  case (Cons r rs)
  then show ?case by (auto split: prod.splits)
qed (simp add: admitted_def)

lemma check_ok: "check_rate_limit n l = Inr () \<longleftrightarrow> n < l"
  by (simp add: check_rate_limit_def)

lemma rate_check_uncounted:
  "\<not> counted r \<Longrightarrow> rate_check (rq_limit r) (rq_counter_fails r) (rq_agent r) (rq_now r) c = (Inr (), c)"
  by (auto simp: counted_def rate_check_def split: sum.splits option.splits)

lemma rate_checks_admitted:
  assumes "sorted (map rq_now rs)"
    and "\<And>r. r \<in> set rs \<Longrightarrow> in_window a w r \<Longrightarrow> counted r \<Longrightarrow> rq_limit r = Inr (Some l)"
    and "0 \<le> count_at c a w"
  shows "admitted a w (rate_checks rs c) = length (filter (\<lambda>r. in_window a w r \<and> \<not> counted r) rs)
    + min (length (filter (\<lambda>r. in_window a w r \<and> counted r) rs)) (l - 1 - nat (count_at c a w))"
  using assms
proof (induction rs arbitrary: c)
  case (Cons r rs)
  have IH: "admitted a w (rate_checks rs c') = length (filter (\<lambda>r. in_window a w r \<and> \<not> counted r) rs)
      + min (length (filter (\<lambda>r. in_window a w r \<and> counted r) rs)) (l - 1 - nat (count_at c' a w))"
    if "0 \<le> count_at c' a w" for c'
    using Cons.IH [of c'] Cons.prems that by simp
  show ?case
  proof (cases "counted r")
    case False
    then show ?thesis using IH [OF Cons.prems(3)] rate_check_uncounted [OF False, of c] by simp
  next
    case True
    then obtain l' where l': "rq_limit r = Inr (Some l')" "\<not> rq_counter_fails r"
      by (auto simp: counted_def split: sum.splits option.splits)
    let ?v = "current_rate_window_start (rq_now r)"
    obtain n c' where inc: "increment_rate_counter (rq_agent r) ?v c = (n, c')" by force
    have step: "rate_checks (r # rs) c = (r, check_rate_limit (nat n) l' = Inr ()) # rate_checks rs c'"
      by (simp add: l' rate_check_def inc)
    consider (other) "rq_agent r \<noteq> a \<or> ?v < w" | (same) "rq_agent r = a" "?v = w" | (late) "rq_agent r = a" "w < ?v"
      by linarith
    then show ?thesis
    proof cases
      case other
      then have "count_at c' a w = count_at c a w" "\<not> in_window a w r"
        using increment_count(2) [OF inc, of a w] by (auto simp: in_window_def)
      with Cons.prems(3) show ?thesis unfolding step using IH [of c'] by simp
    next
      case same
      then have r: "in_window a w r" by (simp add: in_window_def)
      with Cons.prems(2) [of r] True have "l' = l" by (simp add: l')
      moreover have n: "n = count_at c a w + 1" "count_at c' a w = n"
        using increment_count(1) [OF inc] increment_count(2) [OF inc, of a w] same by auto
      moreover have "nat n = Suc (nat (count_at c a w))" "0 \<le> count_at c' a w" using n Cons.prems(3) by auto
      ultimately show ?thesis
        unfolding step using IH [of c'] r True by (auto simp: check_ok min_def Suc_diff_Suc)
    next
      case late
      have "rq_now r \<le> rq_now r'" if "r' \<in> set rs" for r' using Cons.prems(1) that by auto
      then have "\<not> in_window a w r'" if "r' \<in> set (r # rs)" for r'
        using that late window_mono by (fastforce simp: in_window_def)
      then show ?thesis
        using admitted_none [of "r # rs" a w c] by (simp add: filter_empty_conv)
    qed
  qed
qed (simp add: admitted_def)


definition bot_request :: "string \<Rightarrow> timestamp \<Rightarrow> rate_request" where
  "bot_request team now =
     \<lparr>rq_team = team, rq_agent = ''bot'', rq_now = now, rq_limit = Inr (Some 3), rq_counter_fails = False\<rparr>"


text \<open>
  Agents of different teams share the counter of an identifier they both use: the requests
  of one use up the other's limit.
\<close>

lemma rate_counter_shared_across_teams:
  "map snd (rate_checks [bot_request ''evil'' 5, bot_request ''evil'' 6, bot_request ''acme'' 7] [])
   = [True, True, False]"
  by code_simp

section \<open>What a lease promises\<close>

datatype lease_event = LClaim string | LHeartbeat string | LRelease string

text \<open>A history of one session's lease, with the time of each event and its answer.\<close>

fun run_lease ::
  "string \<Rightarrow> int \<Rightarrow> (lease_event \<times> int) list \<Rightarrow> relay_table \<Rightarrow> (lease_event \<times> int \<times> bool) list" where
  "run_lease key ttl [] t = []"
| "run_lease key ttl ((LClaim h, now) # es) t =
     (let (ok, t') = claim_relay_session key h ttl now t in (LClaim h, now, ok) # run_lease key ttl es t')"
| "run_lease key ttl ((LHeartbeat h, now) # es) t =
     (let (ok, t') = heartbeat_relay_session key h now t
      in (LHeartbeat h, now, ok) # run_lease key ttl es t')"
| "run_lease key ttl ((LRelease h, now) # es) t =
     (LRelease h, now, True) # run_lease key ttl es (release_relay_session key h t)"

lemma run_lease_events: "map (\<lambda>x. (fst x, fst (snd x))) (run_lease key ttl es t) = es"
proof (induction es arbitrary: t)
  case (Cons ev es)
  then show ?case by (cases ev; cases "fst ev") (simp_all add: Let_def split_def)
qed simp

lemma run_lease_fst: "fst ` set (run_lease key ttl es t) = fst ` set es"
  using arg_cong [OF run_lease_events [of key ttl es t], of "\<lambda>xs. fst ` set xs"]
  by (simp add: image_image)

text \<open>From \<open>t0\<close> on, \<open>h\<close> holds the lease with a heartbeat at \<open>t0\<close> or later.\<close>

definition held_since :: "string \<Rightarrow> string \<Rightarrow> int \<Rightarrow> relay_table \<Rightarrow> bool" where
  "held_since key h t0 t \<longleftrightarrow>
     (\<exists>r. map_of t key = Some r \<and> rl_holder r = h \<and> t0 \<le> rl_last_heartbeat r)"

lemmas lease_defs = claim_relay_session_def heartbeat_relay_session_def release_relay_session_def
  held_since_def Let_def

lemma claim_held:
  assumes "held_since key h t0 t" and "t0 \<le> now" and "claim_relay_session key h' ttl now t = (ok, t')"
  shows "held_since key h t0 t' \<or> (ok \<and> h' \<noteq> h \<and> t0 < now - ttl * 1000)"
  using assms by (auto simp: lease_defs update_conv' split: if_splits)

lemma heartbeat_held:
  assumes "held_since key h t0 t" and "t0 \<le> now"
  shows "held_since key h t0 (snd (heartbeat_relay_session key h' now t))"
  using assms by (auto simp: lease_defs update_conv')

lemma release_held:
  assumes "held_since key h t0 t" and "h' \<noteq> h"
  shows "held_since key h t0 (release_relay_session key h' t)"
  using assms by (auto simp: lease_defs)

lemma answered: "claim_relay_session key h ttl now t = (True, t') \<Longrightarrow> held_since key h now t'"
  "heartbeat_relay_session key h now t = (True, t') \<Longrightarrow> held_since key h now t'"
  by (auto simp: lease_defs update_conv' split: option.splits if_splits)

text \<open>A claim that follows a held lease succeeds for another holder only after its lifetime.\<close>

lemma run_lease_held:
  assumes "held_since key h t0 t" and "\<And>e now. (e, now) \<in> set es \<Longrightarrow> t0 \<le> now"
    and "sorted (map snd es)" and "LRelease h \<notin> fst ` set es"
    and "(LClaim h', t2, True) \<in> set (run_lease key ttl es t)" and "h' \<noteq> h"
  shows "t0 + ttl * 1000 < t2"
  using assms
proof (induction es arbitrary: t)
  case (Cons ev es)
  obtain e now where ev: "ev = (e, now)" by (cases ev)
  have later: "now \<le> t2'" if "(e', t2', ok) \<in> set (run_lease key ttl es t')" for e' t2' ok t'
  proof -
    have "(e', t2') \<in> set es"
      using that arg_cong [OF run_lease_events [of key ttl es t'], of set] by force
    with Cons.prems(3) show ?thesis by (auto simp: ev)
  qed
  have IH: "t0 + ttl * 1000 < t2"
    if "held_since key h t0 t'" "(LClaim h', t2, True) \<in> set (run_lease key ttl es t')" for t'
    using Cons.IH [OF that(1) _ _ _ that(2)] Cons.prems by auto
  have "t0 \<le> now" using Cons.prems(2) [of e now] by (simp add: ev)
  show ?case
  proof (cases e)
    case (LClaim h1)
    obtain ok t' where c: "claim_relay_session key h1 ttl now t = (ok, t')" by force
    have mem: "(LClaim h', t2, True) = (LClaim h1, now, ok)
        \<or> (LClaim h', t2, True) \<in> set (run_lease key ttl es t')"
      using Cons.prems(5) by (simp add: ev LClaim c)
    show ?thesis
    proof (cases "held_since key h t0 t' \<and> \<not> (ok \<and> h1 \<noteq> h)")
      case True
      with mem IH Cons.prems(6) show ?thesis by auto
    next
      case False
      with claim_held [OF Cons.prems(1) \<open>t0 \<le> now\<close> c] Cons.prems(1) c
      have "t0 < now - ttl * 1000" by (auto simp: lease_defs split: if_splits)
      with mem later [of "LClaim h'" t2 True t'] show ?thesis by auto
    qed
  next
    case (LHeartbeat h1)
    obtain ok t' where c: "heartbeat_relay_session key h1 now t = (ok, t')" by force
    have "held_since key h t0 t'" using heartbeat_held [OF Cons.prems(1) \<open>t0 \<le> now\<close>, of h1] c by simp
    with Cons.prems(5) IH show ?thesis by (auto simp: ev LHeartbeat c)
  next
    case (LRelease h1)
    have "held_since key h t0 (release_relay_session key h1 t)"
      using release_held [OF Cons.prems(1)] Cons.prems(4) by (auto simp: ev LRelease)
    with Cons.prems(5) IH show ?thesis by (auto simp: ev LRelease)
  qed
qed simp

lemma run_lease_answer:
  assumes "(e, now, True) # rs = run_lease key ttl es t" and "e = LClaim h \<or> e = LHeartbeat h"
  obtains es' t' where "es = (e, now) # es'" and "held_since key h now t'" and "rs = run_lease key ttl es' t'"
  using assms by (cases "(key, ttl, es, t)" rule: run_lease.cases)
    (auto split: prod.splits intro: answered)

lemma run_lease_suffix:
  assumes "run_lease key ttl es t = xs @ ys"
  obtains es' t' where "run_lease key ttl es' t' = ys" and "suffix es' es"
  using assms
proof (induction xs arbitrary: es t thesis)
  case Nil
  then show ?case by auto
next
  case (Cons x xs)
  obtain e es1 where es: "es = e # es1" using Cons.prems(2) by (cases es) auto
  obtain t1 where "run_lease key ttl es1 t1 = xs @ ys"
    using Cons.prems(2) unfolding es
    by (cases e; cases "fst e") (auto split: prod.splits)
  then show ?case using Cons.IH Cons.prems(1) es by (metis suffix_ConsI)
qed

text \<open>C15. A relay lease has one holder: in a history of one session in the order of time, when a claim
  or heartbeat of one holder was answered positively and another holder's claim later
  succeeds, the first released the lease in between or more than its lifetime has passed
  since that answer.\<close>

theorem lease_exclusive:
  assumes "sorted (map snd es)" and "e = LClaim h \<or> e = LHeartbeat h"
    and "run_lease key ttl es t = xs @ (e, t1, True) # ys"
    and "(LClaim h', t2, True) \<in> set ys" and "h' \<noteq> h"
  shows "t1 + ttl * 1000 < t2 \<or> LRelease h \<in> fst ` set ys"
proof -
  obtain es1 s1 where 1: "run_lease key ttl es1 s1 = (e, t1, True) # ys" "suffix es1 es"
    using run_lease_suffix [OF assms(3)] by blast
  obtain es2 s2 where 2: "es1 = (e, t1) # es2" "held_since key h t1 s2" "ys = run_lease key ttl es2 s2"
    using run_lease_answer [OF 1(1) [symmetric] assms(2)] by blast
  from 1(2) assms(1) have "sorted (map snd es1)" by (auto simp: suffix_def sorted_append)
  then have "sorted (map snd es2)" "\<And>e' n. (e', n) \<in> set es2 \<Longrightarrow> t1 \<le> n" by (auto simp: 2(1))
  moreover have "LRelease h \<notin> fst ` set es2" if "LRelease h \<notin> fst ` set ys"
    using that 2(3) by (simp add: run_lease_fst)
  ultimately show ?thesis
    using run_lease_held [OF 2(2), of es2 h' t2 ttl] assms(4,5) 2(3) by blast
qed

theorem lease_exclusive_witness:
  "snd (snd (last (run_lease ''k'' 45 [(LClaim ''a'', 0), (LClaim ''b'', 45001)] []))) \<and> 0 + 45 * 1000 < (45001 :: int)"
proof -
  have run: "run_lease ''k'' 45 [(LClaim ''a'', 0), (LClaim ''b'', 45001)] []
      = [] @ (LClaim ''a'', 0, True) # [(LClaim ''b'', 45001, True)]"
    by (simp add: claim_relay_session_def Let_def)
  have "0 + 45 * 1000 < (45001 :: int) \<or> LRelease ''a'' \<in> fst ` set [(LClaim ''b'', 45001 :: int, True)]"
    by (rule lease_exclusive [OF _ _ run, of "''a''" "''b''" 45001]) simp_all
  with run show ?thesis by simp
qed

text \<open>C16. A lost holder does not block a session: in every state, a claim made more than the lifetime
  after the last heartbeat of the session, or while it has no row, succeeds, and the
  claimant is then its live holder.\<close>

theorem lease_recovered:
  assumes "0 \<le> ttl" and "\<And>r. map_of t key = Some r \<Longrightarrow> rl_last_heartbeat r + ttl * 1000 < now"
  shows "\<exists>t'. claim_relay_session key h ttl now t = (True, t') \<and> live_relay_holder key ttl now t' = Some h"
  using assms
  by (cases "map_of t key")
    (auto simp: claim_relay_session_def live_relay_holder_def Let_def update_conv')

theorem lease_recovered_witness:
  "\<exists>t'. claim_relay_session ''k'' ''b'' 45 45001
        [(''k'', \<lparr>rl_holder = ''a'', rl_connected_at = 0, rl_last_heartbeat = 0\<rparr>)] = (True, t')
     \<and> live_relay_holder ''k'' 45 45001 t' = Some ''b''"
  by (rule lease_recovered) auto

end
