(* ===== verification/Sessions.thy ===== *)
theory Sessions
  imports Members Leases Claims
begin

text \<open>
  Logging in: the tables \<open>admin_sessions\<close>, \<open>device_authorizations\<close>, \<open>email_verifications\<close>,
  \<open>password_resets\<close>, \<open>webauthn_credentials\<close>, the login and registration challenges and the
  social identities of \<open>tap-core/src/store.rs\<close>, and the handlers of \<open>tap-proxy/src/admin.rs\<close>,
  \<open>webauthn.rs\<close> and \<open>proxy.rs\<close> that issue and check sessions. Tokens and codes are named by
  their hashes, fresh ones are arguments. What the \<open>webauthn\<close> and \<open>argon2\<close> crates decide (an
  assertion answers a challenge, a password matches a hash) are parameters; mail is not
  modelled.
\<close>

section \<open>Rows (store.rs)\<close>

record session_row =
  sn_user_id :: string
  sn_team_id :: string
  sn_expires_at :: timestamp
  sn_created_at :: timestamp
  sn_scope :: string

record device_row =
  dv_user_code :: string
  dv_status :: string
  dv_user_id :: "string option"
  dv_team_id :: "string option"
  dv_expires_at :: timestamp
  dv_created_at :: timestamp

datatype device_claim =
    DevicePending
  | DeviceApproved string string
  | DeviceDenied
  | DeviceExpiredOrUnknown

record reset_row =
  rs_token_hash :: string
  rs_expires_at :: timestamp
  rs_created_at :: timestamp

record user_passkey_row =
  pk_user_id :: string
  pk_public_key_json :: string
  pk_created_at :: timestamp

text \<open>
  The tables, keyed by their primary keys; \<open>password_resets\<close> is keyed by its unique user. A
  challenge is stored with its expiry.
\<close>

record auth_store =
  at_members :: member_store
  at_sessions :: "(string \<times> session_row) list"
  at_devices :: "(string \<times> device_row) list"
  at_verifications :: "(string \<times> string \<times> timestamp) list"
  at_resets :: "(string \<times> reset_row) list"
  at_passkeys :: "(string \<times> user_passkey_row) list"
  at_login_challenges :: "(string \<times> (string \<times> string) \<times> timestamp) list"
  at_registration_challenges :: "(string \<times> string \<times> timestamp) list"
  at_identities :: "((string \<times> string) \<times> string \<times> string) list"
  at_pending_links :: "((string \<times> string) \<times> string \<times> string \<times> timestamp) list"
  at_counters :: rate_counters

section \<open>Sessions\<close>

definition insert_session ::
  "string \<Rightarrow> string \<Rightarrow> string \<Rightarrow> timestamp \<Rightarrow> string \<Rightarrow> timestamp \<Rightarrow> auth_store
    \<Rightarrow> (agent_sec_error, auth_store) result" where
  "insert_session h uid team expires scope now s =
     (if map_of (at_sessions s) h \<noteq> None
         \<or> get_user uid (at_members s) = None \<or> get_team team (at_members s) = None
      then Inl (Config ''Failed to create session'')
      else Inr (s\<lparr>at_sessions := at_sessions s
          @ [(h, \<lparr>sn_user_id = uid, sn_team_id = team, sn_expires_at = expires,
                  sn_created_at = now, sn_scope = scope\<rparr>)]\<rparr>))"

definition create_session ::
  "string \<Rightarrow> string \<Rightarrow> string \<Rightarrow> timestamp \<Rightarrow> timestamp \<Rightarrow> auth_store
    \<Rightarrow> (agent_sec_error, auth_store) result" where
  "create_session h uid team expires now s = insert_session h uid team expires ''full'' now s"

definition create_agent_session ::
  "string \<Rightarrow> string \<Rightarrow> string \<Rightarrow> timestamp \<Rightarrow> timestamp \<Rightarrow> auth_store
    \<Rightarrow> (agent_sec_error, auth_store) result" where
  "create_agent_session h uid team expires now s = insert_session h uid team expires ''agent'' now s"

definition session_scope :: "string \<Rightarrow> timestamp \<Rightarrow> auth_store \<Rightarrow> string option" where
  "session_scope h now s =
     (case map_of (at_sessions s) h of
        None \<Rightarrow> None
      | Some r \<Rightarrow> if sn_expires_at r > now then Some (sn_scope r) else None)"

definition validate_session :: "string \<Rightarrow> timestamp \<Rightarrow> auth_store \<Rightarrow> member option" where
  "validate_session h now s =
     (case map_of (at_sessions s) h of
        None \<Rightarrow> None
      | Some r \<Rightarrow>
          if sn_expires_at r > now then get_member (sn_user_id r) (sn_team_id r) (at_members s)
          else None)"

definition delete_session :: "string \<Rightarrow> auth_store \<Rightarrow> auth_store" where
  "delete_session h s = s\<lparr>at_sessions := AList.delete h (at_sessions s)\<rparr>"

definition update_session_team ::
  "string \<Rightarrow> string \<Rightarrow> auth_store \<Rightarrow> (agent_sec_error, bool \<times> auth_store) result" where
  "update_session_team h team s =
     (if map_of (at_sessions s) h = None then Inr (False, s)
      else if get_team team (at_members s) = None then Inl (Config ''Failed to switch session team'')
      else Inr (True, s\<lparr>at_sessions :=
             AList.map_entry h (\<lambda>r. r\<lparr>sn_team_id := team\<rparr>) (at_sessions s)\<rparr>))"

section \<open>Device authorizations\<close>

text \<open>Expired rows are pruned first; the code and the user code are unique.\<close>

definition create_device_authorization ::
  "string \<Rightarrow> string \<Rightarrow> timestamp \<Rightarrow> timestamp \<Rightarrow> auth_store \<Rightarrow> bool \<times> auth_store" where
  "create_device_authorization h code expires now s =
     (let live = filter (\<lambda>(_, d). dv_expires_at d \<ge> now) (at_devices s) in
      if map_of live h \<noteq> None \<or> code \<in> set (map (dv_user_code \<circ> snd) live)
      then (False, s\<lparr>at_devices := live\<rparr>)
      else (True, s\<lparr>at_devices := live
          @ [(h, \<lparr>dv_user_code = code, dv_status = ''pending'', dv_user_id = None,
                  dv_team_id = None, dv_expires_at = expires, dv_created_at = now\<rparr>)]\<rparr>))"

definition approve_device_authorization ::
  "string \<Rightarrow> string \<Rightarrow> string \<Rightarrow> timestamp \<Rightarrow> auth_store \<Rightarrow> bool \<times> auth_store" where
  "approve_device_authorization code uid team now s =
     (let hit = (\<lambda>d. dv_user_code d = code \<and> dv_status d = ''pending'' \<and> dv_expires_at d > now)
      in (list_ex (hit \<circ> snd) (at_devices s),
          s\<lparr>at_devices := map (\<lambda>(h, d). (h, if hit d
              then d\<lparr>dv_status := ''approved'', dv_user_id := Some uid, dv_team_id := Some team\<rparr>
              else d)) (at_devices s)\<rparr>))"

definition claim_device_authorization ::
  "string \<Rightarrow> timestamp \<Rightarrow> auth_store \<Rightarrow> device_claim \<times> auth_store" where
  "claim_device_authorization h now s =
     (case map_of (at_devices s) h of
        None \<Rightarrow> (DeviceExpiredOrUnknown, s)
      | Some d \<Rightarrow>
          if dv_expires_at d \<le> now then (DeviceExpiredOrUnknown, s)
          else if dv_status d = ''approved'' then
            (DeviceApproved (or_else (dv_user_id d) []) (or_else (dv_team_id d) []),
             s\<lparr>at_devices := AList.map_entry h (\<lambda>d. d\<lparr>dv_status := ''claimed''\<rparr>) (at_devices s)\<rparr>)
          else if dv_status d = ''pending'' then (DevicePending, s)
          else if dv_status d = ''denied'' then (DeviceDenied, s)
          else (DeviceExpiredOrUnknown, s))"

section \<open>Verification codes and password resets\<close>

definition create_email_verification ::
  "string \<Rightarrow> string \<Rightarrow> timestamp \<Rightarrow> auth_store \<Rightarrow> (agent_sec_error, auth_store) result" where
  "create_email_verification h uid expires s =
     (if map_of (at_verifications s) h \<noteq> None \<or> get_user uid (at_members s) = None
      then Inl (Config ''Failed to create verification'')
      else Inr (s\<lparr>at_verifications := at_verifications s @ [(h, uid, expires)]\<rparr>))"

text \<open>A query, and then the statements that delete the code and mark its user.\<close>

definition find_verification :: "string \<Rightarrow> timestamp \<Rightarrow> auth_store \<Rightarrow> string option" where
  "find_verification h now s =
     (case map_of (at_verifications s) h of
        None \<Rightarrow> None
      | Some (uid, expires) \<Rightarrow> if expires > now then Some uid else None)"

definition use_verification :: "string \<Rightarrow> string \<Rightarrow> timestamp \<Rightarrow> auth_store \<Rightarrow> auth_store" where
  "use_verification h uid now s =
     s\<lparr>at_verifications := AList.delete h (at_verifications s),
       at_members := set_user_email_verified uid now (at_members s)\<rparr>"

definition validate_email_verification ::
  "string \<Rightarrow> timestamp \<Rightarrow> auth_store \<Rightarrow> string option \<times> auth_store" where
  "validate_email_verification h now s =
     (case find_verification h now s of
        None \<Rightarrow> (None, s)
      | Some uid \<Rightarrow> (Some uid, use_verification h uid now s))"

text \<open>
  One row per user: it is overwritten only when it is older than the cooldown. The
  token's hash is the primary key.
\<close>

definition create_password_reset ::
  "string \<Rightarrow> string \<Rightarrow> timestamp \<Rightarrow> int \<Rightarrow> timestamp \<Rightarrow> auth_store
    \<Rightarrow> (agent_sec_error, bool \<times> auth_store) result" where
  "create_password_reset h uid expires cooldown now s =
     (if list_ex (\<lambda>(u, r). u \<noteq> uid \<and> rs_token_hash r = h) (at_resets s)
         \<or> get_user uid (at_members s) = None
      then Inl (Config ''Failed to create password reset'')
      else
        let row = \<lparr>rs_token_hash = h, rs_expires_at = expires, rs_created_at = now\<rparr> in
        case map_of (at_resets s) uid of
          None \<Rightarrow> Inr (True, s\<lparr>at_resets := AList.update uid row (at_resets s)\<rparr>)
        | Some r \<Rightarrow>
            if rs_created_at r \<le> now - cooldown * 60
            then Inr (True, s\<lparr>at_resets := AList.update uid row (at_resets s)\<rparr>)
            else Inr (False, s))"

definition find_password_reset :: "string \<Rightarrow> timestamp \<Rightarrow> auth_store \<Rightarrow> string option" where
  "find_password_reset h now s =
     map_option fst (find (\<lambda>(_, r). rs_token_hash r = h \<and> rs_expires_at r > now) (at_resets s))"

definition use_password_reset :: "string \<Rightarrow> string \<Rightarrow> auth_store \<Rightarrow> auth_store" where
  "use_password_reset h uid s =
     s\<lparr>at_resets := filter (\<lambda>(_, r). rs_token_hash r \<noteq> h) (at_resets s),
       at_sessions := filter (\<lambda>(_, n). sn_user_id n \<noteq> uid) (at_sessions s)\<rparr>"

definition validate_and_consume_password_reset ::
  "string \<Rightarrow> timestamp \<Rightarrow> auth_store \<Rightarrow> string option \<times> auth_store" where
  "validate_and_consume_password_reset h now s =
     (case find_password_reset h now s of
        None \<Rightarrow> (None, s)
      | Some uid \<Rightarrow> (Some uid, use_password_reset h uid s))"

definition update_user_password :: "string \<Rightarrow> string \<Rightarrow> timestamp \<Rightarrow> auth_store \<Rightarrow> auth_store" where
  "update_user_password uid ph now s =
     s\<lparr>at_members :=
         update_user uid (\<lambda>u. u\<lparr>us_password_hash := ph, us_updated_at := now\<rparr>) (at_members s)\<rparr>"

section \<open>Passkeys and challenges\<close>

definition save_user_passkey ::
  "string \<Rightarrow> string \<Rightarrow> string \<Rightarrow> timestamp \<Rightarrow> auth_store \<Rightarrow> (agent_sec_error, auth_store) result" where
  "save_user_passkey uid cred json now s =
     (if map_of (at_passkeys s) cred \<noteq> None \<or> get_user uid (at_members s) = None
      then Inl (Config ''Failed to save admin passkey'')
      else Inr (s\<lparr>at_passkeys := at_passkeys s
          @ [(cred, \<lparr>pk_user_id = uid, pk_public_key_json = json, pk_created_at = now\<rparr>)]\<rparr>))"

definition list_user_passkeys :: "string \<Rightarrow> auth_store \<Rightarrow> (string \<times> user_passkey_row) list" where
  "list_user_passkeys uid s =
     sort_key (pk_created_at \<circ> snd) (filter (\<lambda>(_, p). pk_user_id p = uid) (at_passkeys s))"

definition delete_user_passkey :: "string \<Rightarrow> string \<Rightarrow> auth_store \<Rightarrow> bool \<times> auth_store" where
  "delete_user_passkey uid cred s =
     (let hit = (\<lambda>(c, p). c = cred \<and> pk_user_id p = uid)
      in (list_ex hit (at_passkeys s), s\<lparr>at_passkeys := filter (\<lambda>x. \<not> hit x) (at_passkeys s)\<rparr>))"

definition count_user_passkeys :: "string \<Rightarrow> auth_store \<Rightarrow> nat" where
  "count_user_passkeys uid s = length (filter (\<lambda>(_, p). pk_user_id p = uid) (at_passkeys s))"

text \<open>\<open>DELETE \<dots> WHERE key = $1 AND expires_at > $2 RETURNING \<dots>\<close> on a table of challenges.\<close>

definition take_row ::
  "string \<Rightarrow> timestamp \<Rightarrow> (string \<times> 'v \<times> timestamp) list \<Rightarrow> 'v option \<times> (string \<times> 'v \<times> timestamp) list" where
  "take_row k now t =
     (case map_of t k of
        None \<Rightarrow> (None, t)
      | Some (v, expires) \<Rightarrow> if expires > now then (Some v, AList.delete k t) else (None, t))"

definition set_login_challenge ::
  "string \<Rightarrow> string \<Rightarrow> string \<Rightarrow> timestamp \<Rightarrow> auth_store \<Rightarrow> auth_store" where
  "set_login_challenge token uid json now s =
     s\<lparr>at_login_challenges :=
         AList.update token ((uid, json), now + 10 * 60) (at_login_challenges s)\<rparr>"

definition take_login_challenge ::
  "string \<Rightarrow> timestamp \<Rightarrow> auth_store \<Rightarrow> (string \<times> string) option \<times> auth_store" where
  "take_login_challenge token now s =
     (let (v, t) = take_row token now (at_login_challenges s) in (v, s\<lparr>at_login_challenges := t\<rparr>))"

definition set_registration_challenge ::
  "string \<Rightarrow> string \<Rightarrow> timestamp \<Rightarrow> auth_store \<Rightarrow> auth_store" where
  "set_registration_challenge uid json now s =
     s\<lparr>at_registration_challenges :=
         AList.update uid (json, now + 10 * 60) (at_registration_challenges s)\<rparr>"

definition take_registration_challenge ::
  "string \<Rightarrow> timestamp \<Rightarrow> auth_store \<Rightarrow> string option \<times> auth_store" where
  "take_registration_challenge uid now s =
     (let (v, t) = take_row uid now (at_registration_challenges s)
      in (v, s\<lparr>at_registration_challenges := t\<rparr>))"

section \<open>Social identities\<close>

definition get_identity_user :: "string \<Rightarrow> string \<Rightarrow> auth_store \<Rightarrow> string option" where
  "get_identity_user provider sub s = map_option fst (map_of (at_identities s) (provider, sub))"

definition link_user_identity ::
  "string \<Rightarrow> string \<Rightarrow> string \<Rightarrow> string \<Rightarrow> auth_store \<Rightarrow> bool \<times> auth_store" where
  "link_user_identity uid provider sub email s =
     (case map_of (at_identities s) (provider, sub) of
        None \<Rightarrow> (True, s\<lparr>at_identities := at_identities s @ [((provider, sub), uid, email)]\<rparr>)
      | Some (u, _) \<Rightarrow> (u = uid, s))"

definition list_user_identities :: "string \<Rightarrow> auth_store \<Rightarrow> (string \<times> string) list" where
  "list_user_identities uid s =
     map (\<lambda>((p, _), _, e). (p, e))
       (sort_key (fst \<circ> fst) (filter (\<lambda>(_, u, _). u = uid) (at_identities s)))"

definition create_pending_identity_link ::
  "string \<Rightarrow> string \<Rightarrow> string \<Rightarrow> string \<Rightarrow> timestamp \<Rightarrow> auth_store \<Rightarrow> auth_store" where
  "create_pending_identity_link uid provider sub email expires s =
     s\<lparr>at_pending_links := AList.update (uid, provider) (sub, email, expires) (at_pending_links s)\<rparr>"

definition take_pending_identity_links ::
  "string \<Rightarrow> timestamp \<Rightarrow> auth_store \<Rightarrow> (string \<times> string \<times> string) list \<times> auth_store" where
  "take_pending_identity_links uid now s =
     (List.map_filter (\<lambda>((u, p), sub, email, expires).
        if u = uid \<and> \<not> expires < now then Some (p, sub, email) else None) (at_pending_links s),
      s\<lparr>at_pending_links := filter (\<lambda>((u, _), _). u \<noteq> uid) (at_pending_links s)\<rparr>)"

definition persist_pending_identity_links :: "string \<Rightarrow> timestamp \<Rightarrow> auth_store \<Rightarrow> auth_store" where
  "persist_pending_identity_links uid now s =
     (let (links, s') = take_pending_identity_links uid now s
      in fold (\<lambda>(p, sub, email) t. snd (link_user_identity uid p sub email t)) links s')"

section \<open>Passkey ceremonies (webauthn.rs)\<close>

text \<open>
  \<open>assertion_ok\<close> is the crate's check of an assertion against a stored challenge, and
  \<open>register_ok\<close> that of a new credential, with its identifier and serialised key. The
  challenge that the crate generates is an argument. \<open>cached_passkeys\<close> is what the serving
  instance holds of a user's passkeys in memory, and \<open>count_fails\<close> and \<open>list_fails\<close> say whether the
  database fails to count or to list them at this request.
\<close>

record webauthn =
  assertion_ok :: "string \<Rightarrow> string \<Rightarrow> bool"
  register_ok :: "string \<Rightarrow> string \<Rightarrow> (string \<times> string) option"
  is_passkey_json :: "string \<Rightarrow> bool"
  cached_passkeys :: "string \<Rightarrow> string list"
  count_fails :: bool
  list_fails :: bool

definition user_has_passkeys :: "webauthn \<Rightarrow> string \<Rightarrow> auth_store \<Rightarrow> bool" where
  "user_has_passkeys W uid s \<longleftrightarrow>
     (if count_fails W then cached_passkeys W uid \<noteq> [] else count_user_passkeys uid s > 0)"

definition stored_passkeys :: "webauthn \<Rightarrow> string \<Rightarrow> auth_store \<Rightarrow> string list" where
  "stored_passkeys W uid s =
     filter (is_passkey_json W) (map (pk_public_key_json \<circ> snd) (list_user_passkeys uid s))"

definition user_passkeys :: "webauthn \<Rightarrow> string \<Rightarrow> auth_store \<Rightarrow> string list" where
  "user_passkeys W uid s = (if list_fails W then cached_passkeys W uid else stored_passkeys W uid s)"

definition begin_user_registration :: "string \<Rightarrow> string \<Rightarrow> timestamp \<Rightarrow> auth_store \<Rightarrow> auth_store" where
  "begin_user_registration uid challenge now s = set_registration_challenge uid challenge now s"

definition finish_user_registration ::
  "webauthn \<Rightarrow> string \<Rightarrow> string \<Rightarrow> timestamp \<Rightarrow> auth_store
    \<Rightarrow> (agent_sec_error, unit) result \<times> auth_store" where
  "finish_user_registration W uid reg now s =
     (case take_registration_challenge uid now s of
        (None, s') \<Rightarrow> (Inl (Internal ''No pending admin registration''), s')
      | (Some challenge, s') \<Rightarrow>
          (case register_ok W challenge reg of
             None \<Rightarrow> (Inl (Internal ''Admin reg failed''), s')
           | Some (cred, json) \<Rightarrow>
               (case save_user_passkey uid cred json now s' of
                  Inl e \<Rightarrow> (Inl e, s')
                | Inr s'' \<Rightarrow> (Inr (), s''))))"

definition begin_user_login ::
  "webauthn \<Rightarrow> string \<Rightarrow> string \<Rightarrow> string \<Rightarrow> timestamp \<Rightarrow> auth_store
    \<Rightarrow> (agent_sec_error, auth_store) result" where
  "begin_user_login W uid challenge token now s =
     (if user_passkeys W uid s = [] then Inl (Internal ''No passkeys registered for admin'')
      else Inr (set_login_challenge token uid challenge now s))"

definition finish_user_login ::
  "webauthn \<Rightarrow> string \<Rightarrow> string \<Rightarrow> timestamp \<Rightarrow> auth_store
    \<Rightarrow> (agent_sec_error, string) result \<times> auth_store" where
  "finish_user_login W token auth now s =
     (case take_login_challenge token now s of
        (None, s') \<Rightarrow> (Inl (Internal ''Invalid or expired passkey token''), s')
      | (Some (uid, challenge), s') \<Rightarrow>
          if assertion_ok W challenge auth then (Inr uid, s')
          else (Inl (Internal ''Admin auth failed''), s'))"

section \<open>Handlers (admin.rs)\<close>

text \<open>
  The answers. A session or setup token is named by its hash; \<open>AuthFailure\<close> carries the text
  of a failure of the server.
\<close>

datatype auth_response =
    MissingToken | SessionInvalid | EmailUnverified
  | InvalidCredentials | NotInAnyTeam | AuthFailure string
  | LoggedIn string string string string
  | NeedsPasskeySetup string | RequiresPasskey string | PasskeyRejected | AccountInactive
  | EmailVerified string string | CodeInvalid | AlreadyVerified | NoAccount | CodeSent
  | ResetRequested | ResetDone | ResetInvalid | PasswordShort
  | LoggedOut | PasskeySetupStarted | PasskeyRegistered | PasskeyRegistrationFailed
  | WebAuthnMissing | SlowDown | DeviceStarted | DeviceCodeEmpty | DeviceConfirmed
  | DeviceCodeInvalid | DeviceSession string string | DeviceWaiting | DeviceRefused
  | TeamSwitched string | NotAMember
  | SignupEmail | SignupNameLength | SignupNameChars | SignupUnverified | SignupRegistered
  | SignupNeedsName | SignupNotListed | SignupNameTaken | SignupInviteExpired
  | SignedUp string "string option" "(string \<times> string \<times> string) list"
  | NotServed | NoOwner | DevLoggedIn string member string

definition authenticate_user ::
  "string option \<Rightarrow> timestamp \<Rightarrow> auth_store \<Rightarrow> (auth_response, member) result" where
  "authenticate_user token now s =
     (case token of
        None \<Rightarrow> Inl MissingToken
      | Some h \<Rightarrow>
          (case validate_session h now s of
             None \<Rightarrow> Inl SessionInvalid
           | Some m \<Rightarrow> if me_email_verified m then Inr m else Inl EmailUnverified))"

text \<open>The address in the request is not used.\<close>

definition handle_verify_email ::
  "string \<Rightarrow> string \<Rightarrow> string \<Rightarrow> timestamp \<Rightarrow> auth_store \<Rightarrow> auth_response \<times> auth_store" where
  "handle_verify_email req_email code setup now s =
     (case validate_email_verification code now s of
        (None, s') \<Rightarrow> (CodeInvalid, s')
      | (Some uid, s') \<Rightarrow>
          (case resolve_active_team uid (at_members s') of
             None \<Rightarrow> (AuthFailure ''Account has no team membership'', s')
           | Some ((team, _, _), _) \<Rightarrow>
               (case create_session setup uid team (now + 10 * 60) now s' of
                  Inl _ \<Rightarrow> (AuthFailure ''Failed to create setup token'', s')
                | Inr s'' \<Rightarrow> (EmailVerified uid setup, s''))))"

definition handle_resend_verification ::
  "string \<Rightarrow> string \<Rightarrow> timestamp \<Rightarrow> auth_store \<Rightarrow> auth_response \<times> auth_store" where
  "handle_resend_verification raw_email code now s =
     (case get_user_by_email (to_lowercase (trim raw_email)) (at_members s) of
        None \<Rightarrow> (NoAccount, s)
      | Some u \<Rightarrow>
          if us_email_verified u then (AlreadyVerified, s)
          else (case create_email_verification code (us_id u) (now + 15 * 60) s of
             Inl _ \<Rightarrow> (AuthFailure ''Failed to create verification'', s)
           | Inr s' \<Rightarrow> (CodeSent, s')))"

definition handle_forgot_password ::
  "string \<Rightarrow> string \<Rightarrow> timestamp \<Rightarrow> auth_store \<Rightarrow> auth_response \<times> auth_store" where
  "handle_forgot_password raw_email token now s =
     (case get_user_by_email (to_lowercase (trim raw_email)) (at_members s) of
        None \<Rightarrow> (ResetRequested, s)
      | Some u \<Rightarrow>
          (case create_password_reset token (us_id u) (now + 60 * 60) 5 now s of
             Inl _ \<Rightarrow> (ResetRequested, s)
           | Inr (_, s') \<Rightarrow> (ResetRequested, s')))"

definition handle_reset_password ::
  "string \<Rightarrow> string \<Rightarrow> string option \<Rightarrow> timestamp \<Rightarrow> auth_store \<Rightarrow> auth_response \<times> auth_store" where
  "handle_reset_password token password hashed now s =
     (if length password < 8 then (PasswordShort, s)
      else case validate_and_consume_password_reset token now s of
        (None, s') \<Rightarrow> (ResetInvalid, s')
      | (Some uid, s') \<Rightarrow>
          (case hashed of
             None \<Rightarrow> (AuthFailure ''Reset failed'', s')
           | Some ph \<Rightarrow> (ResetDone, update_user_password uid ph now s')))"

text \<open>
  The end of a first-factor login: \<open>configured\<close> says whether WebAuthn is set up, \<open>token\<close> is the
  new session or setup token and \<open>passkey_token\<close> names the challenge.
\<close>

definition finish_first_factor_login ::
  "webauthn \<Rightarrow> bool \<Rightarrow> user \<Rightarrow> string \<Rightarrow> string \<Rightarrow> string \<Rightarrow> timestamp \<Rightarrow> auth_store
    \<Rightarrow> auth_response \<times> auth_store" where
  "finish_first_factor_login W configured u token challenge passkey_token now s =
     (let (joined, ms) = consume_pending_invites (us_id u) (us_email u) now (at_members s);
          s1 = s\<lparr>at_members := ms\<rparr>
      in case resolve_active_team (us_id u) ms of
        None \<Rightarrow> (NotInAnyTeam, s1)
      | Some (oldest, _) \<Rightarrow>
          let (team, _, role) = (case joined of [] \<Rightarrow> oldest | j # _ \<Rightarrow> j) in
          if \<not> configured then
            let s2 = persist_pending_identity_links (us_id u) now s1 in
            (case create_session token (us_id u) team (now + 24 * 60 * 60) now s2 of
               Inl _ \<Rightarrow> (AuthFailure ''Failed to create session'', s2)
             | Inr s3 \<Rightarrow> (LoggedIn token (us_id u) team role, s3))
          else if \<not> user_has_passkeys W (us_id u) s1 then
            (case create_session token (us_id u) team (now + 10 * 60) now s1 of
               Inl _ \<Rightarrow> (AuthFailure ''Internal error'', s1)
             | Inr s2 \<Rightarrow> (NeedsPasskeySetup token, s2))
          else case begin_user_login W (us_id u) challenge passkey_token now s1 of
            Inl _ \<Rightarrow> (AuthFailure ''Failed to generate security key challenge'', s1)
          | Inr s2 \<Rightarrow> (RequiresPasskey passkey_token, s2))"

definition handle_login ::
  "webauthn \<Rightarrow> bool \<Rightarrow> (string \<Rightarrow> string \<Rightarrow> bool) \<Rightarrow> string \<Rightarrow> string \<Rightarrow> string \<Rightarrow> string \<Rightarrow> string
    \<Rightarrow> timestamp \<Rightarrow> auth_store \<Rightarrow> auth_response \<times> auth_store" where
  "handle_login W configured verify_password raw_email password token challenge passkey_token now s =
     (case get_user_by_email (to_lowercase (trim raw_email)) (at_members s) of
        None \<Rightarrow> (InvalidCredentials, s)
      | Some u \<Rightarrow>
          if \<not> verify_password password (us_password_hash u) then (InvalidCredentials, s)
          else if \<not> us_email_verified u then (EmailUnverified, s)
          else finish_first_factor_login W configured u token challenge passkey_token now s)"

definition handle_logout :: "string option \<Rightarrow> auth_store \<Rightarrow> auth_response \<times> auth_store" where
  "handle_logout token s =
     (case token of None \<Rightarrow> (MissingToken, s) | Some h \<Rightarrow> (LoggedOut, delete_session h s))"

definition handle_setup_passkey_begin ::
  "bool \<Rightarrow> string \<Rightarrow> string \<Rightarrow> timestamp \<Rightarrow> auth_store \<Rightarrow> auth_response \<times> auth_store" where
  "handle_setup_passkey_begin configured setup challenge now s =
     (case validate_session setup now s of
        None \<Rightarrow> (SessionInvalid, s)
      | Some m \<Rightarrow>
          if \<not> configured then (WebAuthnMissing, s)
          else (PasskeySetupStarted, begin_user_registration (me_id m) challenge now s))"

definition handle_setup_passkey_finish ::
  "webauthn \<Rightarrow> bool \<Rightarrow> string \<Rightarrow> string \<Rightarrow> timestamp \<Rightarrow> auth_store \<Rightarrow> auth_response \<times> auth_store" where
  "handle_setup_passkey_finish W configured setup reg now s =
     (case validate_session setup now s of
        None \<Rightarrow> (SessionInvalid, s)
      | Some m \<Rightarrow>
          if \<not> configured then (WebAuthnMissing, s)
          else (case finish_user_registration W (me_id m) reg now s of
             (Inl _, s') \<Rightarrow> (PasskeyRegistrationFailed, s')
           | (Inr _, s') \<Rightarrow> (PasskeyRegistered, delete_session setup s')))"

text \<open>The completion of a login, without a request of an MCP client.\<close>

definition handle_login_passkey ::
  "webauthn \<Rightarrow> bool \<Rightarrow> string \<Rightarrow> string \<Rightarrow> string option \<Rightarrow> string \<Rightarrow> timestamp \<Rightarrow> auth_store
    \<Rightarrow> auth_response \<times> auth_store" where
  "handle_login_passkey W configured passkey_token auth req_team token now s =
     (if \<not> configured then (WebAuthnMissing, s)
      else case finish_user_login W passkey_token auth now s of
        (Inl _, s') \<Rightarrow> (PasskeyRejected, s')
      | (Inr uid, s') \<Rightarrow>
          (case get_user uid (at_members s') of
             None \<Rightarrow> (AccountInactive, s')
           | Some u \<Rightarrow>
               if \<not> us_email_verified u then (AccountInactive, s')
               else case resolve_active_team (us_id u) (at_members s') of
                 None \<Rightarrow> (NotInAnyTeam, s')
               | Some ((team0, _, role0), _) \<Rightarrow>
                   let (team, role) =
                     (case req_team of
                        None \<Rightarrow> (team0, role0)
                      | Some t \<Rightarrow>
                          (case get_member (us_id u) t (at_members s') of
                             Some m \<Rightarrow> if get_team t (at_members s') \<noteq> None
                                       then (t, me_member_role m) else (team0, role0)
                           | None \<Rightarrow> (team0, role0)))
                   in case create_session token (us_id u) team (now + 24 * 60 * 60) now s' of
                     Inl _ \<Rightarrow> (AuthFailure ''Failed to create session'', s')
                   | Inr s'' \<Rightarrow>
                       (LoggedIn token (us_id u) team role,
                        persist_pending_identity_links (us_id u) now s'')))"

text \<open>\<open>skip_auth\<close> says whether \<open>DANGEROUS_TAP_DEV_SKIP_AUTH\<close> is \<open>true\<close>.\<close>

definition handle_dev_auto_login :: "bool \<Rightarrow> string \<Rightarrow> timestamp \<Rightarrow> auth_store \<Rightarrow> auth_response \<times> auth_store" where
  "handle_dev_auto_login skip_auth token now s =
     (if \<not> skip_auth then (NotServed, s)
      else case first_owner_member (at_members s) of
        None \<Rightarrow> (NoOwner, s)
      | Some m \<Rightarrow>
          (case create_session token (me_id m) (me_team_id m) (now + 24 * 60 * 60) now s of
             Inl _ \<Rightarrow> (AuthFailure ''Failed to create session'', s)
           | Inr s' \<Rightarrow>
               (DevLoggedIn token m
                  (case get_team (me_team_id m) (at_members s') of None \<Rightarrow> ''Dev'' | Some t \<Rightarrow> tm_name t), s')))"

section \<open>Devices, teams and signup\<close>

definition device_rate_window :: "timestamp \<Rightarrow> int" where
  "device_rate_window now = now - now mod 3600"

definition count_attempt :: "string \<Rightarrow> timestamp \<Rightarrow> auth_store \<Rightarrow> int \<times> auth_store" where
  "count_attempt key now s =
     (let (n, c) = increment_rate_counter key (device_rate_window now) (at_counters s)
      in (n, s\<lparr>at_counters := c\<rparr>))"

definition handle_device_authorize ::
  "string option \<Rightarrow> string \<Rightarrow> string \<Rightarrow> timestamp \<Rightarrow> auth_store \<Rightarrow> auth_response \<times> auth_store" where
  "handle_device_authorize ip code_hash user_code now s =
     (let (n, s1) = (case ip of None \<Rightarrow> (0, s) | Some a \<Rightarrow> count_attempt (''dev-authz-ip:'' @ a) now s)
      in if n > 60 then (SlowDown, s1)
         else case create_device_authorization code_hash user_code (now + 10 * 60) now s1 of
           (False, s2) \<Rightarrow> (AuthFailure ''failed to start device authorization'', s2)
         | (True, s2) \<Rightarrow> (DeviceStarted, s2))"

definition ascii_alphanumeric :: "char \<Rightarrow> bool" where
  "ascii_alphanumeric c \<longleftrightarrow>
     c \<in> set ''ABCDEFGHIJKLMNOPQRSTUVWXYZabcdefghijklmnopqrstuvwxyz0123456789''"

definition handle_device_confirm ::
  "member \<Rightarrow> string \<Rightarrow> timestamp \<Rightarrow> auth_store \<Rightarrow> auth_response \<times> auth_store" where
  "handle_device_confirm admin raw_code now s =
     (let code = filter ascii_alphanumeric (to_uppercase raw_code) in
      if code = [] then (DeviceCodeEmpty, s)
      else
        let (n, s1) = count_attempt (''dev-confirm:'' @ me_id admin) now s in
        if n > 20 then (SlowDown, s1)
        else case approve_device_authorization code (me_id admin) (me_team_id admin) now s1 of
          (True, s2) \<Rightarrow> (DeviceConfirmed, s2)
        | (False, s2) \<Rightarrow> (DeviceCodeInvalid, s2))"

definition handle_device_token ::
  "string \<Rightarrow> string \<Rightarrow> timestamp \<Rightarrow> auth_store \<Rightarrow> auth_response \<times> auth_store" where
  "handle_device_token code_hash token now s =
     (case claim_device_authorization code_hash now s of
        (DeviceApproved uid team, s1) \<Rightarrow>
          (case create_agent_session token uid team (now + 30 * 24 * 60 * 60) now s1 of
             Inl _ \<Rightarrow> (AuthFailure ''failed to mint session'', s1)
           | Inr s2 \<Rightarrow> (DeviceSession token team, s2))
      | (DevicePending, s1) \<Rightarrow>
          let (n, s2) = count_attempt (''dev-poll:'' @ code_hash) now s1 in
          if n > 300 then (SlowDown, s2) else (DeviceWaiting, s2)
      | (DeviceDenied, s1) \<Rightarrow> (DeviceRefused, s1)
      | (DeviceExpiredOrUnknown, s1) \<Rightarrow> (CodeInvalid, s1))"

definition handle_switch_team ::
  "string option \<Rightarrow> string \<Rightarrow> timestamp \<Rightarrow> auth_store \<Rightarrow> auth_response \<times> auth_store" where
  "handle_switch_team token team now s =
     (case authenticate_user token now s of
        Inl resp \<Rightarrow> (resp, s)
      | Inr m \<Rightarrow>
          if get_member (me_id m) team (at_members s) = None then (NotAMember, s)
          else case update_session_team (or_else token []) team s of
            Inl _ \<Rightarrow> (AuthFailure ''Failed to switch team'', s)
          | Inr (False, s') \<Rightarrow> (SessionInvalid, s')
          | Inr (True, s') \<Rightarrow> (TeamSwitched team, s'))"

text \<open>
  The router's guard: what a request with a bearer token may reach. \<open>None\<close> passes the request on.
\<close>

definition agent_session_allows :: "string \<Rightarrow> string \<Rightarrow> bool" where
  "agent_session_allows verb path \<longleftrightarrow>
     (verb = ''GET'' \<and> (path = ''/user/me'' \<or> starts_with path ''/cred/setup/''))
     \<or> (verb = ''POST'' \<and> (path = ''/logout'' \<or> path = ''/cred/setup''))"

definition agent_session_guard ::
  "string option \<Rightarrow> string \<Rightarrow> string \<Rightarrow> timestamp \<Rightarrow> auth_store \<Rightarrow> bool" where
  "agent_session_guard bearer verb path now s \<longleftrightarrow>
     (case bearer of
        None \<Rightarrow> True
      | Some h \<Rightarrow>
          (case session_scope h now s of
             None \<Rightarrow> True
           | Some scope \<Rightarrow> scope \<noteq> ''agent'' \<or> agent_session_allows verb path))"

text \<open>
  Signing up: \<open>listed\<close> is the tier of the whitelisted address and \<open>gate\<close> whether the whitelist is
  required; the identifiers of the team and the user, the code and the password's hash are
  arguments.
\<close>

record signup_request =
  su_team_name :: "string option"
  su_email :: string
  su_password :: string

definition signup_name :: "string option \<Rightarrow> string option" where
  "signup_name raw =
     (case raw of
        None \<Rightarrow> None
      | Some n \<Rightarrow> let m = to_lowercase (trim n) in if m = [] then None else Some m)"

definition signup_account ::
  "string option \<Rightarrow> string \<Rightarrow> string \<Rightarrow> string \<Rightarrow> string \<Rightarrow> string \<Rightarrow> timestamp \<Rightarrow> member_store
    \<Rightarrow> (string, string \<times> string option) result \<times> member_store" where
  "signup_account name tier team_id user_id email ph now ms =
     (case name of
        None \<Rightarrow>
          (case create_user user_id email ph now ms of
             Inl _ \<Rightarrow> (Inl ''Failed to create account'', ms)
           | Inr (uid, ms') \<Rightarrow> (Inr (uid, None), ms'))
      | Some n \<Rightarrow>
          (case create_team team_id n now ms of
             Inl _ \<Rightarrow> (Inl ''Failed to create team'', ms)
           | Inr ms1 \<Rightarrow>
               let ms2 = (if tier \<noteq> ''free'' then update_team_tier team_id tier ms1 else ms1) in
               (case create_user_with_membership user_id team_id email ph ''owner'' now ms2 of
                  Inl _ \<Rightarrow> (Inl ''Failed to create account'', ms2)
                | Inr (uid, ms3) \<Rightarrow> (Inr (uid, Some team_id), ms3))))"

definition handle_signup ::
  "signup_request \<Rightarrow> string option \<Rightarrow> bool \<Rightarrow> string \<Rightarrow> string \<Rightarrow> string option \<Rightarrow> string
    \<Rightarrow> timestamp \<Rightarrow> auth_store \<Rightarrow> auth_response \<times> auth_store" where
  "handle_signup req listed gate team_id user_id hashed code now s =
     (let email = to_lowercase (trim (su_email req)); name = signup_name (su_team_name req);
          ms = at_members s
      in if \<not> contains email ''@'' \<or> \<not> contains email ''.'' then (SignupEmail, s)
      else if length (su_password req) < 8 then (PasswordShort, s)
      else if (case name of None \<Rightarrow> False | Some n \<Rightarrow> length n < 3 \<or> length n > 64)
      then (SignupNameLength, s)
      else if (case name of None \<Rightarrow> False
               | Some n \<Rightarrow> \<not> list_all (\<lambda>c. c \<in> set ''abcdefghijklmnopqrstuvwxyz0123456789-'') n)
      then (SignupNameChars, s)
      else case get_user_by_email email ms of
        Some u \<Rightarrow> (if us_email_verified u then SignupRegistered else SignupUnverified, s)
      | None \<Rightarrow>
          if name = None \<and> list_invites_by_email email now ms = [] then (SignupNeedsName, s)
          else if name \<noteq> None \<and> listed = None \<and> gate then (SignupNotListed, s)
          else if (case name of None \<Rightarrow> False | Some n \<Rightarrow> get_team_by_name n ms \<noteq> None)
          then (SignupNameTaken, s)
          else case hashed of
            None \<Rightarrow> (AuthFailure ''Internal error'', s)
          | Some ph \<Rightarrow>
              (case signup_account name
                      (if name = None then ''free'' else or_else listed ''free'')
                      team_id user_id email ph now ms of
                 (Inl e, ms1) \<Rightarrow> (AuthFailure e, s\<lparr>at_members := ms1\<rparr>)
               | (Inr (uid, own), ms1) \<Rightarrow>
                   let (joined, ms2) = consume_pending_invites uid email now ms1;
                       s2 = s\<lparr>at_members := ms2\<rparr>
                   in if own = None \<and> joined = [] then (SignupInviteExpired, s2)
                      else case create_email_verification code uid (now + 15 * 60) s2 of
                        Inl _ \<Rightarrow> (AuthFailure ''Failed to create verification'', s2)
                      | Inr s3 \<Rightarrow> (SignedUp uid own joined, s3)))"

section \<open>Sessions follow memberships\<close>

lemma get_member_iff:
  assumes wf: "member_wf s"
  shows "get_member u t s = Some m \<longleftrightarrow>
    (\<exists>r us. map_of (mt_memberships s) (u, t) = Some r \<and> get_user u s = Some us \<and> m = member_of us r)"
proof
  assume "get_member u t s = Some m"
  with get_member_Some [OF wf] show "\<exists>r us. map_of (mt_memberships s) (u, t) = Some r
      \<and> get_user u s = Some us \<and> m = member_of us r" by blast
next
  assume "\<exists>r us. map_of (mt_memberships s) (u, t) = Some r \<and> get_user u s = Some us \<and> m = member_of us r"
  then obtain r us where r: "map_of (mt_memberships s) (u, t) = Some r"
    and us: "get_user u s = Some us" and m: "m = member_of us r" by blast
  have "((u, t), r) \<in> set (mt_memberships s)" using r by (rule map_of_SomeD)
  moreover have "mb_team_id r = t" using calculation wf by (auto simp: member_wf_def)
  ultimately have in_m: "m \<in> set (members s)" "me_id m = u" "me_team_id m = t"
    using us m get_userD [OF wf us] by (auto simp: in_members member_of_def)
  then obtain m' where m': "get_member u t s = Some m'"
    by (cases "get_member u t s") (auto simp: get_member_def find_None_iff)
  with get_member_Some [OF wf m'] r us m show "get_member u t s = Some m" by auto
qed

lemma validate_session_iff:
  assumes "member_wf (at_members s)"
  shows "validate_session h now s = Some m \<longleftrightarrow>
    (\<exists>r mb us. map_of (at_sessions s) h = Some r \<and> now < sn_expires_at r
      \<and> map_of (mt_memberships (at_members s)) (sn_user_id r, sn_team_id r) = Some mb
      \<and> get_user (sn_user_id r) (at_members s) = Some us \<and> m = member_of us mb)"
  using get_member_iff [OF assms] by (auto simp: validate_session_def split: option.splits if_splits)

lemma validate_session_user:
  assumes "member_wf (at_members s)" and "validate_session h now s = Some m"
  shows "\<exists>r. map_of (at_sessions s) h = Some r \<and> sn_user_id r = me_id m \<and> sn_team_id r = me_team_id m"
proof -
  from assms obtain r where "map_of (at_sessions s) h = Some r"
    "get_member (sn_user_id r) (sn_team_id r) (at_members s) = Some m"
    by (auto simp: validate_session_def split: option.splits if_splits)
  then show ?thesis using get_member_Some [OF assms(1)] by metis
qed

lemma wf_update_password:
  "member_wf (at_members s) \<Longrightarrow> member_wf (at_members (update_user_password u ph t s))"
  by (simp add: update_user_password_def wf_update_user)

lemma removal_revokes:
  assumes "member_wf (at_members s)"
    and removed: "handle_remove_team_member admin target (at_members s) = (MemberRemoved, ms)"
    and ok: "validate_session h now (s\<lparr>at_members := ms\<rparr>) = Some m"
  shows "(me_id m, me_team_id m) \<noteq> (target, me_team_id admin)"
proof -
  have ms: "ms = delete_membership target (me_team_id admin) (at_members s)"
    using removed by (auto simp: manager_defs split: sum.splits if_splits option.splits)
  have wf: "member_wf ms" using remove_keeps [OF removed assms(1)] by blast
  from ok obtain u t where m: "get_member u t ms = Some m"
    by (auto simp: validate_session_def split: option.splits if_splits)
  have "map_of (mt_memberships ms) (me_id m, me_team_id m) \<noteq> None"
    using get_member_Some [OF wf m] by auto
  then show ?thesis
    unfolding ms by (auto simp: delete_membership_def map_of_delete split: if_splits)
qed

lemma reset_revokes:
  assumes "member_wf (at_members s)" and found: "find_password_reset tok t0 s = Some uid"
    and reset: "handle_reset_password tok p hashed t0 s = (resp, s')" and "resp \<noteq> PasswordShort"
    and ok: "validate_session h now s' = Some m"
  shows "me_id m \<noteq> uid"
proof -
  have sess: "at_sessions s' = filter (\<lambda>(_, n). sn_user_id n \<noteq> uid) (at_sessions s)"
    using assms
    by (auto simp: handle_reset_password_def validate_and_consume_password_reset_def
        use_password_reset_def update_user_password_def split: if_splits option.splits)
  have wf: "member_wf (at_members s')"
    using reset found assms(1)
    by (auto simp: handle_reset_password_def validate_and_consume_password_reset_def
        use_password_reset_def split: if_splits option.splits intro!: wf_update_password)
  from validate_session_user [OF wf ok] obtain r where r: "map_of (at_sessions s') h = Some r"
    "sn_user_id r = me_id m" by blast
  from map_of_SomeD [OF r(1)] sess r(2) show ?thesis by auto
qed

text \<open>C21. A session is worth what its user's membership is worth now: it resolves to a member exactly
  when it is unexpired and its user is a member of its team at this moment, with the role he
  has there at this moment. So no session survives: the one that logs out, any session for
  the team a member was removed from, and any session of a user whose password was reset.\<close>

theorem session_revocation:
  assumes "member_wf (at_members s)"
  shows "(validate_session h now s = Some m \<longleftrightarrow>
      (\<exists>r mb us. map_of (at_sessions s) h = Some r \<and> now < sn_expires_at r
        \<and> map_of (mt_memberships (at_members s)) (sn_user_id r, sn_team_id r) = Some mb
        \<and> get_user (sn_user_id r) (at_members s) = Some us \<and> m = member_of us mb))
    \<and> validate_session h now (snd (handle_logout (Some h) s)) = None
    \<and> (handle_remove_team_member admin target (at_members s) = (MemberRemoved, ms) \<longrightarrow>
        validate_session h now (s\<lparr>at_members := ms\<rparr>) = Some m \<longrightarrow>
        (me_id m, me_team_id m) \<noteq> (target, me_team_id admin))
    \<and> (find_password_reset tok t0 s = Some uid \<longrightarrow>
        handle_reset_password tok p hashed t0 s = (resp, s') \<longrightarrow> resp \<noteq> PasswordShort \<longrightarrow>
        validate_session h now s' = Some m \<longrightarrow> me_id m \<noteq> uid)"
proof -
  have "validate_session h now (snd (handle_logout (Some h) s)) = None"
    by (simp add: handle_logout_def delete_session_def validate_session_def map_of_delete)
  then show ?thesis
    by (intro conjI impI validate_session_iff [OF assms])
      (blast dest: removal_revokes [OF assms] reset_revokes [OF assms])+
qed

definition acme_auth :: auth_store where
  "acme_auth =
     \<lparr>at_members = acme_members,
      at_sessions = [(''carls-token'', \<lparr>sn_user_id = ''carl'', sn_team_id = ''acme'', sn_expires_at = 100,
                       sn_created_at = 0, sn_scope = ''full''\<rparr>)],
      at_devices = [], at_verifications = [], at_resets = [], at_passkeys = [],
      at_login_challenges = [], at_registration_challenges = [], at_identities = [],
      at_pending_links = [], at_counters = []\<rparr>"

theorem session_revocation_witness:
  "validate_session ''carls-token'' 5 acme_auth = Some (acme_member ''carl'' ''admin'')
   \<and> validate_session ''carls-token'' 5
       (acme_auth\<lparr>at_members := snd (handle_remove_team_member (acme_member ''ann'' ''owner'') ''carl'' acme_members)\<rparr>)
     \<noteq> Some (acme_member ''carl'' ''admin'')"
proof -
  have m: "at_members acme_auth = acme_members" by (simp add: acme_auth_def)
  have "handle_remove_team_member (acme_member ''ann'' ''owner'') ''carl'' acme_members
      = (MemberRemoved, delete_membership ''carl'' ''acme'' acme_members)"
    by (simp add: manager_defs user_can_manage_workspace_def role_can_manage_workspace_def
        get_member_def members_def List.map_filter_def get_user_def is_owner_def acme_defs)
  moreover have "me_id (acme_member ''carl'' ''admin'') = ''carl''"
    "me_team_id (acme_member ''carl'' ''admin'') = me_team_id (acme_member ''ann'' ''owner'')"
    by (simp_all add: acme_defs)
  moreover have "validate_session ''carls-token'' 5 acme_auth = Some (acme_member ''carl'' ''admin'')"
    by (simp add: validate_session_def acme_auth_def get_member_def members_def List.map_filter_def
        get_user_def acme_defs)
  ultimately show ?thesis
    using session_revocation [of acme_auth "''carls-token''" 5 "acme_member ''carl'' ''admin''"
        "acme_member ''ann'' ''owner''" "''carl''" "delete_membership ''carl'' ''acme'' acme_members"]
    by (auto simp: m acme_members_wf)
qed

section \<open>The second factor\<close>

text \<open>
  The requests that touch sessions, with WebAuthn configured. Logins by a first factor, passkeys,
  verification codes and the developers' login, with its switch, are told apart.
\<close>

datatype auth_event =
    VerifyCode string timestamp | PasskeyLogin string string timestamp | FirstFactor | DevAutoLogin bool
  | OtherRequest

inductive auth_step :: "webauthn \<Rightarrow> auth_event \<Rightarrow> auth_store \<Rightarrow> auth_store \<Rightarrow> bool" where
  verify: "handle_verify_email e code setup now s = (resp, s') \<Longrightarrow> auth_step W (VerifyCode code now) s s'"
| passkey: "handle_login_passkey W True pt auth team tok now s = (resp, s')
    \<Longrightarrow> auth_step W (PasskeyLogin pt auth now) s s'"
| login: "handle_login W True vp e p tok ch pt now s = (resp, s') \<Longrightarrow> auth_step W FirstFactor s s'"
| social: "finish_first_factor_login W True u tok ch pt now s = (resp, s') \<Longrightarrow> auth_step W FirstFactor s s'"
| dev: "handle_dev_auto_login skip_auth tok now s = (resp, s') \<Longrightarrow> auth_step W (DevAutoLogin skip_auth) s s'"
| resend: "handle_resend_verification e code now s = (resp, s') \<Longrightarrow> auth_step W OtherRequest s s'"
| forgot: "handle_forgot_password e tok now s = (resp, s') \<Longrightarrow> auth_step W OtherRequest s s'"
| reset: "handle_reset_password tok p hashed now s = (resp, s') \<Longrightarrow> auth_step W OtherRequest s s'"
| logout: "handle_logout tok' s = (resp, s') \<Longrightarrow> auth_step W OtherRequest s s'"
| setup_begin: "handle_setup_passkey_begin True tok ch now s = (resp, s') \<Longrightarrow> auth_step W OtherRequest s s'"
| setup_finish: "handle_setup_passkey_finish W True tok reg now s = (resp, s') \<Longrightarrow> auth_step W OtherRequest s s'"
| device_authorize: "handle_device_authorize ip h code now s = (resp, s') \<Longrightarrow> auth_step W OtherRequest s s'"
| device_confirm: "handle_device_confirm m code now s = (resp, s') \<Longrightarrow> auth_step W OtherRequest s s'"
| device_token: "handle_device_token h tok now s = (resp, s') \<Longrightarrow> auth_step W OtherRequest s s'"
| switch: "handle_switch_team tok' team now s = (resp, s') \<Longrightarrow> auth_step W OtherRequest s s'"
| signup: "handle_signup req listed gate tid uid hashed code now s = (resp, s')
    \<Longrightarrow> auth_step W OtherRequest s s'"

definition full_sessions :: "string \<Rightarrow> auth_store \<Rightarrow> string set" where
  "full_sessions uid s =
     {h. \<exists>r. (h, r) \<in> set (at_sessions s) \<and> sn_user_id r = uid \<and> sn_scope r = ''full''}"

lemma full_sessions_cong: "at_sessions s' = at_sessions s \<Longrightarrow> full_sessions uid s' = full_sessions uid s"
  by (simp add: full_sessions_def)

lemma insert_session_full:
  assumes "insert_session h u t e scope now s = Inr s'"
  shows "full_sessions uid s' = full_sessions uid s \<union> (if u = uid \<and> scope = ''full'' then {h} else {})"
  using assms by (auto simp: insert_session_def full_sessions_def split: if_splits)

lemma fewer_sessions:
  "full_sessions uid (delete_session h s) \<subseteq> full_sessions uid s"
  "full_sessions uid (use_password_reset h u s) \<subseteq> full_sessions uid s"
  by (auto simp: full_sessions_def delete_session_def use_password_reset_def in_delete)

lemma map_entry_team_full:
  "full_sessions uid (s\<lparr>at_sessions := AList.map_entry h (\<lambda>r. r\<lparr>sn_team_id := t\<rparr>) (at_sessions s)\<rparr>)
     \<subseteq> full_sessions uid s"
  by (auto simp: full_sessions_def dest!: in_map_entry)

lemma persist_links_frame: "at_sessions (persist_pending_identity_links u now s) = at_sessions s"
proof -
  have "at_sessions (fold (\<lambda>(p, sub, email) t. snd (link_user_identity u p sub email t)) ls t) = at_sessions t"
    for ls t
    by (induction ls arbitrary: t)
      (auto simp: link_user_identity_def split: option.splits prod.splits)
  then show ?thesis
    by (simp add: persist_pending_identity_links_def take_pending_identity_links_def)
qed

lemma first_factor_full:
  assumes "finish_first_factor_login W True u tok ch pt now s = (resp, s')" and "user_has_passkeys W uid s"
  shows "full_sessions uid s' \<subseteq> full_sessions uid s"
proof -
  obtain j ms where c: "consume_pending_invites (us_id u) (us_email u) now (at_members s) = (j, ms)" by force
  let ?s1 = "s\<lparr>at_members := ms\<rparr>"
  have "user_has_passkeys W v ?s1 \<longleftrightarrow> user_has_passkeys W v s" for v
    by (simp add: user_has_passkeys_def count_user_passkeys_def)
  moreover have "full_sessions uid ?s1 = full_sessions uid s" by (rule full_sessions_cong) simp
  moreover have "full_sessions uid s2 = full_sessions uid ?s1"
    if "begin_user_login W v ch pt now ?s1 = Inr s2" for v s2
    using that by (auto simp: begin_user_login_def set_login_challenge_def full_sessions_def split: if_splits)
  moreover have "full_sessions uid s2 = full_sessions uid ?s1"
    if "create_session tok (us_id u) t e now ?s1 = Inr s2" "\<not> user_has_passkeys W (us_id u) s" for t e s2
    using insert_session_full [OF that(1) [unfolded create_session_def], of uid] that(2) assms(2) by auto
  ultimately show ?thesis
    using assms(1)
    by (auto simp: finish_first_factor_login_def c Let_def split: option.splits prod.splits if_splits sum.splits)
qed

lemma finish_registration_frame:
  "finish_user_registration W u reg now s = (r, s') \<Longrightarrow> at_sessions s' = at_sessions s"
  by (auto simp: finish_user_registration_def take_registration_challenge_def save_user_passkey_def
      split: option.splits if_splits sum.splits prod.splits)

lemma first_factor_step_full:
  assumes "auth_step W FirstFactor s s'" and "user_has_passkeys W uid s"
  shows "full_sessions uid s' \<subseteq> full_sessions uid s"
  using assms(1)
proof (cases rule: auth_step.cases)
  case (login vp e p tok ch pt now resp)
  then show ?thesis
    using first_factor_full [OF _ assms(2)]
    by (auto simp: handle_login_def split: option.splits if_splits)
next
  case (social u tok ch pt now resp)
  then show ?thesis using first_factor_full [OF _ assms(2)] by blast
qed

lemma other_request_full:
  assumes "auth_step W OtherRequest s s'"
  shows "full_sessions uid s' \<subseteq> full_sessions uid s"
  using assms
proof (cases rule: auth_step.cases)
  case (device_token h tok now resp)
  then show ?thesis
    using insert_session_full [of tok _ _ _ "''agent''" now _ s' uid]
    by (auto simp: handle_device_token_def claim_device_authorization_def create_agent_session_def
        count_attempt_def full_sessions_def
        split: option.splits if_splits sum.splits device_claim.splits prod.splits)
next
  case (switch tok' team now resp)
  then show ?thesis
    using map_entry_team_full [where uid = uid and s = s]
    by (auto simp: handle_switch_team_def update_session_team_def
        split: option.splits if_splits sum.splits)
next
  case (setup_finish tok reg now resp)
  then have "s' = s \<or> (\<exists>u r s1. finish_user_registration W u reg now s = (r, s1)
      \<and> (s' = s1 \<or> s' = delete_session tok s1))"
    by (auto simp: handle_setup_passkey_finish_def split: option.splits if_splits sum.splits prod.splits)
  moreover have "full_sessions uid s1 = full_sessions uid s"
    if "finish_user_registration W u reg now s = (r, s1)" for u r s1
    using that by (intro full_sessions_cong finish_registration_frame)
  ultimately show ?thesis using fewer_sessions(1) [of uid tok] by (metis order_refl)
next
  case (reset tok p hashed now resp)
  then show ?thesis
    by (auto simp: handle_reset_password_def validate_and_consume_password_reset_def
        use_password_reset_def update_user_password_def full_sessions_def
        split: option.splits if_splits)
next
  case (logout tok' resp)
  then show ?thesis using fewer_sessions(1) by (auto simp: handle_logout_def split: option.splits)
next
  case (signup req listed gate tid u hashed code now resp)
  then have "at_sessions s' = at_sessions s"
    by (auto simp: handle_signup_def create_email_verification_def Let_def
        split: option.splits if_splits sum.splits prod.splits)
  then show ?thesis using full_sessions_cong by blast
next
  case (device_authorize ip h code now resp)
  then show ?thesis
    by (auto simp: full_sessions_def handle_device_authorize_def create_device_authorization_def
        count_attempt_def Let_def split: option.splits if_splits prod.splits)
next
  case (device_confirm m code now resp)
  then show ?thesis
    by (auto simp: full_sessions_def handle_device_confirm_def approve_device_authorization_def
        count_attempt_def Let_def split: bool.splits if_splits prod.splits)
qed (auto simp: full_sessions_def handle_resend_verification_def create_email_verification_def
    handle_forgot_password_def create_password_reset_def handle_setup_passkey_begin_def
    begin_user_registration_def set_registration_challenge_def Let_def
    split: option.splits if_splits sum.splits prod.splits)

lemma take_login_challenge_ok:
  assumes "take_login_challenge pt now s = (v, s1)"
  shows "at_sessions s1 = at_sessions s" and "at_members s1 = at_members s"
    and "v = Some (u, challenge) \<Longrightarrow>
      \<exists>e. map_of (at_login_challenges s) pt = Some ((u, challenge), e) \<and> now < e"
  using assms by (auto simp: take_login_challenge_def take_row_def split: option.splits prod.splits if_splits)

lemma passkey_login_cases:
  assumes "handle_login_passkey W True pt auth team tok now s = (resp, s')"
    and "take_login_challenge pt now s = (v, s1)" and "at_sessions s' \<noteq> at_sessions s"
  shows "\<exists>u challenge us tm s2. v = Some (u, challenge) \<and> assertion_ok W challenge auth
    \<and> get_user u (at_members s1) = Some us
    \<and> create_session tok (us_id us) tm (now + 24 * 60 * 60) now s1 = Inr s2
    \<and> at_sessions s' = at_sessions s2"
proof -
  have "at_sessions s1 = at_sessions s" using take_login_challenge_ok(1) [OF assms(2)] .
  with assms(1,3) show ?thesis
    unfolding handle_login_passkey_def finish_user_login_def assms(2)
    by (auto simp: Let_def persist_links_frame split: option.splits if_splits sum.splits prod.splits) blast+
qed

lemma passkey_login_full:
  assumes "handle_login_passkey W True pt auth team tok now s = (resp, s')"
    and "member_wf (at_members s)" and "h \<in> full_sessions uid s'" and "h \<notin> full_sessions uid s"
  shows "\<exists>challenge expires. map_of (at_login_challenges s) pt = Some ((uid, challenge), expires)
    \<and> now < expires \<and> assertion_ok W challenge auth"
proof -
  obtain v s1 where tk: "take_login_challenge pt now s = (v, s1)" by force
  have "at_sessions s' \<noteq> at_sessions s" using assms(3,4) full_sessions_cong [of s' s uid] by auto
  from passkey_login_cases [OF assms(1) tk this] obtain u challenge us tm s2
    where u: "v = Some (u, challenge)" "assertion_ok W challenge auth" "get_user u (at_members s1) = Some us"
      "insert_session tok (us_id us) tm (now + 24 * 60 * 60) ''full'' now s1 = Inr s2"
      "at_sessions s' = at_sessions s2" by (auto simp: create_session_def)
  have "us_id us = u"
    using u(3) assms(2) by (auto simp: take_login_challenge_ok(2) [OF tk] dest: get_userD)
  moreover have "us_id us = uid"
    using insert_session_full [OF u(4), of uid] full_sessions_cong [OF u(5), of uid] assms(3,4)
      full_sessions_cong [OF take_login_challenge_ok(1) [OF tk], of uid] by (auto split: if_splits)
  ultimately show ?thesis using take_login_challenge_ok(3) [OF tk u(1)] u(2) by auto
qed

lemma verify_full:
  assumes "handle_verify_email e code stk now s = (resp, s')"
    and "h \<in> full_sessions uid s'" and "h \<notin> full_sessions uid s"
  shows "\<exists>expires. map_of (at_verifications s) code = Some (uid, expires) \<and> now < expires"
proof -
  obtain w s1 where s1: "validate_email_verification code now s = (w, s1)" by force
  have same: "full_sessions uid s1 = full_sessions uid s"
    using s1 by (intro full_sessions_cong)
      (auto simp: validate_email_verification_def use_verification_def split: option.splits)
  then have "s' \<noteq> s1" using assms(2,3) by blast
  with assms(1) obtain u t where w: "w = Some u"
    and i: "insert_session stk u t (now + 10 * 60) ''full'' now s1 = Inr s'"
    by (auto simp: handle_verify_email_def s1 create_session_def split: option.splits sum.splits)
  have "u = uid" using insert_session_full [OF i, of uid] same assms(2,3) by (auto split: if_splits)
  with w s1 show ?thesis
    by (auto simp: validate_email_verification_def find_verification_def split: option.splits if_splits)
qed

lemma dev_login_full:
  assumes "handle_dev_auto_login on tok now s = (resp, s')"
    and "h \<in> full_sessions uid s'" and "h \<notin> full_sessions uid s"
  shows "on \<and> (\<exists>m. first_owner_member (at_members s) = Some m \<and> me_id m = uid)"
proof -
  from assms obtain m where m: "on" "first_owner_member (at_members s) = Some m"
    "insert_session tok (me_id m) (me_team_id m) (now + 24 * 60 * 60) ''full'' now s = Inr s'"
    by (auto simp: handle_dev_auto_login_def create_session_def split: option.splits sum.splits if_splits)
  from insert_session_full [OF m(3), of uid] assms(2,3) m(1,2) show ?thesis by (auto split: if_splits)
qed

text \<open>C20. With WebAuthn configured a user who has a stored passkey needs it: a request that gives such a
  user a new full session either completes a login challenge issued for that very user, in time and
  with an assertion the crate accepts, or redeems a verification code that was issued for
  him and is still valid. There are two exceptions: the developers' login when its environment
  switch is on and he is the first owner; and a first-factor login on an instance
  whose count of his passkeys failed and whose own cache holds none of them.\<close>

theorem second_factor_enforced:
  assumes "member_wf (at_members s)" and "auth_step W ev s s'" and "count_user_passkeys uid s > 0"
    and "h \<in> full_sessions uid s'" and "h \<notin> full_sessions uid s"
  shows "(\<exists>pt auth now challenge expires. ev = PasskeyLogin pt auth now
        \<and> map_of (at_login_challenges s) pt = Some ((uid, challenge), expires)
        \<and> now < expires \<and> assertion_ok W challenge auth)
    \<or> (\<exists>code now expires. ev = VerifyCode code now
        \<and> map_of (at_verifications s) code = Some (uid, expires) \<and> now < expires)
    \<or> ev = DevAutoLogin True \<and> (\<exists>m. first_owner_member (at_members s) = Some m \<and> me_id m = uid)
    \<or> ev = FirstFactor \<and> count_fails W \<and> cached_passkeys W uid = []"
proof (cases ev)
  case (VerifyCode code now)
  with assms(2) obtain e stk resp where "handle_verify_email e code stk now s = (resp, s')"
    by (auto elim: auth_step.cases)
  from verify_full [OF this assms(4,5)] VerifyCode show ?thesis by auto
next
  case (PasskeyLogin pt auth now)
  with assms(2) obtain team tok resp where "handle_login_passkey W True pt auth team tok now s = (resp, s')"
    by (auto elim: auth_step.cases)
  from passkey_login_full [OF this assms(1,4,5)] PasskeyLogin show ?thesis by auto
next
  case FirstFactor
  then have "\<not> user_has_passkeys W uid s" using first_factor_step_full [of W s s' uid] assms(2,4,5) by auto
  with assms(3) FirstFactor show ?thesis by (simp add: user_has_passkeys_def split: if_splits)
next
  case (DevAutoLogin on)
  with assms(2) obtain tok now resp where "handle_dev_auto_login on tok now s = (resp, s')"
    by (auto elim: auth_step.cases)
  from dev_login_full [OF this assms(4,5)] DevAutoLogin show ?thesis by auto
next
  case OtherRequest
  with other_request_full [of W s s' uid] assms(2-5) show ?thesis by auto
qed

definition sample_webauthn :: webauthn where
  "sample_webauthn =
     \<lparr>assertion_ok = (\<lambda>challenge answer. answer = challenge @ ''-signed''),
      register_ok = (\<lambda>challenge reg. if reg = challenge @ ''-key'' then Some (reg, ''{}'') else None),
      is_passkey_json = (\<lambda>_. True), cached_passkeys = (\<lambda>_. []), count_fails = False, list_fails = False\<rparr>"

definition passkey_auth :: auth_store where
  "passkey_auth = acme_auth\<lparr>at_passkeys := [(''key'', \<lparr>pk_user_id = ''carl'', pk_public_key_json = ''{}'',
       pk_created_at = 0\<rparr>)], at_login_challenges := [(''pt'', (''carl'', ''c''), 100)]\<rparr>"

lemmas auth_eval = validate_session_def get_member_def members_def List.map_filter_def get_user_def
  get_user_by_email_def get_team_def count_user_passkeys_def user_has_passkeys_def
  create_session_def create_agent_session_def insert_session_def resolve_active_team_def
  list_user_teams_def consume_pending_invites_def list_invites_by_email_def
  acme_auth_def acme_defs

lemma sample_passkey_login:
  "handle_login_passkey sample_webauthn True ''pt'' ''c-signed'' None ''new'' 5 passkey_auth
   = (LoggedIn ''new'' ''carl'' ''acme'' ''admin'',
      passkey_auth\<lparr>at_login_challenges := [], at_sessions := at_sessions passkey_auth
        @ [(''new'', \<lparr>sn_user_id = ''carl'', sn_team_id = ''acme'', sn_expires_at = 86405,
                     sn_created_at = 5, sn_scope = ''full''\<rparr>)]\<rparr>)"
  by (simp add: handle_login_passkey_def finish_user_login_def take_login_challenge_def take_row_def
      passkey_auth_def sample_webauthn_def persist_pending_identity_links_def
      take_pending_identity_links_def auth_eval)

theorem second_factor_enforced_witness:
  "\<exists>challenge expires. map_of (at_login_challenges passkey_auth) ''pt'' = Some ((''carl'', challenge), expires)
     \<and> 5 < expires \<and> assertion_ok sample_webauthn challenge ''c-signed''"
proof -
  let ?s' = "snd (handle_login_passkey sample_webauthn True ''pt'' ''c-signed'' None ''new'' 5 passkey_auth)"
  have step: "auth_step sample_webauthn (PasskeyLogin ''pt'' ''c-signed'' 5) passkey_auth ?s'"
    by (rule auth_step.passkey) (rule prod.collapse [symmetric])
  have "member_wf (at_members passkey_auth)"
    using acme_members_wf by (simp add: passkey_auth_def acme_auth_def)
  moreover have "count_user_passkeys ''carl'' passkey_auth > 0"
    by (simp add: count_user_passkeys_def passkey_auth_def)
  moreover have "''new'' \<in> full_sessions ''carl'' ?s'" "''new'' \<notin> full_sessions ''carl'' passkey_auth"
    unfolding sample_passkey_login by (auto simp: full_sessions_def passkey_auth_def acme_auth_def)
  ultimately show ?thesis using second_factor_enforced [OF _ step] by auto
qed

section \<open>What a session token opens\<close>

text \<open>
  The setup token that a password alone yields is an ordinary session: until the passkey is
  enrolled it opens the dashboard. And the handlers that enrol a passkey take their token
  from the body, where the router's guard does not look, and ask for no scope: a token minted
  for the command line, which the guard confines, enrols a passkey for its user.
\<close>

lemma carls_address: "to_lowercase (trim ''carl@acme.io'') = ''carl@acme.io''"
  by code_simp

lemma setup_token_opens_dashboard:
  "let (resp, s) = handle_login sample_webauthn True (\<lambda>p h. p = ''pw'') ''carl@acme.io'' ''pw''
                     ''setup'' ''c'' ''pt'' 5 acme_auth
   in resp = NeedsPasskeySetup ''setup''
      \<and> authenticate_user (Some ''setup'') 600 s = Inr (acme_member ''carl'' ''admin'')
      \<and> agent_session_guard (Some ''setup'') ''DELETE'' ''/team/members/x'' 600 s"
  by (simp add: handle_login_def finish_first_factor_login_def authenticate_user_def sample_webauthn_def
      agent_session_guard_def session_scope_def carls_address auth_eval)

text \<open>
  The count that decides whether a passkey is asked for falls back on the cache of the instance
  when the database does not answer, and the cache misses what another instance enrolled: carl
  has a passkey and gets that token for his password alone.
\<close>

lemma failed_count_skips_passkey:
  "let (resp, s) = handle_login (sample_webauthn\<lparr>count_fails := True\<rparr>) True (\<lambda>p h. p = ''pw'') ''carl@acme.io'' ''pw''
                     ''setup'' ''c'' ''pt'' 5 passkey_auth
   in count_user_passkeys ''carl'' passkey_auth = 1 \<and> resp = NeedsPasskeySetup ''setup''
      \<and> authenticate_user (Some ''setup'') 600 s = Inr (acme_member ''carl'' ''admin'')
      \<and> agent_session_guard (Some ''setup'') ''DELETE'' ''/team/members/x'' 600 s"
  by (simp add: handle_login_def finish_first_factor_login_def authenticate_user_def sample_webauthn_def
      passkey_auth_def agent_session_guard_def session_scope_def carls_address auth_eval)

lemma agent_session_enrols_passkey:
  "let s = acme_auth\<lparr>at_sessions := [(''cli'', \<lparr>sn_user_id = ''carl'', sn_team_id = ''acme'',
             sn_expires_at = 100, sn_created_at = 0, sn_scope = ''agent''\<rparr>)]\<rparr>;
       (r1, s1) = handle_setup_passkey_begin True ''cli'' ''c'' 5 s;
       (r2, s2) = handle_setup_passkey_finish sample_webauthn True ''cli'' ''c-key'' 6 s1
   in \<not> agent_session_guard (Some ''cli'') ''POST'' ''/setup-passkey/begin'' 5 s
      \<and> agent_session_guard None ''POST'' ''/setup-passkey/begin'' 5 s
      \<and> r1 = PasskeySetupStarted \<and> r2 = PasskeyRegistered \<and> user_has_passkeys sample_webauthn ''carl'' s2"
  by (simp add: agent_session_guard_def session_scope_def agent_session_allows_def starts_with_def
      handle_setup_passkey_begin_def handle_setup_passkey_finish_def begin_user_registration_def
      finish_user_registration_def set_registration_challenge_def take_registration_challenge_def
      take_row_def save_user_passkey_def delete_session_def sample_webauthn_def auth_eval)

section \<open>Device codes are handed out once\<close>

text \<open>
  Polling for a device token as a claim on the table of device codes; the other statements
  on it are the requests for a new code and the confirmations.
\<close>

datatype device_other =
    StartDevice string string timestamp timestamp
  | ConfirmDevice string string string timestamp

definition device_claimed :: "string \<Rightarrow> timestamp \<Rightarrow> auth_store \<Rightarrow> bool \<times> auth_store" where
  "device_claimed h now s =
     (case claim_device_authorization h now s of
        (DeviceApproved _ _, s') \<Rightarrow> (True, s') | (_, s') \<Rightarrow> (False, s'))"

fun device_other_stmt :: "device_other \<Rightarrow> auth_store \<Rightarrow> auth_store" where
  "device_other_stmt (StartDevice h code expires now) s =
     snd (create_device_authorization h code expires now s)"
| "device_other_stmt (ConfirmDevice code u t now) s = snd (approve_device_authorization code u t now s)"

definition open_codes :: "string \<Rightarrow> (string \<times> device_row) list \<Rightarrow> nat" where
  "open_codes h t = length (filter (\<lambda>(k, d). k = h \<and> dv_status d \<in> {''pending'', ''approved''}) t)"

fun started :: "string \<Rightarrow> device_other \<Rightarrow> enat" where
  "started h (StartDevice h' _ _ _) = (if h' = h then 1 else 0)"
| "started h (ConfirmDevice _ _ _ _) = 0"

lemma open_codes_simps [simp]:
  "open_codes h [] = 0"
  "open_codes h ((k, d) # t)
     = (if k = h \<and> dv_status d \<in> {''pending'', ''approved''} then Suc (open_codes h t) else open_codes h t)"
  "open_codes h (t @ t') = open_codes h t + open_codes h t'"
  by (auto simp: open_codes_def)

lemma open_codes_filter: "open_codes h (filter P t) \<le> open_codes h t"
  by (induction t) auto

lemma claimed_closes:
  assumes "map_of t h = Some d" and "dv_status d = ''approved''"
  shows "Suc (open_codes h (AList.map_entry h (\<lambda>d. d\<lparr>dv_status := ''claimed''\<rparr>) t)) = open_codes h t"
  using assms by (induction t) auto

lemma claimed_others:
  "open_codes k (AList.map_entry h (\<lambda>d. d\<lparr>dv_status := ''claimed''\<rparr>) t) \<le> open_codes k t"
  by (induction t) auto

lemma approve_open_codes:
  "open_codes h (map (\<lambda>(k, d). (k, if Q d \<and> dv_status d = ''pending'' \<and> R d
      then d\<lparr>dv_status := ''approved'', dv_user_id := u, dv_team_id := v\<rparr> else d)) t) = open_codes h t"
  by (induction t) auto

lemma device_claimed_cases:
  assumes "device_claimed h now s = (b, s')"
  shows "at_devices s' = at_devices s \<and> \<not> b
    \<or> b \<and> (\<exists>d. map_of (at_devices s) h = Some d \<and> dv_status d = ''approved'')
      \<and> at_devices s' = AList.map_entry h (\<lambda>d. d\<lparr>dv_status := ''claimed''\<rparr>) (at_devices s)"
  using assms
  by (auto simp: device_claimed_def claim_device_authorization_def
      split: option.splits if_splits device_claim.splits)

interpretation device_codes: minting_claim device_claimed device_other_stmt
  "\<lambda>h s. enat (open_codes h (at_devices s))" started
proof
  show "eSuc (enat (open_codes h (at_devices s'))) \<le> enat (open_codes h (at_devices s))"
    if "device_claimed h now s = (True, s')" for h now s s'
    using device_claimed_cases [OF that] claimed_closes [of "at_devices s" h] by (auto simp: eSuc_enat)
next
  show "enat (open_codes k (at_devices s')) \<le> enat (open_codes k (at_devices s))"
    if "device_claimed h now s = (b, s')" for h now s b s' k
    using device_claimed_cases [OF that] claimed_others [of k h "at_devices s"] by auto
next
  fix h x and s :: auth_store
  show "enat (open_codes h (at_devices (device_other_stmt x s)))
      \<le> enat (open_codes h (at_devices s)) + started h x"
  proof (cases x)
    case (StartDevice h' code expires now)
    then show ?thesis
      using open_codes_filter [of h "\<lambda>(_, d). dv_expires_at d \<ge> now" "at_devices s"]
      by (auto simp: create_device_authorization_def Let_def one_enat_def)
  next
    case (ConfirmDevice code u t now)
    then show ?thesis
      by (simp add: approve_device_authorization_def approve_open_codes)
  qed
qed

text \<open>Polling for a device token, over any history of polls, confirmations and new codes, hands out
  a session for a device code at most as often as that code was started.\<close>

lemma device_code_single_use:
  assumes "at_devices s = []"
  shows "enat (wins h (fst (run_events device_claimed device_other_stmt es s))) \<le> issued started h es"
  using device_codes.wins_issued [of h es s] assms by (simp add: zero_enat_def [symmetric])

end
