(* ===== verification/Channels.thy ===== *)
theory Channels
  imports Members Matrix_Channel
begin

text \<open>
  Where an approval request is sent and who may answer it: the table \<open>notification_channels\<close> of
  \<open>tap-core/src/store.rs\<close>, the choice of the channel, the overrides of a team's row and the
  resolution of the approvers' addresses to platform identifiers in \<open>tap-proxy/src/proxy.rs\<close>.
\<close>

section \<open>Notification channels (store.rs)\<close>

record notification_channel_row =
  nc_id :: string
  nc_team_id :: string
  nc_channel_type :: string
  nc_name :: string
  nc_config_json :: string
  nc_enabled :: bool
  nc_priority :: int
  nc_created_at :: timestamp
  nc_updated_at :: timestamp

type_synonym channel_table = "notification_channel_row list"

definition create_notification_channel ::
  "string \<Rightarrow> string \<Rightarrow> string \<Rightarrow> string \<Rightarrow> string \<Rightarrow> string list \<Rightarrow> timestamp \<Rightarrow> channel_table
    \<Rightarrow> (agent_sec_error, channel_table) result" where
  "create_notification_channel i team ctype name config teams now t =
     (if team \<notin> set teams \<or> list_ex (\<lambda>r. nc_id r = i \<or> nc_team_id r = team \<and> nc_name r = name) t
      then Inl (Config ''Failed to create notification channel'')
      else Inr (t @ [\<lparr>nc_id = i, nc_team_id = team, nc_channel_type = ctype, nc_name = name,
        nc_config_json = config, nc_enabled = True, nc_priority = 1000, nc_created_at = now,
        nc_updated_at = now\<rparr>]))"

definition get_notification_channel :: "string \<Rightarrow> string \<Rightarrow> channel_table \<Rightarrow> notification_channel_row option" where
  "get_notification_channel team name t = find (\<lambda>r. nc_team_id r = team \<and> nc_name r = name) t"

definition list_notification_channels :: "string \<Rightarrow> channel_table \<Rightarrow> notification_channel_row list" where
  "list_notification_channels team t =
     sort_key nc_priority (sort_key nc_created_at (filter (\<lambda>r. nc_team_id r = team) t))"

definition delete_notification_channel ::
  "string \<Rightarrow> string \<Rightarrow> channel_table \<Rightarrow> (agent_sec_error, unit) result \<times> channel_table" where
  "delete_notification_channel team name t =
     (let hit = (\<lambda>r. nc_team_id r = team \<and> nc_name r = name)
      in (if list_ex hit t then Inr ()
          else Inl (Config ''Failed to delete notification channel: no matching channel found''),
          filter (\<lambda>r. \<not> hit r) t))"

text \<open>Two statements: every row of the team is reset before the chosen one is looked for.\<close>

definition set_default_notification_channel ::
  "string \<Rightarrow> string \<Rightarrow> timestamp \<Rightarrow> channel_table \<Rightarrow> (agent_sec_error, unit) result \<times> channel_table" where
  "set_default_notification_channel team name now t =
     (let t1 = map (\<lambda>r. if nc_team_id r = team then r\<lparr>nc_priority := 1000, nc_updated_at := now\<rparr> else r) t;
          hit = (\<lambda>r. nc_team_id r = team \<and> nc_name r = name \<and> nc_enabled r)
      in (if list_ex hit t1 then Inr ()
          else Inl (Config ''Failed to set default notification channel: no enabled channel found''),
          map (\<lambda>r. if hit r then r\<lparr>nc_priority := 0, nc_updated_at := now\<rparr> else r) t1))"

text \<open>The string under a key of a row's configuration; text that is no JSON has no keys.\<close>

definition config_str :: "externals \<Rightarrow> string \<Rightarrow> string \<Rightarrow> string option" where
  "config_str X key text_json =
     Option.bind (Option.bind (Option.bind (json_parse X text_json) as_object) (\<lambda>fs. map_of fs key)) as_str"

definition get_default_telegram_chat_id :: "externals \<Rightarrow> string \<Rightarrow> channel_table \<Rightarrow> string option" where
  "get_default_telegram_chat_id X team t =
     (case sort_key nc_created_at
             (filter (\<lambda>r. nc_team_id r = team \<and> nc_channel_type r = ''telegram'' \<and> nc_enabled r) t) of
        [] \<Rightarrow> None
      | r # _ \<Rightarrow> config_str X ''chat_id'' (nc_config_json r))"

section \<open>The choice of the channel (proxy.rs)\<close>

text \<open>
  The channels of \<open>AppState\<close>: the agent-reflected and the dashboard channel always exist, the
  messaging channels when they are configured. Only their kind matters here.
\<close>

datatype channel_kind = AgentReflected | Dashboard | TelegramChat | MatrixRoom

fun channel_name :: "channel_kind \<Rightarrow> string" where
  "channel_name AgentReflected = ''agent_reflected''"
| "channel_name Dashboard = ''dashboard''"
| "channel_name TelegramChat = ''telegram''"
| "channel_name MatrixRoom = ''matrix''"

fun persists_own_details :: "channel_kind \<Rightarrow> bool" where
  "persists_own_details AgentReflected = True"
| "persists_own_details Dashboard = True"
| "persists_own_details TelegramChat = False"
| "persists_own_details MatrixRoom = False"

record channels_wired =
  has_telegram :: bool
  has_matrix :: bool

type_synonym channel_overrides = "matrix_routing option"

definition row_room :: "externals \<Rightarrow> notification_channel_row \<Rightarrow> string option" where
  "row_room X r =
     (case config_str X ''room_id'' (nc_config_json r) of
        None \<Rightarrow> None | Some s \<Rightarrow> if s = [] then None else Some s)"

definition matrix_default :: "string \<Rightarrow> channel_overrides" where
  "matrix_default room = Some \<lparr>mx_room_id = Some room, mx_allowed_approvers = []\<rparr>"

fun first_room :: "externals \<Rightarrow> notification_channel_row list \<Rightarrow> string option" where
  "first_room X [] = None"
| "first_room X (r # rs) =
     (if nc_enabled r \<and> nc_channel_type r = ''matrix'' \<and> row_room X r \<noteq> None then row_room X r
      else first_room X rs)"

text \<open>The policy of the credential first; \<open>None\<close> falls through to the rows of the team.\<close>

definition policy_channel ::
  "externals \<Rightarrow> channels_wired \<Rightarrow> notification_channel_row list \<Rightarrow> approval_routing
    \<Rightarrow> (channel_kind \<times> channel_overrides) option" where
  "policy_channel X A rows r =
     (if ar_channel r = Some ''dashboard'' then Some (Dashboard, None)
      else if ar_channel r = Some ''agent_reflected'' \<or> ar_channel r = Some ''app''
      then Some (AgentReflected, None)
      else if ar_channel r = Some ''telegram'' \<and> has_telegram A then Some (TelegramChat, None)
      else
        let wants_matrix = (ar_channel r = Some ''matrix'' \<or> ar_channel r = None \<and> ar_matrix r \<noteq> None);
            room = (case Option.bind (ar_matrix r) mx_room_id of
                      Some x \<Rightarrow> Some x | None \<Rightarrow> first_room X rows)
        in if wants_matrix \<and> has_matrix A \<and> room \<noteq> None
           then Some (MatrixRoom, matrix_default (the room))
           else if ar_channel r = None \<and> ar_telegram r \<noteq> None \<and> has_telegram A
           then Some (TelegramChat, None)
           else None)"

fun row_channel ::
  "externals \<Rightarrow> channels_wired \<Rightarrow> notification_channel_row list \<Rightarrow> channel_kind \<times> channel_overrides" where
  "row_channel X A [] = (AgentReflected, None)"
| "row_channel X A (r # rs) =
     (if \<not> nc_enabled r then row_channel X A rs
      else if nc_channel_type r = ''dashboard'' then (Dashboard, None)
      else if nc_channel_type r = ''agent_reflected'' then (AgentReflected, None)
      else if nc_channel_type r = ''matrix'' then
        (case row_room X r of
           Some room \<Rightarrow> if has_matrix A then (MatrixRoom, matrix_default room) else row_channel X A rs
         | None \<Rightarrow> row_channel X A rs)
      else if nc_channel_type r = ''telegram'' \<and> has_telegram A then (TelegramChat, None)
      else row_channel X A rs)"

text \<open>\<open>rows\<close> is the answer of the database, an error or the rows of the team.\<close>

definition resolve_approval_channel ::
  "externals \<Rightarrow> channels_wired \<Rightarrow> (agent_sec_error, notification_channel_row list) result
    \<Rightarrow> approval_routing option \<Rightarrow> channel_kind \<times> channel_overrides" where
  "resolve_approval_channel X A rows routing =
     (case rows of
        Inl _ \<Rightarrow> (AgentReflected, None)
      | Inr rs \<Rightarrow>
          (case Option.bind routing (policy_channel X A rs) of
             Some c \<Rightarrow> c
           | None \<Rightarrow> row_channel X A rs))"

section \<open>The approval context\<close>

record approval_context =
  ctx_team_id :: "string option"
  ctx_credential_name :: string
  ctx_routing :: "approval_routing option"
  ctx_approver_emails :: "string list"
  ctx_approval_url :: "string option"
  ctx_require_passkey :: bool
  ctx_end_user_id :: "string option"

definition default_routing :: approval_routing where
  "default_routing =
     \<lparr>ar_channel = None, ar_allowed_approvers = [], ar_require_passkey = False,
      ar_require_preimage = False, ar_min_approvals = 1, ar_telegram = None, ar_matrix = None,
      ar_slack = None, ar_mobile = None\<rparr>"

definition overrides_apply :: "channel_overrides \<Rightarrow> approval_context \<Rightarrow> approval_context" where
  "overrides_apply team_matrix ctx =
     (case team_matrix of
        None \<Rightarrow> ctx
      | Some m \<Rightarrow>
          let r = (case ctx_routing ctx of None \<Rightarrow> default_routing | Some r \<Rightarrow> r)
          in ctx\<lparr>ctx_routing := Some (if ar_matrix r = None then r\<lparr>ar_matrix := Some m\<rparr> else r)\<rparr>)"

text \<open>The members that the database lists, and the assignments of each (an error skips the member).\<close>

definition compute_effective_approver_emails ::
  "string list \<Rightarrow> (agent_sec_error, member list) result \<Rightarrow> (string \<Rightarrow> (agent_sec_error, string list) result)
    \<Rightarrow> string \<Rightarrow> string \<Rightarrow> string list" where
  "compute_effective_approver_emails policy_allowed team_members assigned team cred =
     (if team = [] \<or> cred = [] then policy_allowed
      else case team_members of
        Inl _ \<Rightarrow> policy_allowed
      | Inr ms \<Rightarrow>
          map me_email (filter (\<lambda>m.
            (policy_allowed = [] \<or> me_email m \<in> set policy_allowed)
            \<and> (me_member_role m \<in> {''owner'', ''admin''}
               \<or> (case assigned (me_id m) of Inl _ \<Rightarrow> False | Inr cs \<Rightarrow> cred \<in> set cs))) ms))"

fun resolve_approvers ::
  "string list \<Rightarrow> (string \<Rightarrow> (agent_sec_error, member option) result) \<Rightarrow> string list \<times> string list" where
  "resolve_approvers [] lookup = ([], [])"
| "resolve_approvers (e # es) lookup =
     (let (tg, mx) = resolve_approvers es lookup in
      if contains e ''@'' \<and> \<not> starts_with e ''@'' then
        (case lookup e of
           Inr (Some m) \<Rightarrow>
             ((case me_telegram_user_id m of None \<Rightarrow> tg | Some i \<Rightarrow> i # tg),
              (case me_matrix_user_id m of None \<Rightarrow> mx | Some i \<Rightarrow> i # mx))
         | _ \<Rightarrow> (tg, mx))
      else (tg, mx))"

text \<open>The narrowing of a routing to the approvers, by the identifiers of their platform.\<close>

definition narrow_routing ::
  "string list \<Rightarrow> (string \<Rightarrow> (agent_sec_error, member option) result) \<Rightarrow> approval_routing \<Rightarrow> approval_routing" where
  "narrow_routing effective lookup r =
     (let (tg, mx) = (if effective = [] then ([], []) else resolve_approvers effective lookup)
      in r\<lparr>ar_allowed_approvers := tg,
           ar_matrix := map_option (\<lambda>m. m\<lparr>mx_allowed_approvers :=
             (if mx_allowed_approvers m = [] then mx
              else snd (resolve_approvers (mx_allowed_approvers m) lookup))\<rparr>) (ar_matrix r)\<rparr>)"

definition narrow_approvers ::
  "string list \<Rightarrow> (string \<Rightarrow> (agent_sec_error, member option) result) \<Rightarrow> approval_context \<Rightarrow> approval_context" where
  "narrow_approvers effective lookup ctx =
     ctx\<lparr>ctx_routing := map_option (narrow_routing effective lookup) (ctx_routing ctx)\<rparr>"

section \<open>Who may answer\<close>

lemma member_by_email:
  assumes wf: "member_wf s" and "m \<in> set (members s)" and "m' \<in> set (members s)"
    and "me_team_id m = me_team_id m'" and "me_email m = me_email m'"
  shows "m = m'"
proof -
  from members_key [OF wf assms(2)] obtain r us where m: "map_of (mt_memberships s) (me_id m, me_team_id m) = Some r"
    "get_user (me_id m) s = Some us" "m = member_of us r" .
  from members_key [OF wf assms(3)] obtain r' us' where m': "map_of (mt_memberships s) (me_id m', me_team_id m') = Some r'"
    "get_user (me_id m') s = Some us'" "m' = member_of us' r'" .
  have "us_email us = us_email us'" using assms(5) m(3) m'(3) by (simp add: member_of_def)
  moreover have "(me_id m, us) \<in> set (mt_users s)" "(me_id m', us') \<in> set (mt_users s)"
    using m(2) m'(2) by (auto simp: get_user_def dest: map_of_SomeD)
  moreover have "distinct (map (us_email \<circ> snd) (mt_users s))" using wf by (simp add: member_wf_def)
  ultimately have "(me_id m, us) = (me_id m', us')"
    unfolding distinct_map by (intro inj_onD [of "us_email \<circ> snd" "set (mt_users s)"]) simp_all
  then have ids: "me_id m = me_id m'" "us = us'" by simp_all
  have "r = r'" using m(1) m'(1) ids(1) assms(4) by simp
  with ids(2) m(3) m'(3) show ?thesis by metis
qed

lemma email_lookup:
  assumes "member_wf s" and "m \<in> set (members s)"
  shows "get_member_by_email_and_team (me_email m) (me_team_id m) s = Some m"
proof (cases "get_member_by_email_and_team (me_email m) (me_team_id m) s")
  case None
  with assms(2) show ?thesis by (auto simp: get_member_by_email_and_team_def find_None_iff)
next
  case (Some m')
  then show ?thesis
    using member_by_email [OF assms(1), of m' m] assms(2)
    by (auto simp: get_member_by_email_and_team_def dest!: find_SomeD)
qed

definition platform_id ::
  "(member \<Rightarrow> string option) \<Rightarrow> (string \<Rightarrow> (agent_sec_error, member option) result) \<Rightarrow> string \<Rightarrow> string option" where
  "platform_id f lookup e =
     (if contains e ''@'' \<and> \<not> starts_with e ''@''
      then (case lookup e of Inr (Some m) \<Rightarrow> f m | _ \<Rightarrow> None) else None)"

lemma resolve_approvers_filter:
  "resolve_approvers es lookup =
     (List.map_filter (platform_id me_telegram_user_id lookup) es,
      List.map_filter (platform_id me_matrix_user_id lookup) es)"
  by (induction es)
    (auto simp: platform_id_def List.map_filter_simps split: sum.splits option.splits)

lemma in_map_filter: "y \<in> set (List.map_filter f xs) \<longleftrightarrow> (\<exists>x \<in> set xs. f x = Some y)"
  by (force simp: List.map_filter_def)

text \<open>
  The members whom the policy lets decide about a credential, and the identifiers that the
  proxy can reach them by: those of the members whose address it accepts as one.
\<close>

definition eligible :: "string list \<Rightarrow> string \<Rightarrow> string \<Rightarrow> member_store \<Rightarrow> member \<Rightarrow> bool" where
  "eligible policy_allowed team cred s m \<longleftrightarrow>
     m \<in> set (members s) \<and> me_team_id m = team
     \<and> (policy_allowed = [] \<or> me_email m \<in> set policy_allowed)
     \<and> (me_member_role m \<in> {''owner'', ''admin''} \<or> (team, me_id m, cred) \<in> set (mt_approver_credentials s))"

definition entitled :: "string list \<Rightarrow> string \<Rightarrow> string \<Rightarrow> member_store \<Rightarrow> member \<Rightarrow> bool" where
  "entitled policy_allowed team cred s m \<longleftrightarrow>
     eligible policy_allowed team cred s m \<and> contains (me_email m) ''@'' \<and> \<not> starts_with (me_email m) ''@''"

definition store_approvers :: "string list \<Rightarrow> string \<Rightarrow> string \<Rightarrow> member_store \<Rightarrow> string list" where
  "store_approvers policy_allowed team cred s =
     compute_effective_approver_emails policy_allowed (Inr (list_team_members team s))
       (\<lambda>u. Inr (list_approver_credentials team u s)) team cred"

lemma store_approvers_iff:
  assumes "team \<noteq> []" and "cred \<noteq> []"
  shows "e \<in> set (store_approvers pol team cred s) \<longleftrightarrow> (\<exists>m. eligible pol team cred s m \<and> e = me_email m)"
  using assms
  by (force simp: store_approvers_def compute_effective_approver_emails_def list_team_members_def
      list_approver_credentials_def eligible_def)

lemma reachable_ids:
  assumes wf: "member_wf s" and ne: "team \<noteq> []" "cred \<noteq> []"
    and look: "lookup = (\<lambda>e. Inr (get_member_by_email_and_team e team s))"
  shows "set (fst (resolve_approvers (store_approvers pol team cred s) lookup))
      = {i. \<exists>m. entitled pol team cred s m \<and> me_telegram_user_id m = Some i}"
    and "set (snd (resolve_approvers (store_approvers pol team cred s) lookup))
      = {i. \<exists>m. entitled pol team cred s m \<and> me_matrix_user_id m = Some i}"
proof -
  have "platform_id f lookup (me_email m)
      = (if contains (me_email m) ''@'' \<and> \<not> starts_with (me_email m) ''@'' then f m else None)"
    if "m \<in> set (members s)" "me_team_id m = team" for f m
    using email_lookup [OF wf that(1)] that(2) look by (simp add: platform_id_def)
  then have "platform_id f lookup (me_email m) = Some i \<longleftrightarrow>
      contains (me_email m) ''@'' \<and> \<not> starts_with (me_email m) ''@'' \<and> f m = Some i"
    if "eligible pol team cred s m" for f m i
    using that by (simp add: eligible_def)
  then have "(\<exists>m. eligible pol team cred s m \<and> platform_id f lookup (me_email m) = Some i) \<longleftrightarrow>
      (\<exists>m. entitled pol team cred s m \<and> f m = Some i)" for f i
    by (auto simp: entitled_def)
  moreover have "i \<in> set (List.map_filter (platform_id f lookup) (store_approvers pol team cred s)) \<longleftrightarrow>
      (\<exists>m. eligible pol team cred s m \<and> platform_id f lookup (me_email m) = Some i)" for f i
    unfolding in_map_filter Bex_def store_approvers_iff [OF ne] by blast
  ultimately have "set (List.map_filter (platform_id f lookup) (store_approvers pol team cred s))
      = {i. \<exists>m. entitled pol team cred s m \<and> f m = Some i}" for f
    by (intro set_eqI) simp
  then show "set (fst (resolve_approvers (store_approvers pol team cred s) lookup))
      = {i. \<exists>m. entitled pol team cred s m \<and> me_telegram_user_id m = Some i}"
    and "set (snd (resolve_approvers (store_approvers pol team cred s) lookup))
      = {i. \<exists>m. entitled pol team cred s m \<and> me_matrix_user_id m = Some i}"
    by (simp_all add: resolve_approvers_filter)
qed

lemma narrowed_request_approvers:
  assumes "ar_matrix r = Some mx" and "mx_allowed_approvers mx = []"
  shows "request_approvers (narrow_routing eff lookup r) =
    (if snd (resolve_approvers eff lookup) \<noteq> [] then Some (snd (resolve_approvers eff lookup))
     else if fst (resolve_approvers eff lookup) \<noteq> [] then Some (fst (resolve_approvers eff lookup))
     else None)"
  using assms by (cases eff) (auto simp: narrow_routing_def request_approvers_def split: prod.splits)

text \<open>C32. Who may answer a request in a Matrix room, for a credential whose policy has no list of its own
  for Matrix, when the database answers: the list that the channel is given names exactly the Matrix
  identifiers of the members of the team who are in the policy's list (if it has one), are owners,
  admins or assigned to the credential, and whose address has an \<open>@\<close> that is not its first
  character; where none of them has linked one, it names exactly their Telegram identifiers, which no
  reaction carries. There is no list, so that everyone in the room may answer, exactly when none of
  them has linked either. (Where the members cannot be read, the policy's list is used as it is.)\<close>

theorem matrix_approvers_entitled:
  assumes "member_wf s" and "team \<noteq> []" and "cred \<noteq> []"
    and "ar_matrix r = Some mx" and "mx_allowed_approvers mx = []"
  shows "let matrix_ids = {i. \<exists>m. entitled pol team cred s m \<and> me_matrix_user_id m = Some i};
      telegram_ids = {i. \<exists>m. entitled pol team cred s m \<and> me_telegram_user_id m = Some i}
    in case request_approvers (narrow_routing (store_approvers pol team cred s)
            (\<lambda>e. Inr (get_member_by_email_and_team e team s)) r) of
      Some l \<Rightarrow> l \<noteq> [] \<and> set l = (if matrix_ids \<noteq> {} then matrix_ids else telegram_ids)
    | None \<Rightarrow> matrix_ids = {} \<and> telegram_ids = {}"
proof -
  note ids = reachable_ids [OF assms(1-3) refl, of pol]
  show ?thesis
    unfolding Let_def ids [symmetric] narrowed_request_approvers [OF assms(4,5)] by simp
qed

definition linked_members :: member_store where
  "linked_members = acme_members\<lparr>mt_users :=
     AList.update ''carl'' ((sample_user ''carl'')\<lparr>us_matrix_user_id := Some ''@carl:hs''\<rparr>) (mt_users acme_members)\<rparr>"

definition room_routing :: approval_routing where
  "room_routing = default_routing\<lparr>ar_matrix := Some \<lparr>mx_room_id = Some ''!room'', mx_allowed_approvers = []\<rparr>\<rparr>"

lemmas channel_eval = store_approvers_def compute_effective_approver_emails_def list_team_members_def
  list_approver_credentials_def members_def List.map_filter_def get_user_def
  get_member_by_email_and_team_def narrow_routing_def request_approvers_def room_routing_def
  default_routing_def linked_members_def acme_defs starts_with_def

theorem matrix_approvers_entitled_witness:
  "request_approvers (narrow_routing (store_approvers [] ''acme'' ''gmail'' linked_members)
     (\<lambda>e. Inr (get_member_by_email_and_team e ''acme'' linked_members)) room_routing) = Some [''@carl:hs'']
   \<and> {''@carl:hs''} = {i. \<exists>m. entitled [] ''acme'' ''gmail'' linked_members m \<and> me_matrix_user_id m = Some i}"
proof -
  have wf: "member_wf linked_members"
    by (simp add: member_wf_def linked_members_def acme_defs get_team_def)
  have l: "request_approvers (narrow_routing (store_approvers [] ''acme'' ''gmail'' linked_members)
     (\<lambda>e. Inr (get_member_by_email_and_team e ''acme'' linked_members)) room_routing) = Some [''@carl:hs'']"
    by (simp add: channel_eval)
  have t: "{i. \<exists>m. entitled [] ''acme'' ''gmail'' linked_members m \<and> me_telegram_user_id m = Some i} = {}"
  proof -
    have "list_all (\<lambda>m. me_telegram_user_id m = None) (members linked_members)"
      by (simp add: channel_eval)
    then show ?thesis by (auto simp: entitled_def eligible_def list_all_iff)
  qed
  have mx: "ar_matrix room_routing = Some \<lparr>mx_room_id = Some ''!room'', mx_allowed_approvers = []\<rparr>"
    by (simp add: room_routing_def)
  from matrix_approvers_entitled [OF wf _ _ mx, of "''acme''" "''gmail''" "[]"] l t show ?thesis
    by (simp add: Let_def split: if_splits)
qed

text \<open>
  A policy that names only people who left the team, or who have linked no identifier, thus
  opens the room: without a list everyone in it may approve.
\<close>

lemma departed_approver_opens_room:
  "request_approvers (narrow_routing (store_approvers [''zoe@acme.io''] ''acme'' ''gmail'' linked_members)
     (\<lambda>e. Inr (get_member_by_email_and_team e ''acme'' linked_members)) room_routing) = None"
  by (simp add: channel_eval)

text \<open>Choosing a default that does not exist fails, but the previous default is gone by then.\<close>

lemma failed_default_clears_default:
  assumes "\<not> list_ex (\<lambda>r. nc_team_id r = team \<and> nc_name r = name \<and> nc_enabled r) t"
  shows "\<exists>e t'. set_default_notification_channel team name now t = (Inl e, t')
    \<and> (\<forall>r \<in> set t'. nc_team_id r = team \<longrightarrow> nc_priority r = 1000)"
proof -
  let ?t1 = "map (\<lambda>r. if nc_team_id r = team then r\<lparr>nc_priority := 1000, nc_updated_at := now\<rparr> else r) t"
  have none: "\<not> (nc_team_id r = team \<and> nc_name r = name \<and> nc_enabled r)" if "r \<in> set ?t1" for r
  proof -
    from that obtain r0 where "r0 \<in> set t" "nc_team_id r = nc_team_id r0" "nc_name r = nc_name r0"
      "nc_enabled r = nc_enabled r0" by (auto split: if_splits)
    with assms show ?thesis unfolding list_ex_iff by metis
  qed
  then have "\<not> list_ex (\<lambda>r. nc_team_id r = team \<and> nc_name r = name \<and> nc_enabled r) ?t1"
    unfolding list_ex_iff by blast
  moreover have "map (\<lambda>r. if nc_team_id r = team \<and> nc_name r = name \<and> nc_enabled r
      then r\<lparr>nc_priority := 0, nc_updated_at := now\<rparr> else r) ?t1 = ?t1"
    by (rule map_idI, rule if_not_P, erule none)
  ultimately have "set_default_notification_channel team name now t
    = (Inl (Config ''Failed to set default notification channel: no enabled channel found''), ?t1)"
    unfolding set_default_notification_channel_def Let_def by (simp only: if_False)
  moreover have "nc_priority r = 1000" if "r \<in> set ?t1" "nc_team_id r = team" for r
  proof -
    from that(1) obtain r0 where
      "r = (if nc_team_id r0 = team then r0\<lparr>nc_priority := 1000, nc_updated_at := now\<rparr> else r0)"
      unfolding set_map by blast
    with that(2) show ?thesis by (cases "nc_team_id r0 = team") simp_all
  qed
  ultimately show ?thesis by (intro exI conjI ballI impI)
qed

end
