(* ===== verification/Inbox_Channels.thy ===== *)
theory Inbox_Channels
  imports Channels
begin

text \<open>
  The two channels that need no messaging service, \<open>agent_reflected_channel.rs\<close> and
  \<open>dashboard_channel.rs\<close> of \<open>tap-proxy\<close>: a request is a row of \<open>pending_approvals\<close> with its
  details as JSON, and the waiting task polls the row. With the record \<open>ApprovalDetails\<close> and
  \<open>set_pending_details\<close> of \<open>webauthn.rs\<close>. Web push is best effort and is not modelled.
\<close>

section \<open>Requests and their details\<close>

record proxy_request =
  pr_id :: string
  pr_agent_id :: string
  pr_target_url :: string
  pr_method :: http_method
  pr_headers :: headers
  pr_body :: "bytes option"
  pr_content_type :: "string option"
  pr_placeholders :: "placeholder list"

record approval_details =
  ad_txn_id :: string
  ad_team_id :: string
  ad_agent_id :: string
  ad_credential_name :: string
  ad_target_url :: string
  ad_method :: string
  ad_body_preview :: "string option"
  ad_summary :: "string option"
  ad_allowed_approvers :: "string list"
  ad_require_passkey :: bool

text \<open>
  The prefix of a string up to a byte offset; \<open>None\<close> is the panic at an offset inside a
  character. The preview of a body panics with it.
\<close>

definition char_boundary :: "nat \<Rightarrow> string \<Rightarrow> bool" where
  "char_boundary n s \<longleftrightarrow> n = 0 \<or> n = length s \<or> n < length s \<and> \<not> utf8_cont (s ! n)"

definition slice_to :: "nat \<Rightarrow> string \<Rightarrow> string option" where
  "slice_to n s = (if char_boundary n s then Some (take n s) else None)"

definition body_preview :: "bytes option \<Rightarrow> string option option" where
  "body_preview body =
     (case Option.bind body from_utf8 of
        None \<Rightarrow> Some None
      | Some s \<Rightarrow> if length s > 500 then map_option Some (slice_to 500 s) else Some (Some s))"

text \<open>\<open>to_json\<close> is the serialiser and \<open>summarize\<close> the one-line summary of a request.\<close>

definition request_details ::
  "(proxy_request \<Rightarrow> string option) \<Rightarrow> string option \<Rightarrow> proxy_request \<Rightarrow> approval_context \<Rightarrow> approval_details" where
  "request_details summarize preview request ctx =
     \<lparr>ad_txn_id = pr_id request, ad_team_id = or_else (ctx_team_id ctx) [],
      ad_agent_id = pr_agent_id request, ad_credential_name = ctx_credential_name ctx,
      ad_target_url = pr_target_url request, ad_method = method_as_str (pr_method request),
      ad_body_preview = preview, ad_summary = summarize request,
      ad_allowed_approvers = ctx_approver_emails ctx, ad_require_passkey = ctx_require_passkey ctx\<rparr>"

definition team_column :: "string \<Rightarrow> string option" where
  "team_column team = (if team = [] then None else Some team)"

text \<open>Both channels queue a request in the same way; the row is keyed by the request.\<close>

definition inbox_send_approval_request ::
  "(approval_details \<Rightarrow> string) \<Rightarrow> (proxy_request \<Rightarrow> string option) \<Rightarrow> int \<Rightarrow> proxy_request \<Rightarrow> approval_context
    \<Rightarrow> timestamp \<Rightarrow> pending_table \<Rightarrow> (string \<times> pending_table) option" where
  "inbox_send_approval_request to_json summarize ttl request ctx now t =
     (case body_preview (pr_body request) of
        None \<Rightarrow> None
      | Some preview \<Rightarrow>
          Some (pr_id request,
            save_pending_approval_scoped (pr_id request)
              (to_json (request_details summarize preview request ctx)) (now + ttl)
              (team_column (or_else (ctx_team_id ctx) [])) (ctx_end_user_id ctx) now t))"

definition set_pending_details ::
  "(approval_details \<Rightarrow> string) \<Rightarrow> string \<Rightarrow> approval_details \<Rightarrow> int \<Rightarrow> timestamp \<Rightarrow> pending_table \<Rightarrow> pending_table" where
  "set_pending_details to_json txn details ttl now t =
     save_pending_approval_with_team txn (to_json details) (now + ttl)
       (team_column (ad_team_id details)) now t"

section \<open>Waiting for the decision\<close>

text \<open>
  One second passes between two polls, so that the deadline has passed by the poll whose
  number is the timeout; \<open>late k\<close> says that it has passed earlier, after poll \<open>k\<close>. The database
  answers poll \<open>k\<close> with an error or the table (\<open>fst (world k)\<close>), and the statement that follows
  the poll finds the table \<open>snd (world k)\<close>, which other instances may have changed. The result is
  the number of the last poll, the outcome and the table that is left. The dashboard channel
  deletes a decided row, the agent-reflected one keeps it.
\<close>

type_synonym poll_world = "nat \<Rightarrow> (agent_sec_error, pending_table) result \<times> pending_table"

function wait_loop ::
  "bool \<Rightarrow> string \<Rightarrow> nat \<Rightarrow> (nat \<Rightarrow> bool) \<Rightarrow> timestamp \<Rightarrow> poll_world \<Rightarrow> nat
    \<Rightarrow> nat \<times> (agent_sec_error, approval_status) result \<times> pending_table" where
  "wait_loop deletes txn timeout late now world k =
     (let t = snd (world k);
          decided = (if deletes then delete_pending_approval txn t else t);
          again = (if k \<ge> timeout \<or> late k
            then (k, Inl (ApprovalTimeout timeout), snd (resolve_pending_approval txn ''expired'' None now t))
            else wait_loop deletes txn timeout late now world (Suc k))
      in case fst (world k) of
        Inl _ \<Rightarrow> again
      | Inr seen \<Rightarrow>
          (case get_pending_approval_status txn seen of
             None \<Rightarrow> (k, Inl (ApprovalTimeout timeout), t)
           | Some st \<Rightarrow>
               if st = ''approved'' then (k, Inr Approved, decided)
               else if st = ''denied'' then (k, Inr Denied, decided)
               else if st = ''expired'' \<or> st = ''timeout'' then (k, Inr Timeout, t)
               else again))"
  by pat_completeness auto
termination by (relation "measure (\<lambda>(_, _, timeout, _, _, _, k). timeout - k)") auto

declare wait_loop.simps [simp del]

definition wait_for_decision ::
  "channel_kind \<Rightarrow> string \<Rightarrow> nat \<Rightarrow> (nat \<Rightarrow> bool) \<Rightarrow> timestamp \<Rightarrow> poll_world
    \<Rightarrow> nat \<times> (agent_sec_error, approval_status) result \<times> pending_table" where
  "wait_for_decision channel txn timeout late now world =
     wait_loop (channel = Dashboard) txn timeout late now world 0"

text \<open>What one poll decides: \<open>None\<close> goes on.\<close>

definition poll_verdict ::
  "string \<Rightarrow> nat \<Rightarrow> (agent_sec_error, pending_table) result \<Rightarrow> (agent_sec_error, approval_status) result option" where
  "poll_verdict txn timeout answer =
     (case answer of
        Inl _ \<Rightarrow> None
      | Inr seen \<Rightarrow>
          (case get_pending_approval_status txn seen of
             None \<Rightarrow> Some (Inl (ApprovalTimeout timeout))
           | Some st \<Rightarrow>
               if st = ''approved'' then Some (Inr Approved)
               else if st = ''denied'' then Some (Inr Denied)
               else if st = ''expired'' \<or> st = ''timeout'' then Some (Inr Timeout)
               else None))"

lemma wait_loop_verdict:
  "wait_loop deletes txn timeout late now world k =
     (case poll_verdict txn timeout (fst (world k)) of
        Some r \<Rightarrow> (k, r, if deletes \<and> r \<in> {Inr Approved, Inr Denied}
                      then delete_pending_approval txn (snd (world k)) else snd (world k))
      | None \<Rightarrow>
          if k \<ge> timeout \<or> late k
          then (k, Inl (ApprovalTimeout timeout),
                snd (resolve_pending_approval txn ''expired'' None now (snd (world k))))
          else wait_loop deletes txn timeout late now world (Suc k))"
  by (subst wait_loop.simps) (auto simp: poll_verdict_def Let_def split: sum.splits option.splits)

lemma wait_loop_stops:
  assumes "wait_loop deletes txn timeout late now world i = (k, r, t)" and "i \<le> timeout"
  shows "i \<le> k \<and> k \<le> timeout
    \<and> (\<forall>j. i \<le> j \<and> j < k \<longrightarrow> poll_verdict txn timeout (fst (world j)) = None \<and> \<not> late j)
    \<and> (case poll_verdict txn timeout (fst (world k)) of
         Some v \<Rightarrow> r = v
       | None \<Rightarrow> r = Inl (ApprovalTimeout timeout) \<and> (k = timeout \<or> late k))"
  using assms
proof (induction "timeout - i" arbitrary: i rule: less_induct)
  case less
  show ?case
  proof (cases "poll_verdict txn timeout (fst (world i)) = None \<and> \<not> timeout \<le> i \<and> \<not> late i")
    case True
    then have "wait_loop deletes txn timeout late now world (Suc i) = (k, r, t)"
      using less.prems(1) by (subst (asm) wait_loop_verdict) simp
    then have rest: "Suc i \<le> k \<and> k \<le> timeout
      \<and> (\<forall>j. Suc i \<le> j \<and> j < k \<longrightarrow> poll_verdict txn timeout (fst (world j)) = None \<and> \<not> late j)
      \<and> (case poll_verdict txn timeout (fst (world k)) of
           Some v \<Rightarrow> r = v
         | None \<Rightarrow> r = Inl (ApprovalTimeout timeout) \<and> (k = timeout \<or> late k))"
      using True by (intro less.hyps) auto
    have "poll_verdict txn timeout (fst (world j)) = None \<and> \<not> late j" if "i \<le> j" "j < k" for j
      using that rest True by (cases "j = i") auto
    with rest show ?thesis by auto
  next
    case False
    then have "k = i"
      using less.prems(1) by (subst (asm) wait_loop_verdict) (auto split: option.splits if_splits)
    with False less.prems show ?thesis
      by (subst (asm) wait_loop_verdict) (auto split: option.splits if_splits)
  qed
qed

text \<open>C31. Waiting for a decision ends: after at most one poll more than the timeout has seconds, whatever
  the database answers. The outcome is that of the first poll that sees a decided or missing
  row, and a timeout if the deadline passes before; so a request counts as approved only if
  a poll read the status \<open>approved\<close>.\<close>

theorem wait_for_decision_ends:
  "case wait_for_decision channel txn timeout late now world of (k, r, t) \<Rightarrow>
     k \<le> timeout
     \<and> (\<forall>j<k. poll_verdict txn timeout (fst (world j)) = None \<and> \<not> late j)
     \<and> (case poll_verdict txn timeout (fst (world k)) of
          Some v \<Rightarrow> r = v
        | None \<Rightarrow> r = Inl (ApprovalTimeout timeout) \<and> (k = timeout \<or> late k))"
  using wait_loop_stops [of "channel = Dashboard" txn timeout late now world 0]
  by (auto simp: wait_for_decision_def)

definition decided_at :: "nat \<Rightarrow> poll_world" where
  "decided_at n k =
     (let t = [(''r'', new_pending ''{}'' (if k < n then ''pending'' else ''approved'') 0 100)] in (Inr t, t))"

theorem wait_for_decision_ends_witness:
  "fst (wait_for_decision Dashboard ''r'' 5 (\<lambda>_. False) 0 (decided_at 2)) = 2
   \<and> poll_verdict ''r'' 5 (fst (decided_at 2 1)) = None
   \<and> fst (snd (wait_for_decision Dashboard ''r'' 5 (\<lambda>_. False) 0 (decided_at 2))) = Inr Approved"
proof -
  have v: "poll_verdict ''r'' 5 (fst (decided_at 2 k)) = (if k < 2 then None else Some (Inr Approved))" for k
    by (simp add: poll_verdict_def decided_at_def get_pending_approval_status_def new_pending_def Let_def)
  obtain k r t where w: "wait_for_decision Dashboard ''r'' 5 (\<lambda>_. False) 0 (decided_at 2) = (k, r, t)"
    by (metis prod_cases3)
  with wait_for_decision_ends [where channel = Dashboard and txn = "''r''" and timeout = 5 and now = 0
      and late = "\<lambda>_. False" and world = "decided_at 2"]
  have r: "k \<le> 5" "\<forall>j<k. poll_verdict ''r'' 5 (fst (decided_at 2 j)) = None"
    "case poll_verdict ''r'' 5 (fst (decided_at 2 k)) of Some x \<Rightarrow> r = x | None \<Rightarrow> k = 5" by (auto split: option.splits)
  have "k = 2" using r by (cases "k < 2") (auto simp: v not_less le_less)
  with r w v show ?thesis by auto
qed

section \<open>Two consequences\<close>

text \<open>
  The dashboard channel deletes the row it read the decision from, so that the task which
  asks for the approver afterwards finds no one: approvals given in the dashboard are audited
  without the approver.
\<close>

lemma dashboard_forgets_approver:
  assumes "wait_for_decision Dashboard txn timeout late now world = (k, Inr Approved, t)"
  shows "get_pending_approval_resolved_by txn t = None"
proof -
  have "get_pending_approval_resolved_by txn t = None"
    if "wait_loop True txn timeout late now world i = (k, Inr Approved, t)" for i
    using that
  proof (induction "timeout - i" arbitrary: i rule: less_induct)
    case less
    from less.prems less.hyps [of "Suc i"] show ?case
      by (subst (asm) wait_loop_verdict)
        (auto simp: get_pending_approval_resolved_by_def delete_pending_approval_def map_of_delete
          split: option.splits if_splits)
  qed
  with assms show ?thesis by (simp add: wait_for_decision_def)
qed

text \<open>
  An end-user's request is written twice: \<open>set_pending_details\<close> writes the row without the
  end-user, and the channel adds him to it afterwards. An approval by the team between the
  two writes stands.
\<close>

lemma unreserved_before_channel:
  assumes "map_of t txn = None"
  shows "case resolve_pending_approval txn ''approved'' who now
           (set_pending_details to_json txn d ttl now t) of (ok, t') \<Rightarrow>
    ok \<and> get_pending_approval_status txn
            (save_pending_approval_scoped txn j e team (Some eu) now t') = Some ''approved''"
  using assms
  by (simp add: set_pending_details_def save_pending_approval_with_team_def save_pending_approval_scoped_def
      resolve_pending_approval_def get_pending_approval_status_def new_pending_def update_conv')

end
