(* ===== verification/Telegram_Channel.thy ===== *)
theory Telegram_Channel
  imports Matrix_Channel Inbox_Channels
begin

text \<open>
  The Telegram approval channel (\<open>tap-bot/src/telegram.rs\<close>): the message and its buttons, the
  callbacks of the buttons with the check of the approver and the count of approvals, the grant
  button, the waiter with its three wake-ups, and the text commands of the operator. The hash
  maps of \<open>TelegramChannel\<close> are maps of one process; \<open>tp_alive\<close> says that the receiver of a waiting
  request is still there and \<open>tc_delivered\<close> records what was sent to it. Calls to Telegram are
  not modelled beyond the answer to \<open>sendMessage\<close>.
\<close>

section \<open>State\<close>

record telegram_pending =
  tp_alive :: bool
  tp_allowed_approvers :: "string list"
  tp_sent_message :: "(string \<times> int) option"
  tp_approval_count :: nat
  tp_min_approvals :: nat

record telegram_channel =
  tc_chat_id :: string
  tc_pending :: "string \<rightharpoonup> telegram_pending"
  tc_receivers :: "string list"
  tc_delivered :: "(string \<times> approval_status) list"
  tc_trusted_sessions :: "(string \<times> string) list"
  tc_store :: "pending_table option"
  tc_grants :: grant_store

text \<open>Which calls to the database fail or time out.\<close>

record tc_faults =
  tf_resolve :: bool
  tf_details :: bool
  tf_member :: bool
  tf_min :: bool
  tf_message :: bool

definition tg_register_pending :: "string \<Rightarrow> telegram_channel \<Rightarrow> telegram_channel" where
  "tg_register_pending rid c =
     c\<lparr>tc_pending := (tc_pending c)(rid \<mapsto>
         \<lparr>tp_alive = True, tp_allowed_approvers = [], tp_sent_message = None, tp_approval_count = 0,
          tp_min_approvals = 1\<rparr>),
       tc_receivers := List.insert rid (tc_receivers c)\<rparr>"

section \<open>The message\<close>

text \<open>The crates that the text of a message uses.\<close>

record text_crates =
  b64_decode :: "string \<Rightarrow> bytes option"
  to_string_pretty :: "json \<Rightarrow> string"

definition escape_html :: "string \<Rightarrow> string" where
  "escape_html s =
     replace (replace (replace (replace s ''&'' ''&amp;'') ''<'' ''&lt;'') ''>'' ''&gt;'') [CHR 0x22] ''&quot;''"

definition is_ascii_alphanumeric :: "char \<Rightarrow> bool" where
  "is_ascii_alphanumeric c \<longleftrightarrow> of_char c \<in> {48..57::nat} \<union> {65..90} \<union> {97..122}"

definition base64_char :: "char \<Rightarrow> bool" where
  "base64_char c \<longleftrightarrow> is_ascii_alphanumeric c \<or> c \<in> {CHR ''+'', CHR ''/'', CHR ''='', CHR ''-'', CHR ''_'', CHR 0x0A, CHR 0x0D}"

text \<open>No control character but line breaks and tabs; the last case is U+0080 to U+009F.\<close>

fun readable :: "string \<Rightarrow> bool" where
  "readable [] = True"
| "readable (c # cs) =
     ((of_char c < (32::nat) \<or> c = CHR 0x7F \<longrightarrow> c \<in> {CHR 0x0A, CHR 0x0D, CHR 0x09})
      \<and> \<not> (c = CHR 0xC2 \<and> cs \<noteq> [] \<and> of_char (hd cs) \<in> {128..159::nat})
      \<and> readable cs)"

definition decode_text :: "text_crates \<Rightarrow> string \<Rightarrow> string" where
  "decode_text D s =
     (if length s > 40 \<and> list_all base64_char s
      then (case b64_decode D s of
              Some b \<Rightarrow> if utf8_valid b \<and> readable b then b else s
            | None \<Rightarrow> s)
      else s)"

fun decode_value :: "text_crates \<Rightarrow> json \<Rightarrow> json" where
  "decode_value D (JString s) = JString (decode_text D s)"
| "decode_value D (JObject m) = JObject (map (\<lambda>(k, v). (k, decode_value D v)) m)"
| "decode_value D (JArray vs) = JArray (map (decode_value D) vs)"
| "decode_value D v = v"

definition decode_base64_fields :: "externals \<Rightarrow> text_crates \<Rightarrow> string \<Rightarrow> string" where
  "decode_base64_fields X D body =
     (case json_parse X body of None \<Rightarrow> body | Some v \<Rightarrow> to_string_pretty D (decode_value D v))"

fun debug_method :: "http_method \<Rightarrow> string" where
  "debug_method Get = ''Get''"
| "debug_method Post = ''Post''"
| "debug_method Put = ''Put''"
| "debug_method Delete = ''Delete''"
| "debug_method Patch = ''Patch''"
| "debug_method Head = ''Head''"
| "debug_method Options = ''Options''"

definition line_break :: string where
  "line_break = [CHR 0x0A]"

definition message_field :: "string \<Rightarrow> string \<Rightarrow> string" where
  "message_field label v = ''<b>'' @ label @ '':</b> '' @ v @ line_break"

text \<open>\<open>None\<close> is the panic of a cut inside a character.\<close>

definition message_body :: "externals \<Rightarrow> text_crates \<Rightarrow> bytes option \<Rightarrow> string option" where
  "message_body X D body =
     (case body of
        None \<Rightarrow> Some []
      | Some b \<Rightarrow>
          if \<not> utf8_valid b then Some []
          else (let shown = decode_base64_fields X D b in
                map_option (\<lambda>t. line_break @ ''<b>Body:</b>'' @ line_break @ ''<pre>'' @ escape_html t @ ''</pre>'')
                  (if length shown > 1500 then map_option (\<lambda>t. t @ ''...'') (slice_to 1500 shown)
                   else Some shown)))"

definition tg_format_message ::
  "externals \<Rightarrow> text_crates \<Rightarrow> (proxy_request \<Rightarrow> string option) \<Rightarrow> proxy_request \<Rightarrow> string \<Rightarrow> string option" where
  "tg_format_message X D summarize req desc =
     map_option (\<lambda>body.
         ''<b>'' @ [CHR 0xF0, CHR 0x9F, CHR 0x94, CHR 0x91] @ '' Approval Request</b>'' @ line_break @ line_break
         @ (case summarize req of None \<Rightarrow> [] | Some s \<Rightarrow> message_field ''Action'' (escape_html s))
         @ message_field ''Agent'' (escape_html (pr_agent_id req))
         @ concat (map (\<lambda>p. message_field ''Credential'' (escape_html (ph_credential_name p))) (pr_placeholders req))
         @ message_field ''Description'' (escape_html desc)
         @ message_field ''Method'' (debug_method (pr_method req))
         @ message_field ''Target'' (escape_html (pr_target_url req))
         @ body)
       (message_body X D (pr_body req))"

datatype button = UrlButton string | CallbackButton string

definition inline_keyboard :: "string \<Rightarrow> string option \<Rightarrow> bool \<Rightarrow> button list list" where
  "inline_keyboard rid passkey_url offer_grant =
     (case passkey_url of
        Some url \<Rightarrow> [[UrlButton url, CallbackButton (''deny:'' @ rid)]]
      | None \<Rightarrow> [CallbackButton (''approve:'' @ rid), CallbackButton (''deny:'' @ rid)]
          # (if offer_grant then [[CallbackButton (''grant:'' @ rid)]] else []))"

text \<open>
  \<open>sent\<close> is the answer of the API: an error, or the identifier of the message, if the answer had one.
\<close>

definition send_telegram_message ::
  "string \<Rightarrow> string option \<Rightarrow> (agent_sec_error, int option) result \<Rightarrow> bool \<Rightarrow> timestamp \<Rightarrow> telegram_channel
    \<Rightarrow> (agent_sec_error, unit) result \<times> telegram_channel" where
  "send_telegram_message rid target_chat sent store_fails now c =
     (case sent of
        Inl e \<Rightarrow> (Inl e, c)
      | Inr None \<Rightarrow> (Inr (), c)
      | Inr (Some m) \<Rightarrow>
          let chat = or_else target_chat (tc_chat_id c);
              c1 = c\<lparr>tc_pending := (tc_pending c)(rid := map_option (\<lambda>p. p\<lparr>tp_sent_message := Some (chat, m)\<rparr>)
                       (tc_pending c rid))\<rparr>
          in (Inr (), if store_fails then c1
                      else c1\<lparr>tc_store := map_option (set_pending_approval_telegram_message rid chat m now) (tc_store c1)\<rparr>))"

definition offers_grant :: "externals \<Rightarrow> proxy_request \<Rightarrow> approval_context \<Rightarrow> telegram_channel \<Rightarrow> bool" where
  "offers_grant X req ctx c \<longleftrightarrow>
     tc_store c \<noteq> None \<and> \<not> ctx_require_passkey ctx \<and> ctx_end_user_id ctx = None
     \<and> or_else (ctx_team_id ctx) [] \<noteq> [] \<and> ctx_credential_name ctx \<noteq> []
     \<and> \<not> starts_with (ctx_credential_name ctx) ''eu:'' \<and> routing_min (ctx_routing ctx) \<le> 1
     \<and> scope_from_target X (pr_target_url req) \<noteq> None"

definition apply_routing :: "approval_routing option \<Rightarrow> telegram_pending \<Rightarrow> telegram_pending" where
  "apply_routing routing p =
     (case routing of
        None \<Rightarrow> p
      | Some r \<Rightarrow>
          p\<lparr>tp_allowed_approvers := (if ar_allowed_approvers r \<noteq> [] then ar_allowed_approvers r
              else tp_allowed_approvers p),
            tp_min_approvals := (if routing_min routing > 1 then routing_min routing else tp_min_approvals p)\<rparr>)"

text \<open>The result also has the buttons; \<open>None\<close> is the panic of the message.\<close>

definition tg_send_approval_request ::
  "externals \<Rightarrow> text_crates \<Rightarrow> (proxy_request \<Rightarrow> string option) \<Rightarrow> (agent_sec_error, int option) result \<Rightarrow> bool
    \<Rightarrow> proxy_request \<Rightarrow> string \<Rightarrow> approval_context \<Rightarrow> timestamp \<Rightarrow> telegram_channel
    \<Rightarrow> ((agent_sec_error, string \<times> button list list) result \<times> telegram_channel) option" where
  "tg_send_approval_request X D summarize sent store_fails req desc ctx now c =
     (let rid = pr_id req;
          c1 = tg_register_pending rid c;
          c2 = c1\<lparr>tc_pending := (tc_pending c1)(rid := map_option (apply_routing (ctx_routing ctx)) (tc_pending c1 rid))\<rparr>;
          chat = Option.bind (Option.bind (ctx_routing ctx) ar_telegram) (\<lambda>t. t);
          passkey_url = (if ctx_require_passkey ctx then ctx_approval_url ctx else None)
      in case tg_format_message X D summarize req desc of
        None \<Rightarrow> None
      | Some text \<Rightarrow>
          Some (case send_telegram_message rid chat sent store_fails now c2 of
             (Inl e, c3) \<Rightarrow> (Inl e, c3\<lparr>tc_pending := (tc_pending c3)(rid := None),
                                      tc_receivers := removeAll rid (tc_receivers c3)\<rparr>)
           | (Inr _, c3) \<Rightarrow> (Inr (rid, inline_keyboard rid passkey_url (offers_grant X req ctx c)), c3)))"

section \<open>Decisions\<close>

definition tg_signal :: "string \<Rightarrow> approval_status \<Rightarrow> telegram_channel \<Rightarrow> bool \<times> telegram_channel" where
  "tg_signal rid status c =
     (case tc_pending c rid of
        None \<Rightarrow> (False, c)
      | Some p \<Rightarrow> (tp_alive p, c\<lparr>tc_pending := (tc_pending c)(rid := None),
          tc_delivered := tc_delivered c @ (if tp_alive p then [(rid, status)] else [])\<rparr>))"

definition tg_resolve_approval_as ::
  "tc_faults \<Rightarrow> string \<Rightarrow> approval_status \<Rightarrow> string option \<Rightarrow> timestamp \<Rightarrow> telegram_channel
    \<Rightarrow> bool \<times> telegram_channel" where
  "tg_resolve_approval_as F rid status who now c =
     (let (tx_sent, c1) = tg_signal rid status c in
      case tc_store c1 of
        None \<Rightarrow> (tx_sent, c1)
      | Some t \<Rightarrow>
          if tf_resolve F then (tx_sent, c1)
          else (let (b, t') = resolve_pending_approval rid (status_str status) who now t
                in (tx_sent \<or> b, c1\<lparr>tc_store := Some t'\<rparr>)))"

definition tg_resolve_approval ::
  "tc_faults \<Rightarrow> string \<Rightarrow> approval_status \<Rightarrow> timestamp \<Rightarrow> telegram_channel \<Rightarrow> bool \<times> telegram_channel" where
  "tg_resolve_approval F rid status now c = tg_resolve_approval_as F rid status None now c"

definition tg_claim_approval_for_grant ::
  "tc_faults \<Rightarrow> string \<Rightarrow> string \<Rightarrow> pending_table \<Rightarrow> telegram_channel \<Rightarrow> bool \<times> telegram_channel" where
  "tg_claim_approval_for_grant F rid who t c =
     (if tf_resolve F then (False, c)
      else case claim_pending_approval_for_grant rid (Some who) t of
        (True, t') \<Rightarrow> (True, snd (tg_signal rid Approved (c\<lparr>tc_store := Some t'\<rparr>)))
      | (False, t') \<Rightarrow> (False, c\<lparr>tc_store := Some t'\<rparr>))"

definition sent_message_for_request ::
  "tc_faults \<Rightarrow> string \<Rightarrow> telegram_channel \<Rightarrow> (string \<times> int) option" where
  "sent_message_for_request F rid c =
     (case Option.bind (tc_pending c rid) tp_sent_message of
        Some m \<Rightarrow> Some m
      | None \<Rightarrow>
          if tf_message F then None else Option.bind (tc_store c) (get_pending_approval_telegram_message rid))"

definition tg_cleanup_pending_request :: "string \<Rightarrow> telegram_channel \<Rightarrow> telegram_channel" where
  "tg_cleanup_pending_request rid c =
     c\<lparr>tc_pending := (tc_pending c)(rid := None), tc_receivers := removeAll rid (tc_receivers c)\<rparr>"

definition tg_persist_resolution ::
  "tc_faults \<Rightarrow> string \<Rightarrow> approval_status \<Rightarrow> timestamp \<Rightarrow> telegram_channel
    \<Rightarrow> (agent_sec_error, bool) result \<times> telegram_channel" where
  "tg_persist_resolution F rid status now c =
     (case tc_store c of
        None \<Rightarrow> (Inr False, c)
      | Some t \<Rightarrow>
          if tf_resolve F then (Inl (Internal ''Timed out persisting Telegram approval resolution''), c)
          else (let (b, t') = resolve_pending_approval rid (status_str status) None now t
                in (Inr b, c\<lparr>tc_store := Some t'\<rparr>)))"

definition tg_persisted_decision :: "bool \<Rightarrow> string \<Rightarrow> pending_table \<Rightarrow> approval_status option" where
  "tg_persisted_decision fails rid t =
     (if fails then None
      else case get_pending_approval_status rid t of
        None \<Rightarrow> None
      | Some st \<Rightarrow>
          if st = ''approved'' then Some Approved
          else if st = ''denied'' then Some Denied
          else if st \<in> set [''expired'', ''timed_out'', ''timeout''] then Some Timeout
          else None)"

definition trust_session :: "string \<Rightarrow> string \<Rightarrow> telegram_channel \<Rightarrow> telegram_channel" where
  "trust_session agent cred c = c\<lparr>tc_trusted_sessions := List.insert (agent, cred) (tc_trusted_sessions c)\<rparr>"

definition should_auto_trust :: "string \<Rightarrow> string \<Rightarrow> telegram_channel \<Rightarrow> bool" where
  "should_auto_trust agent cred c \<longleftrightarrow> (agent, cred) \<in> set (tc_trusted_sessions c)"

definition is_pending :: "string \<Rightarrow> telegram_channel \<Rightarrow> bool" where
  "is_pending rid c \<longleftrightarrow> tc_pending c rid \<noteq> None"

section \<open>The grant button\<close>

text \<open>\<open>link\<close> maps a team and a linked Telegram account to the member's email and role.\<close>

definition handle_grant_callback ::
  "tc_faults \<Rightarrow> externals \<Rightarrow> (string \<Rightarrow> string \<Rightarrow> (string \<times> string) option) \<Rightarrow> string \<Rightarrow> timestamp
    \<Rightarrow> string \<Rightarrow> string option \<Rightarrow> telegram_channel \<Rightarrow> grant_outcome \<times> telegram_channel" where
  "handle_grant_callback F X link new_id now rid user c =
     (case tc_store c of
        None \<Rightarrow> (NoDatabase, c)
      | Some t \<Rightarrow>
          (case user of
             None \<Rightarrow> (UnknownReactor, c)
           | Some uid \<Rightarrow>
               if (case tc_pending c rid of
                     Some p \<Rightarrow> tp_min_approvals p > 1
                   | None \<Rightarrow>
                       if tf_min F then False
                       else (case get_pending_approval_min_approvals rid t of None \<Rightarrow> False | Some m \<Rightarrow> m > 1))
               then (NeedsMultiple, c)
               else if tf_details F then (DetailsUnavailable, c)
               else (case get_pending_approval_details rid now t of
                   None \<Rightarrow> (NoLongerPending, c)
                 | Some details_json \<Rightarrow>
                     let d = json_parse X details_json;
                         team = json_field d ''team_id''; cred = json_field d ''credential_name'';
                         method = json_field d ''method''; target = json_field d ''target_url''
                     in if team = [] \<or> cred = [] \<or> method = [] \<or> target = []
                        then (NotEnoughDetail, c)
                        else if tf_member F then (RoleUnavailable, c)
                        else (case link team uid of
                            None \<Rightarrow> (NotLinked, c)
                          | Some (email, role) \<Rightarrow>
                              if role \<noteq> ''owner'' \<and> role \<noteq> ''admin'' then (OnlyOwnersAdmins, c)
                              else (case tg_claim_approval_for_grant F rid uid t c of
                                  (False, c') \<Rightarrow> (NotRecorded, c')
                                | (True, c') \<Rightarrow>
                                    (case create_grant_for_request X new_id team cred method target
                                            email grant_default_ttl_minutes None now (tc_grants c') of
                                       Inr (g, gs) \<Rightarrow> (ApprovedWithGrant g, c'\<lparr>tc_grants := gs\<rparr>)
                                     | Inl e \<Rightarrow> (ApprovedWithoutGrant e, c'))))))) "

section \<open>Callbacks\<close>

datatype callback_outcome =
    CallbackNotAuthorised
  | GrantCallback grant_outcome
  | PartialApproval nat nat
  | CallbackNotRecorded
  | CallbackProcessed approval_status

definition callback_status :: "string \<Rightarrow> approval_status option" where
  "callback_status action =
     (if action = ''approve'' \<or> action = ''grant'' then Some Approved
      else if action = ''deny'' then Some Denied
      else None)"

definition tg_count_approval :: "string \<Rightarrow> telegram_channel \<Rightarrow> (nat \<times> nat) option \<times> telegram_channel" where
  "tg_count_approval rid c =
     (case tc_pending c rid of
        None \<Rightarrow> (None, c)
      | Some p \<Rightarrow>
          if tp_min_approvals p > 1
          then (let p' = p\<lparr>tp_approval_count := tp_approval_count p + 1\<rparr>
                in (if tp_approval_count p' < tp_min_approvals p'
                    then Some (tp_approval_count p', tp_min_approvals p') else None,
                    c\<lparr>tc_pending := (tc_pending c)(rid \<mapsto> p')\<rparr>))
          else (None, c))"

definition handle_callback ::
  "tc_faults \<Rightarrow> externals \<Rightarrow> (string \<Rightarrow> string \<Rightarrow> (string \<times> string) option) \<Rightarrow> string \<Rightarrow> timestamp
    \<Rightarrow> string \<Rightarrow> string option \<Rightarrow> telegram_channel
    \<Rightarrow> (agent_sec_error, callback_outcome) result \<times> telegram_channel" where
  "handle_callback F X link new_id now data user c =
     (case split_once CHR '':'' data of
        None \<Rightarrow> (Inl (Internal ''Invalid callback data format''), c)
      | Some (action, rid) \<Rightarrow>
          (case callback_status action of
             None \<Rightarrow> (Inl (Internal (''Unknown callback action: '' @ action)), c)
           | Some status \<Rightarrow>
               if (case (user, tc_pending c rid) of
                     (Some uid, Some p) \<Rightarrow> tp_allowed_approvers p \<noteq> [] \<and> uid \<notin> set (tp_allowed_approvers p)
                   | _ \<Rightarrow> False)
               then (Inr CallbackNotAuthorised, c)
               else if action = ''grant'' then
                 (case handle_grant_callback F X link new_id now rid user c of
                    (g, c') \<Rightarrow> (Inr (GrantCallback g), c'))
               else
                 (case (if status = Approved then tg_count_approval rid c else (None, c)) of
                    (Some (n, m), c1) \<Rightarrow> (Inr (PartialApproval n m), c1)
                  | (None, c1) \<Rightarrow>
                      (case tg_resolve_approval_as F rid status user now c1 of
                         (True, c2) \<Rightarrow> (Inr (CallbackProcessed status), c2)
                       | (False, c2) \<Rightarrow> (Inr CallbackNotRecorded, c2)))))"

section \<open>Waiting\<close>

text \<open>
  What wakes the waiter up: its receiver (\<open>None\<close> when the sender is gone), the poll of the database once a
  second, and the deadline. The list is the order in which \<open>select!\<close> takes them. The
  result is \<open>None\<close> while it still waits.
\<close>

datatype wake_up = Received "approval_status option" | Polled bool pending_table | Deadline

fun tg_wait_loop ::
  "tc_faults \<Rightarrow> string \<Rightarrow> nat \<Rightarrow> timestamp \<Rightarrow> wake_up list \<Rightarrow> telegram_channel
    \<Rightarrow> (agent_sec_error, approval_status) result option \<times> telegram_channel" where
  "tg_wait_loop F rid timeout now [] c = (None, c)"
| "tg_wait_loop F rid timeout now (Received (Some st) # ws) c = (Some (Inr st), c)"
| "tg_wait_loop F rid timeout now (Received None # ws) c = (Some (Inl (Internal ''Approval sender dropped'')), c)"
| "tg_wait_loop F rid timeout now (Polled fails t # ws) c =
     (case (if tc_store c = None then None else tg_persisted_decision fails rid t) of
        Some st \<Rightarrow> (Some (Inr st), tg_cleanup_pending_request rid c)
      | None \<Rightarrow> tg_wait_loop F rid timeout now ws c)"
| "tg_wait_loop F rid timeout now (Deadline # ws) c =
     (Some (Inl (ApprovalTimeout timeout)),
      tg_cleanup_pending_request rid (if tc_store c = None then c else snd (tg_persist_resolution F rid Timeout now c)))"

definition tg_wait_for_decision ::
  "tc_faults \<Rightarrow> string \<Rightarrow> nat \<Rightarrow> timestamp \<Rightarrow> wake_up list \<Rightarrow> telegram_channel
    \<Rightarrow> (agent_sec_error, approval_status) result option \<times> telegram_channel" where
  "tg_wait_for_decision F rid timeout now ws c =
     (if rid \<notin> set (tc_receivers c) then (Some (Inl (Internal (''No pending receiver for request '' @ rid))), c)
      else tg_wait_loop F rid timeout now ws (c\<lparr>tc_receivers := removeAll rid (tc_receivers c)\<rparr>))"

section \<open>Commands of the operator\<close>

text \<open>The table \<open>whitelist\<close>: an email, a tier and when the row was written.\<close>

type_synonym whitelist = "(string \<times> string \<times> timestamp) list"

definition add_to_whitelist :: "string \<Rightarrow> string \<Rightarrow> timestamp \<Rightarrow> whitelist \<Rightarrow> whitelist" where
  "add_to_whitelist email tier now w = AList.update email (tier, now) w"

definition remove_from_whitelist :: "string \<Rightarrow> whitelist \<Rightarrow> whitelist" where
  "remove_from_whitelist email w = AList.delete email w"

definition get_whitelist_entry :: "string \<Rightarrow> whitelist \<Rightarrow> (string \<times> string) option" where
  "get_whitelist_entry email w = map_option (\<lambda>(tier, _). (email, tier)) (map_of w email)"

definition list_whitelist :: "whitelist \<Rightarrow> (string \<times> string) list" where
  "list_whitelist w = map (\<lambda>(e, tier, _). (e, tier)) (rev (sort_key (\<lambda>(_, _, t). t) w))"

datatype command_reply =
    Whitelisted string | InvalidEmail | Unwhitelisted string | WhitelistEntries "(string \<times> string) list" | NoReply

definition handle_text_command :: "string \<Rightarrow> timestamp \<Rightarrow> whitelist \<Rightarrow> command_reply \<times> whitelist" where
  "handle_text_command text now w =
     (case strip_prefix text ''/whitelist '' of
        Some rest \<Rightarrow>
          let email = to_lowercase (trim rest) in
          if contains email ''@'' \<and> contains email ''.''
          then (Whitelisted email, add_to_whitelist email ''pro'' now w)
          else (InvalidEmail, w)
      | None \<Rightarrow>
          (case strip_prefix text ''/unwhitelist '' of
             Some rest \<Rightarrow>
               let email = to_lowercase (trim rest) in (Unwhitelisted email, remove_from_whitelist email w)
           | None \<Rightarrow>
               if trim text = ''/whitelist'' then (WhitelistEntries (list_whitelist w), w) else (NoReply, w)))"

text \<open>Which chats and users may give commands; a chat that does not parse is chat 0.\<close>

definition command_allowed :: "int option \<Rightarrow> int option \<Rightarrow> int option \<Rightarrow> int option \<Rightarrow> bool" where
  "command_allowed configured_chat allowed_user chat user \<longleftrightarrow>
     chat = Some (or_else configured_chat 0) \<or> allowed_user \<noteq> None \<and> user = allowed_user"

definition poll_message ::
  "int option \<Rightarrow> int option \<Rightarrow> int option \<Rightarrow> int option \<Rightarrow> string \<Rightarrow> timestamp \<Rightarrow> whitelist
    \<Rightarrow> command_reply \<times> whitelist" where
  "poll_message configured_chat allowed_user chat user text now w =
     (if command_allowed configured_chat allowed_user chat user then handle_text_command text now w else (NoReply, w))"

section \<open>The text of a message\<close>

lemma replace_char: "replace s [a] t = concat (map (\<lambda>c. if c = a then t else [c]) s)"
  by (induction s) (auto simp: replace.simps)

text \<open>Whatever an agent puts into its request, it cannot open or close a tag of the message.\<close>

lemma escape_html_inert:
  "CHR ''<'' \<notin> set (escape_html s) \<and> CHR ''>'' \<notin> set (escape_html s) \<and> CHR 0x22 \<notin> set (escape_html s)"
  by (auto simp: escape_html_def replace_char split: if_splits)

text \<open>A body longer than 1500 bytes whose byte 1500 is inside a character stops the request with a panic.\<close>

lemma long_body_panics:
  assumes "utf8_valid b" and "length (decode_base64_fields X D b) > 1500"
    and "\<not> char_boundary 1500 (decode_base64_fields X D b)" and "pr_body req = Some b"
  shows "tg_send_approval_request X D summarize sent fails req desc ctx now c = None"
  using assms by (simp add: tg_send_approval_request_def tg_format_message_def message_body_def slice_to_def Let_def)

section \<open>Votes\<close>

definition tg_vote ::
  "tc_faults \<Rightarrow> externals \<Rightarrow> (string \<Rightarrow> string \<Rightarrow> (string \<times> string) option) \<Rightarrow> timestamp \<Rightarrow> string
    \<Rightarrow> string option \<Rightarrow> telegram_channel \<Rightarrow> telegram_channel" where
  "tg_vote F X link now rid user c = snd (handle_callback F X link [] now (''approve:'' @ rid) user c)"

lemma split_once_action [simp]:
  "split_once CHR '':'' (''approve:'' @ rid) = Some (''approve'', rid)"
  "split_once CHR '':'' (''deny:'' @ rid) = Some (''deny'', rid)"
  "split_once CHR '':'' (''grant:'' @ rid) = Some (''grant'', rid)"
  by simp_all

definition tg_refused :: "string \<Rightarrow> string \<Rightarrow> telegram_channel \<Rightarrow> bool" where
  "tg_refused rid uid c =
     (case tc_pending c rid of
        None \<Rightarrow> False | Some p \<Rightarrow> tp_allowed_approvers p \<noteq> [] \<and> uid \<notin> set (tp_allowed_approvers p))"

lemma tg_refused_inert:
  assumes "tg_refused rid uid c" and "split_once CHR '':'' data = Some (action, rid)"
  shows "snd (handle_callback F X link new_id now data (Some uid) c) = c"
  using assms by (auto simp: handle_callback_def tg_refused_def split: option.splits)

interpretation telegram_votes: vote_counting "tg_vote F X link now rid"
  "\<lambda>k c. \<exists>p. tc_pending c rid = Some p \<and> tp_approval_count p = k \<and> tp_min_approvals p = n"
  "\<lambda>c. (tc_delivered c, tc_store c)" n for F X link now rid n
  by unfold_locales
    (auto simp: tg_vote_def handle_callback_def callback_status_def tg_count_approval_def Let_def
      split: option.splits if_splits)

text \<open>C34. In the process that sent a request which needs \<open>n\<close> approvals, fewer than \<open>n\<close> clicks on \<open>Approve\<close>, by
  whomever, send no decision to the waiting request and write none to the database; and a
  click by a user who is not among its approvers changes nothing, whatever the button.\<close>

theorem fewer_clicks_decide_nothing:
  assumes "tc_pending c rid = Some p" and "tp_approval_count p = 0" and "tp_min_approvals p = n"
    and "length users < n"
  shows "tc_delivered (fold (tg_vote F X link now rid) users c) = tc_delivered c
    \<and> tc_store (fold (tg_vote F X link now rid) users c) = tc_store c
    \<and> (tg_refused rid uid c \<and> split_once CHR '':'' data = Some (action, rid)
        \<longrightarrow> snd (handle_callback F X link new_id now data (Some uid) c) = c)"
  using telegram_votes.below_threshold [where k = 0 and c = c and us = users and rid = rid
      and F = F and X = X and link = link and now = now, of n] assms tg_refused_inert by auto

definition tg_two_of_n :: telegram_channel where
  "tg_two_of_n =
     \<lparr>tc_chat_id = ''-1'',
      tc_pending = [''r1'' \<mapsto> \<lparr>tp_alive = True, tp_allowed_approvers = [''7'', ''8''], tp_sent_message = None,
        tp_approval_count = 0, tp_min_approvals = 2\<rparr>],
      tc_receivers = [''r1''], tc_delivered = [], tc_trusted_sessions = [],
      tc_store = Some [(''r1'', new_pending ''{}'' ''pending'' 0 1200)], tc_grants = sample_grant_store\<rparr>"

definition no_tc_faults :: tc_faults where
  "no_tc_faults = \<lparr>tf_resolve = False, tf_details = False, tf_member = False, tf_min = False, tf_message = False\<rparr>"

theorem fewer_clicks_decide_nothing_witness:
  "tc_delivered (fold (tg_vote no_tc_faults sample_externals no_members 1 ''r1'') [Some ''7''] tg_two_of_n) = []
   \<and> snd (handle_callback no_tc_faults sample_externals no_members [] 1 ''deny:r1'' (Some ''9'') tg_two_of_n)
       = tg_two_of_n"
proof -
  let ?p = "the (tc_pending tg_two_of_n ''r1'')"
  have "tc_pending tg_two_of_n ''r1'' = Some ?p" "tp_approval_count ?p = 0" "tp_min_approvals ?p = 2"
    "length [Some ''7''] < 2" "tg_refused ''r1'' ''9'' tg_two_of_n"
    "split_once CHR '':'' ''deny:r1'' = Some (''deny'', ''r1'')"
    using split_once_action(2) [of "''r1''"] by (simp_all add: tg_two_of_n_def tg_refused_def)
  with fewer_clicks_decide_nothing [OF this(1-4), of no_tc_faults sample_externals no_members 1 "''9''"
      "''deny:r1''" "''deny''" "[]"]
  show ?thesis by (simp add: tg_two_of_n_def)
qed

section \<open>What the checks miss\<close>

text \<open>
  The approvers and the threshold are only known to the process that sent the request. Any other
  process that gets the callback, and the same one after a restart, lets everyone decide it with
  one click.
\<close>

lemma other_process_skips_checks:
  assumes "tc_pending c rid = None" and "tc_store c = Some t" and "map_of t rid = Some row"
    and "pa_status row = ''pending''" and "pa_required_end_user row = None" and "\<not> tf_resolve F"
  shows "\<exists>c' t'. handle_callback F X link new_id now (''approve:'' @ rid) (Some uid) c
      = (Inr (CallbackProcessed Approved), c') \<and> tc_store c' = Some t'
    \<and> map_option pa_status (map_of t' rid) = Some ''approved''"
  using assms
  by (auto simp: handle_callback_def callback_status_def tg_count_approval_def tg_resolve_approval_as_def
      tg_signal_def resolve_pending_approval_def AList.update_conv')

text \<open>
  The grant button falls back to the threshold of the row, but the channel never writes one there:
  the row that \<open>sendMessage\<close> leaves has the default of one approval.
\<close>

lemma threshold_not_persisted:
  assumes "send_telegram_message rid chat (Inr (Some m)) False now c = (Inr (), c')" and "tc_store c = Some t"
    and "map_of t rid = None"
  shows "\<exists>t'. tc_store c' = Some t' \<and> get_pending_approval_min_approvals rid t' = Some 1"
  using assms
  by (auto simp: send_telegram_message_def set_pending_approval_telegram_message_def
      get_pending_approval_min_approvals_def new_pending_def Let_def AList.update_conv')

text \<open>
  A message that requires a passkey has no \<open>Approve\<close> callback among its buttons, but the handler does
  not check that the data of a callback came from one of them: the request is approved without
  the passkey.
\<close>

lemma callback_bypasses_passkey:
  assumes "tc_pending c rid = Some p" and "tp_alive p" and "tp_min_approvals p = 1"
    and "tp_allowed_approvers p = [] \<or> uid \<in> set (tp_allowed_approvers p)"
  shows "list_all (\<lambda>row. CallbackButton (''approve:'' @ rid) \<notin> set row) (inline_keyboard rid (Some url) offer)
    \<and> (\<exists>c'. handle_callback F X link new_id now (''approve:'' @ rid) (Some uid) c
        = (Inr (CallbackProcessed Approved), c') \<and> tc_delivered c' = tc_delivered c @ [(rid, Approved)])"
  using assms
  by (auto simp: inline_keyboard_def handle_callback_def callback_status_def tg_count_approval_def
      tg_resolve_approval_as_def tg_signal_def Let_def split: option.splits prod.splits)

text \<open>The waiting request is woken before the database is asked, and whatever that says.\<close>

lemma tg_refused_approval_still_delivered:
  assumes "tc_pending c rid = Some p" and "tp_alive p"
  shows "tc_delivered (snd (tg_resolve_approval_as F rid st who now c)) = tc_delivered c @ [(rid, st)]"
  using assms by (auto simp: tg_resolve_approval_as_def tg_signal_def Let_def split: option.splits prod.splits)

section \<open>The waiter\<close>

text \<open>C35. A request that waits for Telegram counts as approved only if its receiver got an approval or a poll
  read the status \<open>approved\<close>, before any deadline; and once the deadline is among the wake-ups
  it has an outcome.\<close>

theorem telegram_wait_sound:
  "(fst (tg_wait_for_decision F rid timeout now ws c) = Some (Inr Approved) \<longrightarrow>
      (\<exists>us w vs. ws = us @ w # vs \<and> Deadline \<notin> set us
        \<and> (w = Received (Some Approved)
           \<or> (\<exists>t. w = Polled False t \<and> get_pending_approval_status rid t = Some ''approved''))))
   \<and> (Deadline \<in> set ws \<longrightarrow> fst (tg_wait_for_decision F rid timeout now ws c) \<noteq> None)"
proof -
  have a: "\<exists>us w vs. ws = us @ w # vs \<and> Deadline \<notin> set us
      \<and> (w = Received (Some Approved) \<or> (\<exists>t. w = Polled False t \<and> get_pending_approval_status rid t = Some ''approved''))"
    if "fst (tg_wait_loop F rid timeout now ws d) = Some (Inr Approved)" for d
    using that
  proof (induction F rid timeout now ws d rule: tg_wait_loop.induct)
    case (2 F rid timeout now st ws d)
    then show ?case by (intro exI [of _ "[]"]) simp
  next
    case (4 F rid timeout now fails t ws d)
    show ?case
    proof (cases "if tc_store d = None then None else tg_persisted_decision fails rid t")
      case None
      with 4 obtain us w vs where "ws = us @ w # vs" "Deadline \<notin> set us"
        "w = Received (Some Approved) \<or> (\<exists>t. w = Polled False t \<and> get_pending_approval_status rid t = Some ''approved'')"
        by auto
      then show ?thesis by (intro exI [of _ "Polled fails t # us"] exI [of _ w] exI [of _ vs]) auto
    next
      case (Some st)
      with 4 have "st = Approved" by auto
      with Some have "\<not> fails" "get_pending_approval_status rid t = Some ''approved''"
        by (auto simp: tg_persisted_decision_def split: if_splits option.splits)
      then show ?thesis by (intro exI [of _ "[]"]) simp
    qed
  qed simp_all
  have b: "Deadline \<in> set ws \<Longrightarrow> fst (tg_wait_loop F rid timeout now ws d) \<noteq> None" for d
    by (induction F rid timeout now ws d rule: tg_wait_loop.induct) (auto split: option.splits)
  show ?thesis using a b by (auto simp: tg_wait_for_decision_def)
qed

theorem telegram_wait_sound_witness:
  "\<exists>us w vs. [Polled False [], Received (Some Approved), Deadline] = us @ w # vs \<and> Deadline \<notin> set us
     \<and> (w = Received (Some Approved)
        \<or> (\<exists>t. w = Polled False t \<and> get_pending_approval_status ''r1'' t = Some ''approved''))"
proof -
  let ?ws = "[Polled False [], Received (Some Approved), Deadline]"
  have "fst (tg_wait_for_decision no_tc_faults ''r1'' 5 1 ?ws tg_two_of_n) = Some (Inr Approved)"
    by (simp add: tg_wait_for_decision_def tg_two_of_n_def tg_persisted_decision_def get_pending_approval_status_def)
  with telegram_wait_sound [of no_tc_faults "''r1''" 5 1 ?ws tg_two_of_n] show ?thesis by blast
qed

end
