(* ===== verification/Passkey_Approvals.thy ===== *)
theory Passkey_Approvals
  imports Telegram_Channel Sessions
begin

text \<open>
  Approvals over the web (\<open>tap-proxy/src/webauthn.rs\<close>, with its tables in \<open>tap-core/src/store.rs\<close>):
  the passkeys and challenges of approvers, the ceremonies that approve a request with a passkey,
  the inbox of the dashboard with its one-click decisions, the approval with a grant, and the
  subscriptions to push messages. \<open>webauthn_state\<close> is the memory of one process; the database is
  shared with the Telegram and Matrix channels that every decision is bridged to. A failing
  statement is named in \<open>F\<close>. The cryptography of \<open>webauthn_rs\<close> and the JSON of the details are
  parameters; a session token is named by its hash.
\<close>

section \<open>State\<close>

text \<open>
  What the crates compute: the state of a new authentication for some passkeys (with the nonce), the
  credential that an assertion proves for such a state, the identifier of a stored passkey, and the
  passkey with the counter of an assertion.
\<close>

record approval_crates = webauthn +
  start_authentication :: "string \<Rightarrow> string list \<Rightarrow> string option"
  authenticated_credential :: "string \<Rightarrow> string \<Rightarrow> string option"
  cred_id :: "string \<Rightarrow> string"
  is_state_json :: "string \<Rightarrow> bool"
  update_credential :: "string \<Rightarrow> string \<Rightarrow> string"
  parse_details :: "string \<Rightarrow> approval_details option"

record approver_passkey_row =
  apk_approver_name :: string
  apk_display_name :: string
  apk_public_key_json :: string
  apk_created_at :: timestamp

record push_subscription_row =
  psr_team_id :: string
  psr_user_email :: string
  psr_p256dh :: string
  psr_auth :: string
  psr_created_at :: timestamp

record approval_db =
  db_pending :: pending_table
  db_auth :: auth_store
  db_grants :: grant_store
  db_approver_passkeys :: "(string \<times> approver_passkey_row) list"
  db_registrations :: "(string \<times> (string \<times> string) \<times> timestamp) list"
  db_push :: "(string \<times> push_subscription_row) list"

text \<open>The hash maps that are iterated over are lists in the order of the iteration.\<close>

record webauthn_state =
  ws_credentials :: "(string \<times> string list) list"
  ws_admin_credentials :: "string \<rightharpoonup> string list"
  ws_reg_challenges :: "string \<rightharpoonup> string \<times> string"
  ws_approval_challenges :: "string \<rightharpoonup> string"
  ws_pending_details :: "string \<rightharpoonup> approval_details"
  ws_pending_resolvers :: "string \<rightharpoonup> bool"
  ws_delivered :: "(string \<times> approval_status) list"
  ws_has_store :: bool

record approval_handler_state =
  hs_webauthn :: webauthn_state
  hs_telegram :: "telegram_channel option"
  hs_matrix :: "matrix_channel option"
  hs_has_store :: bool
  hs_db :: approval_db

section \<open>Tables (store.rs)\<close>

definition save_approver_passkey ::
  "string \<Rightarrow> string \<Rightarrow> string \<Rightarrow> string \<Rightarrow> timestamp \<Rightarrow> approval_db \<Rightarrow> (agent_sec_error, approval_db) result" where
  "save_approver_passkey cred name display json now d =
     (if map_of (db_approver_passkeys d) cred \<noteq> None then Inl (Config ''Failed to save approver passkey'')
      else Inr (d\<lparr>db_approver_passkeys := db_approver_passkeys d
          @ [(cred, \<lparr>apk_approver_name = name, apk_display_name = display, apk_public_key_json = json,
                    apk_created_at = now\<rparr>)]\<rparr>))"

definition list_all_approver_passkeys :: "approval_db \<Rightarrow> approver_passkey_row list" where
  "list_all_approver_passkeys d = sort_key apk_created_at (map snd (db_approver_passkeys d))"

definition set_approver_registration_challenge ::
  "string \<Rightarrow> string \<Rightarrow> string \<Rightarrow> timestamp \<Rightarrow> approval_db \<Rightarrow> approval_db" where
  "set_approver_registration_challenge name challenge display now d =
     d\<lparr>db_registrations := AList.update name ((challenge, display), now + 10 * 60) (db_registrations d)\<rparr>"

definition take_approver_registration_challenge ::
  "string \<Rightarrow> timestamp \<Rightarrow> approval_db \<Rightarrow> (string \<times> string) option \<times> approval_db" where
  "take_approver_registration_challenge name now d =
     (let (v, t) = take_row name now (db_registrations d) in (v, d\<lparr>db_registrations := t\<rparr>))"

definition save_push_subscription ::
  "string \<Rightarrow> string \<Rightarrow> string \<Rightarrow> string \<Rightarrow> string \<Rightarrow> timestamp \<Rightarrow> approval_db \<Rightarrow> approval_db" where
  "save_push_subscription endpoint team email p256dh auth now d =
     d\<lparr>db_push := AList.update endpoint
         \<lparr>psr_team_id = team, psr_user_email = email, psr_p256dh = p256dh, psr_auth = auth,
          psr_created_at = (case map_of (db_push d) endpoint of None \<Rightarrow> now | Some r \<Rightarrow> psr_created_at r)\<rparr> (db_push d)\<rparr>"

definition list_push_subscriptions_for_team :: "string \<Rightarrow> approval_db \<Rightarrow> (string \<times> push_subscription_row) list" where
  "list_push_subscriptions_for_team team d = filter (\<lambda>(_, r). psr_team_id r = team) (db_push d)"

definition delete_push_subscription :: "string \<Rightarrow> approval_db \<Rightarrow> approval_db" where
  "delete_push_subscription endpoint d = d\<lparr>db_push := AList.delete endpoint (db_push d)\<rparr>"

section \<open>Pending requests (webauthn.rs)\<close>

definition approval_url :: "string \<Rightarrow> string \<Rightarrow> string" where
  "approval_url base txn = trim_end_matches CHR ''/'' base @ ''/approve/txn/'' @ txn"

definition wa_register_pending :: "string \<Rightarrow> approval_details \<Rightarrow> webauthn_state \<Rightarrow> webauthn_state" where
  "wa_register_pending txn details w =
     w\<lparr>ws_pending_details := (ws_pending_details w)(txn \<mapsto> details),
       ws_pending_resolvers := (ws_pending_resolvers w)(txn \<mapsto> True)\<rparr>"

definition load_pending_details ::
  "faults \<Rightarrow> ('a approval_crates_scheme) \<Rightarrow> string \<Rightarrow> timestamp \<Rightarrow> approval_db \<Rightarrow> webauthn_state
    \<Rightarrow> (agent_sec_error, approval_details option) result \<times> webauthn_state" where
  "load_pending_details F W txn now d w =
     (case ws_pending_details w txn of
        Some x \<Rightarrow> (Inr (Some x), w)
      | None \<Rightarrow>
          if \<not> ws_has_store w then (Inr None, w)
          else if F ''get_pending_approval_details''
          then (Inl (Internal ''DB lookup for pending approval timed out''), w)
          else (case get_pending_approval_details txn now (db_pending d) of
              None \<Rightarrow> (Inr None, w)
            | Some json \<Rightarrow>
                (case parse_details W json of
                   None \<Rightarrow> (Inl (Internal ''Failed to deserialize pending approval''), w)
                 | Some x \<Rightarrow> (Inr (Some x), w\<lparr>ws_pending_details := (ws_pending_details w)(txn \<mapsto> x)\<rparr>))))"

definition wa_signal :: "string \<Rightarrow> approval_status \<Rightarrow> webauthn_state \<Rightarrow> bool \<times> webauthn_state" where
  "wa_signal txn status w =
     (case ws_pending_resolvers w txn of
        None \<Rightarrow> (False, w)
      | Some alive \<Rightarrow> (alive, w\<lparr>ws_pending_resolvers := (ws_pending_resolvers w)(txn := None),
          ws_delivered := ws_delivered w @ (if alive then [(txn, status)] else [])\<rparr>))"

definition forget_details :: "string \<Rightarrow> webauthn_state \<Rightarrow> webauthn_state" where
  "forget_details txn w = w\<lparr>ws_pending_details := (ws_pending_details w)(txn := None)\<rparr>"

fun decision_str :: "approval_status \<Rightarrow> string" where
  "decision_str Approved = ''approved''"
| "decision_str Denied = ''denied''"
| "decision_str _ = ''expired''"

definition wa_resolve_approval_as ::
  "faults \<Rightarrow> string \<Rightarrow> approval_status \<Rightarrow> string option \<Rightarrow> timestamp \<Rightarrow> approval_db \<Rightarrow> webauthn_state
    \<Rightarrow> bool \<times> approval_db \<times> webauthn_state" where
  "wa_resolve_approval_as F txn status who now d w =
     (let w1 = forget_details txn w;
          (db_resolved, d1) =
            (if \<not> ws_has_store w \<or> F ''resolve_pending_approval'' then (False, d)
             else let (b, t) = resolve_pending_approval txn (decision_str status) who now (db_pending d)
                  in (b, d\<lparr>db_pending := t\<rparr>));
          (memory_resolved, w2) = (if \<not> ws_has_store w \<or> db_resolved then wa_signal txn status w1 else (False, w1))
      in (memory_resolved \<or> db_resolved, d1, w2))"

definition wa_resolve_approval ::
  "faults \<Rightarrow> string \<Rightarrow> approval_status \<Rightarrow> timestamp \<Rightarrow> approval_db \<Rightarrow> webauthn_state
    \<Rightarrow> bool \<times> approval_db \<times> webauthn_state" where
  "wa_resolve_approval F txn status now d w = wa_resolve_approval_as F txn status None now d w"

definition wa_claim_approval_for_grant ::
  "faults \<Rightarrow> string \<Rightarrow> string option \<Rightarrow> approval_db \<Rightarrow> webauthn_state \<Rightarrow> bool \<times> approval_db \<times> webauthn_state" where
  "wa_claim_approval_for_grant F txn who d w =
     (let w1 = forget_details txn w;
          (db_resolved, d1) =
            (if \<not> ws_has_store w \<or> F ''claim_pending_approval_for_grant'' then (False, d)
             else let (b, t) = claim_pending_approval_for_grant txn who (db_pending d) in (b, d\<lparr>db_pending := t\<rparr>))
      in (db_resolved, d1, if db_resolved then snd (wa_signal txn Approved w1) else w1))"

definition resolve_approval_for_end_user ::
  "faults \<Rightarrow> string \<Rightarrow> approval_status \<Rightarrow> string \<Rightarrow> approval_db \<Rightarrow> webauthn_state
    \<Rightarrow> bool \<times> approval_db \<times> webauthn_state" where
  "resolve_approval_for_end_user F txn status ext d w =
     (let w1 = forget_details txn w;
          (db_resolved, d1) =
            (if \<not> ws_has_store w \<or> F ''resolve_pending_approval_as_end_user'' then (False, d)
             else let (b, t) = resolve_pending_approval_as_end_user txn (decision_str status) ext (Some ext) (db_pending d)
                  in (b, d\<lparr>db_pending := t\<rparr>));
          (memory_resolved, w2) = (if \<not> ws_has_store w \<or> db_resolved then wa_signal txn status w1 else (False, w1))
      in (memory_resolved \<or> db_resolved, d1, w2))"

section \<open>Passkeys of approvers\<close>

text \<open>\<open>entry(name).or_default().push(p)\<close>.\<close>

definition push_credential :: "string \<Rightarrow> string \<Rightarrow> (string \<times> string list) list \<Rightarrow> (string \<times> string list) list" where
  "push_credential name p cs = AList.update name (or_else (map_of cs name) [] @ [p]) cs"

definition load_credentials_from_db ::
  "faults \<Rightarrow> ('a approval_crates_scheme) \<Rightarrow> approval_db \<Rightarrow> webauthn_state
    \<Rightarrow> (agent_sec_error, nat) result \<times> webauthn_state" where
  "load_credentials_from_db F W d w =
     (if \<not> ws_has_store w then (Inl (Config ''No DB configured for WebAuthn''), w)
      else if F ''list_all_approver_passkeys'' then (Inl (Config ''Failed to list approver passkeys''), w)
      else let rows = filter (\<lambda>r. is_passkey_json W (apk_public_key_json r)) (list_all_approver_passkeys d)
           in (Inr (length rows),
               w\<lparr>ws_credentials := fold (\<lambda>r. push_credential (apk_approver_name r) (apk_public_key_json r)) rows
                   (ws_credentials w)\<rparr>))"

definition has_any_credentials :: "faults \<Rightarrow> approval_db \<Rightarrow> webauthn_state \<Rightarrow> bool" where
  "has_any_credentials F d w \<longleftrightarrow>
     list_ex (\<lambda>(_, ps). ps \<noteq> []) (ws_credentials w)
     \<or> ws_has_store w \<and> \<not> F ''list_all_user_passkeys'' \<and> at_passkeys (db_auth d) \<noteq> []"

text \<open>The challenge that the crate makes for the new passkey is an argument.\<close>

definition begin_registration ::
  "faults \<Rightarrow> string \<Rightarrow> string \<Rightarrow> string option \<Rightarrow> timestamp \<Rightarrow> approval_db \<Rightarrow> webauthn_state
    \<Rightarrow> (agent_sec_error, string) result \<times> approval_db \<times> webauthn_state" where
  "begin_registration F name display challenge now d w =
     (case challenge of
        None \<Rightarrow> (Inl (Internal ''Registration start failed''), d, w)
      | Some c \<Rightarrow>
          if \<not> ws_has_store w
          then (Inr c, d, w\<lparr>ws_reg_challenges := (ws_reg_challenges w)(name \<mapsto> (c, display))\<rparr>)
          else if F ''set_approver_registration_challenge''
          then (Inl (Config ''Failed to save approver registration challenge''), d, w)
          else (Inr c, set_approver_registration_challenge name c display now d, w))"

definition take_registration ::
  "faults \<Rightarrow> ('a approval_crates_scheme) \<Rightarrow> string \<Rightarrow> timestamp \<Rightarrow> approval_db \<Rightarrow> webauthn_state
    \<Rightarrow> (agent_sec_error, string \<times> string) result \<times> approval_db \<times> webauthn_state" where
  "take_registration F W name now d w =
     (let from_memory = (\<lambda>d'. case ws_reg_challenges w name of
             None \<Rightarrow> (Inl (Internal ''No pending registration''), d', w)
           | Some x \<Rightarrow> (Inr x, d', w\<lparr>ws_reg_challenges := (ws_reg_challenges w)(name := None)\<rparr>))
      in if \<not> ws_has_store w then from_memory d
         else if F ''take_approver_registration_challenge''
         then (Inl (Config ''Failed to take approver registration challenge''), d, w)
         else case take_approver_registration_challenge name now d of
           (None, d1) \<Rightarrow> from_memory d1
         | (Some (c, display), d1) \<Rightarrow>
             (if is_state_json W c then Inr (c, display)
              else Inl (Internal ''Failed to deserialize registration challenge''), d1, w))"

definition finish_registration ::
  "faults \<Rightarrow> ('a approval_crates_scheme) \<Rightarrow> string \<Rightarrow> string \<Rightarrow> timestamp \<Rightarrow> approval_db \<Rightarrow> webauthn_state
    \<Rightarrow> (agent_sec_error, string) result \<times> approval_db \<times> webauthn_state" where
  "finish_registration F W name reg now d w =
     (case take_registration F W name now d w of
        (Inl e, d1, w1) \<Rightarrow> (Inl e, d1, w1)
      | (Inr (c, display), d1, w1) \<Rightarrow>
          (case register_ok W c reg of
             None \<Rightarrow> (Inl (Internal ''Registration failed''), d1, w1)
           | Some (cred, json) \<Rightarrow>
               (case (if \<not> ws_has_store w then Inr d1
                      else if F ''save_approver_passkey'' then Inl (Config ''Failed to save approver passkey'')
                      else save_approver_passkey cred name display json now d1) of
                  Inl e \<Rightarrow> (Inl e, d1, w1)
                | Inr d2 \<Rightarrow> (Inr json, d2, w1\<lparr>ws_credentials := push_credential name json (ws_credentials w1)\<rparr>))))"

text \<open>The passkeys with the first occurrence of every credential.\<close>

fun first_by_credential :: "('a approval_crates_scheme) \<Rightarrow> string list \<Rightarrow> string list \<Rightarrow> string list" where
  "first_by_credential W seen [] = []"
| "first_by_credential W seen (p # ps) =
     (if cred_id W p \<in> set seen then first_by_credential W seen ps
      else p # first_by_credential W (cred_id W p # seen) ps)"

definition stored_passkeys_of :: "faults \<Rightarrow> ('a approval_crates_scheme) \<Rightarrow> string \<Rightarrow> approval_db \<Rightarrow> string list" where
  "stored_passkeys_of F W name d =
     (if F ''list_all_approver_passkeys'' then []
      else filter (is_passkey_json W) (map apk_public_key_json
        (filter (\<lambda>r. apk_approver_name r = name) (list_all_approver_passkeys d))))"

definition login_passkeys :: "faults \<Rightarrow> ('a approval_crates_scheme) \<Rightarrow> string \<Rightarrow> approval_db \<Rightarrow> webauthn_state \<Rightarrow> string list" where
  "login_passkeys F W uid d w =
     (if ws_has_store w \<and> \<not> F ''list_user_passkeys'' then stored_passkeys (webauthn.truncate W) uid (db_auth d)
      else or_else (ws_admin_credentials w uid) [])"

definition session_approval_passkeys ::
  "faults \<Rightarrow> ('a approval_crates_scheme) \<Rightarrow> string \<Rightarrow> string \<Rightarrow> approval_db \<Rightarrow> webauthn_state \<Rightarrow> string list" where
  "session_approval_passkeys F W uid email d w =
     first_by_credential W []
       (login_passkeys F W uid d w @ or_else (map_of (ws_credentials w) email) []
        @ (if ws_has_store w then stored_passkeys_of F W email d else []))"

definition user_has_approval_passkeys ::
  "faults \<Rightarrow> ('a approval_crates_scheme) \<Rightarrow> string \<Rightarrow> string \<Rightarrow> approval_db \<Rightarrow> webauthn_state \<Rightarrow> bool" where
  "user_has_approval_passkeys F W uid email d w \<longleftrightarrow> session_approval_passkeys F W uid email d w \<noteq> []"

definition approver_passkeys_for ::
  "faults \<Rightarrow> ('a approval_crates_scheme) \<Rightarrow> string \<Rightarrow> approval_db \<Rightarrow> webauthn_state \<Rightarrow> string list" where
  "approver_passkeys_for F W name d w =
     first_by_credential W []
       (or_else (map_of (ws_credentials w) name) [] @ (if ws_has_store w then stored_passkeys_of F W name d else []))"

definition user_passkey_rows :: "approval_db \<Rightarrow> user_passkey_row list" where
  "user_passkey_rows d = sort_key pk_created_at (map snd (at_passkeys (db_auth d)))"

definition all_approval_passkeys ::
  "faults \<Rightarrow> ('a approval_crates_scheme) \<Rightarrow> approval_db \<Rightarrow> webauthn_state \<Rightarrow> (agent_sec_error, string list) result" where
  "all_approval_passkeys F W d w =
     (let own = concat (map snd (ws_credentials w)) in
      if \<not> ws_has_store w then Inr (first_by_credential W [] own)
      else if F ''list_all_user_passkeys'' then Inl (Config ''Failed to list user passkeys'')
      else Inr (first_by_credential W [] (own @ filter (is_passkey_json W) (map pk_public_key_json (user_passkey_rows d)))))"

definition find_approver_name_by_credential_id ::
  "('a approval_crates_scheme) \<Rightarrow> (string \<times> string) list \<Rightarrow> string \<Rightarrow> string option" where
  "find_approver_name_by_credential_id W ps cred = map_option fst (find (\<lambda>(_, p). cred_id W p = cred) ps)"

definition approval_owner_for_credential_id ::
  "faults \<Rightarrow> ('a approval_crates_scheme) \<Rightarrow> string \<Rightarrow> approval_db \<Rightarrow> webauthn_state
    \<Rightarrow> (agent_sec_error, string option) result" where
  "approval_owner_for_credential_id F W cred d w =
     (case find_approver_name_by_credential_id W
             (concat (map (\<lambda>(name, ps). map (\<lambda>p. (name, p)) ps) (ws_credentials w))) cred of
        Some name \<Rightarrow> Inr (Some name)
      | None \<Rightarrow>
          if \<not> ws_has_store w then Inr None
          else if F ''list_all_user_passkeys'' then Inl (Config ''Failed to list user passkeys'')
          else (case find (\<lambda>r. is_passkey_json W (pk_public_key_json r) \<and> cred_id W (pk_public_key_json r) = cred)
                       (user_passkey_rows d) of
              None \<Rightarrow> Inr None
            | Some r \<Rightarrow>
                if F ''get_user'' then Inl (Config ''Failed to get user'')
                else Inr (map_option us_email (get_user (pk_user_id r) (at_members (db_auth d))))))"

section \<open>Ceremonies\<close>

text \<open>All beginnings store the state of the crate in the same way; \<open>none\<close> is the text without passkeys.\<close>

definition begin_with ::
  "faults \<Rightarrow> ('a approval_crates_scheme) \<Rightarrow> string \<Rightarrow> string list \<Rightarrow> string \<Rightarrow> string \<Rightarrow> timestamp \<Rightarrow> approval_db \<Rightarrow> webauthn_state
    \<Rightarrow> (agent_sec_error, string) result \<times> approval_db \<times> webauthn_state" where
  "begin_with F W none passkeys txn nonce now d w =
     (if passkeys = [] then (Inl (Internal none), d, w)
      else case start_authentication W nonce passkeys of
        None \<Rightarrow> (Inl (Internal ''Auth start failed''), d, w)
      | Some st \<Rightarrow>
          if ws_has_store w \<and> F ''set_pending_approval_challenge''
          then (Inl (Config ''Failed to save approval challenge''), d, w)
          else (Inr st,
                if ws_has_store w then d\<lparr>db_pending := set_pending_approval_challenge txn st now (db_pending d)\<rparr> else d,
                w\<lparr>ws_approval_challenges := (ws_approval_challenges w)(txn \<mapsto> st)\<rparr>))"

definition no_credentials_text :: string where
  "no_credentials_text = ''No approver credentials registered''"

definition no_passkey_text :: string where
  "no_passkey_text = ''No passkey registered for this end-user''"

definition begin_approval_for_user ::
  "faults \<Rightarrow> ('a approval_crates_scheme) \<Rightarrow> string \<Rightarrow> string \<Rightarrow> string \<Rightarrow> string \<Rightarrow> timestamp \<Rightarrow> approval_db \<Rightarrow> webauthn_state
    \<Rightarrow> (agent_sec_error, string) result \<times> approval_db \<times> webauthn_state" where
  "begin_approval_for_user F W txn uid email nonce now d w =
     begin_with F W no_credentials_text (session_approval_passkeys F W uid email d w) txn nonce now d w"

definition begin_approval ::
  "faults \<Rightarrow> ('a approval_crates_scheme) \<Rightarrow> string \<Rightarrow> string \<Rightarrow> timestamp \<Rightarrow> approval_db \<Rightarrow> webauthn_state
    \<Rightarrow> (agent_sec_error, string) result \<times> approval_db \<times> webauthn_state" where
  "begin_approval F W txn nonce now d w =
     (case all_approval_passkeys F W d w of
        Inl e \<Rightarrow> (Inl e, d, w)
      | Inr ps \<Rightarrow> begin_with F W no_credentials_text ps txn nonce now d w)"

definition begin_approval_for_approver ::
  "faults \<Rightarrow> ('a approval_crates_scheme) \<Rightarrow> string \<Rightarrow> string \<Rightarrow> string \<Rightarrow> timestamp \<Rightarrow> approval_db \<Rightarrow> webauthn_state
    \<Rightarrow> (agent_sec_error, string) result \<times> approval_db \<times> webauthn_state" where
  "begin_approval_for_approver F W txn name nonce now d w =
     begin_with F W no_passkey_text (approver_passkeys_for F W name d w) txn nonce now d w"

definition no_challenge :: agent_sec_error where
  "no_challenge = Internal ''No pending approval challenge''"

text \<open>Every ending takes the challenge from the database, or else from the memory of the process.\<close>

definition take_challenge ::
  "faults \<Rightarrow> ('a approval_crates_scheme) \<Rightarrow> string \<Rightarrow> timestamp \<Rightarrow> approval_db \<Rightarrow> webauthn_state
    \<Rightarrow> (agent_sec_error, string) result \<times> approval_db \<times> webauthn_state" where
  "take_challenge F W txn now d w =
     (let forget = w\<lparr>ws_approval_challenges := (ws_approval_challenges w)(txn := None)\<rparr>;
          from_memory = (\<lambda>d'. case ws_approval_challenges w txn of
             None \<Rightarrow> (Inl no_challenge, d', w) | Some st \<Rightarrow> (Inr st, d', forget))
      in if \<not> ws_has_store w then from_memory d
         else if F ''take_pending_approval_challenge'' then (Inl (Config ''Failed to take approval challenge''), d, w)
         else case take_pending_approval_challenge txn now (db_pending d) of
           (None, t) \<Rightarrow> from_memory (d\<lparr>db_pending := t\<rparr>)
         | (Some st, t) \<Rightarrow>
             if is_state_json W st then (Inr st, d\<lparr>db_pending := t\<rparr>, forget)
             else (Inl (Internal ''Failed to deserialize approval challenge''), d\<lparr>db_pending := t\<rparr>, w))"

text \<open>The credential that the assertion proved.\<close>

definition prove_credential ::
  "faults \<Rightarrow> ('a approval_crates_scheme) \<Rightarrow> string \<Rightarrow> string \<Rightarrow> timestamp \<Rightarrow> approval_db \<Rightarrow> webauthn_state
    \<Rightarrow> (agent_sec_error, string) result \<times> approval_db \<times> webauthn_state" where
  "prove_credential F W txn auth now d w =
     (case take_challenge F W txn now d w of
        (Inl e, d1, w1) \<Rightarrow> (Inl e, d1, w1)
      | (Inr st, d1, w1) \<Rightarrow>
          (case authenticated_credential W st auth of
             None \<Rightarrow> (Inl (Internal ''Auth failed''), d1, w1)
           | Some cred \<Rightarrow> (Inr cred, d1, w1)))"

text \<open>The new counter of the passkey is set on a copy and not kept.\<close>

definition finish_approval_for_user ::
  "faults \<Rightarrow> ('a approval_crates_scheme) \<Rightarrow> string \<Rightarrow> string \<Rightarrow> string \<Rightarrow> string \<Rightarrow> timestamp \<Rightarrow> approval_db \<Rightarrow> webauthn_state
    \<Rightarrow> (agent_sec_error, string) result \<times> approval_db \<times> webauthn_state" where
  "finish_approval_for_user F W txn uid email auth now d w =
     (case prove_credential F W txn auth now d w of
        (Inl e, d1, w1) \<Rightarrow> (Inl e, d1, w1)
      | (Inr cred, d1, w1) \<Rightarrow>
          if list_ex (\<lambda>p. cred_id W p = cred) (session_approval_passkeys F W uid email d1 w1)
          then (Inr uid, d1, w1)
          else (Inl (Forbidden ''Authenticated passkey does not belong to this session''), d1, w1))"

fun count_use :: "('a approval_crates_scheme) \<Rightarrow> string \<Rightarrow> string \<Rightarrow> string list \<Rightarrow> string list" where
  "count_use W cred auth [] = []"
| "count_use W cred auth (p # ps) =
     (if cred_id W p = cred then update_credential W p auth # ps else p # count_use W cred auth ps)"

definition finish_approval ::
  "faults \<Rightarrow> ('a approval_crates_scheme) \<Rightarrow> string \<Rightarrow> string \<Rightarrow> timestamp \<Rightarrow> approval_db \<Rightarrow> webauthn_state
    \<Rightarrow> (agent_sec_error, string) result \<times> approval_db \<times> webauthn_state" where
  "finish_approval F W txn auth now d w =
     (case prove_credential F W txn auth now d w of
        (Inl e, d1, w1) \<Rightarrow> (Inl e, d1, w1)
      | (Inr cred, d1, w1) \<Rightarrow>
          (case approval_owner_for_credential_id F W cred d1 w1 of
             Inl e \<Rightarrow> (Inl e, d1, w1)
           | Inr None \<Rightarrow> (Inl (Internal ''Authenticated credential not found''), d1, w1)
           | Inr (Some name) \<Rightarrow>
               (Inr name, d1, w1\<lparr>ws_credentials := AList.map_entry name (count_use W cred auth) (ws_credentials w1)\<rparr>)))"

definition finish_approval_for_approver ::
  "faults \<Rightarrow> ('a approval_crates_scheme) \<Rightarrow> string \<Rightarrow> string \<Rightarrow> string \<Rightarrow> timestamp \<Rightarrow> approval_db \<Rightarrow> webauthn_state
    \<Rightarrow> (agent_sec_error, unit) result \<times> approval_db \<times> webauthn_state" where
  "finish_approval_for_approver F W txn name auth now d w =
     (case prove_credential F W txn auth now d w of
        (Inl e, d1, w1) \<Rightarrow> (Inl e, d1, w1)
      | (Inr cred, d1, w1) \<Rightarrow>
          if list_ex (\<lambda>p. cred_id W p = cred) (approver_passkeys_for F W name d1 w1) then (Inr (), d1, w1)
          else (Inl (Forbidden ''Authenticated passkey does not belong to this end-user''), d1, w1))"

section \<open>Bridges to the channels\<close>

text \<open>A channel with a store works on the table of the database.\<close>

definition with_telegram ::
  "(telegram_channel \<Rightarrow> bool \<times> telegram_channel) \<Rightarrow> approval_handler_state \<Rightarrow> bool \<times> approval_handler_state" where
  "with_telegram f s =
     (case hs_telegram s of
        None \<Rightarrow> (False, s)
      | Some c \<Rightarrow>
          (case f (c\<lparr>tc_store := map_option (\<lambda>_. db_pending (hs_db s)) (tc_store c)\<rparr>) of
             (b, c') \<Rightarrow> (b, s\<lparr>hs_telegram := Some c',
                hs_db := (hs_db s)\<lparr>db_pending := or_else (tc_store c') (db_pending (hs_db s))\<rparr>\<rparr>)))"

definition with_matrix ::
  "(matrix_channel \<Rightarrow> bool \<times> matrix_channel) \<Rightarrow> approval_handler_state \<Rightarrow> bool \<times> approval_handler_state" where
  "with_matrix f s =
     (case hs_matrix s of
        None \<Rightarrow> (False, s)
      | Some c \<Rightarrow>
          (case f (c\<lparr>mc_store := map_option (\<lambda>_. db_pending (hs_db s)) (mc_store c)\<rparr>) of
             (b, c') \<Rightarrow> (b, s\<lparr>hs_matrix := Some c',
                hs_db := (hs_db s)\<lparr>db_pending := or_else (mc_store c') (db_pending (hs_db s))\<rparr>\<rparr>)))"

text \<open>The text of the edited message of Matrix is not modelled.\<close>

definition resolve_and_edit_message ::
  "mc_faults \<Rightarrow> string \<Rightarrow> approval_status \<Rightarrow> string option \<Rightarrow> timestamp \<Rightarrow> matrix_channel \<Rightarrow> bool \<times> matrix_channel" where
  "resolve_and_edit_message F rid status approver now c =
     (let found = (case mc_sent_messages c rid of
            Some m \<Rightarrow> True
          | None \<Rightarrow> \<not> mf_lookup F \<and> Option.bind (mc_store c) (get_pending_approval_matrix_message rid) \<noteq> None);
          (b, c') = Matrix_Channel.resolve_approval_as F rid status approver now
             (c\<lparr>mc_sent_messages := (mc_sent_messages c)(rid := None)\<rparr>)
      in (b \<or> found, c'))"

text \<open>The failures of one request: by the name of the statement, and those inside the two channels.\<close>

record web_faults =
  wf_store :: faults
  wf_telegram :: tc_faults
  wf_matrix :: mc_faults

definition on_telegram ::
  "web_faults \<Rightarrow> string \<Rightarrow> approval_status \<Rightarrow> timestamp \<Rightarrow> approval_handler_state \<Rightarrow> bool \<times> approval_handler_state" where
  "on_telegram F txn status now s = with_telegram (tg_resolve_approval (wf_telegram F) txn status now) s"

definition on_matrix ::
  "web_faults \<Rightarrow> string \<Rightarrow> approval_status \<Rightarrow> string option \<Rightarrow> timestamp \<Rightarrow> approval_handler_state
    \<Rightarrow> bool \<times> approval_handler_state" where
  "on_matrix F txn status who now s = with_matrix (resolve_and_edit_message (wf_matrix F) txn status who now) s"

text \<open>A method of \<open>WebAuthnState\<close> on the state of the handlers.\<close>

definition on_webauthn ::
  "(approval_db \<Rightarrow> webauthn_state \<Rightarrow> 'r \<times> approval_db \<times> webauthn_state) \<Rightarrow> approval_handler_state
    \<Rightarrow> 'r \<times> approval_handler_state" where
  "on_webauthn f s =
     (case f (hs_db s) (hs_webauthn s) of (r, d, w) \<Rightarrow> (r, s\<lparr>hs_db := d, hs_webauthn := w\<rparr>))"

section \<open>Who may decide\<close>

text \<open>A refusal has its status and the \<open>error\<close> (or \<open>error_code\<close>) of its body.\<close>

datatype web_reply =
    WebRefused nat string
  | DetailsShown approval_details bool
  | ChallengeIssued string
  | ApprovedBy string
  | DeniedReply
  | Decided string string
  | ApprovedWithGrantBy string grant_row
  | ApprovedButNoGrant string
  | PendingInbox "(pending_approval_row \<times> approval_details \<times> bool) list"
  | RegisteredReply
  | Subscribed
  | Unsubscribed

definition require_user_session ::
  "web_faults \<Rightarrow> string option \<Rightarrow> timestamp \<Rightarrow> approval_handler_state \<Rightarrow> (web_reply, member) result" where
  "require_user_session F token now s =
     (case token of
        None \<Rightarrow> Inl (WebRefused 401 ''Admin session required to register passkeys'')
      | Some h \<Rightarrow>
          if \<not> hs_has_store s then Inl (WebRefused 503 ''Registration requires a database-backed deployment'')
          else if wf_store F ''validate_session'' then Inl (WebRefused 500 ''Session validation failed'')
          else (case validate_session h now (db_auth (hs_db s)) of
              None \<Rightarrow> Inl (WebRefused 401 ''Invalid or expired admin session'')
            | Some m \<Rightarrow>
                if me_email_verified m then Inr m else Inl (WebRefused 403 ''Email not verified'')))"

definition role_can_approve_all_credentials :: "string \<Rightarrow> bool" where
  "role_can_approve_all_credentials role \<longleftrightarrow> role = ''owner'' \<or> role = ''admin''"

definition policy_allows_member :: "string \<Rightarrow> approval_details \<Rightarrow> bool" where
  "policy_allows_member email x \<longleftrightarrow> ad_allowed_approvers x = [] \<or> email \<in> set (ad_allowed_approvers x)"

definition member_can_act_on_approval ::
  "web_faults \<Rightarrow> approval_db \<Rightarrow> member \<Rightarrow> approval_details \<Rightarrow> (agent_sec_error, bool) result" where
  "member_can_act_on_approval F d m x =
     (if \<not> policy_allows_member (me_email m) x then Inr False
      else if role_can_approve_all_credentials (me_member_role m) then Inr True
      else if ad_team_id x = [] \<or> ad_credential_name x = [] then Inr True
      else if wf_store F ''list_approver_credentials'' then Inl (Config ''Failed to list approver credentials'')
      else Inr (ad_credential_name x \<in> set (list_approver_credentials (ad_team_id x) (me_id m) (at_members (db_auth d)))))"

definition load_approval_details_for_member ::
  "web_faults \<Rightarrow> ('a approval_crates_scheme) \<Rightarrow> string \<Rightarrow> member \<Rightarrow> timestamp \<Rightarrow> approval_handler_state
    \<Rightarrow> (web_reply, approval_details) result \<times> approval_handler_state" where
  "load_approval_details_for_member F W txn m now s =
     (case load_pending_details (wf_store F) W txn now (hs_db s) (hs_webauthn s) of
        (r, w) \<Rightarrow>
          let s1 = s\<lparr>hs_webauthn := w\<rparr> in
          (case r of
             Inl e \<Rightarrow> (Inl (WebRefused 503 ''approval_state_unavailable''), s1)
           | Inr None \<Rightarrow> (Inl (WebRefused 410 ''session_expired''), s1)
           | Inr (Some x) \<Rightarrow>
               if ad_team_id x \<noteq> [] \<and> ad_team_id x \<noteq> me_team_id m then (Inl (WebRefused 403 ''not_authorized''), s1)
               else if \<not> hs_has_store s
               then (Inl (WebRefused 503 ''Approvals require a database-backed deployment''), s1)
               else (case member_can_act_on_approval F (hs_db s) m x of
                   Inl e \<Rightarrow> (Inl (WebRefused 503 ''approval_auth_unavailable''), s1)
                 | Inr False \<Rightarrow> (Inl (WebRefused 403 ''not_authorized''), s1)
                 | Inr True \<Rightarrow> (Inr x, s1))))"

text \<open>The session and the details of the request, as most handlers need them.\<close>

definition with_member_details ::
  "web_faults \<Rightarrow> ('a approval_crates_scheme) \<Rightarrow> string option \<Rightarrow> string \<Rightarrow> timestamp
    \<Rightarrow> (member \<Rightarrow> approval_details \<Rightarrow> approval_handler_state \<Rightarrow> web_reply \<times> approval_handler_state)
    \<Rightarrow> approval_handler_state \<Rightarrow> web_reply \<times> approval_handler_state" where
  "with_member_details F W token txn now k s =
     (case require_user_session F token now s of
        Inl r \<Rightarrow> (r, s)
      | Inr m \<Rightarrow>
          (case load_approval_details_for_member F W txn m now s of
             (Inl r, s1) \<Rightarrow> (r, s1)
           | (Inr x, s1) \<Rightarrow> k m x s1))"

section \<open>Handlers of the approval page\<close>

definition handle_register_begin ::
  "web_faults \<Rightarrow> string option \<Rightarrow> string \<Rightarrow> timestamp \<Rightarrow> approval_handler_state \<Rightarrow> web_reply \<times> approval_handler_state" where
  "handle_register_begin F token challenge now s =
     (case require_user_session F token now s of
        Inl r \<Rightarrow> (r, s)
      | Inr m \<Rightarrow> (ChallengeIssued challenge,
          s\<lparr>hs_db := (hs_db s)\<lparr>db_auth := begin_user_registration (me_id m) challenge now (db_auth (hs_db s))\<rparr>\<rparr>))"

definition handle_register_finish ::
  "web_faults \<Rightarrow> ('a approval_crates_scheme) \<Rightarrow> string option \<Rightarrow> string \<Rightarrow> timestamp \<Rightarrow> approval_handler_state
    \<Rightarrow> web_reply \<times> approval_handler_state" where
  "handle_register_finish F W token reg now s =
     (case require_user_session F token now s of
        Inl r \<Rightarrow> (r, s)
      | Inr m \<Rightarrow>
          (case finish_user_registration (webauthn.truncate W) (me_id m) reg now (db_auth (hs_db s)) of
             (r, a) \<Rightarrow> (case r of Inl e \<Rightarrow> WebRefused 400 ''Registration failed'' | Inr _ \<Rightarrow> RegisteredReply,
                s\<lparr>hs_db := (hs_db s)\<lparr>db_auth := a\<rparr>\<rparr>)))"

definition handle_approval_details ::
  "web_faults \<Rightarrow> ('a approval_crates_scheme) \<Rightarrow> string option \<Rightarrow> string \<Rightarrow> timestamp \<Rightarrow> approval_handler_state
    \<Rightarrow> web_reply \<times> approval_handler_state" where
  "handle_approval_details F W token txn now =
     with_member_details F W token txn now (\<lambda>m x s.
       (DetailsShown x (user_has_approval_passkeys (wf_store F) W (me_id m) (me_email m) (hs_db s) (hs_webauthn s)), s))"

definition handle_approval_begin ::
  "web_faults \<Rightarrow> ('a approval_crates_scheme) \<Rightarrow> string option \<Rightarrow> string \<Rightarrow> string \<Rightarrow> timestamp \<Rightarrow> approval_handler_state
    \<Rightarrow> web_reply \<times> approval_handler_state" where
  "handle_approval_begin F W token txn nonce now =
     with_member_details F W token txn now (\<lambda>m x s.
       case on_webauthn (begin_approval_for_user (wf_store F) W txn (me_id m) (me_email m) nonce now) s of
         (Inr st, s1) \<Rightarrow> (ChallengeIssued st, s1)
       | (Inl e, s1) \<Rightarrow> (if e = Internal no_credentials_text then WebRefused 412 ''no_credentials''
                        else WebRefused 503 ''approval_challenge_unavailable'', s1))"

definition handle_approval_finish ::
  "web_faults \<Rightarrow> ('a approval_crates_scheme) \<Rightarrow> string option \<Rightarrow> string \<Rightarrow> string \<Rightarrow> timestamp \<Rightarrow> approval_handler_state
    \<Rightarrow> web_reply \<times> approval_handler_state" where
  "handle_approval_finish F W token txn auth now =
     with_member_details F W token txn now (\<lambda>m x s.
       case on_webauthn (finish_approval_for_user (wf_store F) W txn (me_id m) (me_email m) auth now) s of
         (Inl e, s1) \<Rightarrow> (if e = no_challenge then WebRefused 409 ''stale_challenge''
                        else WebRefused 403 ''passkey_verification_failed'', s1)
       | (Inr _, s1) \<Rightarrow>
           let (tg, s2) = on_telegram F txn Approved now s1;
               (mx, s3) = on_matrix F txn Approved (Some (me_email m)) now s2;
               (persisted, s4) =
                 on_webauthn (wa_resolve_approval_as (wf_store F) txn Approved (Some (me_email m)) now) s3
           in (if \<not> tg \<and> \<not> mx \<and> \<not> persisted then WebRefused 410 ''session_expired'' else ApprovedBy (me_email m), s4))"

definition handle_approval_deny ::
  "web_faults \<Rightarrow> ('a approval_crates_scheme) \<Rightarrow> string option \<Rightarrow> string \<Rightarrow> timestamp \<Rightarrow> approval_handler_state
    \<Rightarrow> web_reply \<times> approval_handler_state" where
  "handle_approval_deny F W token txn now =
     with_member_details F W token txn now (\<lambda>m x s.
       let s1 = snd (on_telegram F txn Denied now s);
           s2 = snd (on_matrix F txn Denied None now s1)
       in (DeniedReply, snd (on_webauthn (wa_resolve_approval (wf_store F) txn Denied now) s2)))"

section \<open>Handlers of the dashboard\<close>

definition inbox_entry ::
  "web_faults \<Rightarrow> ('a approval_crates_scheme) \<Rightarrow> approval_db \<Rightarrow> member \<Rightarrow> pending_approval_row
    \<Rightarrow> (pending_approval_row \<times> approval_details \<times> bool) list" where
  "inbox_entry F W d m row =
     (case parse_details W (pw_details_json row) of
        None \<Rightarrow> []
      | Some x \<Rightarrow>
          if ad_target_url x = [] then []
          else [(row, x, case member_can_act_on_approval F d m x of Inl _ \<Rightarrow> False | Inr b \<Rightarrow> b)])"

definition handle_pending_inbox ::
  "web_faults \<Rightarrow> ('a approval_crates_scheme) \<Rightarrow> string option \<Rightarrow> timestamp \<Rightarrow> approval_handler_state \<Rightarrow> web_reply" where
  "handle_pending_inbox F W token now s =
     (case require_user_session F token now s of
        Inl r \<Rightarrow> r
      | Inr m \<Rightarrow>
          if \<not> hs_has_store s then WebRefused 503 ''Approvals require a database-backed deployment''
          else if wf_store F ''list_pending_approvals_for_team'' then WebRefused 503 ''approvals_unavailable''
          else PendingInbox (concat (map (inbox_entry F W (hs_db s) m)
                 (list_pending_approvals_for_team (me_team_id m) now (db_pending (hs_db s))))))"

definition authorize_dashboard_resolve ::
  "web_faults \<Rightarrow> ('a approval_crates_scheme) \<Rightarrow> member \<Rightarrow> string \<Rightarrow> approval_status \<Rightarrow> timestamp \<Rightarrow> approval_handler_state
    \<Rightarrow> (web_reply, approval_details) result \<times> approval_handler_state" where
  "authorize_dashboard_resolve F W m txn status now s =
     (case load_pending_details (wf_store F) W txn now (hs_db s) (hs_webauthn s) of
        (r, w) \<Rightarrow>
          let s1 = s\<lparr>hs_webauthn := w\<rparr> in
          (case r of
             Inl e \<Rightarrow> (Inl (WebRefused 503 ''approval_state_unavailable''), s1)
           | Inr None \<Rightarrow> (Inl (WebRefused 410 ''session_expired''), s1)
           | Inr (Some x) \<Rightarrow>
               if ad_team_id x \<noteq> [] \<and> ad_team_id x \<noteq> me_team_id m then (Inl (WebRefused 403 ''not_authorized''), s1)
               else if ad_require_passkey x \<and> status = Approved then (Inl (WebRefused 412 ''passkey_required''), s1)
               else if \<not> hs_has_store s then (Inl (WebRefused 503 ''approval_auth_unavailable''), s1)
               else (case member_can_act_on_approval F (hs_db s) m x of
                   Inl e \<Rightarrow> (Inl (WebRefused 503 ''approval_auth_unavailable''), s1)
                 | Inr False \<Rightarrow> (Inl (WebRefused 403 ''not_authorized''), s1)
                 | Inr True \<Rightarrow> (Inr x, s1))))"

definition resolve_and_bridge ::
  "web_faults \<Rightarrow> member \<Rightarrow> string \<Rightarrow> approval_status \<Rightarrow> timestamp \<Rightarrow> approval_handler_state
    \<Rightarrow> bool \<times> approval_handler_state" where
  "resolve_and_bridge F m txn status now s =
     (let (resolved, s1) = on_webauthn (wa_resolve_approval_as (wf_store F) txn status (Some (me_email m)) now) s;
          s2 = snd (on_telegram F txn status now s1)
      in (resolved, snd (on_matrix F txn status (if status = Approved then Some (me_email m) else None) now s2)))"

definition claim_and_bridge_for_grant ::
  "web_faults \<Rightarrow> member \<Rightarrow> string \<Rightarrow> timestamp \<Rightarrow> approval_handler_state \<Rightarrow> bool \<times> approval_handler_state" where
  "claim_and_bridge_for_grant F m txn now s =
     (case on_webauthn (wa_claim_approval_for_grant (wf_store F) txn (Some (me_email m))) s of
        (False, s1) \<Rightarrow> (False, s1)
      | (True, s1) \<Rightarrow>
          (True, snd (on_matrix F txn Approved (Some (me_email m)) now (snd (on_telegram F txn Approved now s1)))))"

fun resolved_verb :: "approval_status \<Rightarrow> string" where
  "resolved_verb Approved = ''approved''"
| "resolved_verb Denied = ''denied''"
| "resolved_verb _ = ''resolved''"

definition dashboard_resolve ::
  "web_faults \<Rightarrow> ('a approval_crates_scheme) \<Rightarrow> string option \<Rightarrow> string \<Rightarrow> approval_status \<Rightarrow> timestamp
    \<Rightarrow> approval_handler_state \<Rightarrow> web_reply \<times> approval_handler_state" where
  "dashboard_resolve F W token txn status now s =
     (case require_user_session F token now s of
        Inl r \<Rightarrow> (r, s)
      | Inr m \<Rightarrow>
          (case authorize_dashboard_resolve F W m txn status now s of
             (Inl r, s1) \<Rightarrow> (r, s1)
           | (Inr x, s1) \<Rightarrow>
               (case resolve_and_bridge F m txn status now s1 of
                  (False, s2) \<Rightarrow> (WebRefused 409 ''already_resolved'', s2)
                | (True, s2) \<Rightarrow> (Decided (resolved_verb status) (me_email m), s2))))"

definition handle_dashboard_approve ::
  "web_faults \<Rightarrow> ('a approval_crates_scheme) \<Rightarrow> string option \<Rightarrow> string \<Rightarrow> timestamp \<Rightarrow> approval_handler_state
    \<Rightarrow> web_reply \<times> approval_handler_state" where
  "handle_dashboard_approve F W token txn now s = dashboard_resolve F W token txn Approved now s"

definition handle_dashboard_deny ::
  "web_faults \<Rightarrow> ('a approval_crates_scheme) \<Rightarrow> string option \<Rightarrow> string \<Rightarrow> timestamp \<Rightarrow> approval_handler_state
    \<Rightarrow> web_reply \<times> approval_handler_state" where
  "handle_dashboard_deny F W token txn now s = dashboard_resolve F W token txn Denied now s"

text \<open>The checks on the details and the live policy before a grant is made: its methods and routes.\<close>

definition grant_terms ::
  "web_faults \<Rightarrow> externals \<Rightarrow> approval_details \<Rightarrow> int \<Rightarrow> int option \<Rightarrow> approval_handler_state
    \<Rightarrow> (web_reply, string list \<times> string list) result" where
  "grant_terms F X x ttl max_uses s =
     (if ad_team_id x = [] \<or> ad_credential_name x = [] then Inl (WebRefused 400 ''grant_scope_underivable'')
      else if starts_with (ad_credential_name x) ''eu:'' then Inl (WebRefused 400 ''grant_not_allowed_end_user'')
      else if \<not> hs_has_store s then Inl (WebRefused 503 ''Grants require a database-backed deployment'')
      else if wf_store F ''get_policy'' then Inl (WebRefused 500 ''Failed to get policy'')
      else let policy = get_policy (ad_team_id x) (ad_credential_name x) (gs_props (db_grants (hs_db s))) in
        if or_else (map_option pr_require_passkey policy) False then Inl (WebRefused 400 ''grant_not_allowed_passkey'')
        else if or_else (map_option (\<lambda>p. pr_min_approvals p > 1) policy) False
        then Inl (WebRefused 400 ''grant_not_allowed_multi_approval'')
        else case scope_from_target X (ad_target_url x) of
          None \<Rightarrow> Inl (WebRefused 400 ''grant_scope_underivable'')
        | Some scope \<Rightarrow>
            (case validate_grant_request
                    \<lparr>cg_methods = [ad_method x], cg_route_scope = [scope], cg_ttl_minutes = ttl, cg_max_uses = max_uses\<rparr> of
               Inl e \<Rightarrow> Inl (WebRefused 400 ''Invalid grant request'')
             | Inr v \<Rightarrow> Inr v))"

definition handle_dashboard_approve_with_grant ::
  "web_faults \<Rightarrow> ('a approval_crates_scheme) \<Rightarrow> externals \<Rightarrow> string option \<Rightarrow> string \<Rightarrow> int \<Rightarrow> int option \<Rightarrow> string \<Rightarrow> timestamp
    \<Rightarrow> approval_handler_state \<Rightarrow> web_reply \<times> approval_handler_state" where
  "handle_dashboard_approve_with_grant F W X token txn ttl max_uses new_id now s =
     (case require_user_session F token now s of
        Inl r \<Rightarrow> (r, s)
      | Inr m \<Rightarrow>
          if \<not> role_can_manage_workspace (me_member_role m) then (WebRefused 403 ''grant_requires_manager'', s)
          else (case authorize_dashboard_resolve F W m txn Approved now s of
              (Inl r, s1) \<Rightarrow> (r, s1)
            | (Inr x, s1) \<Rightarrow>
                (case grant_terms F X x ttl max_uses s1 of
                   Inl r \<Rightarrow> (r, s1)
                 | Inr (methods, route_scope) \<Rightarrow>
                     (case claim_and_bridge_for_grant F m txn now s1 of
                        (False, s2) \<Rightarrow> (WebRefused 409 ''already_resolved'', s2)
                      | (True, s2) \<Rightarrow>
                          let grant =
                            \<lparr>gr_id = new_id, gr_team_id = ad_team_id x, gr_credential_name = ad_credential_name x,
                             gr_methods = methods, gr_route_scope = route_scope, gr_expires_at = now + 60 * ttl,
                             gr_granted_by = me_email m, gr_max_uses = max_uses, gr_uses = 0, gr_revoked = False,
                             gr_created_at = now\<rparr>
                          in if wf_store F ''create_approval_grant'' then (ApprovedButNoGrant (me_email m), s2)
                             else (case create_approval_grant grant (db_grants (hs_db s2)) of
                               Inl e \<Rightarrow> (ApprovedButNoGrant (me_email m), s2)
                             | Inr g \<Rightarrow> (ApprovedWithGrantBy (me_email m) grant,
                                 s2\<lparr>hs_db := (hs_db s2)\<lparr>db_grants := g\<rparr>\<rparr>))))))"

section \<open>Push subscriptions\<close>

definition handle_push_subscribe ::
  "web_faults \<Rightarrow> string option \<Rightarrow> string \<Rightarrow> string \<Rightarrow> string \<Rightarrow> timestamp \<Rightarrow> approval_handler_state
    \<Rightarrow> web_reply \<times> approval_handler_state" where
  "handle_push_subscribe F token endpoint p256dh auth now s =
     (case require_user_session F token now s of
        Inl r \<Rightarrow> (r, s)
      | Inr m \<Rightarrow>
          if \<not> hs_has_store s then (WebRefused 503 ''Push requires a database-backed deployment'', s)
          else if endpoint = [] \<or> p256dh = [] \<or> auth = [] then (WebRefused 400 ''invalid_subscription'', s)
          else if wf_store F ''save_push_subscription'' then (WebRefused 503 ''subscribe_failed'', s)
          else (Subscribed,
            s\<lparr>hs_db := save_push_subscription endpoint (me_team_id m) (me_email m) p256dh auth now (hs_db s)\<rparr>))"

definition handle_push_unsubscribe ::
  "web_faults \<Rightarrow> string option \<Rightarrow> string \<Rightarrow> timestamp \<Rightarrow> approval_handler_state
    \<Rightarrow> web_reply \<times> approval_handler_state" where
  "handle_push_unsubscribe F token endpoint now s =
     (case require_user_session F token now s of
        Inl r \<Rightarrow> (r, s)
      | Inr m \<Rightarrow>
          if \<not> hs_has_store s then (WebRefused 503 ''Push requires a database-backed deployment'', s)
          else if wf_store F ''delete_push_subscription'' then (WebRefused 503 ''unsubscribe_failed'', s)
          else (Unsubscribed, s\<lparr>hs_db := delete_push_subscription endpoint (hs_db s)\<rparr>))"

section \<open>How a decision changes the table\<close>

abbreviation pend :: "approval_handler_state \<Rightarrow> pending_table" where
  "pend s \<equiv> db_pending (hs_db s)"

definition decision_of :: "string \<Rightarrow> pending_table \<Rightarrow> (string \<times> string option) option" where
  "decision_of k t = map_option (\<lambda>p. (pa_status p, pa_required_end_user p)) (map_of t k)"

definition approved_row :: "string \<Rightarrow> pending_table \<Rightarrow> bool" where
  "approved_row k t \<longleftrightarrow> (\<exists>r. decision_of k t = Some (''approved'', r))"

definition open_row :: "string \<Rightarrow> pending_table \<Rightarrow> bool" where
  "open_row k t \<longleftrightarrow> decision_of k t \<in> {None, Some (''pending'', None)}"

text \<open>At most the request \<open>k\<close> is approved, and only if it was open; and no request at all is.\<close>

definition approves_only :: "string \<Rightarrow> pending_table \<Rightarrow> pending_table \<Rightarrow> bool" where
  "approves_only k t t' \<longleftrightarrow>
     (\<forall>j. j \<noteq> k \<longrightarrow> decision_of j t' = decision_of j t)
     \<and> (decision_of k t' = decision_of k t \<or> approved_row k t' \<and> (approved_row k t \<or> open_row k t))"

definition approves_none :: "pending_table \<Rightarrow> pending_table \<Rightarrow> bool" where
  "approves_none t t' \<longleftrightarrow> (\<forall>j. approved_row j t' \<longrightarrow> approved_row j t)"

lemma approves_only_refl [simp]: "approves_only k t t"
  by (simp add: approves_only_def)

lemma approves_only_trans: "approves_only k t t' \<Longrightarrow> approves_only k t' t'' \<Longrightarrow> approves_only k t t''"
  by (auto simp: approves_only_def approved_row_def open_row_def)

lemma approves_none_refl [simp]: "approves_none t t"
  by (simp add: approves_none_def)

lemma approves_none_trans: "approves_none t t' \<Longrightarrow> approves_none t' t'' \<Longrightarrow> approves_none t t''"
  by (simp add: approves_none_def)

lemma newly_approved:
  assumes "approves_only k t t'" and "approved_row j t'" and "\<not> approved_row j t"
  shows "j = k \<and> open_row k t"
  using assms by (cases "j = k") (auto simp: approves_only_def approved_row_def)

lemmas row_defs = decision_of_def approved_row_def open_row_def approves_only_def approves_none_def AList.update_conv'

lemma resolve_approves_only: "approves_only k t (snd (resolve_pending_approval k ''approved'' who now t))"
  by (cases "map_of t k") (auto simp: row_defs resolve_pending_approval_def new_pending_def)

lemma resolve_approves_none:
  "st \<noteq> ''approved'' \<Longrightarrow> approves_none t (snd (resolve_pending_approval k st who now t))"
  by (cases "map_of t k") (auto simp: row_defs resolve_pending_approval_def new_pending_def)

lemma claim_approves_only: "approves_only k t (snd (claim_pending_approval_for_grant k who t))"
  by (cases "map_of t k") (auto simp: row_defs claim_pending_approval_for_grant_def)

lemma challenge_approves_none: "approves_none t (set_pending_approval_challenge k c now t)"
  by (cases "map_of t k") (auto simp: row_defs set_pending_approval_challenge_def new_pending_def)

lemma take_keeps_decision: "decision_of j (snd (take_pending_approval_challenge k now t)) = decision_of j t"
  by (cases "map_of t k") (auto simp: row_defs take_pending_approval_challenge_def)

section \<open>How the methods and bridges change it\<close>

text \<open>A decision that is bridged to a channel changes the shared table as the channel does, if it has one.\<close>

locale channel_bridge =
  fixes channel :: "approval_handler_state \<Rightarrow> 'c option"
    and table_of :: "'c \<Rightarrow> pending_table option"
    and give :: "approval_handler_state \<Rightarrow> 'c \<Rightarrow> 'c"
    and bridge :: "('c \<Rightarrow> bool \<times> 'c) \<Rightarrow> approval_handler_state \<Rightarrow> bool \<times> approval_handler_state"
  assumes absent: "channel s = None \<Longrightarrow> pend (snd (bridge f s)) = pend s"
    and present: "channel s = Some c \<Longrightarrow> pend (snd (bridge f s)) = or_else (table_of (snd (f (give s c)))) (pend s)"
    and given: "table_of (give s c) = map_option (\<lambda>_. pend s) (table_of c)"
begin

lemma bridged_table:
  assumes "\<And>c. table_of (snd (f c)) = map_option g (table_of c)" and "\<And>t. R t (g t)" and "\<And>t. R t t"
  shows "R (pend s) (pend (snd (bridge f s)))"
proof (cases "channel s")
  case None
  then show ?thesis by (simp add: absent assms(3))
next
  case (Some c)
  then show ?thesis by (cases "table_of c") (simp_all add: present given assms or_else_def)
qed

end

interpretation telegram_bridge: channel_bridge hs_telegram tc_store
  "\<lambda>s c. c\<lparr>tc_store := map_option (\<lambda>_. pend s) (tc_store c)\<rparr>" with_telegram
  by unfold_locales (auto simp: with_telegram_def split: prod.splits)

interpretation matrix_bridge: channel_bridge hs_matrix mc_store
  "\<lambda>s c. c\<lparr>mc_store := map_option (\<lambda>_. pend s) (mc_store c)\<rparr>" with_matrix
  by unfold_locales (auto simp: with_matrix_def split: prod.splits)

lemma tg_resolve_store:
  "tc_store (snd (tg_resolve_approval F k st now c)) =
     map_option (\<lambda>t. if tf_resolve F then t else snd (resolve_pending_approval k (status_str st) None now t)) (tc_store c)"
  by (auto simp: tg_resolve_approval_def tg_resolve_approval_as_def tg_signal_def Let_def split: option.splits prod.splits)

lemma mx_resolve_store:
  "mc_store (snd (resolve_and_edit_message F k st who now c)) =
     map_option (\<lambda>t. if mf_resolve F then t else snd (resolve_pending_approval k (status_str st) who now t)) (mc_store c)"
  by (auto simp: resolve_and_edit_message_def Matrix_Channel.resolve_approval_as_def signal_def Let_def
      split: option.splits prod.splits)

lemma on_telegram_table:
  "approves_only k (pend s) (pend (snd (on_telegram F k Approved now s)))"
  "approves_none (pend s) (pend (snd (on_telegram F k Denied now s)))"
  unfolding on_telegram_def
  by (rule telegram_bridge.bridged_table [OF tg_resolve_store]; simp add: resolve_approves_only resolve_approves_none)+

lemma on_matrix_table:
  "approves_only k (pend s) (pend (snd (on_matrix F k Approved who now s)))"
  "approves_none (pend s) (pend (snd (on_matrix F k Denied who now s)))"
  unfolding on_matrix_def
  by (rule matrix_bridge.bridged_table [OF mx_resolve_store]; simp add: resolve_approves_only resolve_approves_none)+

lemma pend_on_webauthn: "pend (snd (on_webauthn f s)) = db_pending (fst (snd (f (hs_db s) (hs_webauthn s))))"
  by (simp add: on_webauthn_def split: prod.splits)

lemma fst_on_webauthn: "fst (on_webauthn f s) = fst (f (hs_db s) (hs_webauthn s))"
  by (simp add: on_webauthn_def split: prod.splits)

lemma wa_resolve_table:
  "approves_only k (db_pending d) (db_pending (fst (snd (wa_resolve_approval_as F k Approved who now d w))))"
  "approves_none (db_pending d) (db_pending (fst (snd (wa_resolve_approval_as F k Denied who now d w))))"
  using resolve_approves_only [of k "db_pending d" who now] resolve_approves_none [of "''denied''" "db_pending d" k who now]
  by (auto simp: wa_resolve_approval_as_def Let_def split: prod.splits)

lemma wa_claim_table:
  "approves_only k (db_pending d) (db_pending (fst (snd (wa_claim_approval_for_grant F k who d w))))"
  using claim_approves_only [of k "db_pending d" who]
  by (auto simp: wa_claim_approval_for_grant_def Let_def split: prod.splits)

lemma begin_table: "approves_none (db_pending d) (db_pending (fst (snd (begin_with F W none ps k nonce now d w))))"
  by (auto simp: begin_with_def challenge_approves_none split: option.splits)

lemma prove_keeps_decision:
  "decision_of j (db_pending (fst (snd (prove_credential F W k auth now d w)))) = decision_of j (db_pending d)"
  using take_keeps_decision [of j k now "db_pending d"]
  by (auto simp: prove_credential_def take_challenge_def Let_def split: prod.splits sum.splits option.splits if_splits)

lemma finish_keeps_decision:
  "decision_of j (db_pending (fst (snd (finish_approval_for_user F W k uid email auth now d w)))) = decision_of j (db_pending d)"
  using prove_keeps_decision [of j F W k auth now d w]
  by (auto simp: finish_approval_for_user_def split: prod.splits sum.splits)

text \<open>A registration touches neither requests nor policies.\<close>

lemma begin_registration_keeps:
  "db_pending (fst (snd (begin_registration F name display c now d w))) = db_pending d
   \<and> db_grants (fst (snd (begin_registration F name display c now d w))) = db_grants d"
  by (auto simp: begin_registration_def set_approver_registration_challenge_def split: option.splits)

lemma take_registration_keeps:
  "take_registration F W name now d w = (r, d1, w1) \<Longrightarrow> db_pending d1 = db_pending d \<and> db_grants d1 = db_grants d"
  by (auto simp: take_registration_def take_approver_registration_challenge_def Let_def
      split: option.splits prod.splits if_splits)

lemma finish_registration_keeps:
  "finish_registration F W name reg now d w = (r, d1, w1) \<Longrightarrow> db_pending d1 = db_pending d \<and> db_grants d1 = db_grants d"
  by (auto simp: finish_registration_def save_approver_passkey_def dest!: take_registration_keeps
      split: sum.splits option.splits prod.splits if_splits)

section \<open>Who is let through\<close>

definition may_decide ::
  "web_faults \<Rightarrow> ('a approval_crates_scheme) \<Rightarrow> string \<Rightarrow> timestamp \<Rightarrow> member \<Rightarrow> approval_details \<Rightarrow> approval_handler_state
    \<Rightarrow> bool" where
  "may_decide F W txn now m x s \<longleftrightarrow>
     fst (load_pending_details (wf_store F) W txn now (hs_db s) (hs_webauthn s)) = Inr (Some x)
     \<and> (ad_team_id x = [] \<or> ad_team_id x = me_team_id m)
     \<and> member_can_act_on_approval F (hs_db s) m x = Inr True"

definition signed_in_as :: "string option \<Rightarrow> timestamp \<Rightarrow> approval_handler_state \<Rightarrow> member \<Rightarrow> bool" where
  "signed_in_as token now s m \<longleftrightarrow>
     (\<exists>h. token = Some h \<and> validate_session h now (db_auth (hs_db s)) = Some m \<and> me_email_verified m)"

definition challenge_issued :: "string \<Rightarrow> approval_db \<Rightarrow> webauthn_state \<Rightarrow> string \<Rightarrow> bool" where
  "challenge_issued txn d w st \<longleftrightarrow>
     Option.bind (map_of (db_pending d) txn) pa_approval_challenge = Some st \<or> ws_approval_challenges w txn = Some st"

lemma require_user_session_Inr: "require_user_session F token now s = Inr m \<Longrightarrow> signed_in_as token now s m"
  by (auto simp: require_user_session_def signed_in_as_def split: option.splits if_splits)

lemma load_details_Inr:
  assumes "load_approval_details_for_member F W txn m now s = (Inr x, s1)"
  shows "may_decide F W txn now m x s
    \<and> (\<exists>w. s1 = s\<lparr>hs_webauthn := w\<rparr> \<and> w = (hs_webauthn s)\<lparr>ws_pending_details := ws_pending_details w\<rparr>)"
  using assms
  by (auto simp: load_approval_details_for_member_def load_pending_details_def may_decide_def Let_def
      split: prod.splits sum.splits option.splits if_splits bool.splits)

lemma load_details_db: "hs_db (snd (load_approval_details_for_member F W txn m now s)) = hs_db s"
  by (auto simp: load_approval_details_for_member_def Let_def split: prod.splits sum.splits option.splits bool.splits)

lemma authorize_Inr:
  assumes "authorize_dashboard_resolve F W m txn status now s = (Inr x, s1)"
  shows "may_decide F W txn now m x s \<and> (status = Approved \<longrightarrow> \<not> ad_require_passkey x)"
  using assms
  by (auto simp: authorize_dashboard_resolve_def may_decide_def Let_def
      split: prod.splits sum.splits option.splits if_splits bool.splits)

lemma authorize_db: "hs_db (snd (authorize_dashboard_resolve F W m txn status now s)) = hs_db s"
  by (auto simp: authorize_dashboard_resolve_def Let_def split: prod.splits sum.splits option.splits bool.splits)

lemma with_member_details_rule:
  assumes refused: "\<And>r s1. hs_db s1 = hs_db s \<Longrightarrow> P (r, s1)"
    and let_through: "\<And>m x w. signed_in_as token now s m \<Longrightarrow> may_decide F W txn now m x s
      \<Longrightarrow> w = (hs_webauthn s)\<lparr>ws_pending_details := ws_pending_details w\<rparr> \<Longrightarrow> P (k m x (s\<lparr>hs_webauthn := w\<rparr>))"
  shows "P (with_member_details F W token txn now k s)"
proof (cases "require_user_session F token now s")
  case (Inl r)
  then show ?thesis by (simp add: with_member_details_def refused)
next
  case m: (Inr m)
  obtain r s1 where r: "load_approval_details_for_member F W txn m now s = (r, s1)" by fastforce
  show ?thesis
  proof (cases r)
    case (Inl e)
    with r m load_details_db [of F W txn m now s] show ?thesis by (simp add: with_member_details_def refused)
  next
    case (Inr x)
    with load_details_Inr [of F W txn m now s x s1] r obtain w where
      "may_decide F W txn now m x s" "s1 = s\<lparr>hs_webauthn := w\<rparr>"
      "w = (hs_webauthn s)\<lparr>ws_pending_details := ws_pending_details w\<rparr>" by auto
    with let_through [of m x w] r Inr m require_user_session_Inr [OF m]
    show ?thesis by (simp add: with_member_details_def)
  qed
qed

section \<open>What a ceremony proves\<close>

lemma session_passkeys_cong:
  assumes "db_auth d' = db_auth d" "db_approver_passkeys d' = db_approver_passkeys d"
    "ws_credentials w' = ws_credentials w" "ws_admin_credentials w' = ws_admin_credentials w"
    "ws_has_store w' = ws_has_store w"
  shows "session_approval_passkeys F W uid email d' w' = session_approval_passkeys F W uid email d w"
    and "approver_passkeys_for F W name d' w' = approver_passkeys_for F W name d w"
  using assms
  by (simp_all add: session_approval_passkeys_def approver_passkeys_for_def login_passkeys_def stored_passkeys_of_def
      list_all_approver_passkeys_def)

lemma same_table: "\<exists>t. d = d\<lparr>db_pending := t\<rparr>"
  by (rule exI [of _ "db_pending d"]) simp

lemma take_challenge_Inr:
  assumes "take_challenge F W txn now d w = (Inr st, d1, w1)"
  shows "challenge_issued txn d w st \<and> (\<exists>t. d1 = d\<lparr>db_pending := t\<rparr>)
    \<and> w1 = w\<lparr>ws_approval_challenges := (ws_approval_challenges w)(txn := None)\<rparr>"
  using assms
  by (auto simp: take_challenge_def take_pending_approval_challenge_def challenge_issued_def Let_def same_table
      split: option.splits if_splits prod.splits)

lemma prove_credential_Inr:
  assumes "prove_credential F W txn auth now d w = (Inr cred, d1, w1)"
  shows "\<exists>st. challenge_issued txn d w st \<and> authenticated_credential W st auth = Some cred
    \<and> (\<exists>t. d1 = d\<lparr>db_pending := t\<rparr>) \<and> w1 = w\<lparr>ws_approval_challenges := (ws_approval_challenges w)(txn := None)\<rparr>"
  using assms take_challenge_Inr [of F W txn now d w]
  by (auto simp: prove_credential_def split: prod.splits sum.splits option.splits)

lemma finish_user_Inr:
  assumes "finish_approval_for_user F W txn uid email auth now d w = (Inr r, d1, w1)"
  shows "\<exists>st p. challenge_issued txn d w st \<and> p \<in> set (session_approval_passkeys F W uid email d w)
    \<and> authenticated_credential W st auth = Some (cred_id W p)"
proof -
  from assms obtain cred where pc: "prove_credential F W txn auth now d w = (Inr cred, d1, w1)"
    and own: "list_ex (\<lambda>p. cred_id W p = cred) (session_approval_passkeys F W uid email d1 w1)"
    by (auto simp: finish_approval_for_user_def split: prod.splits sum.splits if_splits)
  from prove_credential_Inr [OF pc] obtain st t where st: "challenge_issued txn d w st"
    "authenticated_credential W st auth = Some cred" "d1 = d\<lparr>db_pending := t\<rparr>"
    "w1 = w\<lparr>ws_approval_challenges := (ws_approval_challenges w)(txn := None)\<rparr>" by blast
  then have "session_approval_passkeys F W uid email d1 w1 = session_approval_passkeys F W uid email d w"
    by (intro session_passkeys_cong) simp_all
  with own st(1,2) show ?thesis by (auto simp: list_ex_iff)
qed

section \<open>Requests\<close>

datatype web_request =
    RegisterBegin string
  | RegisterFinish string
  | ShowDetails string
  | BeginApproval string string
  | FinishApproval string string
  | DenyApproval string
  | DashboardApprove string
  | DashboardDeny string
  | DashboardGrant string int "int option" string
  | Subscribe string string string
  | Unsubscribe string

fun web_step ::
  "web_faults \<Rightarrow> ('a approval_crates_scheme) \<Rightarrow> externals \<Rightarrow> string option \<Rightarrow> timestamp \<Rightarrow> web_request \<Rightarrow> approval_handler_state
    \<Rightarrow> web_reply \<times> approval_handler_state" where
  "web_step F W X token now (RegisterBegin c) s = handle_register_begin F token c now s"
| "web_step F W X token now (RegisterFinish r) s = handle_register_finish F W token r now s"
| "web_step F W X token now (ShowDetails txn) s = handle_approval_details F W token txn now s"
| "web_step F W X token now (BeginApproval txn nonce) s = handle_approval_begin F W token txn nonce now s"
| "web_step F W X token now (FinishApproval txn auth) s = handle_approval_finish F W token txn auth now s"
| "web_step F W X token now (DenyApproval txn) s = handle_approval_deny F W token txn now s"
| "web_step F W X token now (DashboardApprove txn) s = handle_dashboard_approve F W token txn now s"
| "web_step F W X token now (DashboardDeny txn) s = handle_dashboard_deny F W token txn now s"
| "web_step F W X token now (DashboardGrant txn ttl n i) s =
     handle_dashboard_approve_with_grant F W X token txn ttl n i now s"
| "web_step F W X token now (Subscribe e p a) s = handle_push_subscribe F token e p a now s"
| "web_step F W X token now (Unsubscribe e) s = handle_push_unsubscribe F token e now s"

lemma begin_step_table: "approves_none (pend s) (pend (snd (handle_approval_begin F W token txn nonce now s)))"
  unfolding handle_approval_begin_def
proof (rule with_member_details_rule)
  fix m x w
  assume "w = (hs_webauthn s)\<lparr>ws_pending_details := ws_pending_details w\<rparr>"
  let ?r = "on_webauthn (begin_approval_for_user (wf_store F) W txn (me_id m) (me_email m) nonce now) (s\<lparr>hs_webauthn := w\<rparr>)"
  have "approves_none (pend s) (pend (snd ?r))"
    using begin_table [of "hs_db s" "wf_store F" W no_credentials_text _ txn nonce now w]
    by (simp add: pend_on_webauthn begin_approval_for_user_def)
  then show "approves_none (pend s) (pend (snd (case ?r of
      (Inr st, s1) \<Rightarrow> (ChallengeIssued st, s1)
    | (Inl e, s1) \<Rightarrow> (if e = Internal no_credentials_text then WebRefused 412 ''no_credentials''
                     else WebRefused 503 ''approval_challenge_unavailable'', s1))))"
    by (auto split: prod.splits sum.splits)
qed simp

lemma deny_step_table: "approves_none (pend s) (pend (snd (handle_approval_deny F W token txn now s)))"
  unfolding handle_approval_deny_def
proof (rule with_member_details_rule)
  fix m x w
  let ?s = "s\<lparr>hs_webauthn := w\<rparr>"
  let ?s2 = "snd (on_matrix F txn Denied None now (snd (on_telegram F txn Denied now ?s)))"
  have "approves_none (pend s) (pend ?s2)"
    using approves_none_trans [OF on_telegram_table(2) [of ?s F txn now] on_matrix_table(2)] by simp
  moreover have "approves_none (pend ?s2) (pend (snd (on_webauthn (wa_resolve_approval (wf_store F) txn Denied now) ?s2)))"
    by (simp add: pend_on_webauthn wa_resolve_approval_def wa_resolve_table)
  ultimately show "approves_none (pend s) (pend (snd (let s1 = snd (on_telegram F txn Denied now ?s);
        s2 = snd (on_matrix F txn Denied None now s1)
      in (DeniedReply, snd (on_webauthn (wa_resolve_approval (wf_store F) txn Denied now) s2)))))"
    unfolding Let_def snd_conv by (rule approves_none_trans)
qed simp

lemma bridged_approval: "approves_only txn (pend s) (pend (snd (resolve_and_bridge F m txn Approved now s)))"
proof -
  let ?s1 = "snd (on_webauthn (wa_resolve_approval_as (wf_store F) txn Approved (Some (me_email m)) now) s)"
  have "approves_only txn (pend s) (pend ?s1)" by (simp add: pend_on_webauthn wa_resolve_table)
  with approves_only_trans [OF approves_only_trans [OF this on_telegram_table(1)] on_matrix_table(1)]
  show ?thesis by (simp add: resolve_and_bridge_def Let_def split_beta)
qed

lemma bridged_denial: "approves_none (pend s) (pend (snd (resolve_and_bridge F m txn Denied now s)))"
proof -
  let ?s1 = "snd (on_webauthn (wa_resolve_approval_as (wf_store F) txn Denied (Some (me_email m)) now) s)"
  have "approves_none (pend s) (pend ?s1)" by (simp add: pend_on_webauthn wa_resolve_table)
  with approves_none_trans [OF approves_none_trans [OF this on_telegram_table(2)] on_matrix_table(2)]
  show ?thesis by (simp add: resolve_and_bridge_def Let_def split_beta)
qed

lemma bridged_claim: "approves_only txn (pend s) (pend (snd (claim_and_bridge_for_grant F m txn now s)))"
proof -
  let ?s1 = "snd (on_webauthn (wa_claim_approval_for_grant (wf_store F) txn (Some (me_email m))) s)"
  have "approves_only txn (pend s) (pend ?s1)" by (simp add: pend_on_webauthn wa_claim_table)
  with approves_only_trans [OF approves_only_trans [OF this on_telegram_table(1)] on_matrix_table(1)] this
  show ?thesis by (auto simp: claim_and_bridge_for_grant_def split: prod.splits bool.splits)
qed

text \<open>What a request that approves must have shown.\<close>

definition passkey_shown ::
  "web_faults \<Rightarrow> ('a approval_crates_scheme) \<Rightarrow> string \<Rightarrow> string \<Rightarrow> member \<Rightarrow> approval_handler_state \<Rightarrow> bool" where
  "passkey_shown F W txn auth m s \<longleftrightarrow>
     (\<exists>st p. challenge_issued txn (hs_db s) (hs_webauthn s) st
        \<and> p \<in> set (session_approval_passkeys (wf_store F) W (me_id m) (me_email m) (hs_db s) (hs_webauthn s))
        \<and> authenticated_credential W st auth = Some (cred_id W p))"

definition approval_shown ::
  "web_faults \<Rightarrow> ('a approval_crates_scheme) \<Rightarrow> string option \<Rightarrow> timestamp \<Rightarrow> web_request \<Rightarrow> string \<Rightarrow> approval_handler_state
    \<Rightarrow> bool" where
  "approval_shown F W token now req txn s \<longleftrightarrow>
     (\<exists>m x. signed_in_as token now s m \<and> may_decide F W txn now m x s
        \<and> ((\<exists>auth. req = FinishApproval txn auth \<and> passkey_shown F W txn auth m s)
           \<or> \<not> ad_require_passkey x \<and> (req = DashboardApprove txn \<or> (\<exists>ttl n i. req = DashboardGrant txn ttl n i))))"

lemma passkey_shownI:
  assumes w: "w = (hs_webauthn s)\<lparr>ws_pending_details := ws_pending_details w\<rparr>"
    and fin: "finish_approval_for_user (wf_store F) W txn (me_id m) (me_email m) auth now (hs_db s) w = (Inr u, d', w')"
  shows "passkey_shown F W txn auth m s"
proof -
  have "session_approval_passkeys (wf_store F) W (me_id m) (me_email m) (hs_db s) w
      = session_approval_passkeys (wf_store F) W (me_id m) (me_email m) (hs_db s) (hs_webauthn s)"
    by (rule session_passkeys_cong; (subst w)?; simp)
  moreover have "ws_approval_challenges w = ws_approval_challenges (hs_webauthn s)" by (subst w) simp
  ultimately show ?thesis using finish_user_Inr [OF fin] unfolding passkey_shown_def challenge_issued_def by auto
qed

lemma bridged_passkey:
  "approves_only txn (pend s) (pend (snd (on_webauthn (wa_resolve_approval_as F' txn Approved who now)
     (snd (on_matrix F txn Approved who now (snd (on_telegram F txn Approved now s)))))))"
  using approves_only_trans [OF approves_only_trans [OF on_telegram_table(1) [of txn s F now] on_matrix_table(1)]]
  by (metis pend_on_webauthn wa_resolve_table(1))

lemma finish_step_table:
  assumes "approved_row j (pend (snd (handle_approval_finish F W token txn auth now s)))" and "\<not> approved_row j (pend s)"
  shows "j = txn \<and> open_row txn (pend s) \<and> approval_shown F W token now (FinishApproval txn auth) txn s"
proof -
  let ?P = "\<lambda>y. approved_row j (pend (snd y)) \<longrightarrow>
    j = txn \<and> open_row txn (pend s) \<and> approval_shown F W token now (FinishApproval txn auth) txn s"
  have "?P (handle_approval_finish F W token txn auth now s)"
    unfolding handle_approval_finish_def
  proof (rule with_member_details_rule)
    fix m x w
    assume in_as: "signed_in_as token now s m" and may: "may_decide F W txn now m x s"
      and w: "w = (hs_webauthn s)\<lparr>ws_pending_details := ws_pending_details w\<rparr>"
    let ?f = "finish_approval_for_user (wf_store F) W txn (me_id m) (me_email m) auth now"
    obtain r s1 where s1: "on_webauthn ?f (s\<lparr>hs_webauthn := w\<rparr>) = (r, s1)" by fastforce
    have dec: "decision_of k (pend s1) = decision_of k (pend s)" for k
      using finish_keeps_decision [of k "wf_store F" W txn "me_id m" "me_email m" auth now "hs_db s" w]
        pend_on_webauthn [of ?f "s\<lparr>hs_webauthn := w\<rparr>"] s1 by simp
    let ?s3 = "snd (on_matrix F txn Approved (Some (me_email m)) now (snd (on_telegram F txn Approved now s1)))"
    let ?s4 = "snd (on_webauthn (wa_resolve_approval_as (wf_store F) txn Approved (Some (me_email m)) now) ?s3)"
    have "approval_shown F W token now (FinishApproval txn auth) txn s" if "r = Inr u" for u
    proof -
      have "fst (?f (hs_db s) w) = Inr u" using fst_on_webauthn [of ?f "s\<lparr>hs_webauthn := w\<rparr>"] s1 that by simp
      then obtain d' w' where "?f (hs_db s) w = (Inr u, d', w')" by (metis prod.collapse)
      from passkey_shownI [OF w this] have "passkey_shown F W txn auth m s" .
      with in_as may show ?thesis by (auto simp: approval_shown_def)
    qed
    moreover have "j = txn \<and> open_row txn (pend s)" if "approved_row j (pend ?s4)"
      using newly_approved [OF bridged_passkey that] dec assms(2) by (simp add: approved_row_def open_row_def)
    ultimately show "?P (case on_webauthn ?f (s\<lparr>hs_webauthn := w\<rparr>) of
         (Inl e, s1) \<Rightarrow> (if e = no_challenge then WebRefused 409 ''stale_challenge''
                        else WebRefused 403 ''passkey_verification_failed'', s1)
       | (Inr _, s1) \<Rightarrow>
           let (tg, s2) = on_telegram F txn Approved now s1;
               (mx, s3) = on_matrix F txn Approved (Some (me_email m)) now s2;
               (persisted, s4) =
                 on_webauthn (wa_resolve_approval_as (wf_store F) txn Approved (Some (me_email m)) now) s3
           in (if \<not> tg \<and> \<not> mx \<and> \<not> persisted then WebRefused 410 ''session_expired'' else ApprovedBy (me_email m), s4))"
      using s1 dec assms(2) by (cases r) (auto simp: Let_def split_beta approved_row_def)
  qed (use assms(2) in simp)
  with assms(1) show ?thesis by blast
qed

lemma dashboard_resolve_table:
  assumes "approved_row j (pend (snd (dashboard_resolve F W token txn status now s)))" and "\<not> approved_row j (pend s)"
    and "status = Approved \<or> status = Denied"
  shows "j = txn \<and> open_row txn (pend s) \<and> status = Approved
    \<and> (\<exists>m x. signed_in_as token now s m \<and> may_decide F W txn now m x s \<and> \<not> ad_require_passkey x)"
proof (cases "require_user_session F token now s")
  case (Inr m)
  obtain r s1 where a: "authorize_dashboard_resolve F W m txn status now s = (r, s1)" by fastforce
  have db: "pend s1 = pend s" using authorize_db [of F W m txn status now s] a by simp
  show ?thesis
  proof (cases r)
    case (Inr x)
    have "pend (snd (dashboard_resolve F W token txn status now s)) = pend (snd (resolve_and_bridge F m txn status now s1))"
      using \<open>require_user_session F token now s = Inr m\<close> a Inr
      by (simp add: dashboard_resolve_def split: prod.splits bool.splits)
    with assms bridged_denial [of s1 F m txn now] newly_approved [OF bridged_approval [of txn s1 F m now], of j] db
    have "j = txn \<and> open_row txn (pend s) \<and> status = Approved" by (auto simp: approves_none_def)
    with authorize_Inr [of F W m txn status now s x s1] a Inr require_user_session_Inr [OF \<open>require_user_session F token now s = Inr m\<close>]
    show ?thesis by blast
  qed (use assms a db \<open>require_user_session F token now s = Inr m\<close> in \<open>simp add: dashboard_resolve_def\<close>)
qed (use assms in \<open>simp add: dashboard_resolve_def\<close>)

lemma grant_step_table:
  assumes "approved_row j (pend (snd (handle_dashboard_approve_with_grant F W X token txn ttl n i now s)))"
    and "\<not> approved_row j (pend s)"
  shows "j = txn \<and> open_row txn (pend s) \<and> approval_shown F W token now (DashboardGrant txn ttl n i) txn s"
proof (cases "require_user_session F token now s")
  case m: (Inr m)
  obtain r s1 where a: "authorize_dashboard_resolve F W m txn Approved now s = (r, s1)" by fastforce
  have db: "pend s1 = pend s" using authorize_db [of F W m txn Approved now s] a by simp
  let ?claim = "claim_and_bridge_for_grant F m txn now s1"
  have same: "pend (snd (handle_dashboard_approve_with_grant F W X token txn ttl n i now s)) \<in> {pend s, pend (snd ?claim)}"
    using m a db
    by (auto simp: handle_dashboard_approve_with_grant_def Let_def split: prod.splits sum.splits bool.splits)
  with assms have "approved_row j (pend (snd ?claim))" by auto
  with newly_approved [OF bridged_claim [of txn s1 F m now], of j] db assms(2) have "j = txn \<and> open_row txn (pend s)" by simp
  moreover obtain x where "r = Inr x"
    using assms m a db by (cases r) (auto simp: handle_dashboard_approve_with_grant_def split: if_splits)
  ultimately show ?thesis
    using authorize_Inr [of F W m txn Approved now s x s1] a require_user_session_Inr [OF m]
    by (auto simp: approval_shown_def)
qed (use assms in \<open>simp add: handle_dashboard_approve_with_grant_def\<close>)

lemma other_steps_table:
  "pend (snd (handle_register_begin F token c now s)) = pend s"
  "pend (snd (handle_register_finish F W token reg now s)) = pend s"
  "pend (snd (handle_approval_details F W token txn now s)) = pend s"
  "pend (snd (handle_push_subscribe F token e p a now s)) = pend s"
  "pend (snd (handle_push_unsubscribe F token e now s)) = pend s"
proof -
  show "pend (snd (handle_approval_details F W token txn now s)) = pend s"
    unfolding handle_approval_details_def by (rule with_member_details_rule) simp_all
qed (auto simp: handle_register_begin_def handle_register_finish_def handle_push_subscribe_def
    handle_push_unsubscribe_def save_push_subscription_def delete_push_subscription_def split: sum.splits prod.splits)

section \<open>Properties\<close>

text \<open>C9. A request to the approval page or the dashboard turns a row into an approved one only if the row was
  open (pending and not reserved for an end-user, or not there yet) and the request came with
  the session of a verified member, of the team of the request, whom the policy and the role
  or the assigned credentials let decide it; and either the member answered a challenge issued for
  this request with a passkey of their own, or the request does not require a passkey and it
  is one of the two approvals of the dashboard.\<close>

theorem web_approval_authorised:
  assumes "approved_row txn (pend (snd (web_step F W X token now req s)))" and "\<not> approved_row txn (pend s)"
  shows "open_row txn (pend s) \<and> approval_shown F W token now req txn s"
proof (cases req)
  case (FinishApproval k auth)
  with assms finish_step_table [of txn F W token k auth now s] show ?thesis by auto
next
  case (DashboardApprove k)
  with assms dashboard_resolve_table [of txn F W token k Approved now s]
  show ?thesis by (auto simp: handle_dashboard_approve_def approval_shown_def)
next
  case (DashboardDeny k)
  with assms dashboard_resolve_table [of txn F W token k Denied now s]
  show ?thesis by (auto simp: handle_dashboard_deny_def)
next
  case (DashboardGrant k ttl n i)
  with assms grant_step_table [of txn F W X token k ttl n i now s] show ?thesis by auto
next
  case (BeginApproval k nonce)
  with assms begin_step_table [of s F W token k nonce now] show ?thesis by (auto simp: approves_none_def)
next
  case (DenyApproval k)
  with assms deny_step_table [of s F W token k now] show ?thesis by (auto simp: approves_none_def)
qed (use assms in \<open>auto simp: other_steps_table\<close>)

definition blank_webauthn :: webauthn_state where
  "blank_webauthn =
     \<lparr>ws_credentials = [], ws_admin_credentials = Map.empty, ws_reg_challenges = Map.empty,
      ws_approval_challenges = Map.empty, ws_pending_details = Map.empty, ws_pending_resolvers = Map.empty,
      ws_delivered = [], ws_has_store = True\<rparr>"

definition sample_details :: approval_details where
  "sample_details =
     \<lparr>ad_txn_id = ''t1'', ad_team_id = ''acme'', ad_agent_id = ''bot'', ad_credential_name = ''api'',
      ad_target_url = ''https://api.io/x'', ad_method = ''POST'', ad_body_preview = None, ad_summary = None,
      ad_allowed_approvers = [], ad_require_passkey = False\<rparr>"

definition sample_crates :: approval_crates where
  "sample_crates = webauthn.extend sample_webauthn
     (approval_crates.fields (\<lambda>nonce ps. Some nonce) (\<lambda>st a. if a = st @ ''-signed'' then Some ''{}'' else None)
        (\<lambda>p. p) (\<lambda>_. True) (\<lambda>p a. p) (\<lambda>_. Some sample_details))"

definition no_web_faults :: web_faults where
  "no_web_faults = \<lparr>wf_store = (\<lambda>_. False), wf_telegram = no_tc_faults, wf_matrix = no_faults\<rparr>"

definition acme_site :: approval_handler_state where
  "acme_site =
     \<lparr>hs_webauthn = blank_webauthn, hs_telegram = None, hs_matrix = None, hs_has_store = True,
      hs_db = \<lparr>db_pending = [(''t1'', new_pending ''{}'' ''pending'' 0 1000)],
        db_auth = acme_auth\<lparr>at_sessions := [(''tok'', \<lparr>sn_user_id = ''carl'', sn_team_id = ''acme'', sn_expires_at = 100,
          sn_created_at = 0, sn_scope = ''full''\<rparr>)]\<rparr>,
        db_grants = sample_grant_store, db_approver_passkeys = [], db_registrations = [], db_push = []\<rparr>\<rparr>"

theorem web_approval_authorised_witness:
  "open_row ''t1'' (pend acme_site)
   \<and> approval_shown no_web_faults sample_crates (Some ''tok'') 5 (DashboardApprove ''t1'') ''t1'' acme_site"
proof (rule web_approval_authorised)
  have "require_user_session no_web_faults (Some ''tok'') 5 acme_site = Inr (acme_member ''carl'' ''admin'')"
    by (simp add: require_user_session_def no_web_faults_def acme_site_def auth_eval)
  moreover have "authorize_dashboard_resolve no_web_faults sample_crates (acme_member ''carl'' ''admin'') ''t1'' Approved 5
      acme_site = (Inr sample_details, acme_site\<lparr>hs_webauthn := blank_webauthn\<lparr>ws_pending_details := [''t1'' \<mapsto> sample_details]\<rparr>\<rparr>)"
    by (simp add: authorize_dashboard_resolve_def load_pending_details_def get_pending_approval_details_def
        member_can_act_on_approval_def policy_allows_member_def role_can_approve_all_credentials_def no_web_faults_def
        acme_site_def blank_webauthn_def new_pending_def sample_crates_def sample_details_def acme_defs
        webauthn.defs approval_crates.defs)
  ultimately show "approved_row ''t1'' (pend (snd (web_step no_web_faults sample_crates sample_externals (Some ''tok'') 5
      (DashboardApprove ''t1'') acme_site)))"
    by (simp add: handle_dashboard_approve_def dashboard_resolve_def resolve_and_bridge_def on_webauthn_def
        wa_resolve_approval_as_def forget_details_def resolve_pending_approval_def wa_signal_def on_telegram_def
        with_telegram_def on_matrix_def with_matrix_def no_web_faults_def acme_site_def blank_webauthn_def new_pending_def
        approved_row_def decision_of_def)
  show "\<not> approved_row ''t1'' (pend acme_site)" by (simp add: acme_site_def new_pending_def approved_row_def decision_of_def)
qed

section \<open>Limits\<close>

text \<open>
  A member's click on a request that is reserved for an end-user is refused by the database, but it is
  bridged all the same: the Telegram waiter of the same process gets an approval.
\<close>

lemma bridge_bypasses_gate:
  assumes "map_of (pend s) txn = Some row" and "pa_required_end_user row = Some ext" and "pa_status row = ''pending''"
    and "ws_has_store (hs_webauthn s)" and "hs_telegram s = Some c" and "tc_pending c txn = Some p" and "tp_alive p"
  shows "\<exists>s' c'. resolve_and_bridge F m txn Approved now s = (False, s') \<and> hs_telegram s' = Some c'
    \<and> (txn, Approved) \<in> set (tc_delivered c')"
proof -
  let ?s1 = "snd (on_webauthn (wa_resolve_approval_as (wf_store F) txn Approved (Some (me_email m)) now) s)"
  have 1: "fst (on_webauthn (wa_resolve_approval_as (wf_store F) txn Approved (Some (me_email m)) now) s) = False"
    using assms(1-4) by (simp add: fst_on_webauthn wa_resolve_approval_as_def resolve_pending_approval_def Let_def)
  let ?c = "c\<lparr>tc_store := map_option (\<lambda>_. pend ?s1) (tc_store c)\<rparr>"
  let ?c' = "snd (tg_resolve_approval (wf_telegram F) txn Approved now ?c)"
  have "hs_telegram ?s1 = Some c" using assms(5) by (simp add: on_webauthn_def split: prod.splits)
  then have "hs_telegram (snd (on_telegram F txn Approved now ?s1)) = Some ?c'"
    by (simp add: on_telegram_def with_telegram_def split: prod.splits)
  moreover have "(txn, Approved) \<in> set (tc_delivered ?c')"
    using assms(6,7) tg_refused_approval_still_delivered [of ?c txn p "wf_telegram F" Approved None now]
    by (simp add: tg_resolve_approval_def)
  moreover have "hs_telegram (snd (on_matrix F txn Approved who now z)) = hs_telegram z" for who z
    by (simp add: on_matrix_def with_matrix_def split: option.splits prod.splits)
  ultimately show ?thesis using 1 by (simp add: resolve_and_bridge_def Let_def split_beta)
qed

text \<open>
  A state that begins on one process and ends on another is used up in the database, but the process
  that began it still accepts it.
\<close>

lemma take_twice: "fst (take_pending_approval_challenge k now (snd (take_pending_approval_challenge k now t))) = None"
  by (auto simp: take_pending_approval_challenge_def AList.update_conv' split: option.splits)

lemma take_challenge_pending:
  assumes "ws_has_store w" and "\<not> F ''take_pending_approval_challenge''"
  shows "db_pending (fst (snd (take_challenge F W k now d w))) = snd (take_pending_approval_challenge k now (db_pending d))"
  using assms by (simp add: take_challenge_def Let_def split: option.splits prod.splits)

lemma challenge_accepted_twice:
  assumes begun: "begin_with F W none ps txn nonce now d w = (Inr st, d1, w1)" and store: "ws_has_store w" "ws_has_store w'"
    and ok: "\<not> F ''take_pending_approval_challenge''" and taken: "take_challenge F W txn now' d1 w' = (r, d2, w2)"
  shows "fst (take_challenge F W txn now' d2 w1) = Inr st"
proof -
  have w1: "w1 = w\<lparr>ws_approval_challenges := (ws_approval_challenges w)(txn \<mapsto> st)\<rparr>"
    using begun by (auto simp: begin_with_def split: if_splits option.splits)
  have "fst (take_pending_approval_challenge txn now' (db_pending d2)) = None"
    using take_challenge_pending [of w' F W txn now' d1] store(2) ok taken take_twice [of txn now' "db_pending d1"] by simp
  with store(1) ok show ?thesis by (auto simp: w1 take_challenge_def Let_def split: prod.splits)
qed

text \<open>The page answers \<open>denied\<close> also when the request has been approved before.\<close>

lemma denial_reported_regardless:
  assumes "signed_in_as token now s m" and "hs_has_store s" and "\<not> wf_store F ''validate_session''"
    and "may_decide F W txn now m x s"
  shows "fst (handle_approval_deny F W token txn now s) = DeniedReply"
  using assms
  by (auto simp: handle_approval_deny_def with_member_details_def signed_in_as_def require_user_session_def may_decide_def
      load_approval_details_for_member_def Let_def split: prod.splits)

end
