(* ===== verification/Db_State.thy ===== *)
theory Db_State
  imports Access Channels
begin

text \<open>
  What the proxy remembers of the database (\<open>tap-proxy/src/db_state.rs\<close>): the caches of agents, keys,
  credentials, policies and chats, each with its time to live. A machine with one cache, one store
  and queries in flight is the abstract specification; the locale \<open>ttl_cache\<close> states what a cache must
  do to be one, and the caches of the proxy are instances. So an answer of the cache was right at
  some recent time. The last sections show what holds after an invalidation, and how the cache
  of keys, which has no time to live, keeps a rotated key valid.
\<close>

section \<open>Rows as the proxy uses them\<close>

text \<open>The decoders of the two JSON columns are parameters; \<open>None\<close> is a text that does not decode.\<close>

record row_decoders =
  decode_bindings :: "string \<Rightarrow> auth_binding list option"
  decode_hosts :: "string \<Rightarrow> string list option"

definition row_to_credential_config :: "row_decoders \<Rightarrow> credential_row \<Rightarrow> credential_config" where
  "row_to_credential_config J row =
     \<lparr>cc_description = cr_description row, cc_api_base = cr_api_base row,
      cc_substitution = default_substitution,
      cc_connector = (if cr_connector row = ''sidecar'' then Sidecar else Direct),
      cc_relative_target = cr_relative_target row, cc_auth_header_format = cr_auth_header_format row,
      cc_auth_bindings = or_else (Option.bind (cr_auth_bindings_json row) (decode_bindings J)) [],
      cc_end_user_id = cr_end_user_id row,
      cc_allowed_hosts = or_else (Option.bind (cr_allowed_hosts_json row) (decode_hosts J)) []\<rparr>"

section \<open>The caches\<close>

record cached_agent =
  ca_row :: agent_row
  ca_effective_credentials :: "string list"
  ca_fetched_at :: int

record db_state =
  ds_auth_cache :: "string \<rightharpoonup> (string \<times> string) option"
  ds_agent_cache :: "string \<times> string \<rightharpoonup> cached_agent"
  ds_credential_cache :: "string \<times> string \<rightharpoonup> credential_row \<times> int"
  ds_policy_cache :: "string \<times> string \<rightharpoonup> policy_row option \<times> int"
  ds_chat_cache :: "string \<rightharpoonup> string option \<times> int"
  ds_cache_ttl :: int

definition db_state_new :: "int \<Rightarrow> db_state" where
  "db_state_new ttl =
     \<lparr>ds_auth_cache = Map.empty, ds_agent_cache = Map.empty, ds_credential_cache = Map.empty,
      ds_policy_cache = Map.empty, ds_chat_cache = Map.empty, ds_cache_ttl = ttl\<rparr>"

text \<open>The bound on a query, and its answer; \<open>None\<close> says that there was none in time.\<close>

definition db_timeout :: int where
  "db_timeout = 5"

definition with_db_timeout :: "(agent_sec_error, 'a) result option \<Rightarrow> (agent_sec_error, 'a) result" where
  "with_db_timeout answer =
     (case answer of None \<Rightarrow> Inl (Internal ''DB query timed out'') | Some r \<Rightarrow> r)"

definition fresh_entry :: "db_state \<Rightarrow> int \<Rightarrow> int \<Rightarrow> bool" where
  "fresh_entry d now fetched \<longleftrightarrow> now - fetched < ds_cache_ttl d"

definition cached_agent_at :: "db_state \<Rightarrow> int \<Rightarrow> string \<times> string \<Rightarrow> cached_agent option" where
  "cached_agent_at d now k =
     (case ds_agent_cache d k of
        Some c \<Rightarrow> if fresh_entry d now (ca_fetched_at c) then Some c else None
      | None \<Rightarrow> None)"

text \<open>
  Each operation takes the time \<open>now\<close> at which it looks into the cache, the answers of its queries, and
  the time \<open>fin\<close> at which it writes the cache.
\<close>

definition db_authenticate ::
  "string \<Rightarrow> int \<Rightarrow> (agent_sec_error, agent_row option) result option
    \<Rightarrow> (agent_row \<Rightarrow> (agent_sec_error, string list) result option) \<Rightarrow> int \<Rightarrow> db_state
    \<Rightarrow> (agent_sec_error, agent_row option) result \<times> db_state" where
  "db_authenticate h now row_answer creds_answer fin d =
     (let query =
        (case with_db_timeout row_answer of
           Inl e \<Rightarrow> (Inl e, d)
         | Inr None \<Rightarrow> (Inr None, d\<lparr>ds_auth_cache := (ds_auth_cache d)(h \<mapsto> None)\<rparr>)
         | Inr (Some a) \<Rightarrow>
             (case with_db_timeout (creds_answer a) of
                Inl e \<Rightarrow> (Inl e, d)
              | Inr creds \<Rightarrow>
                  (Inr (Some a),
                   d\<lparr>ds_auth_cache := (ds_auth_cache d)(h \<mapsto> Some (aw_team_id a, aw_id a)),
                     ds_agent_cache := (ds_agent_cache d)((aw_team_id a, aw_id a) \<mapsto>
                       \<lparr>ca_row = a, ca_effective_credentials = creds, ca_fetched_at = fin\<rparr>)\<rparr>)))
      in case ds_auth_cache d h of
        Some None \<Rightarrow> (Inr None, d)
      | Some (Some k) \<Rightarrow>
          (case cached_agent_at d now k of Some c \<Rightarrow> (Inr (Some (ca_row c)), d) | None \<Rightarrow> query)
      | None \<Rightarrow> query)"

definition db_get_effective_credentials ::
  "string \<Rightarrow> string \<Rightarrow> int \<Rightarrow> (agent_sec_error, string list) result option
    \<Rightarrow> (agent_sec_error, agent_row option) result option \<Rightarrow> int \<Rightarrow> db_state
    \<Rightarrow> (agent_sec_error, string list) result \<times> db_state" where
  "db_get_effective_credentials team agent now creds_answer row_answer fin d =
     (case cached_agent_at d now (team, agent) of
        Some c \<Rightarrow> (Inr (ca_effective_credentials c), d)
      | None \<Rightarrow>
          (case with_db_timeout creds_answer of
             Inl e \<Rightarrow> (Inl e, d)
           | Inr creds \<Rightarrow>
               (Inr creds,
                case with_db_timeout row_answer of
                  Inr (Some row) \<Rightarrow>
                    d\<lparr>ds_agent_cache := (ds_agent_cache d)((team, agent) \<mapsto>
                        \<lparr>ca_row = row, ca_effective_credentials = creds, ca_fetched_at = fin\<rparr>)\<rparr>
                | _ \<Rightarrow> d)))"

definition cached_credential :: "string \<times> string \<Rightarrow> int \<Rightarrow> db_state \<Rightarrow> credential_row option" where
  "cached_credential k now d =
     (case ds_credential_cache d k of
        Some (row, t) \<Rightarrow> if fresh_entry d now t then Some row else None
      | None \<Rightarrow> None)"

definition db_get_credential ::
  "row_decoders \<Rightarrow> string \<Rightarrow> string \<Rightarrow> int \<Rightarrow> (agent_sec_error, credential_row option) result option \<Rightarrow> int
    \<Rightarrow> db_state \<Rightarrow> (agent_sec_error, credential_config option) result \<times> db_state" where
  "db_get_credential J team name now answer fin d =
     (case cached_credential (team, name) now d of
        Some row \<Rightarrow> (Inr (Some (row_to_credential_config J row)), d)
      | None \<Rightarrow>
          (case with_db_timeout answer of
             Inl e \<Rightarrow> (Inl e, d)
           | Inr None \<Rightarrow> (Inr None, d)
           | Inr (Some row) \<Rightarrow>
               (Inr (Some (row_to_credential_config J row)),
                d\<lparr>ds_credential_cache := (ds_credential_cache d)((team, name) \<mapsto> (row, fin))\<rparr>)))"

text \<open>The value of a credential is never cached.\<close>

definition db_get_credential_value ::
  "(agent_sec_error, bytes option) result option \<Rightarrow> (agent_sec_error, string option) result" where
  "db_get_credential_value answer =
     (case with_db_timeout answer of
        Inl e \<Rightarrow> Inl e
      | Inr None \<Rightarrow> Inr None
      | Inr (Some b) \<Rightarrow>
          if utf8_valid b then Inr (Some b) else Inl (Config ''Credential value not UTF-8''))"

definition cached_policy :: "string \<times> string \<Rightarrow> int \<Rightarrow> db_state \<Rightarrow> policy_row option option" where
  "cached_policy k now d =
     (case ds_policy_cache d k of
        Some (row, t) \<Rightarrow> if fresh_entry d now t then Some row else None
      | None \<Rightarrow> None)"

definition db_get_policy ::
  "string \<Rightarrow> string \<Rightarrow> int \<Rightarrow> (agent_sec_error, policy_row option) result option \<Rightarrow> int \<Rightarrow> db_state
    \<Rightarrow> (agent_sec_error, policy_config option) result \<times> db_state" where
  "db_get_policy team cred now answer fin d =
     (case cached_policy (team, cred) now d of
        Some row \<Rightarrow> (Inr (map_option row_to_policy_config row), d)
      | None \<Rightarrow>
          (case with_db_timeout answer of
             Inl e \<Rightarrow> (Inl e, d)
           | Inr row \<Rightarrow>
               (Inr (map_option row_to_policy_config row),
                d\<lparr>ds_policy_cache := (ds_policy_cache d)((team, cred) \<mapsto> (row, fin))\<rparr>)))"

definition invalidate_policy_cache :: "string \<Rightarrow> string \<Rightarrow> db_state \<Rightarrow> db_state" where
  "invalidate_policy_cache team cred d =
     d\<lparr>ds_policy_cache := (ds_policy_cache d)((team, cred) := None)\<rparr>"

text \<open>The cast \<open>as u64\<close> of the signed column.\<close>

definition as_u64 :: "int \<Rightarrow> nat" where
  "as_u64 r = nat (r mod 2 ^ 64)"

definition db_get_agent_rate_limit ::
  "string \<Rightarrow> string \<Rightarrow> int \<Rightarrow> (agent_sec_error, agent_row option) result option \<Rightarrow> db_state
    \<Rightarrow> (agent_sec_error, nat option) result" where
  "db_get_agent_rate_limit team agent now answer d =
     (case cached_agent_at d now (team, agent) of
        Some c \<Rightarrow> Inr (map_option as_u64 (aw_rate_limit_per_hour (ca_row c)))
      | None \<Rightarrow>
          (case with_db_timeout answer of
             Inl e \<Rightarrow> Inl e
           | Inr None \<Rightarrow> Inr None
           | Inr (Some row) \<Rightarrow> Inr (map_option as_u64 (aw_rate_limit_per_hour row))))"

definition db_list_credentials ::
  "row_decoders \<Rightarrow> (agent_sec_error, credential_row list) result option
    \<Rightarrow> (agent_sec_error, (string \<times> credential_config) list) result" where
  "db_list_credentials J answer =
     (case with_db_timeout answer of
        Inl e \<Rightarrow> Inl e
      | Inr rows \<Rightarrow> Inr (map (\<lambda>r. (cr_name r, row_to_credential_config J r)) rows))"

definition cached_chat :: "string \<Rightarrow> int \<Rightarrow> db_state \<Rightarrow> string option option" where
  "cached_chat team now d =
     (case ds_chat_cache d team of
        Some (chat, t) \<Rightarrow> if fresh_entry d now t then Some chat else None
      | None \<Rightarrow> None)"

definition db_get_default_telegram_chat_id ::
  "string \<Rightarrow> int \<Rightarrow> (agent_sec_error, string option) result option \<Rightarrow> int \<Rightarrow> db_state
    \<Rightarrow> (agent_sec_error, string option) result \<times> db_state" where
  "db_get_default_telegram_chat_id team now answer fin d =
     (case cached_chat team now d of
        Some chat \<Rightarrow> (Inr chat, d)
      | None \<Rightarrow>
          (case with_db_timeout answer of
             Inl e \<Rightarrow> (Inl e, d)
           | Inr chat \<Rightarrow> (Inr chat, d\<lparr>ds_chat_cache := (ds_chat_cache d)(team \<mapsto> (chat, fin))\<rparr>)))"

section \<open>The abstract cache\<close>

text \<open>
  One cache in front of one store. Time passes, other instances and the admin API write the
  store, a query is asked and answered from the store of that time, its answer is written to
  the cache some time later or given up, and an entry is dropped. A query takes at most \<open>lat\<close>.
  The world remembers which stores were current when.
\<close>

record ('k, 'v, 's) cache_world =
  cw_now :: int
  cw_store :: 's
  cw_past :: "(int \<times> 's) list"
  cw_cache :: "'k \<rightharpoonup> 'v \<times> int"
  cw_flight :: "('k \<times> 'v \<times> int) list"

definition new_world :: "int \<Rightarrow> 's \<Rightarrow> ('k, 'v, 's) cache_world" where
  "new_world now s =
     \<lparr>cw_now = now, cw_store = s, cw_past = [(now, s)], cw_cache = Map.empty, cw_flight = []\<rparr>"

inductive cache_step ::
  "('k \<Rightarrow> 's \<Rightarrow> 'v option) \<Rightarrow> int \<Rightarrow> ('k, 'v, 's) cache_world \<Rightarrow> ('k, 'v, 's) cache_world \<Rightarrow> bool"
  for lookup lat where
  pass: "0 < n \<Longrightarrow> list_all (\<lambda>(k, v, r). cw_now w + n - r \<le> lat) (cw_flight w) \<Longrightarrow>
    cache_step lookup lat w
      (w\<lparr>cw_now := cw_now w + n, cw_past := (cw_now w + n, cw_store w) # cw_past w\<rparr>)"
| change: "cache_step lookup lat w (w\<lparr>cw_store := s, cw_past := (cw_now w, s) # cw_past w\<rparr>)"
| ask: "lookup k (cw_store w) = Some v \<Longrightarrow>
    cache_step lookup lat w (w\<lparr>cw_flight := (k, v, cw_now w) # cw_flight w\<rparr>)"
| fill: "(k, v, r) \<in> set (cw_flight w) \<Longrightarrow>
    cache_step lookup lat w
      (w\<lparr>cw_cache := (cw_cache w)(k \<mapsto> (v, cw_now w)), cw_flight := remove1 (k, v, r) (cw_flight w)\<rparr>)"
| give_up: "cache_step lookup lat w (w\<lparr>cw_flight := remove1 x (cw_flight w)\<rparr>)"
| forget: "cache_step lookup lat w (w\<lparr>cw_cache := (cw_cache w)(k := None)\<rparr>)"

definition seen_at :: "('k \<Rightarrow> 's \<Rightarrow> 'v option) \<Rightarrow> ('k, 'v, 's) cache_world \<Rightarrow> 'k \<Rightarrow> 'v \<Rightarrow> int \<Rightarrow> bool" where
  "seen_at lookup w k v r \<longleftrightarrow> (\<exists>s. (r, s) \<in> set (cw_past w) \<and> lookup k s = Some v)"

definition cache_ok :: "('k \<Rightarrow> 's \<Rightarrow> 'v option) \<Rightarrow> int \<Rightarrow> ('k, 'v, 's) cache_world \<Rightarrow> bool" where
  "cache_ok lookup lat w \<longleftrightarrow>
     (cw_now w, cw_store w) \<in> set (cw_past w)
     \<and> (\<forall>(r, s) \<in> set (cw_past w). r \<le> cw_now w)
     \<and> (\<forall>(k, v, r) \<in> set (cw_flight w). cw_now w - r \<le> lat \<and> seen_at lookup w k v r)
     \<and> (\<forall>k v t. cw_cache w k = Some (v, t) \<longrightarrow>
          t \<le> cw_now w \<and> (\<exists>r. r \<le> t \<and> t - r \<le> lat \<and> seen_at lookup w k v r))"

lemma in_remove1: "x \<in> set (remove1 y xs) \<Longrightarrow> x \<in> set xs"
  using notin_set_remove1 by fast

lemma seen_at_mono: "seen_at lookup w k v r \<Longrightarrow> set (cw_past w) \<subseteq> set (cw_past w') \<Longrightarrow> seen_at lookup w' k v r"
  by (auto simp: seen_at_def)

lemma cache_ok_later:
  assumes "cache_ok lookup lat w" and "cw_past w' = (cw_now w', cw_store w') # cw_past w" and "cw_now w \<le> cw_now w'"
    and "cw_cache w' = cw_cache w" and "cw_flight w' = cw_flight w"
    and "list_all (\<lambda>(k, v, r). cw_now w' - r \<le> lat) (cw_flight w)"
  shows "cache_ok lookup lat w'"
proof -
  have s: "seen_at lookup w' k v r" if "seen_at lookup w k v r" for k v r
    using seen_at_mono [OF that, of w'] assms(2) by auto
  have "t \<le> cw_now w' \<and> (\<exists>r. r \<le> t \<and> t - r \<le> lat \<and> seen_at lookup w' k v r)"
    if "cw_cache w k = Some (v, t)" for k v t
    using that s assms(1,3) unfolding cache_ok_def by (meson order_trans)
  moreover have "\<forall>(r, s) \<in> set (cw_past w). r \<le> cw_now w'"
    using assms(1,3) unfolding cache_ok_def by fastforce
  moreover have "\<forall>(k, v, r) \<in> set (cw_flight w). cw_now w' - r \<le> lat \<and> seen_at lookup w' k v r"
    using assms(1,6) s unfolding cache_ok_def list_all_iff by blast
  ultimately show ?thesis using assms(2,4,5) by (simp add: cache_ok_def)
qed

lemma cache_ok_step:
  assumes "cache_step lookup lat w w'" and "cache_ok lookup lat w" and "0 \<le> lat"
  shows "cache_ok lookup lat w'"
  using assms(1)
proof cases
  case (pass n)
  then show ?thesis by (intro cache_ok_later [OF assms(2)]) simp_all
next
  case (change x)
  have "list_all (\<lambda>(k, v, r). cw_now w - r \<le> lat) (cw_flight w)"
    using assms(2) unfolding cache_ok_def list_all_iff by blast
  with change show ?thesis by (intro cache_ok_later [OF assms(2)]) simp_all
next
  case (ask k v)
  then show ?thesis using assms(2,3) by (auto simp: cache_ok_def seen_at_def)
next
  case (fill k v r)
  with assms(2) have f: "seen_at lookup w k v r" "cw_now w - r \<le> lat" "r \<le> cw_now w"
    unfolding cache_ok_def seen_at_def by blast+
  have "seen_at lookup w' = seen_at lookup w" by (intro ext) (simp add: fill seen_at_def)
  with f fill assms(2) show ?thesis unfolding cache_ok_def by (auto dest: in_remove1)
next
  case (give_up x)
  have "seen_at lookup w' = seen_at lookup w" by (intro ext) (simp add: give_up seen_at_def)
  with give_up assms(2) show ?thesis unfolding cache_ok_def by (auto dest: in_remove1)
next
  case (forget k)
  have "seen_at lookup w' = seen_at lookup w" by (intro ext) (simp add: forget seen_at_def)
  with forget assms(2) show ?thesis unfolding cache_ok_def by auto
qed

lemma cache_ok_reachable:
  assumes "(cache_step lookup lat)\<^sup>*\<^sup>* (new_world t s) w" and "0 \<le> lat"
  shows "cache_ok lookup lat w"
  using assms
proof (induction rule: rtranclp_induct)
  case base
  show ?case by (simp add: new_world_def cache_ok_def)
qed (blast intro: cache_ok_step)

definition cache_reachable :: "('k \<Rightarrow> 's \<Rightarrow> 'v option) \<Rightarrow> int \<Rightarrow> ('k, 'v, 's) cache_world \<Rightarrow> bool" where
  "cache_reachable lookup lat w \<longleftrightarrow> (\<exists>t s. (cache_step lookup lat)\<^sup>*\<^sup>* (new_world t s) w)"

lemma cache_reachable_ok: "cache_reachable lookup lat w \<Longrightarrow> 0 \<le> lat \<Longrightarrow> cache_ok lookup lat w"
  by (auto simp: cache_reachable_def intro: cache_ok_reachable)

section \<open>What a cache must promise\<close>

text \<open>The entries of a cache, and what it answers without a query.\<close>

locale ttl_cache =
  fixes lookup :: "'k \<Rightarrow> 's \<Rightarrow> 'v option"
    and lat :: int
    and entries :: "db_state \<Rightarrow> 'k \<rightharpoonup> 'v \<times> int"
    and hit :: "'k \<Rightarrow> int \<Rightarrow> db_state \<Rightarrow> 'v option"
  assumes hit_entry: "hit k now d = Some v \<Longrightarrow>
      \<exists>t. entries d k = Some (v, t) \<and> now - t < ds_cache_ttl d"
    and lat_nonneg: "0 \<le> lat"
begin

lemma current_seen:
  assumes "cache_reachable lookup lat w" and "lookup k (cw_store w) = Some v"
  shows "seen_at lookup w k v (cw_now w)"
proof -
  from cache_reachable_ok [OF assms(1) lat_nonneg] have "cache_ok lookup lat w" .
  with assms(2) show ?thesis by (auto simp: cache_ok_def seen_at_def)
qed

lemma hit_recent:
  assumes "cache_reachable lookup lat w" and "entries d = cw_cache w" and "hit k (cw_now w) d = Some v"
  shows "\<exists>r. cw_now w - ds_cache_ttl d - lat < r \<and> r \<le> cw_now w \<and> seen_at lookup w k v r"
proof -
  from cache_reachable_ok [OF assms(1) lat_nonneg] have ok: "cache_ok lookup lat w" .
  from hit_entry [OF assms(3)] obtain t where "cw_cache w k = Some (v, t)" "cw_now w - t < ds_cache_ttl d"
    using assms(2) by auto
  with ok obtain r where "r \<le> t" "t - r \<le> lat" "t \<le> cw_now w" "seen_at lookup w k v r"
    unfolding cache_ok_def by blast
  with \<open>cw_now w - t < ds_cache_ttl d\<close> show ?thesis by (intro exI [of _ r]) auto
qed

lemma asked_and_filled:
  assumes "lookup k (cw_store w) = Some v" and "cw_flight w = []" and "cw_now w \<le> fin" and "fin - cw_now w \<le> lat"
  shows "\<exists>w'. (cache_step lookup lat)\<^sup>*\<^sup>* w w' \<and> cw_cache w' = (cw_cache w)(k \<mapsto> (v, fin))
    \<and> cw_now w' = fin \<and> cw_store w' = cw_store w"
proof -
  let ?w1 = "w\<lparr>cw_flight := [(k, v, cw_now w)]\<rparr>"
  have 1: "cache_step lookup lat w ?w1" using cache_step.ask [of lookup k w v lat] assms(1,2) by simp
  show ?thesis
  proof (cases "cw_now w = fin")
    case True
    have "cache_step lookup lat ?w1 (?w1\<lparr>cw_cache := (cw_cache ?w1)(k \<mapsto> (v, cw_now ?w1)),
        cw_flight := remove1 (k, v, cw_now w) (cw_flight ?w1)\<rparr>)" by (rule cache_step.fill) simp
    with 1 True show ?thesis
      by (intro exI [of _ "?w1\<lparr>cw_cache := (cw_cache w)(k \<mapsto> (v, fin)), cw_flight := []\<rparr>"])
        (auto intro: rtranclp.rtrancl_into_rtrancl)
  next
    case False
    let ?w2 = "?w1\<lparr>cw_now := fin, cw_past := (fin, cw_store w) # cw_past w\<rparr>"
    have 2: "cache_step lookup lat ?w1 ?w2"
      using cache_step.pass [of "fin - cw_now w" ?w1 lat lookup] False assms(3,4) by simp
    have "cache_step lookup lat ?w2 (?w2\<lparr>cw_cache := (cw_cache ?w2)(k \<mapsto> (v, cw_now ?w2)),
        cw_flight := remove1 (k, v, cw_now w) (cw_flight ?w2)\<rparr>)" by (rule cache_step.fill) simp
    with 1 2 show ?thesis
      by (intro exI [of _ "?w2\<lparr>cw_cache := (cw_cache w)(k \<mapsto> (v, fin)), cw_flight := []\<rparr>"])
        (auto intro: rtranclp.rtrancl_into_rtrancl)
  qed
qed

end

definition policy_lookup :: "string \<times> string \<Rightarrow> prop_store \<Rightarrow> policy_row option option" where
  "policy_lookup k s = Some (get_policy (fst k) (snd k) s)"

definition credential_lookup :: "string \<times> string \<Rightarrow> access_store \<Rightarrow> credential_row option" where
  "credential_lookup k s = get_credential (fst k) (snd k) s"

definition whitelist_lookup :: "string \<times> string \<Rightarrow> access_store \<Rightarrow> string list option" where
  "whitelist_lookup k s = Some (get_agent_effective_credentials (fst k) (snd k) s)"

definition whitelist_entries :: "db_state \<Rightarrow> string \<times> string \<rightharpoonup> string list \<times> int" where
  "whitelist_entries d k =
     map_option (\<lambda>c. (ca_effective_credentials c, ca_fetched_at c)) (ds_agent_cache d k)"

definition cached_whitelist :: "string \<times> string \<Rightarrow> int \<Rightarrow> db_state \<Rightarrow> string list option" where
  "cached_whitelist k now d = map_option ca_effective_credentials (cached_agent_at d now k)"

text \<open>A whitelist is written to the cache after a second query.\<close>

interpretation policies: ttl_cache policy_lookup db_timeout ds_policy_cache cached_policy
  by unfold_locales (auto simp: cached_policy_def fresh_entry_def db_timeout_def split: option.splits if_splits)

interpretation credentials: ttl_cache credential_lookup db_timeout ds_credential_cache cached_credential
  by unfold_locales (auto simp: cached_credential_def fresh_entry_def db_timeout_def split: option.splits if_splits)

interpretation whitelists: ttl_cache whitelist_lookup "2 * db_timeout" whitelist_entries cached_whitelist
  by unfold_locales
    (auto simp: cached_whitelist_def cached_agent_at_def whitelist_entries_def fresh_entry_def db_timeout_def
      split: option.splits if_splits)

section \<open>Properties\<close>

text \<open>C14. The policy cache refines a store that lags behind. Whatever happened before (queries that overlap,
  writes by other instances, invalidations), the policy that the proxy acts on is the one
  the database held at some time within the last time to live and five seconds; and what
  the operation leaves in the cache, when no other query is in flight, is again a state of the
  abstract cache.\<close>

theorem policy_answers_recent:
  assumes "cache_reachable policy_lookup db_timeout w" and "ds_policy_cache d = cw_cache w"
    and "db_get_policy team cred (cw_now w) (Some (Inr (get_policy team cred (cw_store w)))) fin d = (Inr p, d')"
    and "0 < ds_cache_ttl d"
  shows "(\<exists>r s. (r, s) \<in> set (cw_past w) \<and> cw_now w - ds_cache_ttl d - db_timeout < r \<and> r \<le> cw_now w
      \<and> p = map_option row_to_policy_config (get_policy team cred s))
    \<and> (cw_flight w = [] \<and> cw_now w \<le> fin \<and> fin \<le> cw_now w + db_timeout \<longrightarrow>
        (\<exists>w'. (cache_step policy_lookup db_timeout)\<^sup>*\<^sup>* w w' \<and> ds_policy_cache d' = cw_cache w'))"
proof (cases "cached_policy (team, cred) (cw_now w) d")
  case None
  have l: "policy_lookup (team, cred) (cw_store w) = Some (get_policy team cred (cw_store w))"
    by (simp add: policy_lookup_def)
  from policies.current_seen [OF assms(1) l] have "\<exists>s. (cw_now w, s) \<in> set (cw_past w)
      \<and> get_policy team cred s = get_policy team cred (cw_store w)" by (auto simp: seen_at_def policy_lookup_def)
  moreover have "p = map_option row_to_policy_config (get_policy team cred (cw_store w))"
    "ds_policy_cache d' = (cw_cache w)((team, cred) \<mapsto> (get_policy team cred (cw_store w), fin))"
    using assms(2,3) None by (auto simp: db_get_policy_def with_db_timeout_def)
  moreover have "db_timeout = 5" by (simp add: db_timeout_def)
  ultimately show ?thesis
    using policies.asked_and_filled [OF l, of fin] assms(4) by fastforce
next
  case (Some row)
  from policies.hit_recent [OF assms(1,2) Some] obtain r s where
    "(r, s) \<in> set (cw_past w)" "cw_now w - ds_cache_ttl d - db_timeout < r" "r \<le> cw_now w"
    "row = get_policy team cred s" by (auto simp: seen_at_def policy_lookup_def)
  moreover have "p = map_option row_to_policy_config row" "d' = d"
    using assms(3) Some by (auto simp: db_get_policy_def)
  ultimately show ?thesis using assms(2) by blast
qed

text \<open>A policy is read into the cache, deleted by another instance, and asked for two seconds later.\<close>

definition no_policies :: prop_store where
  "no_policies = sample_prop_store\<lparr>ps_policies := Map.empty\<rparr>"

definition lagging_world :: "(string \<times> string, policy_row option, prop_store) cache_world" where
  "lagging_world =
     \<lparr>cw_now = 2, cw_store = no_policies, cw_past = [(2, no_policies), (0, no_policies), (0, sample_prop_store)],
      cw_cache = [(''acme'', ''github'') \<mapsto> (Some sample_policy_row, 0)], cw_flight = []\<rparr>"

lemma sample_policy_stored: "get_policy ''acme'' ''github'' sample_prop_store = Some sample_policy_row"
  by (simp add: get_policy_def sample_prop_store_def sample_policy_row_def)

lemma lagging_world_reachable: "cache_reachable policy_lookup db_timeout lagging_world"
proof -
  let ?k = "(''acme'', ''github'')"
  let ?w0 = "new_world 0 sample_prop_store :: (string \<times> string, policy_row option, prop_store) cache_world"
  let ?w1 = "?w0\<lparr>cw_flight := (?k, Some sample_policy_row, cw_now ?w0) # cw_flight ?w0\<rparr>"
  let ?w2 = "?w1\<lparr>cw_cache := (cw_cache ?w1)(?k \<mapsto> (Some sample_policy_row, cw_now ?w1)),
    cw_flight := remove1 (?k, Some sample_policy_row, 0) (cw_flight ?w1)\<rparr>"
  let ?w3 = "?w2\<lparr>cw_store := no_policies, cw_past := (cw_now ?w2, no_policies) # cw_past ?w2\<rparr>"
  let ?w4 = "?w3\<lparr>cw_now := cw_now ?w3 + 2, cw_past := (cw_now ?w3 + 2, cw_store ?w3) # cw_past ?w3\<rparr>"
  let ?step = "cache_step policy_lookup db_timeout"
  have "?step ?w0 ?w1"
    by (rule cache_step.ask) (simp add: new_world_def policy_lookup_def sample_policy_stored)
  moreover have "?step ?w1 ?w2" by (rule cache_step.fill) (simp add: new_world_def)
  moreover have "?step ?w2 ?w3" by (rule cache_step.change)
  moreover have "?step ?w3 ?w4" by (rule cache_step.pass) (simp_all add: new_world_def)
  ultimately have "?step\<^sup>*\<^sup>* ?w0 ?w4" by (meson converse_rtranclp_into_rtranclp rtranclp.rtrancl_refl)
  moreover have "?w4 = lagging_world" by (simp add: lagging_world_def new_world_def)
  ultimately show ?thesis unfolding cache_reachable_def by metis
qed

theorem policy_answers_recent_witness:
  "\<exists>r s. (r, s) \<in> set (cw_past lagging_world) \<and> 2 - 60 - db_timeout < r \<and> r \<le> 2
     \<and> Some (row_to_policy_config sample_policy_row)
       = map_option row_to_policy_config (get_policy ''acme'' ''github'' s)"
proof -
  let ?d = "(db_state_new 60)\<lparr>ds_policy_cache := cw_cache lagging_world\<rparr>"
  have "db_get_policy ''acme'' ''github'' (cw_now lagging_world)
      (Some (Inr (get_policy ''acme'' ''github'' (cw_store lagging_world)))) 2 ?d
    = (Inr (Some (row_to_policy_config sample_policy_row)), ?d)"
    by (simp add: db_get_policy_def cached_policy_def fresh_entry_def db_state_new_def lagging_world_def)
  from policy_answers_recent [OF lagging_world_reachable _ this] show ?thesis
    by (simp add: lagging_world_def db_state_new_def db_timeout_def)
qed

text \<open>The other caches in the same way; a whitelist is written after a second query.\<close>

lemma whitelist_answers_recent:
  assumes "cache_reachable whitelist_lookup (2 * db_timeout) w" and "whitelist_entries d = cw_cache w"
    and "db_get_effective_credentials team agent (cw_now w)
      (Some (Inr (get_agent_effective_credentials team agent (cw_store w)))) row fin d = (Inr creds, d')"
    and "0 < ds_cache_ttl d"
  shows "\<exists>r s. (r, s) \<in> set (cw_past w) \<and> cw_now w - ds_cache_ttl d - 2 * db_timeout < r
    \<and> creds = get_agent_effective_credentials team agent s"
proof (cases "cached_whitelist (team, agent) (cw_now w) d")
  case None
  then have "creds = get_agent_effective_credentials team agent (cw_store w)"
    using assms(3) by (auto simp: db_get_effective_credentials_def cached_whitelist_def with_db_timeout_def)
  with whitelists.current_seen [OF assms(1), of "(team, agent)" creds] assms(4) show ?thesis
    by (force simp: seen_at_def whitelist_lookup_def db_timeout_def)
next
  case (Some v)
  then have "creds = v"
    using assms(3) by (auto simp: db_get_effective_credentials_def cached_whitelist_def)
  with whitelists.hit_recent [OF assms(1,2) Some] show ?thesis by (auto simp: seen_at_def whitelist_lookup_def)
qed

lemma credential_answers_recent:
  assumes "cache_reachable credential_lookup db_timeout w" and "ds_credential_cache d = cw_cache w"
    and "db_get_credential J team name (cw_now w) (Some (Inr (get_credential team name (cw_store w)))) fin d
      = (Inr (Some c), d')" and "0 < ds_cache_ttl d"
  shows "\<exists>r s row. (r, s) \<in> set (cw_past w) \<and> cw_now w - ds_cache_ttl d - db_timeout < r
    \<and> get_credential team name s = Some row \<and> c = row_to_credential_config J row"
proof (cases "cached_credential (team, name) (cw_now w) d")
  case None
  with assms(3) obtain row where "get_credential team name (cw_store w) = Some row" "c = row_to_credential_config J row"
    by (auto simp: db_get_credential_def with_db_timeout_def split: option.splits)
  with credentials.current_seen [OF assms(1), of "(team, name)" row] assms(4) show ?thesis
    by (force simp: seen_at_def credential_lookup_def db_timeout_def)
next
  case (Some row)
  then have "c = row_to_credential_config J row" using assms(3) by (simp add: db_get_credential_def)
  with credentials.hit_recent [OF assms(1,2) Some] show ?thesis by (auto simp: seen_at_def credential_lookup_def)
qed

section \<open>Invalidation\<close>

text \<open>
  After a change of the policy and an invalidation, with no query in flight, the cache answers with the new
  policy as long as nobody changes it again: whatever is in the cache or on its way there for
  the key is what the store holds.
\<close>

definition key_current :: "('k \<Rightarrow> 's \<Rightarrow> 'v option) \<Rightarrow> 'k \<Rightarrow> ('k, 'v, 's) cache_world \<Rightarrow> bool" where
  "key_current lookup k w \<longleftrightarrow>
     (\<forall>v t. cw_cache w k = Some (v, t) \<longrightarrow> lookup k (cw_store w) = Some v)
     \<and> (\<forall>v r. (k, v, r) \<in> set (cw_flight w) \<longrightarrow> lookup k (cw_store w) = Some v)"

lemma key_current_step:
  assumes "cache_step lookup lat w w'" and "key_current lookup k w"
    and "lookup k (cw_store w') = lookup k (cw_store w)"
  shows "key_current lookup k w'"
proof -
  have r: "(k, v, r) \<in> set (remove1 x xs) \<Longrightarrow> (k, v, r) \<in> set xs" for v r x xs by (rule in_remove1)
  show ?thesis using assms by cases (simp_all add: key_current_def, (blast dest: r)+)
qed

lemma invalidated_key_current:
  assumes "ds_policy_cache d = cw_cache w" and "\<forall>v r. ((team, cred), v, r) \<notin> set (cw_flight w)"
  shows "key_current policy_lookup (team, cred)
    (w\<lparr>cw_cache := ds_policy_cache (invalidate_policy_cache team cred d)\<rparr>)"
  using assms by (simp add: key_current_def invalidate_policy_cache_def)

text \<open>With a query in flight that is not so: the old policy is written back after the invalidation.\<close>

lemma invalidation_race:
  assumes "((team, cred), old, r) \<in> set (cw_flight w)" and "old \<noteq> new"
    and "policy_lookup (team, cred) s = Some new"
  shows "\<exists>w'. (cache_step policy_lookup db_timeout)\<^sup>*\<^sup>* w w' \<and> cw_store w' = s
    \<and> cw_cache w' (team, cred) = Some (old, cw_now w') \<and> policy_lookup (team, cred) (cw_store w') \<noteq> Some old"
proof -
  let ?w1 = "w\<lparr>cw_store := s, cw_past := (cw_now w, s) # cw_past w\<rparr>"
  let ?w2 = "?w1\<lparr>cw_cache := (cw_cache ?w1)((team, cred) := None)\<rparr>"
  let ?w3 = "?w2\<lparr>cw_cache := (cw_cache ?w2)((team, cred) \<mapsto> (old, cw_now ?w2)),
    cw_flight := remove1 ((team, cred), old, r) (cw_flight ?w2)\<rparr>"
  have "cache_step policy_lookup db_timeout w ?w1" by (rule cache_step.change)
  moreover have "cache_step policy_lookup db_timeout ?w1 ?w2" by (rule cache_step.forget)
  moreover have "cache_step policy_lookup db_timeout ?w2 ?w3" by (rule cache_step.fill) (simp add: assms(1))
  ultimately have "(cache_step policy_lookup db_timeout)\<^sup>*\<^sup>* w ?w3" by (meson converse_rtranclp_into_rtranclp rtranclp.rtrancl_refl)
  then show ?thesis using assms(2,3) by (intro exI [of _ ?w3]) simp
qed

section \<open>Rotated keys\<close>

text \<open>
  The cache of keys has no time to live of its own: an old key is accepted as long as the entry of
  its agent is fresh, and that entry is renewed by requests with the new key. So the old key of
  an agent that is in use is not revoked by a rotation.
\<close>

lemma rotated_key_still_valid:
  assumes "ds_auth_cache d old = Some (Some (aw_team_id a, aw_id a))"
    and "db_authenticate new now (Some (Inr (Some a))) (\<lambda>_. Some (Inr creds)) fin d = (Inr (Some a), d1)"
    and "old \<noteq> new" and "later - fin < ds_cache_ttl d"
    and "ds_auth_cache d new = None"
  shows "db_authenticate old later (Some (Inr None)) q f d1 = (Inr (Some a), d1)"
proof -
  have "d1 = d\<lparr>ds_auth_cache := (ds_auth_cache d)(new \<mapsto> Some (aw_team_id a, aw_id a)),
      ds_agent_cache := (ds_agent_cache d)((aw_team_id a, aw_id a) \<mapsto>
        \<lparr>ca_row = a, ca_effective_credentials = creds, ca_fetched_at = fin\<rparr>)\<rparr>"
    using assms(2,5) by (simp add: db_authenticate_def with_db_timeout_def)
  with assms(1,3,4) show ?thesis
    by (simp add: db_authenticate_def cached_agent_at_def fresh_entry_def Let_def)
qed

text \<open>A list of hosts that does not decode counts as no restriction.\<close>

lemma malformed_hosts_unrestricted:
  assumes "cr_allowed_hosts_json row = Some text" and "decode_hosts J text = None"
  shows "cc_allowed_hosts (row_to_credential_config J row) = []"
  using assms by (simp add: row_to_credential_config_def or_else_def)

end
