(* ===== verification/Gateway.thy ===== *)
theory Gateway
  imports Grants Sanitize Placeholder Forward Routing Approvals Access Leases Inbox_Channels
begin

text \<open>
  The gateway itself: \<open>handle_forward\<close> of \<open>tap-proxy/src/proxy.rs\<close> with its two paths (a named
  credential, and placeholders in the request), the background tasks that finish a request
  after its approval, and the polling handler. The components it composes are those of the
  other theories. What the queries of \<open>AppState\<close> answer is the record \<open>lookups\<close>: every query
  may fail and may be answered from a cache, so nothing is assumed about the answers. The
  environment (signers, token endpoints, the upstream, name resolution) is the record
  \<open>gateway_env\<close>. Latencies and timestamps of the audit entries, analytics and log lines are
  left out.
\<close>

section \<open>Requests\<close>

text \<open>
  A header map: names in lower case, values as bytes; \<open>to_str\<close> accepts visible ASCII.
\<close>

definition to_str :: "bytes \<Rightarrow> string option" where
  "to_str v =
     (if list_all (\<lambda>c. let n = of_char c :: nat in 32 \<le> n \<and> n < 127 \<or> n = 9) v then Some v else None)"

definition header_text :: "headers \<Rightarrow> string \<Rightarrow> string option" where
  "header_text hs name = Option.bind (map_of hs name) to_str"

definition known_tap_headers :: "string list" where
  "known_tap_headers =
     [''x-tap-key'', ''x-tap-credential'', ''x-tap-target'', ''x-tap-method'', ''x-tap-end-user'',
      ''x-tap-auth-mode'']"

definition unknown_tap_header :: "headers \<Rightarrow> bool" where
  "unknown_tap_header hs =
     list_ex (\<lambda>(name, _). let n = to_lowercase name in
        starts_with n ''x-tap-'' \<and> n \<notin> set known_tap_headers) hs"

definition parse_tap_keys :: "string \<Rightarrow> string list" where
  "parse_tap_keys v = filter (\<lambda>k. k \<noteq> []) (map trim (split_on CHR '','' v))"

definition forward_headers :: "headers \<Rightarrow> headers" where
  "forward_headers hs =
     map (\<lambda>(n, v). (n, or_else (to_str v) []))
       (filter (\<lambda>(name, _). let n = to_lowercase name in
          \<not> starts_with n ''x-tap-'' \<and> n \<noteq> ''host'' \<and> n \<noteq> ''content-length''
          \<and> n \<noteq> ''transfer-encoding'' \<and> n \<noteq> ''accept-encoding'') hs)"

definition body_bytes :: "bytes \<Rightarrow> bytes option" where
  "body_bytes body = (if body = [] then None else Some body)"

definition audit_body_cap_bytes :: nat where
  "audit_body_cap_bytes = 16 * 1024"

text \<open>The loop that moves the end of the kept text back to a character boundary.\<close>

fun boundary_below :: "nat \<Rightarrow> string \<Rightarrow> nat" where
  "boundary_below 0 s = 0"
| "boundary_below (Suc n) s = (if char_boundary (Suc n) s then Suc n else boundary_below n s)"

definition audit_request_body :: "bytes option \<Rightarrow> string option \<times> bool" where
  "audit_request_body body =
     (case body of
        None \<Rightarrow> (None, False)
      | Some b \<Rightarrow>
          if b = [] then (None, False)
          else case from_utf8 b of
            None \<Rightarrow> (Some ''<binary body, not stored in audit log>'', False)
          | Some s \<Rightarrow>
              if length s > audit_body_cap_bytes
              then (Some (take (boundary_below audit_body_cap_bytes s) s), True)
              else (Some s, False))"

definition read_like_method :: "string \<Rightarrow> bool" where
  "read_like_method m \<longleftrightarrow> to_ascii_uppercase m \<in> set [''GET'', ''HEAD'', ''OPTIONS'']"

definition authorization_is_bearer :: "headers \<Rightarrow> bool" where
  "authorization_is_bearer hs =
     list_ex (\<lambda>(name, v). let b = trim_start v in
        eq_ignore_ascii_case name ''authorization'' \<and> length b \<ge> 7
        \<and> eq_ignore_ascii_case (take 7 b) ''bearer '') hs"

section \<open>Agents, answers and state\<close>

record authenticated_agent =
  aa_id :: string
  aa_team_id :: string
  aa_is_app :: bool
  aa_end_user_id :: "string option"
  aa_all_credentials :: bool

text \<open>
  The answers of the queries to one request, and which of its writes fail.
\<close>

record lookups =
  lk_agent_by_hash :: "string \<Rightarrow> (agent_sec_error, agent_row option) result"
  lk_mcp_agent :: "headers \<Rightarrow> authenticated_agent option"
  lk_rate_limit :: "string \<Rightarrow> string \<Rightarrow> (agent_sec_error, nat option) result"
  lk_credential :: "string \<Rightarrow> string \<Rightarrow> (agent_sec_error, credential_row option) result"
  lk_credentials :: "string \<Rightarrow> (agent_sec_error, credential_row list) result"
  lk_agent_credentials :: "string \<Rightarrow> string \<Rightarrow> (agent_sec_error, string list) result"
  lk_config :: "string \<Rightarrow> string \<Rightarrow> (agent_sec_error, credential_config option) result"
  lk_value :: "string \<Rightarrow> string \<Rightarrow> (agent_sec_error, string option) result"
  lk_policy :: "string \<Rightarrow> string \<Rightarrow> (agent_sec_error, policy_config option) result"
  lk_default_mode :: "string \<Rightarrow> (agent_sec_error, approval_mode) result"
  lk_relay_holder :: "string \<Rightarrow> (agent_sec_error, string option) result"
  lk_channels :: "string \<Rightarrow> (agent_sec_error, notification_channel_row list) result"
  lk_default_chat :: "string \<Rightarrow> (agent_sec_error, string option) result"
  lk_members :: "string \<Rightarrow> (agent_sec_error, member list) result"
  lk_assigned :: "string \<Rightarrow> string \<Rightarrow> (agent_sec_error, string list) result"
  lk_member_by_email :: "string \<Rightarrow> string \<Rightarrow> (agent_sec_error, member option) result"
  lk_counter_fails :: bool
  lk_upsert_fails :: bool
  lk_grants_fail :: bool
  lk_details_fail :: bool
  lk_save_fails :: bool
  lk_async_fails :: bool

record audit_entry =
  ae_request_id :: string
  ae_agent_id :: string
  ae_credential_names :: "string list"
  ae_target_url :: string
  ae_method :: http_method
  ae_approval_status :: "approval_status option"
  ae_upstream_status :: "nat option"
  ae_response_sanitized :: bool
  ae_end_user_id :: "string option"
  ae_request_headers :: headers
  ae_request_body :: "string option"
  ae_request_body_truncated :: bool
  ae_policy_reason :: "string option"
  ae_require_passkey :: bool
  ae_approver_identity :: "string option"

text \<open>The tasks that \<open>tokio::spawn\<close> starts, with what they are given.\<close>

record unified_task =
  ut_request_id :: string
  ut_txn_id :: string
  ut_channel :: channel_kind
  ut_route :: unified_route
  ut_method :: http_method
  ut_method_str :: string
  ut_original_headers :: headers
  ut_body :: "bytes option"
  ut_value :: "string option"
  ut_cred :: string
  ut_auth_mode :: "x_auth_mode option"
  ut_agent_id :: string
  ut_end_user_id :: "string option"
  ut_policy_reason :: string
  ut_require_passkey :: bool

record placeholder_task =
  pt_request_id :: string
  pt_txn_id :: string
  pt_channel :: channel_kind
  pt_method :: http_method
  pt_target_url :: string
  pt_method_str :: string
  pt_headers :: headers
  pt_body :: "bytes option"
  pt_cred_names :: "string list"
  pt_values :: "string \<rightharpoonup> string"
  pt_agent_id :: string
  pt_policy_reason :: string
  pt_require_passkey :: bool

datatype task = UnifiedTask unified_task | PlaceholderTask placeholder_task

record gateway =
  gw_counters :: rate_counters
  gw_grants :: grant_store
  gw_access :: access_store
  gw_pending :: pending_table
  gw_async :: async_table
  gw_audit :: "audit_entry list"
  gw_wire :: "wire_request list"
  gw_tasks :: "task list"

text \<open>
  The environment: \<open>ge_send k\<close> is what the upstream answers to the \<open>k\<close>-th request, and
  \<open>ge_steps\<close> what other requests do to the grants between the claims of this one, and which claims fail. The
  channels for messaging are given by what they do to the table of pending approvals.
\<close>

record gateway_env =
  ge_X :: externals
  ge_D :: deserializers
  ge_sidecar_env :: "string option"
  ge_enclave :: bool
  ge_private_env :: "string option"
  ge_resolve :: "string \<Rightarrow> nat \<Rightarrow> (string, ip_addr list) result"
  ge_method_ok :: "string \<Rightarrow> bool"
  ge_egress :: "string option"
  ge_send :: "nat \<Rightarrow> wire_request \<Rightarrow> (agent_sec_error, forward_result) result"
  ge_hash_api_key :: "string \<Rightarrow> string"
  ge_relay_env :: "string option"
  ge_digest :: "string \<Rightarrow> 32 word"
  ge_google_refresh :: "google_oauth_credential \<Rightarrow> (string, string) result"
  ge_microsoft_refresh :: "microsoft_oauth_credential \<Rightarrow> (string, string) result"
  ge_oauth1_sign :: "string \<Rightarrow> string \<Rightarrow> twitter_oauth_credential \<Rightarrow> bytes option \<Rightarrow> string"
  ge_aws_sign :: "string \<Rightarrow> string \<Rightarrow> bytes option \<Rightarrow> aws_credential \<Rightarrow> (string, headers) result"
  ge_cc_token :: "oauth_client_credentials \<Rightarrow> (string, string) result"
  ge_wired :: channels_wired
  ge_webauthn :: bool
  ge_details_json :: "approval_details \<Rightarrow> string"
  ge_headers_json :: "headers \<Rightarrow> string"
  ge_summarize :: "proxy_request \<Rightarrow> string option"
  ge_messaging :: "channel_kind \<Rightarrow> proxy_request \<Rightarrow> string \<Rightarrow> approval_context \<Rightarrow> pending_table
    \<Rightarrow> (agent_sec_error, string) result \<times> pending_table"
  ge_inbox_fails :: bool
  ge_identity_fails :: bool
  ge_async_write_fails :: bool
  ge_timeout_secs :: nat
  ge_request_id :: string
  ge_now :: timestamp
  ge_steps :: "(bool \<times> (grant_store \<Rightarrow> grant_store)) list"

text \<open>
  The answers: a refusal with its status and error, a queued request with its transaction, the
  upstream's response, and the abort of a handler that panics.
\<close>

datatype forward_response =
    Refused nat string
  | Queued string
  | Answered nat headers bytes
  | Panicked

section \<open>Before the paths divide\<close>

fun error_display :: "agent_sec_error \<Rightarrow> string" where
  "error_display (Unauthorized m) = ''unauthorized: '' @ m"
| "error_display (Forbidden m) = ''forbidden: '' @ m"
| "error_display (CredentialNotFound m) = ''credential not found: '' @ m"
| "error_display (PlaceholderPositionViolation c l) =
     ''placeholder in non-auth position: credential '' @ quoted c @ '' found in '' @ l"
| "error_display (ApprovalDenied m) = ''approval denied: '' @ m"
| "error_display (ApprovalTimeout n) = ''approval timeout after '' @ show_nat n @ ''s''"
| "error_display (RateLimited m) = ''rate limited: '' @ m"
| "error_display (Upstream m) = ''upstream error: '' @ m"
| "error_display (Encryption m) = ''encryption error: '' @ m"
| "error_display (Database m) = ''database error: '' @ m"
| "error_display (AlreadyExists m) = ''already exists: '' @ m"
| "error_display (Config m) = ''config error: '' @ m"
| "error_display (Internal m) = ''internal: '' @ m"

fun error_response :: "agent_sec_error \<Rightarrow> forward_response" where
  "error_response (Unauthorized m) = Refused 401 m"
| "error_response (Forbidden m) = Refused 403 m"
| "error_response (CredentialNotFound m) = Refused 404 m"
| "error_response (AlreadyExists m) = Refused 409 m"
| "error_response (RateLimited m) = Refused 429 m"
| "error_response (ApprovalDenied m) = Refused 403 m"
| "error_response (ApprovalTimeout n) = Refused 504 (''approval timeout after '' @ show_nat n @ ''s'')"
| "error_response (PlaceholderPositionViolation c l) =
     Refused 400 (''placeholder in non-auth position: credential '' @ quoted c @ '' found in '' @ l)"
| "error_response (Upstream m) = Refused 502 m"
| "error_response (Encryption m) = Refused 500 ''internal server error''"
| "error_response (Database m) = Refused 500 ''internal server error''"
| "error_response (Config m) = Refused 500 ''internal server error''"
| "error_response (Internal m) = Refused 500 ''internal server error''"

definition agent_of_row :: "agent_row \<Rightarrow> authenticated_agent" where
  "agent_of_row row =
     \<lparr>aa_id = aw_id row, aa_team_id = aw_team_id row, aa_is_app = is_app row, aa_end_user_id = None,
      aa_all_credentials = aw_all_credentials row\<rparr>"

definition authenticate ::
  "gateway_env \<Rightarrow> lookups \<Rightarrow> string \<Rightarrow> (agent_sec_error, authenticated_agent option) result" where
  "authenticate E L key =
     (case lk_agent_by_hash L (ge_hash_api_key E key) of
        Inl e \<Rightarrow> Inl e
      | Inr None \<Rightarrow> Inr None
      | Inr (Some row) \<Rightarrow> Inr (if aw_enabled row then Some (agent_of_row row) else None))"

text \<open>Every valid key counts; a key whose lookup fails is passed over.\<close>

definition authenticate_keys :: "gateway_env \<Rightarrow> lookups \<Rightarrow> string list \<Rightarrow> authenticated_agent list" where
  "authenticate_keys E L keys =
     List.map_filter (\<lambda>k. case authenticate E L k of Inr a \<Rightarrow> a | Inl _ \<Rightarrow> None) keys"

definition authenticate_request ::
  "gateway_env \<Rightarrow> lookups \<Rightarrow> headers \<Rightarrow> (forward_response, authenticated_agent list) result" where
  "authenticate_request E L hs =
     (case header_text hs ''x-tap-key'' of
        Some v \<Rightarrow> Inr (authenticate_keys E L (parse_tap_keys v))
      | None \<Rightarrow>
          (case lk_mcp_agent L hs of
             Some a \<Rightarrow> Inr [a]
           | None \<Rightarrow> Inl (Refused 401 ''missing_tap_key'')))"

text \<open>An error of the lookup or of the counter lets the request pass.\<close>

definition check_rate ::
  "gateway_env \<Rightarrow> lookups \<Rightarrow> authenticated_agent \<Rightarrow> gateway \<Rightarrow> forward_response option \<times> gateway" where
  "check_rate E L agent s =
     (case rate_check (lk_rate_limit L (aa_team_id agent) (aa_id agent)) (lk_counter_fails L) (aa_id agent) (ge_now E)
             (gw_counters s) of
        (Inl e, c) \<Rightarrow> (Some (error_response e), s\<lparr>gw_counters := c\<rparr>)
      | (Inr _, c) \<Rightarrow> (None, s\<lparr>gw_counters := c\<rparr>))"

text \<open>Whether a key may refer to a credential; an error means that it may not.\<close>

definition may_use :: "lookups \<Rightarrow> string \<Rightarrow> authenticated_agent \<Rightarrow> bool" where
  "may_use L cred a \<longleftrightarrow>
     (if aa_all_credentials a
      then (case lk_credential L (aa_team_id a) cred of Inr (Some _) \<Rightarrow> True | _ \<Rightarrow> False)
      else (case lk_agent_credentials L (aa_team_id a) (aa_id a) of
              Inr cs \<Rightarrow> cred \<in> set cs | Inl _ \<Rightarrow> False))"

section \<open>The gate that both paths share\<close>

text \<open>A failed lookup of the policy counts as no policy, one of the team's default as \<open>gated\<close>.\<close>

record gate_result =
  gt_policy :: "policy_config option"
  gt_decision :: policy_decision
  gt_require_passkey :: bool
  gt_grant :: "string option"

definition policy_for :: "lookups \<Rightarrow> string \<Rightarrow> string \<Rightarrow> policy_config option" where
  "policy_for L team cred = (case lk_policy L team cred of Inr p \<Rightarrow> p | Inl _ \<Rightarrow> None)"

definition team_default_mode :: "lookups \<Rightarrow> string \<Rightarrow> approval_mode" where
  "team_default_mode L team = (case lk_default_mode L team of Inr m \<Rightarrow> m | Inl _ \<Rightarrow> Gated)"

definition passkey_required :: "policy_config option \<Rightarrow> bool" where
  "passkey_required p =
     (case Option.bind p pc_approval of None \<Rightarrow> False | Some r \<Rightarrow> ar_require_passkey r)"

definition decide_request ::
  "gateway_env \<Rightarrow> lookups \<Rightarrow> string \<Rightarrow> string \<Rightarrow> http_method \<Rightarrow> string \<Rightarrow> policy_decision" where
  "decide_request E L team cred m url =
     evaluate_policy_with_default (ge_X E) m (policy_for L team cred) (Some url) (team_default_mode L team)"

definition gate ::
  "gateway_env \<Rightarrow> lookups \<Rightarrow> string \<Rightarrow> string \<Rightarrow> http_method \<Rightarrow> string \<Rightarrow> gateway \<Rightarrow> gate_result \<times> gateway" where
  "gate E L team cred m url s =
     (let policy = policy_for L team cred;
          decision = decide_request E L team cred m url;
          passkey = passkey_required policy;
          (grant, gs) =
            (if requires_approval decision \<and> \<not> passkey \<and> reason decision \<noteq> RequireApprovalUrl
             then try_claim_grant (ge_X E) (lk_grants_fail L) team cred (method_as_str m) url (ge_now E) (ge_steps E)
                    (gw_grants s)
             else (None, gw_grants s))
      in (\<lparr>gt_policy = policy, gt_decision = decision, gt_require_passkey = passkey, gt_grant = grant\<rparr>,
          s\<lparr>gw_grants := gs\<rparr>))"

definition policy_reason_text :: "gate_result \<Rightarrow> string" where
  "policy_reason_text g =
     (case gt_grant g of
        Some i \<Rightarrow> ''grant:'' @ i
      | None \<Rightarrow> policy_reason_as_str (reason (gt_decision g)))"

definition needs_human :: "gate_result \<Rightarrow> bool" where
  "needs_human g \<longleftrightarrow> requires_approval (gt_decision g) \<and> gt_grant g = None"

section \<open>Asking a human\<close>

text \<open>The team's chat is filled in only when the request goes to Telegram and names none.\<close>

definition with_default_chat ::
  "lookups \<Rightarrow> string \<Rightarrow> channel_kind \<Rightarrow> approval_routing option \<Rightarrow> approval_routing option" where
  "with_default_chat L team channel routing =
     (if channel = TelegramChat \<and> Option.bind (Option.bind routing ar_telegram) (\<lambda>c. c) = None
      then (case lk_default_chat L team of
              Inr (Some chat) \<Rightarrow> Some ((or_else routing default_routing)\<lparr>ar_telegram := Some (Some chat)\<rparr>)
            | _ \<Rightarrow> routing)
      else routing)"

text \<open>\<open>None\<close> is a panic, in the preview of the body.\<close>

definition send_via ::
  "gateway_env \<Rightarrow> channel_kind \<Rightarrow> proxy_request \<Rightarrow> string \<Rightarrow> approval_context \<Rightarrow> pending_table
    \<Rightarrow> ((agent_sec_error, string) result \<times> pending_table) option" where
  "send_via E channel request desc ctx t =
     (if channel \<in> {AgentReflected, Dashboard} then
        (case inbox_send_approval_request (ge_details_json E) (ge_summarize E)
                (int (ge_timeout_secs E) + 600) request ctx (ge_now E) t of
           None \<Rightarrow> None
         | Some (i, t') \<Rightarrow>
             Some (if ge_inbox_fails E then (Inl (Config ''Failed to save pending approval''), t)
                   else (Inr i, t')))
      else Some (ge_messaging E channel request desc ctx t))"

definition messaging_row_details ::
  "gateway_env \<Rightarrow> string \<Rightarrow> proxy_request \<Rightarrow> approval_context \<Rightarrow> string" where
  "messaging_row_details E txn request ctx =
     ge_details_json E ((request_details (ge_summarize E) None request ctx)\<lparr>ad_txn_id := txn\<rparr>)"

record approval_job =
  aj_team :: string
  aj_cred :: string
  aj_desc :: string
  aj_request :: proxy_request
  aj_method_str :: string
  aj_end_user :: "string option"
  aj_gate :: gate_result

definition dashboard_details :: "gateway_env \<Rightarrow> approval_job \<Rightarrow> string option \<Rightarrow> string list \<Rightarrow> approval_details" where
  "dashboard_details E j preview emails =
     \<lparr>ad_txn_id = pr_id (aj_request j), ad_team_id = aj_team j, ad_agent_id = pr_agent_id (aj_request j),
      ad_credential_name = aj_cred j, ad_target_url = pr_target_url (aj_request j),
      ad_method = aj_method_str j, ad_body_preview = preview, ad_summary = ge_summarize E (aj_request j),
      ad_allowed_approvers = emails, ad_require_passkey = gt_require_passkey (aj_gate j)\<rparr>"

text \<open>The channel, the context with its approvers, and the row for the dashboard.\<close>

definition approval_channel_for :: "gateway_env \<Rightarrow> lookups \<Rightarrow> approval_job \<Rightarrow> channel_kind \<times> channel_overrides" where
  "approval_channel_for E L j =
     (let (channel, overrides) = resolve_approval_channel (ge_X E) (ge_wired E) (lk_channels L (aj_team j))
            (Option.bind (gt_policy (aj_gate j)) pc_approval)
      in (if aj_end_user j \<noteq> None then AgentReflected else channel, overrides))"

definition approval_context_for ::
  "gateway_env \<Rightarrow> lookups \<Rightarrow> approval_job \<Rightarrow> approval_routing option \<Rightarrow> string list \<Rightarrow> channel_overrides
    \<Rightarrow> approval_context" where
  "approval_context_for E L j routing emails overrides =
     (let effective = compute_effective_approver_emails emails (lk_members L (aj_team j))
            (lk_assigned L (aj_team j)) (aj_team j) (aj_cred j)
      in narrow_approvers effective (\<lambda>e. lk_member_by_email L e (aj_team j))
        (overrides_apply overrides
           \<lparr>ctx_team_id = Some (aj_team j), ctx_credential_name = aj_cred j, ctx_routing = routing,
            ctx_approver_emails = emails,
            ctx_approval_url = (if ge_webauthn E then Some (pr_id (aj_request j)) else None),
            ctx_require_passkey = gt_require_passkey (aj_gate j), ctx_end_user_id = aj_end_user j\<rparr>))"

definition persist_details ::
  "gateway_env \<Rightarrow> lookups \<Rightarrow> approval_job \<Rightarrow> string list \<Rightarrow> pending_table \<Rightarrow> pending_table option" where
  "persist_details E L j emails t =
     (if \<not> ge_webauthn E then Some t
      else case body_preview (pr_body (aj_request j)) of
        None \<Rightarrow> None
      | Some preview \<Rightarrow>
          Some (if lk_details_fail L then t
                else set_pending_details (ge_details_json E) (pr_id (aj_request j))
                       (dashboard_details E j preview emails) (int (ge_timeout_secs E) + 600) (ge_now E) t))"

definition request_approval ::
  "gateway_env \<Rightarrow> lookups \<Rightarrow> approval_job \<Rightarrow> (string \<Rightarrow> channel_kind \<Rightarrow> task) \<Rightarrow> gateway
    \<Rightarrow> forward_response \<times> gateway" where
  "request_approval E L j mk_task s =
     (let (channel, overrides) = approval_channel_for E L j;
          routing = with_default_chat L (aj_team j) channel (Option.bind (gt_policy (aj_gate j)) pc_approval);
          emails = (case routing of None \<Rightarrow> [] | Some r \<Rightarrow> ar_allowed_approvers r);
          ctx = approval_context_for E L j routing emails overrides
      in case persist_details E L j emails (gw_pending s) of
        None \<Rightarrow> (Panicked, s)
      | Some t1 \<Rightarrow>
          (case send_via E channel (aj_request j) (aj_desc j) ctx t1 of
             None \<Rightarrow> (Panicked, s\<lparr>gw_pending := t1\<rparr>)
           | Some (Inl _, t2) \<Rightarrow> (Refused 500 ''Failed to request approval'', s\<lparr>gw_pending := t2\<rparr>)
           | Some (Inr txn, t2) \<Rightarrow>
               let expires = ge_now E + int (ge_timeout_secs E);
                   own_row = (ctx_approval_url ctx = None \<and> \<not> gt_require_passkey (aj_gate j)
                     \<and> \<not> persists_own_details channel);
                   t3 = (if own_row
                         then save_pending_approval txn (messaging_row_details E txn (aj_request j) ctx) expires
                                (ge_now E) t2
                         else t2)
               in if own_row \<and> lk_save_fails L
                  then (Refused 500 ''Failed to queue approval'', s\<lparr>gw_pending := t2\<rparr>)
                  else case (if lk_async_fails L then Inl (Config ''Failed to create async approval'')
                             else create_async_approval txn (pr_agent_id (aj_request j)) (aj_team j) expires
                                    (ge_now E) (gw_async s)) of
                    Inl _ \<Rightarrow> (Refused 500 ''Failed to queue approval'', s\<lparr>gw_pending := t3\<rparr>)
                  | Inr as' \<Rightarrow>
                      (Queued txn, s\<lparr>gw_pending := t3, gw_async := as',
                                      gw_tasks := gw_tasks s @ [mk_task txn channel]\<rparr>)))"

section \<open>Signing and sending\<close>

definition push_bearer :: "string \<Rightarrow> unified_route \<Rightarrow> unified_route" where
  "push_bearer token r = r\<lparr>ur_headers := ur_headers r @ [(''Authorization'', ''Bearer '' @ token)]\<rparr>"

definition is_form_encoded :: "headers \<Rightarrow> bool" where
  "is_form_encoded hs =
     (case find (\<lambda>(n, _). eq_ignore_ascii_case n ''content-type'') hs of
        None \<Rightarrow> False
      | Some (_, v) \<Rightarrow> contains (to_lowercase v) ''application/x-www-form-urlencoded'')"

text \<open>The signer takes the form body, if there is one.\<close>

definition sign_twitter_oauth_route ::
  "gateway_env \<Rightarrow> string \<Rightarrow> bytes option \<Rightarrow> twitter_oauth_credential \<Rightarrow> unified_route \<Rightarrow> unified_route" where
  "sign_twitter_oauth_route E method_str body cred r =
     (let hs = filter (\<lambda>(n, _). \<not> eq_ignore_ascii_case n ''authorization'') (ur_headers r);
          auth = ge_oauth1_sign E method_str (ur_effective_target r) cred
                   (if is_form_encoded hs then body else None)
      in r\<lparr>ur_headers := hs @ [(''Authorization'', auth)]\<rparr>)"

datatype inject_error =
    GoogleRefreshFailed string
  | MicrosoftRefreshFailed string
  | AwsSigningFailed string
  | TokenExchangeFailed string

text \<open>What the bundles of a route add to its headers, in the order of the handler.\<close>

definition inject_google :: "gateway_env \<Rightarrow> unified_route \<Rightarrow> (inject_error, unified_route) result" where
  "inject_google E r =
     (case ur_google_oauth r of
        None \<Rightarrow> Inr r
      | Some c \<Rightarrow> (case ge_google_refresh E c of
                    Inl e \<Rightarrow> Inl (GoogleRefreshFailed e) | Inr token \<Rightarrow> Inr (push_bearer token r)))"

definition inject_microsoft :: "gateway_env \<Rightarrow> unified_route \<Rightarrow> (inject_error, unified_route) result" where
  "inject_microsoft E r =
     (case ur_microsoft_oauth r of
        None \<Rightarrow> Inr r
      | Some c \<Rightarrow> (case ge_microsoft_refresh E c of
                    Inl e \<Rightarrow> Inl (MicrosoftRefreshFailed e) | Inr token \<Rightarrow> Inr (push_bearer token r)))"

definition inject_twitter :: "gateway_env \<Rightarrow> string \<Rightarrow> bytes option \<Rightarrow> unified_route \<Rightarrow> unified_route" where
  "inject_twitter E method_str body r =
     (case ur_twitter_oauth r of
        None \<Rightarrow> r | Some c \<Rightarrow> sign_twitter_oauth_route E method_str body c r)"

definition inject_aws ::
  "gateway_env \<Rightarrow> string \<Rightarrow> bytes option \<Rightarrow> unified_route \<Rightarrow> (inject_error, unified_route) result" where
  "inject_aws E method_str body r =
     (case ur_aws_sigv4 r of
        None \<Rightarrow> Inr r
      | Some c \<Rightarrow>
          (case ge_aws_sign E method_str (ur_effective_target r) body c of
             Inl e \<Rightarrow> Inl (AwsSigningFailed e)
           | Inr hs \<Rightarrow>
               Inr (r\<lparr>ur_headers := filter (\<lambda>(n, _). to_lowercase n
                   \<notin> {''authorization'', ''x-amz-date'', ''x-amz-content-sha256''}) (ur_headers r) @ hs\<rparr>)))"

definition inject_client_credentials :: "gateway_env \<Rightarrow> unified_route \<Rightarrow> (inject_error, unified_route) result" where
  "inject_client_credentials E r =
     (case ur_oauth_client_credentials r of
        None \<Rightarrow> Inr r
      | Some c \<Rightarrow> (case ge_cc_token E c of
                    Inl e \<Rightarrow> Inl (TokenExchangeFailed e) | Inr token \<Rightarrow> Inr (push_bearer token r)))"

definition inject_auth ::
  "gateway_env \<Rightarrow> string \<Rightarrow> bytes option \<Rightarrow> unified_route \<Rightarrow> (inject_error, unified_route) result" where
  "inject_auth E method_str body r0 =
     (case inject_google E r0 of
        Inl e \<Rightarrow> Inl e
      | Inr r1 \<Rightarrow>
          (case inject_microsoft E r1 of
             Inl e \<Rightarrow> Inl e
           | Inr r2 \<Rightarrow>
               (case inject_aws E method_str body (inject_twitter E method_str body r2) of
                  Inl e \<Rightarrow> Inl e
                | Inr r3 \<Rightarrow> inject_client_credentials E r3)))"

text \<open>
  One request to the upstream, with the log of what went over the wire: the request that
  \<open>forward_request\<close> hands to the client, if it gets that far.
\<close>

definition wire_of ::
  "gateway_env \<Rightarrow> string \<Rightarrow> string \<Rightarrow> headers \<Rightarrow> bytes option \<Rightarrow> wire_request list" where
  "wire_of E url method_str hs body =
     (if (starts_with url ''http://'' \<or> starts_with url ''https://'') \<and> ge_method_ok E method_str
      then [\<lparr>wr_proxy = configure_client (ge_egress E) (client_route_for_target (ge_X E) url),
             wr_method = method_str, wr_url = url, wr_headers = wire_headers hs, wr_body = body\<rparr>]
      else [])"

definition forward_once ::
  "gateway_env \<Rightarrow> nat \<Rightarrow> string \<Rightarrow> string \<Rightarrow> headers \<Rightarrow> bytes option \<Rightarrow> gateway
    \<Rightarrow> (agent_sec_error, forward_result) result \<times> gateway" where
  "forward_once E k url method_str hs body s =
     (forward_request (ge_X E) (ge_method_ok E) (ge_send E k) (ge_egress E) url method_str hs body,
      s\<lparr>gw_wire := gw_wire s @ wire_of E url method_str hs body\<rparr>)"

definition x_auto_bearer_can_retry_with_oauth1 ::
  "gateway_env \<Rightarrow> nat \<Rightarrow> string \<Rightarrow> x_auth_mode option \<Rightarrow> unified_route \<Rightarrow> string option
    \<Rightarrow> twitter_oauth_credential option" where
  "x_auto_bearer_can_retry_with_oauth1 E status method_str mode r val =
     (if status \<notin> {401, 403} \<or> or_else mode Auto \<noteq> Auto \<or> \<not> read_like_method method_str
         \<or> \<not> authorization_is_bearer (ur_headers r)
      then None
      else Option.bind val (parse_twitter_oauth (ge_D E)))"

text \<open>The exchange of the unified path: a rejected bearer token may be retried once.\<close>

definition exchange ::
  "gateway_env \<Rightarrow> string \<Rightarrow> x_auth_mode option \<Rightarrow> string option \<Rightarrow> bytes option \<Rightarrow> unified_route \<Rightarrow> gateway
    \<Rightarrow> (agent_sec_error, forward_result) result \<times> gateway" where
  "exchange E method_str mode val body r s =
     (case forward_once E 0 (ur_effective_target r) method_str (ur_headers r) body s of
        (Inl e, s1) \<Rightarrow> (Inl e, s1)
      | (Inr res, s1) \<Rightarrow>
          (case x_auto_bearer_can_retry_with_oauth1 E (fr_status res) method_str mode r val of
             None \<Rightarrow> (Inr res, s1)
           | Some c \<Rightarrow>
               let r' = sign_twitter_oauth_route E method_str body c r in
               (case forward_once E 1 (ur_effective_target r') method_str (ur_headers r') body s1 of
                  (Inl _, s2) \<Rightarrow> (Inr res, s2)
                | (Inr res', s2) \<Rightarrow> (Inr res', s2))))"

text \<open>
  The headers of the answer; a value that \<open>HeaderValue\<close> refuses is dropped. The names and the
  status come from the upstream's parsed response, so the builder does not fail on them.
\<close>

definition header_value_ok :: "string \<Rightarrow> bool" where
  "header_value_ok v = list_all (\<lambda>c. let n = of_char c :: nat in 32 \<le> n \<and> n \<noteq> 127 \<or> n = 9) v"

definition response_headers :: "headers \<Rightarrow> headers" where
  "response_headers hs =
     filter (\<lambda>(n, v). to_lowercase n \<noteq> ''transfer-encoding'' \<and> to_lowercase n \<noteq> ''content-length''
       \<and> header_value_ok v) hs"

section \<open>The unified path\<close>

definition end_user_cred_name :: "string \<Rightarrow> string \<Rightarrow> string" where
  "end_user_cred_name ext_id logical = ''eu:'' @ ext_id @ ''/'' @ logical"

text \<open>The asserted end-user: \<open>Inl\<close> for an empty header.\<close>

definition asserted_end_user :: "headers \<Rightarrow> (forward_response, string option) result" where
  "asserted_end_user hs =
     (case header_text hs ''x-tap-end-user'' of
        None \<Rightarrow> Inr None
      | Some v \<Rightarrow> if trim v = [] then Inl (Refused 400 ''invalid_end_user'') else Inr (Some (trim v)))"

definition select_agent ::
  "lookups \<Rightarrow> authenticated_agent list \<Rightarrow> string option \<Rightarrow> string \<Rightarrow> (forward_response, authenticated_agent) result" where
  "select_agent L agents end_user cred =
     (case end_user of
        Some _ \<Rightarrow>
          (case find aa_is_app agents of None \<Rightarrow> Inl (Refused 403 ''not_an_app_key'') | Some a \<Rightarrow> Inr a)
      | None \<Rightarrow>
          (case find (may_use L cred) agents of
             None \<Rightarrow> Inl (Refused 403 ''credential_not_allowed'') | Some a \<Rightarrow> Inr a))"

fun route_refusal :: "route_error \<Rightarrow> forward_response" where
  "route_refusal (RouteCredentialNotFound n) = Refused 404 ''credential_not_found''"
| "route_refusal PathTraversal = Refused 400 ''path_traversal''"
| "route_refusal (HostNotAllowed c h) = Refused 403 ''host_not_allowed''"
| "route_refusal (MultiSecretUnbound c) = Refused 400 ''multi_secret_unbound''"
| "route_refusal (CredentialFieldMissing c b) = Refused 400 ''credential_field_missing''"
| "route_refusal e = Refused 400 (route_error_display e)"

text \<open>The relay of a Telegram credential: a live lease, or no request.\<close>

definition relay_gate ::
  "gateway_env \<Rightarrow> lookups \<Rightarrow> string \<Rightarrow> string \<Rightarrow> credential_config \<Rightarrow> unified_route
    \<Rightarrow> (forward_response, unified_route) result" where
  "relay_gate E L team cred config r =
     (if \<not> credential_uses_relay (ge_relay_env E) config then Inr r
      else
        let key = team @ '':'' @ cred in
        (case lk_relay_holder L key of
           Inr (Some _) \<Rightarrow>
             Inr (r\<lparr>ur_headers := ur_headers r
               @ [(''X-Relay-Socks'', ''127.0.0.1:'' @ show_nat (unat (socks_port (ge_digest E) key))),
                  (''X-Relay-Required'', ''true'')]\<rparr>)
         | _ \<Rightarrow> Inl (Refused 503 ''relay_offline'')))"

record forward_request_head =
  fh_target :: string
  fh_method_str :: string
  fh_auth_mode :: "x_auth_mode option"
  fh_headers :: headers
  fh_body :: "bytes option"
  fh_content_type :: "string option"

record prepared =
  pp_agent :: authenticated_agent
  pp_cred :: string
  pp_config :: credential_config
  pp_value :: "string option"
  pp_route :: unified_route

text \<open>Configuration, isolation, value, target, route and relay, in this order.\<close>

definition prepare_route ::
  "gateway_env \<Rightarrow> lookups \<Rightarrow> forward_request_head \<Rightarrow> authenticated_agent \<Rightarrow> string option \<Rightarrow> string
    \<Rightarrow> (forward_response, prepared) result" where
  "prepare_route E L h agent end_user cred =
     (case lk_config L (aa_team_id agent) cred of
        Inl _ \<Rightarrow> Inl (Refused 500 ''Failed to load credential config'')
      | Inr None \<Rightarrow> Inl (Refused 404 ''credential_not_found'')
      | Inr (Some config) \<Rightarrow>
          if cc_end_user_id config \<noteq> end_user then Inl (Refused 403 ''end_user_mismatch'')
          else case lk_value L (aa_team_id agent) cred of
            Inl _ \<Rightarrow> Inl (Refused 500 ''Failed to load credential value'')
          | Inr val \<Rightarrow>
              if \<not> cc_relative_target config
                 \<and> validate_public_target (ge_X E) (ge_private_env E) (ge_resolve E) (fh_target h) \<noteq> Inr ()
              then Inl (Refused 403 ''target_not_allowed'')
              else case resolve_unified_route_with_config_and_auth_mode (ge_X E) (ge_D E)
                          (ge_sidecar_env E) (ge_enclave E) cred (fh_target h) (fh_method_str h)
                          (fh_headers h) config val (fh_auth_mode h) of
                Inl e \<Rightarrow> Inl (route_refusal e)
              | Inr r0 \<Rightarrow>
                  (case relay_gate E L (aa_team_id agent) cred config r0 of
                     Inl resp \<Rightarrow> Inl resp
                   | Inr r \<Rightarrow>
                       if \<not> starts_with (ur_effective_target r) ''http://''
                          \<and> \<not> starts_with (ur_effective_target r) ''https://''
                       then Inl (Refused 400 ''invalid_target'')
                       else Inr \<lparr>pp_agent = agent, pp_cred = cred, pp_config = config, pp_value = val,
                                 pp_route = r\<rparr>))"

definition note_end_user ::
  "gateway_env \<Rightarrow> lookups \<Rightarrow> string \<Rightarrow> string option \<Rightarrow> gateway \<Rightarrow> gateway" where
  "note_end_user E L team end_user s =
     (case end_user of
        None \<Rightarrow> s
      | Some ext \<Rightarrow>
          if lk_upsert_fails L then s
          else (case upsert_end_user team ext None (ge_now E) (gw_access s) of
                  Inl _ \<Rightarrow> s | Inr ax \<Rightarrow> s\<lparr>gw_access := ax\<rparr>))"

definition audit_of ::
  "gateway_env \<Rightarrow> string \<Rightarrow> string list \<Rightarrow> string \<Rightarrow> http_method \<Rightarrow> approval_status option \<Rightarrow> nat option
    \<Rightarrow> bool \<Rightarrow> string option \<Rightarrow> headers \<Rightarrow> bytes option \<Rightarrow> string \<Rightarrow> bool \<Rightarrow> string option \<Rightarrow> audit_entry" where
  "audit_of E agent creds target m status upstream sanitized end_user hs body why passkey approver =
     \<lparr>ae_request_id = ge_request_id E, ae_agent_id = agent, ae_credential_names = creds,
      ae_target_url = target, ae_method = m, ae_approval_status = status, ae_upstream_status = upstream,
      ae_response_sanitized = sanitized, ae_end_user_id = end_user, ae_request_headers = hs,
      ae_request_body = fst (audit_request_body body),
      ae_request_body_truncated = snd (audit_request_body body), ae_policy_reason = Some why,
      ae_require_passkey = passkey, ae_approver_identity = approver\<rparr>"

definition write_audit :: "audit_entry \<Rightarrow> gateway \<Rightarrow> gateway" where
  "write_audit e s = s\<lparr>gw_audit := gw_audit s @ [e]\<rparr>"

definition cred_pairs :: "string \<Rightarrow> string option \<Rightarrow> (string \<times> string) list" where
  "cred_pairs cred val = (case val of None \<Rightarrow> [] | Some v \<Rightarrow> [(cred, v)])"

fun inject_refusal :: "inject_error \<Rightarrow> forward_response" where
  "inject_refusal (GoogleRefreshFailed e) = Refused 502 ''Google OAuth token refresh failed''"
| "inject_refusal (MicrosoftRefreshFailed e) = Refused 502 ''Microsoft OAuth token refresh failed''"
| "inject_refusal (AwsSigningFailed e) = Refused 502 ''AWS SigV4 signing failed''"
| "inject_refusal (TokenExchangeFailed e) =
     Refused 502 ''OAuth 2.0 Client Credentials token exchange failed''"

text \<open>
  The end of a request that needs no human: sign, send, scrub, audit, answer. \<open>agent\<close> is the
  first of the authenticated agents, under whose name the request is audited.
\<close>

definition answer_unified ::
  "gateway_env \<Rightarrow> forward_request_head \<Rightarrow> authenticated_agent \<Rightarrow> prepared \<Rightarrow> string option \<Rightarrow> gate_result \<Rightarrow> gateway
    \<Rightarrow> forward_response \<times> gateway" where
  "answer_unified E h agent p end_user g s =
     (let entry = (\<lambda>upstream sanitized. audit_of E (aa_id agent) [pp_cred p] (ur_display_target (pp_route p))
            (parse_method (fh_method_str h)) None upstream sanitized end_user (fh_headers h) (fh_body h)
            (policy_reason_text g) (gt_require_passkey g) None)
      in case inject_auth E (fh_method_str h) (fh_body h) (pp_route p) of
        Inl e \<Rightarrow> (inject_refusal e, s)
      | Inr r \<Rightarrow>
          (case exchange E (fh_method_str h) (fh_auth_mode h) (pp_value p) (fh_body h) r s of
             (Inl e, s1) \<Rightarrow> (Refused 502 ''upstream_error'', write_audit (entry None False) s1)
           | (Inr res, s1) \<Rightarrow>
               let clean = sanitize_response (ge_X E) (fr_body res) (cred_pairs (pp_cred p) (pp_value p))
               in (Answered (fr_status res) (response_headers (fr_headers res)) (sr_body clean),
                   write_audit (entry (Some (fr_status res)) (sr_sanitized clean)) s1)))"

definition unified_request ::
  "gateway_env \<Rightarrow> forward_request_head \<Rightarrow> authenticated_agent \<Rightarrow> prepared \<Rightarrow> proxy_request" where
  "unified_request E h agent p =
     \<lparr>pr_id = ge_request_id E, pr_agent_id = aa_id agent, pr_target_url = ur_display_target (pp_route p),
      pr_method = parse_method (fh_method_str h), pr_headers = ur_headers (pp_route p),
      pr_body = fh_body h, pr_content_type = fh_content_type h, pr_placeholders = []\<rparr>"

definition queue_unified ::
  "gateway_env \<Rightarrow> lookups \<Rightarrow> forward_request_head \<Rightarrow> authenticated_agent \<Rightarrow> prepared \<Rightarrow> string option \<Rightarrow> gate_result
    \<Rightarrow> gateway \<Rightarrow> forward_response \<times> gateway" where
  "queue_unified E L h agent p end_user g s =
     request_approval E L
       \<lparr>aj_team = aa_team_id (pp_agent p), aj_cred = pp_cred p, aj_desc = cc_description (pp_config p),
        aj_request = unified_request E h agent p, aj_method_str = fh_method_str h,
        aj_end_user = end_user, aj_gate = g\<rparr>
       (\<lambda>txn channel. UnifiedTask
          \<lparr>ut_request_id = ge_request_id E, ut_txn_id = txn, ut_channel = channel, ut_route = pp_route p,
           ut_method = parse_method (fh_method_str h), ut_method_str = fh_method_str h,
           ut_original_headers = fh_headers h, ut_body = fh_body h, ut_value = pp_value p,
           ut_cred = pp_cred p, ut_auth_mode = fh_auth_mode h, ut_agent_id = aa_id agent,
           ut_end_user_id = end_user, ut_policy_reason = policy_reason_as_str (reason (gt_decision g)),
           ut_require_passkey = gt_require_passkey g\<rparr>) s"

definition unified_forward ::
  "gateway_env \<Rightarrow> lookups \<Rightarrow> authenticated_agent list \<Rightarrow> headers \<Rightarrow> forward_request_head \<Rightarrow> string \<Rightarrow> gateway
    \<Rightarrow> forward_response \<times> gateway" where
  "unified_forward E L agents hs h cred s =
     (case asserted_end_user hs of
        Inl resp \<Rightarrow> (resp, s)
      | Inr end_user \<Rightarrow>
          (case select_agent L agents end_user cred of
             Inl resp \<Rightarrow> (resp, s)
           | Inr a \<Rightarrow>
               let name = (case end_user of None \<Rightarrow> cred | Some ext \<Rightarrow> end_user_cred_name ext cred);
                   s1 = note_end_user E L (aa_team_id a) end_user s
               in case prepare_route E L h a end_user name of
                 Inl resp \<Rightarrow> (resp, s1)
               | Inr p \<Rightarrow>
                   let (g, s2) = gate E L (aa_team_id a) name (parse_method (fh_method_str h))
                         (ur_display_target (pp_route p)) s1
                   in if needs_human g then queue_unified E L h (hd agents) p end_user g s2
                      else answer_unified E h (hd agents) p end_user g s2))"

section \<open>The placeholder path\<close>

text \<open>
  What an agent may list: its whitelist, or every credential of the team that belongs to no
  end-user.
\<close>

definition agent_listing_credentials ::
  "lookups \<Rightarrow> authenticated_agent \<Rightarrow> (agent_sec_error, string list) result" where
  "agent_listing_credentials L a =
     (if aa_all_credentials a
      then (case lk_credentials L (aa_team_id a) of
              Inl e \<Rightarrow> Inl e
            | Inr rows \<Rightarrow> Inr (map cr_name (filter (\<lambda>r. cr_end_user_id r = None) rows)))
      else lk_agent_credentials L (aa_team_id a) (aa_id a))"

fun configs_of ::
  "lookups \<Rightarrow> string \<Rightarrow> string list \<Rightarrow> (agent_sec_error, (string \<times> credential_config) list) result" where
  "configs_of L team [] = Inr []"
| "configs_of L team (n # ns) =
     (case lk_config L team n of
        Inl e \<Rightarrow> Inl e
      | Inr c \<Rightarrow>
          (case configs_of L team ns of
             Inl e \<Rightarrow> Inl e
           | Inr cs \<Rightarrow> Inr ((case c of None \<Rightarrow> [] | Some cfg \<Rightarrow> [(n, cfg)]) @ cs)))"

definition get_credential_configs_for_agent ::
  "lookups \<Rightarrow> authenticated_agent \<Rightarrow> (agent_sec_error, (string \<times> credential_config) list) result" where
  "get_credential_configs_for_agent L a =
     (case agent_listing_credentials L a of Inl e \<Rightarrow> Inl e | Inr ns \<Rightarrow> configs_of L (aa_team_id a) ns)"

text \<open>One map for all keys: a later key's configuration replaces an earlier one of the same name.\<close>

fun merged_configs :: "lookups \<Rightarrow> authenticated_agent list \<Rightarrow> (string \<rightharpoonup> credential_config) \<Rightarrow> string \<rightharpoonup> credential_config" where
  "merged_configs L [] m = m"
| "merged_configs L (a # as) m =
     (case get_credential_configs_for_agent L a of
        Inl _ \<Rightarrow> merged_configs L as m
      | Inr cs \<Rightarrow> merged_configs L as (m ++ map_of (rev cs)))"

definition header_named :: "string \<Rightarrow> headers \<Rightarrow> string option" where
  "header_named name hs = map_option snd (find (\<lambda>(n, _). to_lowercase n = name) hs)"

definition referenced_credentials :: "headers \<Rightarrow> placeholder list \<Rightarrow> string list" where
  "referenced_credentials hs phs =
     (let names = map ph_credential_name phs in
      if names \<noteq> [] then names
      else case header_named ''x-oauth-credential'' hs of None \<Rightarrow> [] | Some c \<Rightarrow> [c])"

text \<open>The team of the first key that may use each credential; \<open>None\<close> if there is none for one.\<close>

fun owning_teams ::
  "lookups \<Rightarrow> authenticated_agent list \<Rightarrow> string list \<Rightarrow> (string \<rightharpoonup> string) \<Rightarrow> (string \<rightharpoonup> string) option" where
  "owning_teams L agents [] m = Some m"
| "owning_teams L agents (c # cs) m =
     (case find (may_use L c) agents of
        None \<Rightarrow> None
      | Some a \<Rightarrow> owning_teams L agents cs (m(c \<mapsto> aa_team_id a)))"

definition legacy_host_ok :: "externals \<Rightarrow> (string \<rightharpoonup> credential_config) \<Rightarrow> string \<Rightarrow> string \<Rightarrow> bool" where
  "legacy_host_ok X configs target cred =
     (case configs cred of
        None \<Rightarrow> True
      | Some cfg \<Rightarrow>
          cc_relative_target cfg \<or> cc_allowed_hosts cfg = []
          \<or> (case host_of X target of
               None \<Rightarrow> False
             | Some host \<Rightarrow> list_ex (\<lambda>pat. host_is_allowed pat host) (cc_allowed_hosts cfg)))"

fun load_values ::
  "lookups \<Rightarrow> (string \<rightharpoonup> string) \<Rightarrow> string \<Rightarrow> string list \<Rightarrow> (string \<rightharpoonup> string)
    \<Rightarrow> (forward_response, string \<rightharpoonup> string) result" where
  "load_values L teams own [] m = Inr m"
| "load_values L teams own (c # cs) m =
     (case lk_value L (or_else (teams c) own) c of
        Inl _ \<Rightarrow> Inl (Refused 500 ''Failed to load credential value'')
      | Inr None \<Rightarrow> Inl (Refused 404 ''credential_not_found'')
      | Inr (Some v) \<Rightarrow> load_values L teams own cs (m(c \<mapsto> v)))"

record legacy_prepared =
  lp_placeholders :: "placeholder list"
  lp_creds :: "string list"
  lp_values :: "string \<rightharpoonup> string"
  lp_first :: string
  lp_first_team :: string

definition prepare_legacy ::
  "gateway_env \<Rightarrow> lookups \<Rightarrow> authenticated_agent list \<Rightarrow> forward_request_head
    \<Rightarrow> (forward_response, legacy_prepared) result" where
  "prepare_legacy E L agents h =
     (let configs = merged_configs L agents Map.empty; own = aa_team_id (hd agents) in
      case parse_placeholders (ge_X E) (fh_headers h) (fh_body h) (fh_content_type h) configs of
        Inl (PlaceholderPositionViolation c l) \<Rightarrow> Inl (Refused 400 ''PlaceholderPositionViolation'')
      | Inl e \<Rightarrow> Inl (error_response e)
      | Inr phs \<Rightarrow>
          let creds = referenced_credentials (fh_headers h) phs in
          (case owning_teams L agents creds Map.empty of
             None \<Rightarrow> Inl (Refused 403 ''credential_not_allowed'')
           | Some teams \<Rightarrow>
               if validate_public_target (ge_X E) (ge_private_env E) (ge_resolve E) (fh_target h) \<noteq> Inr ()
               then Inl (Refused 403 ''target_not_allowed'')
               else if \<not> list_all (legacy_host_ok (ge_X E) configs (fh_target h)) creds
               then Inl (Refused 403 ''host_not_allowed'')
               else case load_values L teams own creds Map.empty of
                 Inl resp \<Rightarrow> Inl resp
               | Inr vals \<Rightarrow>
                   let first = (case creds of [] \<Rightarrow> [] | c # _ \<Rightarrow> c)
                   in Inr \<lparr>lp_placeholders = phs, lp_creds = creds, lp_values = vals, lp_first = first,
                          lp_first_team = or_else (teams first) own\<rparr>))"

definition legacy_pairs :: "string list \<Rightarrow> (string \<rightharpoonup> string) \<Rightarrow> (string \<times> string) list" where
  "legacy_pairs creds vals = List.map_filter (\<lambda>c. map_option (Pair c) (vals c)) creds"

definition send_substituted ::
  "gateway_env \<Rightarrow> string \<Rightarrow> string \<Rightarrow> headers \<Rightarrow> bytes option \<Rightarrow> (string \<rightharpoonup> string) \<Rightarrow> gateway
    \<Rightarrow> (agent_sec_error, forward_result) result \<times> gateway" where
  "send_substituted E target method_str hs body vals s =
     forward_once E 0 target method_str (substitute_headers (ge_X E) hs vals)
       (map_option (\<lambda>b. substitute_body (ge_X E) b vals) body) s"

definition answer_legacy ::
  "gateway_env \<Rightarrow> forward_request_head \<Rightarrow> authenticated_agent \<Rightarrow> legacy_prepared \<Rightarrow> gate_result \<Rightarrow> gateway
    \<Rightarrow> forward_response \<times> gateway" where
  "answer_legacy E h agent p g s =
     (let entry = (\<lambda>upstream sanitized. audit_of E (aa_id agent) (lp_creds p) (fh_target h)
            (parse_method (fh_method_str h)) None upstream sanitized None (fh_headers h) (fh_body h)
            (policy_reason_text g) (gt_require_passkey g) None)
      in case send_substituted E (fh_target h) (fh_method_str h) (fh_headers h) (fh_body h) (lp_values p) s of
        (Inl e, s1) \<Rightarrow> (Refused 502 ''upstream_error'', write_audit (entry None False) s1)
      | (Inr res, s1) \<Rightarrow>
          let clean = sanitize_response (ge_X E) (fr_body res) (legacy_pairs (lp_creds p) (lp_values p))
          in (Answered (fr_status res) (response_headers (fr_headers res)) (sr_body clean),
              write_audit (entry (Some (fr_status res)) (sr_sanitized clean)) s1))"

definition legacy_description :: "lookups \<Rightarrow> legacy_prepared \<Rightarrow> string" where
  "legacy_description L p =
     (case lk_config L (lp_first_team p) (lp_first p) of
        Inr (Some c) \<Rightarrow> cc_description c | _ \<Rightarrow> ''Unknown credential'')"

definition queue_legacy ::
  "gateway_env \<Rightarrow> lookups \<Rightarrow> forward_request_head \<Rightarrow> authenticated_agent \<Rightarrow> legacy_prepared \<Rightarrow> gate_result
    \<Rightarrow> gateway \<Rightarrow> forward_response \<times> gateway" where
  "queue_legacy E L h agent p g s =
     request_approval E L
       \<lparr>aj_team = lp_first_team p, aj_cred = lp_first p, aj_desc = legacy_description L p,
        aj_request = \<lparr>pr_id = ge_request_id E, pr_agent_id = aa_id agent,
          pr_target_url = or_else (header_named ''x-oauth-target'' (fh_headers h)) (fh_target h),
          pr_method = parse_method (fh_method_str h), pr_headers = fh_headers h, pr_body = fh_body h,
          pr_content_type = fh_content_type h, pr_placeholders = lp_placeholders p\<rparr>,
        aj_method_str = fh_method_str h, aj_end_user = None, aj_gate = g\<rparr>
       (\<lambda>txn channel. PlaceholderTask
          \<lparr>pt_request_id = ge_request_id E, pt_txn_id = txn, pt_channel = channel,
           pt_method = parse_method (fh_method_str h), pt_target_url = fh_target h,
           pt_method_str = fh_method_str h, pt_headers = fh_headers h, pt_body = fh_body h,
           pt_cred_names = lp_creds p, pt_values = lp_values p, pt_agent_id = aa_id agent,
           pt_policy_reason = policy_reason_as_str (reason (gt_decision g)),
           pt_require_passkey = gt_require_passkey g\<rparr>) s"

text \<open>The policy and the grant are those of the first credential.\<close>

definition legacy_forward ::
  "gateway_env \<Rightarrow> lookups \<Rightarrow> authenticated_agent list \<Rightarrow> forward_request_head \<Rightarrow> gateway
    \<Rightarrow> forward_response \<times> gateway" where
  "legacy_forward E L agents h s =
     (case prepare_legacy E L agents h of
        Inl resp \<Rightarrow> (resp, s)
      | Inr p \<Rightarrow>
          let (g, s1) = gate E L (lp_first_team p) (lp_first p) (parse_method (fh_method_str h)) (fh_target h) s
          in if needs_human g then queue_legacy E L h (hd agents) p g s1
             else answer_legacy E h (hd agents) p g s1)"

section \<open>The handler\<close>

definition parse_auth_mode_header :: "headers \<Rightarrow> (forward_response, x_auth_mode option) result" where
  "parse_auth_mode_header hs =
     (case header_text hs ''x-tap-auth-mode'' of
        None \<Rightarrow> Inr None
      | Some raw \<Rightarrow>
          (case parse_x_auth_mode raw of None \<Rightarrow> Inl (Refused 400 ''invalid_auth_mode'') | Some m \<Rightarrow> Inr (Some m)))"

definition request_head :: "headers \<Rightarrow> bytes \<Rightarrow> string \<Rightarrow> x_auth_mode option \<Rightarrow> forward_request_head" where
  "request_head hs body target mode =
     \<lparr>fh_target = target, fh_method_str = or_else (header_text hs ''x-tap-method'') ''GET'',
      fh_auth_mode = mode, fh_headers = forward_headers hs, fh_body = body_bytes body,
      fh_content_type = header_text hs ''content-type''\<rparr>"

definition forward_paths ::
  "gateway_env \<Rightarrow> lookups \<Rightarrow> authenticated_agent list \<Rightarrow> headers \<Rightarrow> bytes \<Rightarrow> gateway
    \<Rightarrow> forward_response \<times> gateway" where
  "forward_paths E L agents hs body s =
     (case header_text hs ''x-tap-target'' of
        None \<Rightarrow> (Refused 400 ''missing_target'', s)
      | Some target \<Rightarrow>
          (case parse_auth_mode_header hs of
             Inl resp \<Rightarrow> (resp, s)
           | Inr mode \<Rightarrow>
               (case header_text hs ''x-tap-credential'' of
                  Some cred \<Rightarrow> unified_forward E L agents hs (request_head hs body target mode) cred s
                | None \<Rightarrow> legacy_forward E L agents (request_head hs body target mode) s)))"

definition handle_forward ::
  "gateway_env \<Rightarrow> lookups \<Rightarrow> headers \<Rightarrow> bytes \<Rightarrow> gateway \<Rightarrow> forward_response \<times> gateway" where
  "handle_forward E L hs body s =
     (case authenticate_request E L hs of
        Inl resp \<Rightarrow> (resp, s)
      | Inr [] \<Rightarrow> (Refused 401 ''invalid_tap_key'', s)
      | Inr (agent # others) \<Rightarrow>
          if unknown_tap_header hs then (Refused 400 ''unknown_header'', s)
          else case check_rate E L agent s of
            (Some resp, s1) \<Rightarrow> (resp, s1)
          | (None, s1) \<Rightarrow> forward_paths E L (agent # others) hs body s1)"

section \<open>The background tasks\<close>

text \<open>
  A task starts with what \<open>wait_for_decision\<close> of its channel returned, in the state the wait left.
  The writes of the outcome are best effort.
\<close>

definition finish_async ::
  "gateway_env \<Rightarrow> string \<Rightarrow> string \<Rightarrow> nat option \<Rightarrow> string option \<Rightarrow> bytes option \<Rightarrow> string option \<Rightarrow> gateway
    \<Rightarrow> gateway" where
  "finish_async E txn status rstatus rheaders rbody rerror s =
     (if ge_async_write_fails E then s
      else s\<lparr>gw_async := resolve_async_approval txn status rstatus rheaders rbody rerror (gw_async s)\<rparr>)"

definition approver_identity :: "gateway_env \<Rightarrow> string \<Rightarrow> gateway \<Rightarrow> string option" where
  "approver_identity E txn s =
     (if ge_identity_fails E then None else get_pending_approval_resolved_by txn (gw_pending s))"

text \<open>The outcomes other than an approval.\<close>

definition not_approved ::
  "gateway_env \<Rightarrow> string \<Rightarrow> (approval_status option \<Rightarrow> nat option \<Rightarrow> bool \<Rightarrow> string option \<Rightarrow> audit_entry)
    \<Rightarrow> (agent_sec_error, approval_status) result \<Rightarrow> gateway \<Rightarrow> gateway" where
  "not_approved E txn entry verdict s =
     (case verdict of
        Inr Denied \<Rightarrow>
          write_audit (entry (Some Denied) None False (approver_identity E txn s))
            (finish_async E txn ''denied'' None None None None s)
      | Inr _ \<Rightarrow>
          write_audit (entry (Some Timeout) None False None)
            (finish_async E txn ''timed_out'' None None None None s)
      | Inl e \<Rightarrow>
          write_audit (entry None None False None)
            (finish_async E txn ''error'' None None None (Some (error_display e)) s))"

text \<open>What a task records of the upstream's answer.\<close>

definition record_answer ::
  "gateway_env \<Rightarrow> string \<Rightarrow> (approval_status option \<Rightarrow> nat option \<Rightarrow> bool \<Rightarrow> string option \<Rightarrow> audit_entry)
    \<Rightarrow> (string \<times> string) list \<Rightarrow> string option \<Rightarrow> (agent_sec_error, forward_result) result \<Rightarrow> gateway \<Rightarrow> gateway" where
  "record_answer E txn entry pairs who answer s =
     (case answer of
        Inl e \<Rightarrow>
          write_audit (entry (Some Approved) None False who)
            (finish_async E txn ''error'' None None None (Some (error_display e)) s)
      | Inr res \<Rightarrow>
          let clean = sanitize_response (ge_X E) (fr_body res) pairs in
          write_audit (entry (Some Approved) (Some (fr_status res)) (sr_sanitized clean) who)
            (finish_async E txn ''forwarded'' (Some (fr_status res)) (Some (ge_headers_json E (fr_headers res)))
               (Some (sr_body clean)) None s))"

fun inject_message :: "inject_error \<Rightarrow> string" where
  "inject_message (GoogleRefreshFailed e) = e"
| "inject_message (MicrosoftRefreshFailed e) = e"
| "inject_message (AwsSigningFailed e) = ''AWS SigV4 signing failed: '' @ e"
| "inject_message (TokenExchangeFailed e) = ''OAuth 2.0 Client Credentials token exchange failed: '' @ e"

definition unified_entry ::
  "gateway_env \<Rightarrow> unified_task \<Rightarrow> approval_status option \<Rightarrow> nat option \<Rightarrow> bool \<Rightarrow> string option \<Rightarrow> audit_entry" where
  "unified_entry E u status upstream sanitized who =
     (audit_of E (ut_agent_id u) [ut_cred u] (ur_display_target (ut_route u)) (ut_method u) status upstream
        sanitized (ut_end_user_id u) (ut_original_headers u) (ut_body u) (ut_policy_reason u)
        (ut_require_passkey u) who)\<lparr>ae_request_id := ut_request_id u\<rparr>"

definition run_unified_async_approval ::
  "gateway_env \<Rightarrow> unified_task \<Rightarrow> (agent_sec_error, approval_status) result \<Rightarrow> gateway \<Rightarrow> gateway" where
  "run_unified_async_approval E u verdict s =
     (if verdict \<noteq> Inr Approved then not_approved E (ut_txn_id u) (unified_entry E u) verdict s
      else
        let who = approver_identity E (ut_txn_id u) s in
        (case inject_auth E (ut_method_str u) (ut_body u) (ut_route u) of
           Inl e \<Rightarrow>
             write_audit (unified_entry E u (Some Approved) None False who)
               (finish_async E (ut_txn_id u) ''error'' None None None (Some (inject_message e)) s)
         | Inr r \<Rightarrow>
             let (answer, s1) = exchange E (ut_method_str u) (ut_auth_mode u) (ut_value u) (ut_body u) r s
             in record_answer E (ut_txn_id u) (unified_entry E u) (cred_pairs (ut_cred u) (ut_value u)) who
                  answer s1))"

definition placeholder_entry ::
  "gateway_env \<Rightarrow> placeholder_task \<Rightarrow> approval_status option \<Rightarrow> nat option \<Rightarrow> bool \<Rightarrow> string option \<Rightarrow> audit_entry" where
  "placeholder_entry E q status upstream sanitized who =
     (audit_of E (pt_agent_id q) (pt_cred_names q) (pt_target_url q) (pt_method q) status upstream sanitized None
        (pt_headers q) (pt_body q) (pt_policy_reason q) (pt_require_passkey q) who)
       \<lparr>ae_request_id := pt_request_id q\<rparr>"

definition run_placeholder_async_approval ::
  "gateway_env \<Rightarrow> placeholder_task \<Rightarrow> (agent_sec_error, approval_status) result \<Rightarrow> gateway \<Rightarrow> gateway" where
  "run_placeholder_async_approval E q verdict s =
     (if verdict \<noteq> Inr Approved then not_approved E (pt_txn_id q) (placeholder_entry E q) verdict s
      else
        let who = approver_identity E (pt_txn_id q) s;
            (answer, s1) = send_substituted E (pt_target_url q) (pt_method_str q) (pt_headers q) (pt_body q)
              (pt_values q) s
        in record_answer E (pt_txn_id q) (placeholder_entry E q) (legacy_pairs (pt_cred_names q) (pt_values q))
             who answer s1)"

fun run_task :: "gateway_env \<Rightarrow> task \<Rightarrow> (agent_sec_error, approval_status) result \<Rightarrow> gateway \<Rightarrow> gateway" where
  "run_task E (UnifiedTask u) verdict s = run_unified_async_approval E u verdict s"
| "run_task E (PlaceholderTask q) verdict s = run_placeholder_async_approval E q verdict s"

section \<open>Polling and end-user scopes\<close>

datatype status_response =
    StatusRefused nat string
  | StatusOf async_approval_row

definition authenticate_agent_from_headers ::
  "gateway_env \<Rightarrow> lookups \<Rightarrow> headers \<Rightarrow> (forward_response, authenticated_agent) result" where
  "authenticate_agent_from_headers E L hs =
     (case header_text hs ''x-tap-key'' of
        None \<Rightarrow> Inl (Refused 401 ''missing_tap_key'')
      | Some key \<Rightarrow>
          (case authenticate E L key of
             Inl _ \<Rightarrow> Inl (Refused 503 ''Service temporarily unavailable'')
           | Inr None \<Rightarrow> Inl (Refused 401 ''invalid_tap_key'')
           | Inr (Some a) \<Rightarrow> Inr a))"

text \<open>The row is the query's answer; it is shown to the agent whose identifier it carries.\<close>

definition handle_agent_approval_status ::
  "gateway_env \<Rightarrow> lookups \<Rightarrow> string \<Rightarrow> headers \<Rightarrow> (agent_sec_error, async_approval_row option) result
    \<Rightarrow> status_response" where
  "handle_agent_approval_status E L txn hs found =
     (case (case header_text hs ''x-tap-key'' of
              Some _ \<Rightarrow> authenticate_agent_from_headers E L hs
            | None \<Rightarrow> (case lk_mcp_agent L hs of Some a \<Rightarrow> Inr a | None \<Rightarrow> Inl (Refused 401 ''missing_tap_key''))) of
        Inl (Refused n e) \<Rightarrow> StatusRefused n e
      | Inl _ \<Rightarrow> StatusRefused 500 []
      | Inr a \<Rightarrow>
          (case found of
             Inl _ \<Rightarrow> StatusRefused 500 ''Database error''
           | Inr None \<Rightarrow> StatusRefused 404 ''Transaction not found''
           | Inr (Some row) \<Rightarrow>
               if as_agent_id row \<noteq> aa_id a then StatusRefused 403 ''Not your transaction''
               else StatusOf row))"

definition resolve_end_user_scope ::
  "gateway_env \<Rightarrow> lookups \<Rightarrow> authenticated_agent \<Rightarrow> headers \<Rightarrow> access_store
    \<Rightarrow> (forward_response, authenticated_agent) result \<times> access_store" where
  "resolve_end_user_scope E L agent hs ax =
     (case asserted_end_user hs of
        Inl resp \<Rightarrow> (Inl resp, ax)
      | Inr None \<Rightarrow> (Inr agent, ax)
      | Inr (Some ext) \<Rightarrow>
          if \<not> aa_is_app agent then (Inl (Refused 403 ''not_an_app_key''), ax)
          else case (if lk_upsert_fails L then Inl (Config ''Failed to upsert end-user'')
                     else upsert_end_user (aa_team_id agent) ext None (ge_now E) ax) of
            Inl _ \<Rightarrow> (Inl (Refused 503 ''Service temporarily unavailable''), ax)
          | Inr ax' \<Rightarrow> (Inr (agent\<lparr>aa_end_user_id := Some ext\<rparr>), ax'))"

end
