(* ===== verification/Gateway_Props.thy ===== *)
theory Gateway_Props
  imports Gateway
begin

text \<open>
  What must hold when a request puts something on the wire, on the path of a named credential and
  on the placeholder path, from lemmas on what each step of the handler leaves alone.
\<close>

section \<open>What each step leaves alone\<close>

definition same_traffic :: "gateway \<Rightarrow> gateway \<Rightarrow> bool" where
  "same_traffic s s' \<longleftrightarrow> gw_wire s' = gw_wire s \<and> gw_audit s' = gw_audit s"

lemma same_traffic_refl [simp]: "same_traffic s s"
  by (simp add: same_traffic_def)

lemma check_rate_traffic: "check_rate E L a s = (r, s') \<Longrightarrow> same_traffic s s' \<and> gw_tasks s' = gw_tasks s"
  by (auto simp: check_rate_def same_traffic_def Let_def split: sum.splits option.splits if_splits prod.splits)

lemma note_end_user_traffic:
  "same_traffic s (note_end_user E L team eu s)" "gw_grants (note_end_user E L team eu s) = gw_grants s"
  by (auto simp: note_end_user_def same_traffic_def split: option.splits sum.splits)

lemma gate_traffic: "gate E L team cred m url s = (g, s') \<Longrightarrow> same_traffic s s'"
  by (auto simp: gate_def same_traffic_def Let_def split: prod.splits)

lemma request_approval_traffic: "request_approval E L j mk s = (r, s') \<Longrightarrow> same_traffic s s'"
  by (auto simp: request_approval_def same_traffic_def Let_def
      split: prod.splits option.splits sum.splits if_splits)

lemma request_approval_response:
  "request_approval E L j mk s = (Answered n hs b, s') \<Longrightarrow> False"
  by (auto simp: request_approval_def Let_def split: prod.splits option.splits sum.splits if_splits)

lemma same_traffic_trans: "same_traffic s t \<Longrightarrow> same_traffic t u \<Longrightarrow> same_traffic s u"
  by (simp add: same_traffic_def)

section \<open>Signing keeps the target\<close>

lemma push_bearer_targets [simp]:
  "ur_effective_target (push_bearer k r) = ur_effective_target r"
  "ur_display_target (push_bearer k r) = ur_display_target r"
  by (simp_all add: push_bearer_def)

lemma sign_twitter_targets [simp]:
  "ur_effective_target (sign_twitter_oauth_route E m b c r) = ur_effective_target r"
  by (simp add: sign_twitter_oauth_route_def Let_def)

lemma inject_steps_target:
  "inject_google E r = Inr r' \<Longrightarrow> ur_effective_target r' = ur_effective_target r"
  "inject_microsoft E r = Inr r' \<Longrightarrow> ur_effective_target r' = ur_effective_target r"
  "inject_aws E m b r = Inr r' \<Longrightarrow> ur_effective_target r' = ur_effective_target r"
  "inject_client_credentials E r = Inr r' \<Longrightarrow> ur_effective_target r' = ur_effective_target r"
  "ur_effective_target (inject_twitter E m b r) = ur_effective_target r"
  by (auto simp: inject_google_def inject_microsoft_def inject_aws_def inject_client_credentials_def
      inject_twitter_def split: option.splits sum.splits)

lemma inject_auth_target: "inject_auth E m b r = Inr r' \<Longrightarrow> ur_effective_target r' = ur_effective_target r"
  by (auto simp: inject_auth_def inject_steps_target(5) split: sum.splits dest!: inject_steps_target(1-4))

lemma wire_of_url: "w \<in> set (wire_of E url m hs b) \<Longrightarrow> wr_url w = url"
  by (auto simp: wire_of_def split: if_splits)

text \<open>The log is what \<open>forward_request\<close> hands to the client.\<close>

lemma forward_request_wire:
  "forward_request (ge_X E) (ge_method_ok E) snd_f (ge_egress E) url m hs b =
     (case wire_of E url m hs b of
        w # _ \<Rightarrow> snd_f w
      | [] \<Rightarrow> if \<not> starts_with url ''http://'' \<and> \<not> starts_with url ''https://''
              then Inl (Upstream (''X-TAP-Target '' @ quoted url @ '' is not a valid URL''))
              else Inl (Internal ''Invalid HTTP method''))"
  by (auto simp: forward_request_def wire_of_def Let_def)

definition answered_by :: "gateway_env \<Rightarrow> wire_request list \<Rightarrow> forward_result \<Rightarrow> bool" where
  "answered_by E ws res \<longleftrightarrow> (\<exists>k. \<exists>w \<in> set ws. ge_send E k w = Inr res)"

lemma forward_request_answered:
  assumes "forward_request (ge_X E) (ge_method_ok E) (ge_send E k) (ge_egress E) u m hs b = Inr res"
  shows "answered_by E (wire_of E u m hs b) res"
  using assms by (auto simp: forward_request_wire answered_by_def split: list.splits if_splits)

lemma answered_by_append: "answered_by E (ws @ ws') res \<longleftrightarrow> answered_by E ws res \<or> answered_by E ws' res"
  by (auto simp: answered_by_def)

lemma answered_by_Nil [simp]: "\<not> answered_by E [] res"
  by (simp add: answered_by_def)

lemma exchange_traffic:
  assumes "exchange E m mode val b r s = (answer, s')"
  shows "gw_audit s' = gw_audit s
    \<and> (\<exists>ws. gw_wire s' = gw_wire s @ ws \<and> length ws \<le> 2
        \<and> (\<forall>w \<in> set ws. wr_url w = ur_effective_target r)
        \<and> (\<forall>res. answer = Inr res \<longrightarrow> answered_by E ws res))"
proof -
  let ?u = "ur_effective_target r"
  let ?w0 = "wire_of E ?u m (ur_headers r) b"
  have len: "length (wire_of E u m hs b) \<le> 1" for u hs by (simp add: wire_of_def)
  obtain a0 where a0: "forward_once E 0 ?u m (ur_headers r) b s = (a0, s\<lparr>gw_wire := gw_wire s @ ?w0\<rparr>)"
    "a0 = forward_request (ge_X E) (ge_method_ok E) (ge_send E 0) (ge_egress E) ?u m (ur_headers r) b"
    by (simp add: forward_once_def)
  show ?thesis
  proof (cases a0)
    case (Inl e)
    with assms a0(1) have "answer = Inl e" "s' = s\<lparr>gw_wire := gw_wire s @ ?w0\<rparr>"
      by (simp_all add: exchange_def)
    with len [of ?u "ur_headers r"] show ?thesis by (auto dest: wire_of_url intro!: exI [of _ ?w0])
  next
    case (Inr res)
    have by0: "answered_by E ?w0 res" using forward_request_answered a0(2) Inr by metis
    show ?thesis
    proof (cases "x_auto_bearer_can_retry_with_oauth1 E (fr_status res) m mode r val")
      case None
      with assms a0(1) Inr have "answer = Inr res" "s' = s\<lparr>gw_wire := gw_wire s @ ?w0\<rparr>"
        by (simp_all add: exchange_def)
      with by0 len [of ?u "ur_headers r"] show ?thesis
        by (auto dest: wire_of_url intro!: exI [of _ ?w0])
    next
      case (Some c)
      let ?hs' = "ur_headers (sign_twitter_oauth_route E m b c r)"
      let ?w1 = "wire_of E ?u m ?hs' b"
      have "s' = s\<lparr>gw_wire := gw_wire s @ ?w0 @ ?w1\<rparr>
        \<and> (answer = Inr res \<or> answer = forward_request (ge_X E) (ge_method_ok E) (ge_send E 1) (ge_egress E) ?u m ?hs' b)"
        using assms a0(1) Inr Some
        by (auto simp: exchange_def Let_def forward_once_def split: sum.splits)
      with by0 len [of ?u "ur_headers r"] len [of ?u ?hs'] show ?thesis
        by (auto dest: wire_of_url forward_request_answered simp: answered_by_append intro!: exI [of _ "?w0 @ ?w1"])
    qed
  qed
qed

section \<open>Nothing is sent without clearance\<close>

text \<open>
  When a request for a credential may go out without a further question: its policy lets it
  pass, or a live grant was claimed for it, where grants count at all.
\<close>

definition cleared ::
  "gateway_env \<Rightarrow> lookups \<Rightarrow> string \<Rightarrow> string \<Rightarrow> http_method \<Rightarrow> string \<Rightarrow> grant_store \<Rightarrow> bool" where
  "cleared E L team cred m url gs \<longleftrightarrow>
     \<not> requires_approval (decide_request E L team cred m url)
     \<or> \<not> passkey_required (policy_for L team cred)
       \<and> reason (decide_request E L team cred m url) \<noteq> RequireApprovalUrl
       \<and> fst (try_claim_grant (ge_X E) (lk_grants_fail L) team cred (method_as_str m) url (ge_now E) (ge_steps E) gs)
           \<noteq> None"

lemma gate_cleared:
  assumes "gate E L team cred m url s = (g, s')" and "\<not> needs_human g"
  shows "cleared E L team cred m url (gw_grants s)"
  using assms by (auto simp: gate_def needs_human_def cleared_def Let_def split: prod.splits if_splits)

lemma check_rate_grants: "check_rate E L a s = (r, s') \<Longrightarrow> gw_grants s' = gw_grants s"
  by (auto simp: check_rate_def Let_def split: sum.splits option.splits if_splits prod.splits)

fun refused :: "forward_response \<Rightarrow> bool" where
  "refused (Refused n e) = True"
| "refused (Queued t) = False"
| "refused (Answered n hs b) = False"
| "refused Panicked = False"

lemma error_response_refused [simp]: "refused (error_response e)"
  by (cases e) simp_all

lemma early_refusals:
  "authenticate_request E L hs = Inl r \<Longrightarrow> refused r"
  "parse_auth_mode_header hs = Inl r \<Longrightarrow> refused r"
  "check_rate E L a s = (Some r, s') \<Longrightarrow> refused r"
  "asserted_end_user hs = Inl r \<Longrightarrow> refused r"
  "select_agent L agents eu cred = Inl r \<Longrightarrow> refused r"
  by (auto simp: authenticate_request_def parse_auth_mode_header_def check_rate_def asserted_end_user_def
      select_agent_def Let_def split: option.splits sum.splits if_splits prod.splits)

lemma route_refusal_refused [simp]: "refused (route_refusal e)"
  by (cases e) simp_all

lemma prepare_route_refused: "prepare_route E L h a eu cred = Inl r \<Longrightarrow> refused r"
  by (auto simp: prepare_route_def relay_gate_def Let_def split: sum.splits option.splits if_splits)

lemma load_values_refused: "load_values L teams own cs m = Inl r \<Longrightarrow> refused r"
  by (induction cs arbitrary: m) (auto split: sum.splits option.splits)

lemma prepare_legacy_refused: "prepare_legacy E L agents h = Inl r \<Longrightarrow> refused r"
  by (auto simp: prepare_legacy_def Let_def dest: load_values_refused
      split: sum.splits option.splits if_splits agent_sec_error.splits)

text \<open>How a request reaches one of the two paths.\<close>

lemma handle_forward_paths:
  assumes "handle_forward E L hs body s = (resp, s')" and "\<not> same_traffic s s' \<or> \<not> refused resp"
  shows "\<exists>agent others s1. authenticate_request E L hs = Inr (agent # others) \<and> same_traffic s s1
    \<and> gw_grants s1 = gw_grants s \<and> gw_tasks s1 = gw_tasks s
    \<and> forward_paths E L (agent # others) hs body s1 = (resp, s')"
proof (cases "authenticate_request E L hs")
  case (Inl r)
  with assms early_refusals(1) [OF Inl] show ?thesis by (simp add: handle_forward_def)
next
  case (Inr agents)
  then obtain agent others where a: "agents = agent # others" "\<not> unknown_tap_header hs"
    using assms by (cases agents) (auto simp: handle_forward_def split: if_splits)
  obtain r s1 where c: "check_rate E L agent s = (r, s1)" by force
  have "r = None"
    using assms a Inr c early_refusals(3) [of E L agent s _ s1] check_rate_traffic [OF c]
    by (cases r) (auto simp: handle_forward_def)
  with assms(1) a Inr c check_rate_traffic [OF c] check_rate_grants [OF c] show ?thesis
    by (auto simp: handle_forward_def)
qed

lemma forward_paths_unified:
  assumes "forward_paths E L agents hs body s = (resp, s')" and "header_text hs ''x-tap-credential'' = Some cred"
    and "\<not> same_traffic s s' \<or> \<not> refused resp"
  shows "\<exists>target mode. header_text hs ''x-tap-target'' = Some target
    \<and> unified_forward E L agents hs (request_head hs body target mode) cred s = (resp, s')"
  using assms early_refusals(2) [of hs]
  by (auto simp: forward_paths_def split: option.splits sum.splits)

lemma forward_paths_legacy:
  assumes "forward_paths E L agents hs body s = (resp, s')" and "header_text hs ''x-tap-credential'' = None"
    and "\<not> same_traffic s s' \<or> \<not> refused resp"
  shows "\<exists>target mode. header_text hs ''x-tap-target'' = Some target
    \<and> legacy_forward E L agents (request_head hs body target mode) s = (resp, s')"
  using assms early_refusals(2) [of hs]
  by (auto simp: forward_paths_def split: option.splits sum.splits)

text \<open>The unified path up to the point where it queues or answers.\<close>

definition effective_name :: "string option \<Rightarrow> string \<Rightarrow> string" where
  "effective_name end_user cred = (case end_user of None \<Rightarrow> cred | Some ext \<Rightarrow> end_user_cred_name ext cred)"

lemma unified_forward_cases:
  assumes "unified_forward E L agents hs h cred s = (resp, s')" and "\<not> same_traffic s s' \<or> \<not> refused resp"
  shows "\<exists>eu a p g s2. asserted_end_user hs = Inr eu \<and> select_agent L agents eu cred = Inr a
    \<and> prepare_route E L h a eu (effective_name eu cred) = Inr p
    \<and> gate E L (aa_team_id a) (effective_name eu cred) (parse_method (fh_method_str h))
        (ur_display_target (pp_route p)) (note_end_user E L (aa_team_id a) eu s) = (g, s2)
    \<and> same_traffic s s2
    \<and> (if needs_human g then queue_unified E L h (hd agents) p eu g s2
       else answer_unified E h (hd agents) p eu g s2) = (resp, s')"
proof (cases "asserted_end_user hs")
  case (Inl r)
  with assms early_refusals(4) [OF Inl] show ?thesis by (simp add: unified_forward_def)
next
  case eu: (Inr eu)
  show ?thesis
  proof (cases "select_agent L agents eu cred")
    case (Inl r)
    with assms eu early_refusals(5) [OF Inl] show ?thesis by (simp add: unified_forward_def)
  next
    case a: (Inr a)
    let ?s1 = "note_end_user E L (aa_team_id a) eu s" and ?n = "effective_name eu cred"
    show ?thesis
    proof (cases "prepare_route E L h a eu ?n")
      case (Inl r)
      with assms eu a prepare_route_refused [OF Inl] note_end_user_traffic(1) [of s] show ?thesis
        by (auto simp: unified_forward_def effective_name_def Let_def)
    next
      case p: (Inr p)
      obtain g s2 where g: "gate E L (aa_team_id a) ?n (parse_method (fh_method_str h))
        (ur_display_target (pp_route p)) ?s1 = (g, s2)" by force
      have "same_traffic s s2"
        using same_traffic_trans [OF note_end_user_traffic(1) gate_traffic [OF g]] .
      with assms(1) eu a p g show ?thesis
        by (auto simp: unified_forward_def effective_name_def [symmetric] Let_def)
    qed
  qed
qed

lemma prepared_facts:
  assumes "prepare_route E L h a eu cred = Inr p"
  shows "pp_agent p = a \<and> pp_cred p = cred
    \<and> lk_config L (aa_team_id a) cred = Inr (Some (pp_config p)) \<and> cc_end_user_id (pp_config p) = eu
    \<and> lk_value L (aa_team_id a) cred = Inr (pp_value p)
    \<and> (cc_relative_target (pp_config p)
       \<or> validate_public_target (ge_X E) (ge_private_env E) (ge_resolve E) (fh_target h) = Inr ())
    \<and> (\<exists>r. resolve_unified_route_with_config_and_auth_mode (ge_X E) (ge_D E) (ge_sidecar_env E)
          (ge_enclave E) cred (fh_target h) (fh_method_str h) (fh_headers h) (pp_config p) (pp_value p)
          (fh_auth_mode h) = Inr r
        \<and> ur_effective_target (pp_route p) = ur_effective_target r
        \<and> ur_display_target (pp_route p) = ur_display_target r)"
  using assms
  by (auto simp: prepare_route_def relay_gate_def Let_def split: sum.splits option.splits if_splits)

text \<open>What a request that was answered or failed at the upstream leaves behind.\<close>

definition exchange_record ::
  "gateway_env \<Rightarrow> string \<Rightarrow> string \<Rightarrow> (string \<times> string) list \<Rightarrow> string \<Rightarrow> string list \<Rightarrow> forward_response
    \<Rightarrow> gateway \<Rightarrow> gateway \<Rightarrow> bool" where
  "exchange_record E url shown pairs agent creds resp s s' \<longleftrightarrow>
     (\<exists>ws e. gw_wire s' = gw_wire s @ ws \<and> (\<forall>w \<in> set ws. wr_url w = url)
        \<and> gw_audit s' = gw_audit s @ [e] \<and> ae_agent_id e = agent \<and> ae_credential_names e = creds
        \<and> ae_target_url e = shown
        \<and> (resp = Refused 502 ''upstream_error'' \<and> ae_upstream_status e = None
           \<or> (\<exists>res. answered_by E ws res \<and> ae_upstream_status e = Some (fr_status res)
               \<and> resp = Answered (fr_status res) (response_headers (fr_headers res))
                   (sr_body (sanitize_response (ge_X E) (fr_body res) pairs)))))"

lemma answer_unified_record:
  assumes "answer_unified E h agent p eu g s = (resp, s')" and "\<not> same_traffic s s' \<or> \<not> refused resp"
  shows "exchange_record E (ur_effective_target (pp_route p)) (ur_display_target (pp_route p))
    (cred_pairs (pp_cred p) (pp_value p)) (aa_id agent) [pp_cred p] resp s s'"
proof (cases "inject_auth E (fh_method_str h) (fh_body h) (pp_route p)")
  case (Inl e)
  have "refused (inject_refusal e)" by (cases e) simp_all
  with Inl assms show ?thesis by (simp add: answer_unified_def)
next
  case (Inr r)
  obtain answer s1 where x: "exchange E (fh_method_str h) (fh_auth_mode h) (pp_value p) (fh_body h) r s = (answer, s1)"
    by force
  from exchange_traffic [OF x] obtain ws where ws: "gw_wire s1 = gw_wire s @ ws"
    "\<forall>w \<in> set ws. wr_url w = ur_effective_target (pp_route p)" "gw_audit s1 = gw_audit s"
    "\<forall>res. answer = Inr res \<longrightarrow> answered_by E ws res"
    using inject_auth_target [OF Inr] by auto
  show ?thesis
    using assms(1) Inr x ws
    by (cases answer)
      (auto simp: answer_unified_def exchange_record_def write_audit_def audit_of_def Let_def)
qed

lemma queue_unified_traffic: "queue_unified E L h agent p eu g s = (resp, s') \<Longrightarrow> same_traffic s s'"
  unfolding queue_unified_def by (rule request_approval_traffic)

lemma unified_sent:
  assumes "handle_forward E L hs body s = (resp, s')" and "header_text hs ''x-tap-credential'' = Some cred"
    and "\<not> same_traffic s s'"
  shows "\<exists>agents a eu target mode p. authenticate_request E L hs = Inr agents \<and> agents \<noteq> []
    \<and> header_text hs ''x-tap-target'' = Some target
    \<and> asserted_end_user hs = Inr eu \<and> select_agent L agents eu cred = Inr a
    \<and> prepare_route E L (request_head hs body target mode) a eu (effective_name eu cred) = Inr p
    \<and> cleared E L (aa_team_id a) (effective_name eu cred)
        (parse_method (fh_method_str (request_head hs body target mode)))
        (ur_display_target (pp_route p)) (gw_grants s)
    \<and> exchange_record E (ur_effective_target (pp_route p)) (ur_display_target (pp_route p))
        (cred_pairs (pp_cred p) (pp_value p)) (aa_id (hd agents)) [pp_cred p] resp s s'"
proof -
  from handle_forward_paths [OF assms(1)] assms(3) obtain agent others s1 where
    a: "authenticate_request E L hs = Inr (agent # others)" "same_traffic s s1" "gw_grants s1 = gw_grants s"
      "forward_paths E L (agent # others) hs body s1 = (resp, s')" by blast
  have moved: "\<not> same_traffic s1 s'" using a(2) assms(3) same_traffic_trans by blast
  from forward_paths_unified [OF a(4) assms(2)] moved obtain target mode where
    t: "header_text hs ''x-tap-target'' = Some target"
      "unified_forward E L (agent # others) hs (request_head hs body target mode) cred s1 = (resp, s')" by blast
  let ?h = "request_head hs body target mode"
  from unified_forward_cases [OF t(2)] moved obtain eu b p g s2 where
    u: "asserted_end_user hs = Inr eu" "select_agent L (agent # others) eu cred = Inr b"
      "prepare_route E L ?h b eu (effective_name eu cred) = Inr p"
      "gate E L (aa_team_id b) (effective_name eu cred) (parse_method (fh_method_str ?h))
        (ur_display_target (pp_route p)) (note_end_user E L (aa_team_id b) eu s1) = (g, s2)"
      "same_traffic s1 s2"
      "(if needs_human g then queue_unified E L ?h (hd (agent # others)) p eu g s2
        else answer_unified E ?h (hd (agent # others)) p eu g s2) = (resp, s')" by blast
  have moved2: "\<not> same_traffic s2 s'" using u(5) moved same_traffic_trans by blast
  then have direct: "\<not> needs_human g" using u(6) queue_unified_traffic by (auto split: if_splits)
  have "exchange_record E (ur_effective_target (pp_route p)) (ur_display_target (pp_route p))
      (cred_pairs (pp_cred p) (pp_value p)) (aa_id agent) [pp_cred p] resp s2 s'"
    using answer_unified_record [of E ?h agent p eu g s2 resp s'] u(6) direct moved2 by simp
  then have "exchange_record E (ur_effective_target (pp_route p)) (ur_display_target (pp_route p))
      (cred_pairs (pp_cred p) (pp_value p)) (aa_id agent) [pp_cred p] resp s s'"
    using a(2) u(5) by (simp add: exchange_record_def same_traffic_def)
  moreover have "cleared E L (aa_team_id b) (effective_name eu cred) (parse_method (fh_method_str ?h))
      (ur_display_target (pp_route p)) (gw_grants s)"
    using gate_cleared [OF u(4) direct] a(3) by (simp add: note_end_user_traffic(2))
  ultimately show ?thesis
    using a(1) t(1) u(1-3)
    by (intro exI [of _ "agent # others"] exI [of _ b] exI [of _ eu] exI [of _ target] exI [of _ mode]
        exI [of _ p] conjI) (simp_all only: list.sel list.simps not_False_eq_True)
qed

lemma select_agent_facts:
  assumes "select_agent L agents eu cred = Inr a"
  shows "a \<in> set agents \<and> (case eu of None \<Rightarrow> may_use L cred a | Some _ \<Rightarrow> aa_is_app a)"
  using assms by (auto simp: select_agent_def split: option.splits dest: find_SomeD)

text \<open>C1. What leaves the gateway for a named credential. If a request puts anything on the wire, then a
  key it presented (or its connector) authenticated an agent that may use the credential, or
  that is an app key when the request acts for an end-user; the credential belongs to exactly
  the end-user the request asserts, or to none; the target passed the guard against internal
  addresses unless it is relative; everything was sent to the URL that the routing of this
  credential gives; and the policy let the request pass without a question, or a live grant
  was claimed for it that neither a passkey nor a URL rule excludes.\<close>

theorem forward_needs_clearance:
  assumes "handle_forward E L hs body s = (resp, s')"
    and "header_text hs ''x-tap-credential'' = Some cred" and "gw_wire s' \<noteq> gw_wire s"
  shows "\<exists>agents a eu name target mode config val r.
      authenticate_request E L hs = Inr agents \<and> a \<in> set agents
    \<and> asserted_end_user hs = Inr eu \<and> (case eu of None \<Rightarrow> may_use L cred a | Some _ \<Rightarrow> aa_is_app a)
    \<and> name = (case eu of None \<Rightarrow> cred | Some ext \<Rightarrow> end_user_cred_name ext cred)
    \<and> lk_config L (aa_team_id a) name = Inr (Some config) \<and> cc_end_user_id config = eu
    \<and> lk_value L (aa_team_id a) name = Inr val
    \<and> header_text hs ''x-tap-target'' = Some target
    \<and> (cc_relative_target config
       \<or> validate_public_target (ge_X E) (ge_private_env E) (ge_resolve E) target = Inr ())
    \<and> resolve_unified_route_with_config_and_auth_mode (ge_X E) (ge_D E) (ge_sidecar_env E) (ge_enclave E)
        name target (or_else (header_text hs ''x-tap-method'') ''GET'') (forward_headers hs) config val mode
        = Inr r
    \<and> (\<exists>ws. gw_wire s' = gw_wire s @ ws \<and> (\<forall>w \<in> set ws. wr_url w = ur_effective_target r))
    \<and> cleared E L (aa_team_id a) name (parse_method (or_else (header_text hs ''x-tap-method'') ''GET''))
        (ur_display_target r) (gw_grants s)"
proof -
  have "\<not> same_traffic s s'" using assms(3) by (simp add: same_traffic_def)
  from unified_sent [OF assms(1,2) this] obtain agents a eu target mode p where
    f: "authenticate_request E L hs = Inr agents" "header_text hs ''x-tap-target'' = Some target"
      "asserted_end_user hs = Inr eu" "select_agent L agents eu cred = Inr a"
      "prepare_route E L (request_head hs body target mode) a eu (effective_name eu cred) = Inr p"
      "cleared E L (aa_team_id a) (effective_name eu cred)
        (parse_method (fh_method_str (request_head hs body target mode)))
        (ur_display_target (pp_route p)) (gw_grants s)"
      "exchange_record E (ur_effective_target (pp_route p)) (ur_display_target (pp_route p))
        (cred_pairs (pp_cred p) (pp_value p)) (aa_id (hd agents)) [pp_cred p] resp s s'" by blast
  from prepared_facts [OF f(5)] obtain r where
    r: "resolve_unified_route_with_config_and_auth_mode (ge_X E) (ge_D E) (ge_sidecar_env E) (ge_enclave E)
        (effective_name eu cred) target (or_else (header_text hs ''x-tap-method'') ''GET'')
        (forward_headers hs) (pp_config p) (pp_value p) mode = Inr r"
      "ur_effective_target (pp_route p) = ur_effective_target r"
      "ur_display_target (pp_route p) = ur_display_target r"
      "lk_config L (aa_team_id a) (effective_name eu cred) = Inr (Some (pp_config p))"
      "cc_end_user_id (pp_config p) = eu" "lk_value L (aa_team_id a) (effective_name eu cred) = Inr (pp_value p)"
      "cc_relative_target (pp_config p)
       \<or> validate_public_target (ge_X E) (ge_private_env E) (ge_resolve E) target = Inr ()"
    by (auto simp: request_head_def)
  have "\<exists>ws. gw_wire s' = gw_wire s @ ws \<and> (\<forall>w \<in> set ws. wr_url w = ur_effective_target r)"
    using f(7) r(2) by (auto simp: exchange_record_def)
  then show ?thesis
    using f(1-3) f(6) r select_agent_facts [OF f(4)]
    by (intro exI [of _ agents] exI [of _ a] exI [of _ eu] exI [of _ "effective_name eu cred"]
        exI [of _ target] exI [of _ mode] exI [of _ "pp_config p"] exI [of _ "pp_value p"] exI [of _ r] conjI)
      (simp_all add: effective_name_def request_head_def)
qed

section \<open>The placeholder path\<close>

lemma owning_teams_facts:
  assumes "owning_teams L agents cs m = Some m'"
  shows "(\<forall>c \<in> set cs. \<exists>a \<in> set agents. may_use L c a \<and> find (may_use L c) agents = Some a \<and> m' c = Some (aa_team_id a))
    \<and> (\<forall>c. c \<notin> set cs \<longrightarrow> m' c = m c)"
  using assms
proof (induction cs arbitrary: m)
  case (Cons c cs)
  then obtain a where a: "find (may_use L c) agents = Some a"
    "owning_teams L agents cs (m(c \<mapsto> aa_team_id a)) = Some m'" by (auto split: option.splits)
  from Cons.IH [OF a(2)] find_SomeD [OF a(1)] a(1) show ?case
    by (cases "c \<in> set cs") auto
qed simp

lemma load_values_facts:
  assumes "load_values L teams own cs m = Inr vals"
  shows "(\<forall>c \<in> set cs. \<exists>v. vals c = Some v \<and> lk_value L (or_else (teams c) own) c = Inr (Some v))
    \<and> (\<forall>c. c \<notin> set cs \<longrightarrow> vals c = m c)"
  using assms
proof (induction cs arbitrary: m)
  case (Cons c cs)
  then obtain v where v: "lk_value L (or_else (teams c) own) c = Inr (Some v)"
    "load_values L teams own cs (m(c \<mapsto> v)) = Inr vals" by (auto split: sum.splits option.splits)
  from Cons.IH [OF v(2)] v(1) show ?case by (cases "c \<in> set cs") auto
qed simp

lemma prepare_legacy_facts:
  assumes "prepare_legacy E L agents h = Inr p"
  shows "parse_placeholders (ge_X E) (fh_headers h) (fh_body h) (fh_content_type h)
      (merged_configs L agents Map.empty) = Inr (lp_placeholders p)
    \<and> lp_creds p = referenced_credentials (fh_headers h) (lp_placeholders p)
    \<and> validate_public_target (ge_X E) (ge_private_env E) (ge_resolve E) (fh_target h) = Inr ()
    \<and> (\<forall>c \<in> set (lp_creds p). legacy_host_ok (ge_X E) (merged_configs L agents Map.empty) (fh_target h) c)
    \<and> (\<forall>c \<in> set (lp_creds p). \<exists>a \<in> set agents. may_use L c a
        \<and> (\<exists>v. lp_values p c = Some v \<and> lk_value L (aa_team_id a) c = Inr (Some v)))
    \<and> (lp_creds p \<noteq> [] \<longrightarrow> lp_first p = hd (lp_creds p)
        \<and> (\<exists>a \<in> set agents. may_use L (lp_first p) a \<and> lp_first_team p = aa_team_id a))"
proof -
  let ?configs = "merged_configs L agents Map.empty"
  from assms obtain phs teams vals where
    f: "parse_placeholders (ge_X E) (fh_headers h) (fh_body h) (fh_content_type h) ?configs = Inr phs"
      "owning_teams L agents (referenced_credentials (fh_headers h) phs) Map.empty = Some teams"
      "validate_public_target (ge_X E) (ge_private_env E) (ge_resolve E) (fh_target h) = Inr ()"
      "list_all (legacy_host_ok (ge_X E) ?configs (fh_target h)) (referenced_credentials (fh_headers h) phs)"
      "load_values L teams (aa_team_id (hd agents)) (referenced_credentials (fh_headers h) phs) Map.empty = Inr vals"
      "p = \<lparr>lp_placeholders = phs, lp_creds = referenced_credentials (fh_headers h) phs, lp_values = vals,
        lp_first = (case referenced_credentials (fh_headers h) phs of [] \<Rightarrow> [] | c # _ \<Rightarrow> c),
        lp_first_team = or_else (teams (case referenced_credentials (fh_headers h) phs of [] \<Rightarrow> [] | c # _ \<Rightarrow> c))
          (aa_team_id (hd agents))\<rparr>"
    by (auto simp: prepare_legacy_def Let_def split: sum.splits option.splits if_splits agent_sec_error.splits)
  let ?creds = "referenced_credentials (fh_headers h) phs"
  have own: "\<exists>a \<in> set agents. may_use L c a \<and> teams c = Some (aa_team_id a)" if "c \<in> set ?creds" for c
    using owning_teams_facts [OF f(2)] that by blast
  then have val: "\<exists>a \<in> set agents. may_use L c a \<and> (\<exists>v. vals c = Some v \<and> lk_value L (aa_team_id a) c = Inr (Some v))"
    if "c \<in> set ?creds" for c
    using load_values_facts [OF f(5)] that by (fastforce simp: or_else_def)
  have "?creds \<noteq> [] \<longrightarrow> (\<exists>a \<in> set agents. may_use L (hd ?creds) a
      \<and> or_else (teams (hd ?creds)) (aa_team_id (hd agents)) = aa_team_id a)"
    using own [of "hd ?creds"] by (fastforce simp: or_else_def)
  then show ?thesis
    using f val by (auto simp: list_all_iff split: list.splits)
qed

lemma answer_legacy_record:
  assumes "answer_legacy E h agent p g s = (resp, s')"
  shows "exchange_record E (fh_target h) (fh_target h) (legacy_pairs (lp_creds p) (lp_values p)) (aa_id agent)
    (lp_creds p) resp s s'
    \<and> gw_wire s' = gw_wire s @ wire_of E (fh_target h) (fh_method_str h)
        (substitute_headers (ge_X E) (fh_headers h) (lp_values p))
        (map_option (\<lambda>b. substitute_body (ge_X E) b (lp_values p)) (fh_body h))"
proof -
  let ?hs = "substitute_headers (ge_X E) (fh_headers h) (lp_values p)"
  let ?b = "map_option (\<lambda>b. substitute_body (ge_X E) b (lp_values p)) (fh_body h)"
  let ?ws = "wire_of E (fh_target h) (fh_method_str h) ?hs ?b"
  obtain answer where x: "answer = forward_request (ge_X E) (ge_method_ok E) (ge_send E 0) (ge_egress E)
      (fh_target h) (fh_method_str h) ?hs ?b" by simp
  have "\<forall>w \<in> set ?ws. wr_url w = fh_target h" using wire_of_url by blast
  moreover have "\<forall>res. answer = Inr res \<longrightarrow> answered_by E ?ws res"
    using forward_request_answered x by metis
  moreover have "send_substituted E (fh_target h) (fh_method_str h) (fh_headers h) (fh_body h) (lp_values p) s
      = (answer, s\<lparr>gw_wire := gw_wire s @ ?ws\<rparr>)"
    by (simp add: send_substituted_def forward_once_def x)
  ultimately show ?thesis
    using assms
    by (cases answer) (auto simp: answer_legacy_def exchange_record_def write_audit_def audit_of_def Let_def)
qed

lemma legacy_forward_cases:
  assumes "legacy_forward E L agents h s = (resp, s')" and "\<not> same_traffic s s' \<or> \<not> refused resp"
  shows "\<exists>p g s1. prepare_legacy E L agents h = Inr p
    \<and> gate E L (lp_first_team p) (lp_first p) (parse_method (fh_method_str h)) (fh_target h) s = (g, s1)
    \<and> same_traffic s s1
    \<and> (if needs_human g then queue_legacy E L h (hd agents) p g s1
       else answer_legacy E h (hd agents) p g s1) = (resp, s')"
proof (cases "prepare_legacy E L agents h")
  case (Inl r)
  with assms prepare_legacy_refused [OF Inl] show ?thesis by (simp add: legacy_forward_def)
next
  case (Inr p)
  obtain g s1 where g: "gate E L (lp_first_team p) (lp_first p) (parse_method (fh_method_str h)) (fh_target h) s
      = (g, s1)" by force
  with assms(1) Inr gate_traffic [OF g] show ?thesis by (auto simp: legacy_forward_def)
qed

lemma queue_legacy_traffic: "queue_legacy E L h agent p g s = (resp, s') \<Longrightarrow> same_traffic s s'"
  unfolding queue_legacy_def by (rule request_approval_traffic)

lemma legacy_sent:
  assumes "handle_forward E L hs body s = (resp, s')" and "header_text hs ''x-tap-credential'' = None"
    and "\<not> same_traffic s s'"
  shows "\<exists>agents target mode p g s2. authenticate_request E L hs = Inr agents \<and> agents \<noteq> []
    \<and> header_text hs ''x-tap-target'' = Some target
    \<and> prepare_legacy E L agents (request_head hs body target mode) = Inr p
    \<and> cleared E L (lp_first_team p) (lp_first p)
        (parse_method (fh_method_str (request_head hs body target mode))) target (gw_grants s)
    \<and> same_traffic s s2
    \<and> answer_legacy E (request_head hs body target mode) (hd agents) p g s2 = (resp, s')"
proof -
  from handle_forward_paths [OF assms(1)] assms(3) obtain agent others s1 where
    a: "authenticate_request E L hs = Inr (agent # others)" "same_traffic s s1" "gw_grants s1 = gw_grants s"
      "forward_paths E L (agent # others) hs body s1 = (resp, s')" by blast
  have moved: "\<not> same_traffic s1 s'" using a(2) assms(3) same_traffic_trans by blast
  from forward_paths_legacy [OF a(4) assms(2)] moved obtain target mode where
    t: "header_text hs ''x-tap-target'' = Some target"
      "legacy_forward E L (agent # others) (request_head hs body target mode) s1 = (resp, s')" by blast
  let ?h = "request_head hs body target mode"
  from legacy_forward_cases [OF t(2)] moved obtain p g s2 where
    u: "prepare_legacy E L (agent # others) ?h = Inr p"
      "gate E L (lp_first_team p) (lp_first p) (parse_method (fh_method_str ?h)) (fh_target ?h) s1 = (g, s2)"
      "same_traffic s1 s2"
      "(if needs_human g then queue_legacy E L ?h (hd (agent # others)) p g s2
        else answer_legacy E ?h (hd (agent # others)) p g s2) = (resp, s')" by blast
  have "\<not> same_traffic s2 s'" using u(3) moved same_traffic_trans by blast
  then have direct: "\<not> needs_human g" using u(4) queue_legacy_traffic by (auto split: if_splits)
  have "cleared E L (lp_first_team p) (lp_first p) (parse_method (fh_method_str ?h)) target (gw_grants s)"
    using gate_cleared [OF u(2) direct] a(3) by (simp add: request_head_def)
  moreover have "same_traffic s s2" using same_traffic_trans [OF a(2) u(3)] .
  moreover have "answer_legacy E ?h (hd (agent # others)) p g s2 = (resp, s')" using u(4) direct by simp
  ultimately show ?thesis using a(1) t(1) u(1) by blast
qed


end
