(* ===== verification/Gateway_Audit.thy ===== *)
theory Gateway_Audit
  imports Gateway_Props
begin

text \<open>
  The rest of what the gateway promises: every exchange is audited under the agent that asked for
  it, a queued request waits for its approval, and an answer does not carry the secret that was
  injected. A sample gateway with one agent and one credential evaluates the handler and
  shows that the hypotheses of the properties can hold; the last section proves what the
  placeholder path leaves unchecked.
\<close>

section \<open>Every exchange is audited\<close>

lemma write_audit_frame [simp]:
  "gw_wire (write_audit e s) = gw_wire s" "gw_audit (write_audit e s) = gw_audit s @ [e]"
  by (simp_all add: write_audit_def)

lemma finish_async_frame [simp]:
  "gw_wire (finish_async E txn st a b c d s) = gw_wire s"
  "gw_audit (finish_async E txn st a b c d s) = gw_audit s"
  by (simp_all add: finish_async_def)

lemma not_approved_frame:
  "gw_wire (not_approved E txn entry verdict s) = gw_wire s
   \<and> (\<exists>st who. gw_audit (not_approved E txn entry verdict s) = gw_audit s @ [entry st None False who])"
  by (auto simp: not_approved_def split: sum.splits approval_status.splits)

lemma record_answer_frame:
  "gw_wire (record_answer E txn entry pairs who answer s) = gw_wire s
   \<and> (\<exists>up san. gw_audit (record_answer E txn entry pairs who answer s)
        = gw_audit s @ [entry (Some Approved) up san who])"
  by (auto simp: record_answer_def Let_def split: sum.splits)

lemma send_substituted_frame:
  "send_substituted E target m hs b vals s = (answer, s') \<Longrightarrow> gw_audit s' = gw_audit s"
  by (auto simp: send_substituted_def forward_once_def)

fun task_agent :: "task \<Rightarrow> string" where
  "task_agent (UnifiedTask u) = ut_agent_id u"
| "task_agent (PlaceholderTask q) = pt_agent_id q"

fun task_txn :: "task \<Rightarrow> string" where
  "task_txn (UnifiedTask u) = ut_txn_id u"
| "task_txn (PlaceholderTask q) = pt_txn_id q"

fun task_channel :: "task \<Rightarrow> channel_kind" where
  "task_channel (UnifiedTask u) = ut_channel u"
| "task_channel (PlaceholderTask q) = pt_channel q"

lemma run_unified_frame:
  "(\<exists>e. gw_audit (run_unified_async_approval E u verdict s) = gw_audit s @ [e] \<and> ae_agent_id e = ut_agent_id u)
   \<and> (verdict \<noteq> Inr Approved \<longrightarrow> gw_wire (run_unified_async_approval E u verdict s) = gw_wire s)"
proof (cases "verdict = Inr Approved")
  case False
  then show ?thesis
    using not_approved_frame [of E "ut_txn_id u" "unified_entry E u" verdict s]
    by (auto simp: run_unified_async_approval_def unified_entry_def audit_of_def)
next
  case True
  show ?thesis
  proof (cases "inject_auth E (ut_method_str u) (ut_body u) (ut_route u)")
    case (Inl e)
    with True show ?thesis by (simp add: run_unified_async_approval_def unified_entry_def audit_of_def Let_def)
  next
    case (Inr r)
    obtain answer s1 where x: "exchange E (ut_method_str u) (ut_auth_mode u) (ut_value u) (ut_body u) r s = (answer, s1)"
      by force
    from exchange_traffic [OF x] have "gw_audit s1 = gw_audit s" by blast
    with True Inr x show ?thesis
      using record_answer_frame [of E "ut_txn_id u" "unified_entry E u" "cred_pairs (ut_cred u) (ut_value u)"
          "approver_identity E (ut_txn_id u) s" answer s1]
      by (auto simp: run_unified_async_approval_def unified_entry_def audit_of_def Let_def)
  qed
qed

lemma run_placeholder_frame:
  "(\<exists>e. gw_audit (run_placeholder_async_approval E q verdict s) = gw_audit s @ [e] \<and> ae_agent_id e = pt_agent_id q)
   \<and> (verdict \<noteq> Inr Approved \<longrightarrow> gw_wire (run_placeholder_async_approval E q verdict s) = gw_wire s)"
proof (cases "verdict = Inr Approved")
  case False
  then show ?thesis
    using not_approved_frame [of E "pt_txn_id q" "placeholder_entry E q" verdict s]
    by (auto simp: run_placeholder_async_approval_def placeholder_entry_def audit_of_def)
next
  case True
  obtain answer s1 where x: "send_substituted E (pt_target_url q) (pt_method_str q) (pt_headers q) (pt_body q)
      (pt_values q) s = (answer, s1)" by force
  with True send_substituted_frame [OF x] show ?thesis
    using record_answer_frame [of E "pt_txn_id q" "placeholder_entry E q"
        "legacy_pairs (pt_cred_names q) (pt_values q)" "approver_identity E (pt_txn_id q) s" answer s1]
    by (auto simp: run_placeholder_async_approval_def placeholder_entry_def audit_of_def Let_def)
qed

lemma run_task_frame:
  "(\<exists>e. gw_audit (run_task E t verdict s) = gw_audit s @ [e] \<and> ae_agent_id e = task_agent t)
   \<and> (verdict \<noteq> Inr Approved \<longrightarrow> gw_wire (run_task E t verdict s) = gw_wire s)"
  using run_unified_frame run_placeholder_frame by (cases t) auto

lemma sent_is_audited:
  assumes "handle_forward E L hs body s = (resp, s')" and "\<not> same_traffic s s'"
  shows "\<exists>agents e. authenticate_request E L hs = Inr agents \<and> agents \<noteq> []
    \<and> gw_audit s' = gw_audit s @ [e] \<and> ae_agent_id e = aa_id (hd agents)"
proof (cases "header_text hs ''x-tap-credential''")
  case None
  from legacy_sent [OF assms(1) None assms(2)] obtain agents target mode p g s2 where
    f: "authenticate_request E L hs = Inr agents" "agents \<noteq> []" "same_traffic s s2"
      "answer_legacy E (request_head hs body target mode) (hd agents) p g s2 = (resp, s')" by blast
  from answer_legacy_record [OF f(4)] f(3) obtain e where "gw_audit s' = gw_audit s @ [e]"
    "ae_agent_id e = aa_id (hd agents)" by (auto simp: exchange_record_def same_traffic_def)
  with f(1,2) show ?thesis by blast
next
  case (Some cred)
  from unified_sent [OF assms(1) Some assms(2)] show ?thesis by (fastforce simp: exchange_record_def)
qed

section \<open>A queued request waits for its approval\<close>

lemma request_approval_queued:
  assumes "request_approval E L j mk s = (Queued txn, s')"
  shows "\<exists>channel. gw_tasks s' = gw_tasks s @ [mk txn channel]
    \<and> (\<exists>row. map_of (gw_async s') txn = Some row \<and> as_status row = ''pending''
         \<and> as_agent_id row = pr_agent_id (aj_request j) \<and> as_team_id row = aj_team j)"
  using assms
  by (auto simp: request_approval_def Let_def create_async_approval_def update_conv'
      split: prod.splits option.splits sum.splits if_splits)

lemma same_traffic_gate_tasks: "gate E L team cred m url s = (g, s') \<Longrightarrow> gw_tasks s' = gw_tasks s"
  by (auto simp: gate_def Let_def split: prod.splits)

lemma note_end_user_tasks: "gw_tasks (note_end_user E L team eu s) = gw_tasks s"
  by (auto simp: note_end_user_def split: option.splits sum.splits)

lemma answers_not_queued:
  "answer_unified E h agent p eu g s \<noteq> (Queued txn, s')" "answer_legacy E h agent q g s \<noteq> (Queued txn, s')"
proof -
  have "inject_refusal e \<noteq> Queued txn" for e by (cases e) simp_all
  then show "answer_unified E h agent p eu g s \<noteq> (Queued txn, s')"
    by (auto simp: answer_unified_def Let_def split: sum.splits prod.splits)
  show "answer_legacy E h agent q g s \<noteq> (Queued txn, s')"
    by (auto simp: answer_legacy_def Let_def split: sum.splits prod.splits)
qed

lemma queued_task:
  assumes "handle_forward E L hs body s = (Queued txn, s')"
  shows "same_traffic s s' \<and> (\<exists>agents t. authenticate_request E L hs = Inr agents \<and> agents \<noteq> []
    \<and> gw_tasks s' = gw_tasks s @ [t] \<and> task_txn t = txn \<and> task_agent t = aa_id (hd agents))"
proof -
  from handle_forward_paths [OF assms] obtain agent others s1 where
    a: "same_traffic s s1" "gw_tasks s1 = gw_tasks s"
      "forward_paths E L (agent # others) hs body s1 = (Queued txn, s')"
    and auth: "authenticate_request E L hs = Inr (agent # others)" by auto
  let ?ags = "agent # others"
  show ?thesis
  proof (cases "header_text hs ''x-tap-credential''")
    case None
    from forward_paths_legacy [OF a(3) None] obtain target mode where
      "legacy_forward E L ?ags (request_head hs body target mode) s1 = (Queued txn, s')" by auto
    from legacy_forward_cases [OF this] obtain p g s2 where
      u: "gate E L (lp_first_team p) (lp_first p) (parse_method (fh_method_str (request_head hs body target mode)))
          (fh_target (request_head hs body target mode)) s1 = (g, s2)" "same_traffic s1 s2"
        "queue_legacy E L (request_head hs body target mode) (hd ?ags) p g s2 = (Queued txn, s')"
      using answers_not_queued(2) by (metis refused.simps(2))
    have "same_traffic s s'"
      using same_traffic_trans [OF a(1) same_traffic_trans [OF u(2) queue_legacy_traffic [OF u(3)]]] .
    with request_approval_queued [OF u(3) [unfolded queue_legacy_def]] same_traffic_gate_tasks [OF u(1)] a(2) auth
    show ?thesis by auto
  next
    case (Some cred)
    from forward_paths_unified [OF a(3) Some] obtain target mode where
      "unified_forward E L ?ags hs (request_head hs body target mode) cred s1 = (Queued txn, s')" by auto
    from unified_forward_cases [OF this] have "\<exists>eu (b :: authenticated_agent) p g s2.
      gate E L (aa_team_id b) (effective_name eu cred)
          (parse_method (fh_method_str (request_head hs body target mode)))
          (ur_display_target (pp_route p)) (note_end_user E L (aa_team_id b) eu s1) = (g, s2)
      \<and> same_traffic s1 s2
      \<and> (if needs_human g then queue_unified E L (request_head hs body target mode) (hd ?ags) p eu g s2
          else answer_unified E (request_head hs body target mode) (hd ?ags) p eu g s2) = (Queued txn, s')"
      by (metis refused.simps(2))
    then obtain eu p g s2 and b :: authenticated_agent where
      u: "gate E L (aa_team_id b) (effective_name eu cred)
          (parse_method (fh_method_str (request_head hs body target mode)))
          (ur_display_target (pp_route p)) (note_end_user E L (aa_team_id b) eu s1) = (g, s2)" "same_traffic s1 s2"
        "(if needs_human g then queue_unified E L (request_head hs body target mode) (hd ?ags) p eu g s2
          else answer_unified E (request_head hs body target mode) (hd ?ags) p eu g s2) = (Queued txn, s')"
      by blast
    have q: "queue_unified E L (request_head hs body target mode) (hd ?ags) p eu g s2 = (Queued txn, s')"
      using u(3) answers_not_queued(1) by (cases "needs_human g") simp_all
    have "same_traffic s s'"
      using same_traffic_trans [OF a(1) same_traffic_trans [OF u(2) queue_unified_traffic [OF q]]] .
    with request_approval_queued [OF q [unfolded queue_unified_def]] same_traffic_gate_tasks [OF u(1)] a(2) auth
    show ?thesis by (auto simp: note_end_user_tasks)
  qed
qed

text \<open>C4. Every exchange is audited: a request that puts anything on the wire hands exactly one entry to the
  audit log, under the agent of its first valid key. When a request is queued instead, one task
  is started for the transaction, and whenever that task finishes, whatever the decision was, it
  hands exactly one entry to the log, under the agent of the first valid key of the request that
  queued it. (The log itself is written on a best effort.)\<close>

theorem exchange_audited:
  "(handle_forward E L hs body s = (resp, s') \<and> gw_wire s' \<noteq> gw_wire s \<longrightarrow>
      (\<exists>agents e. authenticate_request E L hs = Inr agents \<and> agents \<noteq> []
        \<and> gw_audit s' = gw_audit s @ [e] \<and> ae_agent_id e = aa_id (hd agents)))
   \<and> (handle_forward E L hs body s = (Queued txn, s') \<longrightarrow>
      (\<exists>agents t. authenticate_request E L hs = Inr agents \<and> agents \<noteq> []
        \<and> gw_tasks s' = gw_tasks s @ [t] \<and> task_txn t = txn
        \<and> (\<forall>E2 verdict s2. \<exists>e. gw_audit (run_task E2 t verdict s2) = gw_audit s2 @ [e]
             \<and> ae_agent_id e = aa_id (hd agents))))"
proof (intro conjI impI)
  assume "handle_forward E L hs body s = (resp, s') \<and> gw_wire s' \<noteq> gw_wire s"
  then have "handle_forward E L hs body s = (resp, s')" "\<not> same_traffic s s'" by (auto simp: same_traffic_def)
  then show "\<exists>agents e. authenticate_request E L hs = Inr agents \<and> agents \<noteq> []
      \<and> gw_audit s' = gw_audit s @ [e] \<and> ae_agent_id e = aa_id (hd agents)" by (rule sent_is_audited)
next
  assume "handle_forward E L hs body s = (Queued txn, s')"
  from queued_task [OF this] obtain agents t where
    q: "authenticate_request E L hs = Inr agents" "agents \<noteq> []" "gw_tasks s' = gw_tasks s @ [t]" "task_txn t = txn"
      "task_agent t = aa_id (hd agents)" by blast
  have "\<forall>E2 verdict s2. \<exists>e. gw_audit (run_task E2 t verdict s2) = gw_audit s2 @ [e]
      \<and> ae_agent_id e = aa_id (hd agents)"
    unfolding q(5) [symmetric] by (intro allI run_task_frame [THEN conjunct1])
  with q(1-4) show "\<exists>agents t. authenticate_request E L hs = Inr agents \<and> agents \<noteq> []
      \<and> gw_tasks s' = gw_tasks s @ [t] \<and> task_txn t = txn
      \<and> (\<forall>E2 verdict s2. \<exists>e. gw_audit (run_task E2 t verdict s2) = gw_audit s2 @ [e]
           \<and> ae_agent_id e = aa_id (hd agents))" by blast
qed

lemma approved_verdict:
  assumes "fst (snd (wait_for_decision channel txn timeout late now world)) = Inr Approved"
  shows "\<exists>k \<le> timeout. \<exists>tbl. fst (world k) = Inr tbl \<and> get_pending_approval_status txn tbl = Some ''approved''"
proof -
  obtain k r t where w: "wait_loop (channel = Dashboard) txn timeout late now world 0 = (k, r, t)"
    by (metis prod_cases3)
  with assms have "r = Inr Approved" by (simp add: wait_for_decision_def)
  with wait_loop_stops [OF w] have "k \<le> timeout" "poll_verdict txn timeout (fst (world k)) = Some (Inr Approved)"
    by (auto split: option.splits)
  then show ?thesis
    by (auto simp: poll_verdict_def split: sum.splits option.splits if_splits)
qed

text \<open>C2. A request that needs a human is not sent before he approved: when the gateway answers that a
  request is queued, nothing went out, and one task was started for the transaction. Over a
  channel with an inbox, whatever else happens meanwhile, that task sends something only if a
  poll before the deadline read the status \<open>approved\<close> from the transaction's row.\<close>

theorem queued_until_approved:
  assumes "handle_forward E L hs body s = (Queued txn, s')"
  shows "gw_wire s' = gw_wire s \<and> gw_audit s' = gw_audit s
    \<and> (\<exists>t. gw_tasks s' = gw_tasks s @ [t] \<and> task_txn t = txn
        \<and> (\<forall>E2 channel timeout late now world s2.
             gw_wire (run_task E2 t (fst (snd (wait_for_decision channel txn timeout late now world))) s2)
               \<noteq> gw_wire s2
             \<longrightarrow> (\<exists>k \<le> timeout. \<exists>tbl. fst (world k) = Inr tbl
                  \<and> get_pending_approval_status txn tbl = Some ''approved'')))"
proof -
  from queued_task [OF assms] obtain t where "gw_tasks s' = gw_tasks s @ [t]" "task_txn t = txn" by auto
  moreover have "\<exists>k \<le> timeout. \<exists>tbl. fst (world k) = Inr tbl \<and> get_pending_approval_status txn tbl = Some ''approved''"
    if "gw_wire (run_task E2 t (fst (snd (wait_for_decision channel txn timeout late now world))) s2) \<noteq> gw_wire s2"
    for E2 channel timeout late now world s2
    using that run_task_frame approved_verdict by blast
  ultimately show ?thesis using queued_task [OF assms] by (auto simp: same_traffic_def)
qed

section \<open>A sample gateway\<close>

definition sample_env :: gateway_env where
  "sample_env =
     \<lparr>ge_X = sample_externals, ge_D = no_bundles, ge_sidecar_env = None, ge_enclave = False,
      ge_private_env = None, ge_resolve = (\<lambda>_ _. Inr [V4 (93, 184, 216, 34)]), ge_method_ok = (\<lambda>_. True), ge_egress = None,
      ge_send = (\<lambda>_ w. Inr \<lparr>fr_status = 200, fr_headers = [], fr_body = ''echo s3cr3t''\<rparr>),
      ge_hash_api_key = (\<lambda>k. k), ge_relay_env = None, ge_digest = (\<lambda>_. 0),
      ge_google_refresh = (\<lambda>_. Inl []), ge_microsoft_refresh = (\<lambda>_. Inl []),
      ge_oauth1_sign = (\<lambda>_ _ _ _. []), ge_aws_sign = (\<lambda>_ _ _ _. Inl []), ge_cc_token = (\<lambda>_. Inl []),
      ge_wired = \<lparr>has_telegram = False, has_matrix = False\<rparr>, ge_webauthn = False,
      ge_details_json = (\<lambda>_. ''{}''), ge_headers_json = (\<lambda>_. ''[]''), ge_summarize = (\<lambda>_. None),
      ge_messaging = (\<lambda>_ _ _ _ t. (Inl (Internal []), t)), ge_inbox_fails = False,
      ge_identity_fails = False, ge_async_write_fails = False, ge_timeout_secs = 600,
      ge_request_id = ''r1'', ge_now = 1000, ge_steps = []\<rparr>"

definition bot_agent_row :: agent_row where
  "bot_agent_row =
     \<lparr>aw_id = ''bot'', aw_team_id = ''acme'', aw_description = None, aw_api_key_hash = ''key'',
      aw_rate_limit_per_hour = None, aw_enabled = True, aw_is_admin = False, aw_owner_user_id = None,
      aw_kind = ''agent'', aw_all_credentials = False, aw_created_at = 0, aw_updated_at = 0\<rparr>"

definition token_config :: credential_config where
  "token_config =
     \<lparr>cc_description = [], cc_api_base = None, cc_substitution = default_substitution, cc_connector = Direct,
      cc_relative_target = False, cc_auth_header_format = None, cc_auth_bindings = [], cc_end_user_id = None,
      cc_allowed_hosts = [''api.x'']\<rparr>"

definition sample_lookups :: lookups where
  "sample_lookups =
     \<lparr>lk_agent_by_hash = (\<lambda>h. Inr (if h = ''key'' then Some bot_agent_row else None)),
      lk_mcp_agent = (\<lambda>_. None), lk_rate_limit = (\<lambda>_ _. Inr None),
      lk_credential = (\<lambda>_ _. Inr None), lk_credentials = (\<lambda>_. Inr []),
      lk_agent_credentials = (\<lambda>_ _. Inr [''gh'']),
      lk_config = (\<lambda>t c. Inr (if t = ''acme'' \<and> c = ''gh'' then Some token_config else None)),
      lk_value = (\<lambda>t c. Inr (if t = ''acme'' \<and> c = ''gh'' then Some ''s3cr3t'' else None)),
      lk_policy = (\<lambda>_ _. Inr None), lk_default_mode = (\<lambda>_. Inr Gated), lk_relay_holder = (\<lambda>_. Inr None),
      lk_channels = (\<lambda>_. Inr []), lk_default_chat = (\<lambda>_. Inr None), lk_members = (\<lambda>_. Inr []),
      lk_assigned = (\<lambda>_ _. Inr []), lk_member_by_email = (\<lambda>_ _. Inr None), lk_counter_fails = False,
      lk_upsert_fails = False, lk_grants_fail = False, lk_details_fail = False, lk_save_fails = False,
      lk_async_fails = False\<rparr>"

definition empty_gateway :: gateway where
  "empty_gateway =
     \<lparr>gw_counters = [], gw_grants = sample_grant_store\<lparr>gs_grants := []\<rparr>, gw_access = one_team,
      gw_pending = [], gw_async = [], gw_audit = [], gw_wire = [], gw_tasks = []\<rparr>"

definition get_headers :: headers where
  "get_headers = [(''x-tap-key'', ''key''), (''x-tap-target'', ''https://api.x/repos''), (''x-tap-credential'', ''gh'')]"

definition bot_agent :: authenticated_agent where
  "bot_agent = \<lparr>aa_id = ''bot'', aa_team_id = ''acme'', aa_is_app = False, aa_end_user_id = None,
     aa_all_credentials = False\<rparr>"

lemma sample_headers:
  "header_text get_headers ''x-tap-key'' = Some ''key''"
  "header_text get_headers ''x-tap-target'' = Some ''https://api.x/repos''"
  "header_text get_headers ''x-tap-credential'' = Some ''gh''"
  "header_text get_headers ''x-tap-method'' = None"
  "header_text get_headers ''x-tap-end-user'' = None"
  "header_text get_headers ''x-tap-auth-mode'' = None"
  "header_text get_headers ''content-type'' = None"
  by code_simp+

lemma sample_keys: "parse_tap_keys ''key'' = [''key'']" 
  by code_simp

lemma sample_unknown: "\<not> unknown_tap_header get_headers"
  by code_simp

lemma sample_fh: "forward_headers get_headers = []"
  by code_simp

lemma sample_auth: "authenticate_request sample_env sample_lookups get_headers = Inr [bot_agent]"
  by (simp add: authenticate_request_def sample_headers sample_keys authenticate_keys_def authenticate_def
      List.map_filter_def sample_env_def sample_lookups_def bot_agent_row_def agent_of_row_def is_app_def bot_agent_def)

lemma sample_public:
  "validate_public_target sample_externals None (\<lambda>_ _. Inr [V4 (93, 184, 216, 34)]) ''https://api.x/repos'' = Inr ()"
  by code_simp

definition sample_route :: unified_route where
  "sample_route = plain_route ''https://api.x/repos'' [(''Authorization'', ''Bearer s3cr3t'')]"

lemma sample_routed:
  "resolve_unified_route_with_config_and_auth_mode sample_externals no_bundles None False ''gh''
     ''https://api.x/repos'' ''GET'' [] token_config (Some ''s3cr3t'') None = Inr sample_route"
  by code_simp

lemma sample_starts: "starts_with ''https://api.x/repos'' ''https://''"
  by code_simp

lemma sample_get: "parse_method ''GET'' = Get"
  by code_simp

lemmas gateway_eval = sample_env_def sample_lookups_def empty_gateway_def

abbreviation sample_head :: forward_request_head where
  "sample_head \<equiv> request_head get_headers [] ''https://api.x/repos'' None"

lemma sample_prepared:
  "prepare_route sample_env sample_lookups sample_head bot_agent None ''gh''
   = Inr \<lparr>pp_agent = bot_agent, pp_cred = ''gh'', pp_config = token_config, pp_value = Some ''s3cr3t'',
          pp_route = sample_route\<rparr>"
proof -
  have "cc_end_user_id token_config = None" "\<not> credential_uses_relay None token_config"
    "ur_effective_target sample_route = ''https://api.x/repos''"
    by (simp_all add: token_config_def credential_uses_relay_def server_enabled_def sample_route_def plain_route_def)
  then show ?thesis
    using sample_public sample_routed sample_starts
    by (simp add: prepare_route_def relay_gate_def request_head_def sample_headers sample_fh or_else_def
        gateway_eval bot_agent_def)
qed

lemma sample_gate:
  "gate sample_env sample_lookups ''acme'' ''gh'' Get url empty_gateway
   = (\<lparr>gt_policy = None, gt_decision = \<lparr>requires_approval = False, auto_approved = True,
        reason = TeamGatedDefaultSafeMethod\<rparr>, gt_require_passkey = False, gt_grant = None\<rparr>, empty_gateway)"
  by (simp add: gate_def decide_request_def policy_for_def team_default_mode_def passkey_required_def
      evaluate_policy_with_default_def gateway_eval)

lemma sample_paths:
  "handle_forward sample_env sample_lookups get_headers [] empty_gateway
   = answer_unified sample_env sample_head bot_agent
       \<lparr>pp_agent = bot_agent, pp_cred = ''gh'', pp_config = token_config, pp_value = Some ''s3cr3t'',
        pp_route = sample_route\<rparr> None
       (fst (gate sample_env sample_lookups ''acme'' ''gh'' Get (ur_display_target sample_route) empty_gateway))
       empty_gateway"
proof -
  have rate: "check_rate sample_env sample_lookups bot_agent empty_gateway = (None, empty_gateway)"
    by (simp add: check_rate_def rate_check_def sample_lookups_def)
  have sel: "select_agent sample_lookups [bot_agent] None ''gh'' = Inr bot_agent"
    by (simp add: select_agent_def may_use_def bot_agent_def sample_lookups_def)
  have m: "parse_method (fh_method_str sample_head) = Get"
    by (simp add: request_head_def sample_headers or_else_def sample_get)
  have "aa_team_id bot_agent = ''acme''" by (simp add: bot_agent_def)
  then show ?thesis
    by (simp add: handle_forward_def forward_paths_def unified_forward_def sample_auth sample_unknown rate
        sample_headers parse_auth_mode_header_def asserted_end_user_def sel note_end_user_def sample_prepared
        sample_gate needs_human_def m)
qed

lemma sample_answer:
  "gw_wire (snd (handle_forward sample_env sample_lookups get_headers [] empty_gateway)) \<noteq> gw_wire empty_gateway"
proof -
  have inj: "inject_auth sample_env (fh_method_str sample_head) (fh_body sample_head) sample_route = Inr sample_route"
    by (simp add: inject_auth_def inject_google_def inject_microsoft_def inject_twitter_def inject_aws_def
        inject_client_credentials_def sample_route_def plain_route_def)
  have "wire_of sample_env (ur_effective_target sample_route) m hs b \<noteq> []" for m hs b
    using sample_starts by (simp add: wire_of_def sample_env_def sample_route_def plain_route_def)
  then have "gw_wire s' \<noteq> gw_wire empty_gateway"
    if "exchange sample_env m mode val b sample_route empty_gateway = (answer, s')" for m mode val b answer s'
    using that
    by (auto simp: exchange_def forward_once_def Let_def split: prod.splits sum.splits option.splits)
  then show ?thesis
    by (auto simp: sample_paths answer_unified_def inj Let_def split: prod.splits sum.splits)
qed

theorem forward_needs_clearance_witness:
  "\<exists>w ws r. gw_wire (snd (handle_forward sample_env sample_lookups get_headers [] empty_gateway)) = w # ws
     \<and> wr_url w = ur_effective_target (r :: unified_route) \<and> may_use sample_lookups ''gh'' bot_agent
     \<and> cleared sample_env sample_lookups (aa_team_id bot_agent) ''gh'' Get (ur_display_target r)
         (gw_grants empty_gateway)"
proof -
  from forward_needs_clearance [OF prod.collapse [symmetric] sample_headers(3) sample_answer]
  obtain agents a eu name ws and r :: unified_route where
    f: "authenticate_request sample_env sample_lookups get_headers = Inr agents" "a \<in> set agents"
      "asserted_end_user get_headers = Inr eu"
      "case eu of None \<Rightarrow> may_use sample_lookups ''gh'' a | Some _ \<Rightarrow> aa_is_app a"
      "name = (case eu of None \<Rightarrow> ''gh'' | Some ext \<Rightarrow> end_user_cred_name ext ''gh'')"
      "gw_wire (snd (handle_forward sample_env sample_lookups get_headers [] empty_gateway)) = gw_wire empty_gateway @ ws"
      "\<forall>w \<in> set ws. wr_url w = ur_effective_target r"
      "cleared sample_env sample_lookups (aa_team_id a) name
        (parse_method (or_else (header_text get_headers ''x-tap-method'') ''GET'')) (ur_display_target r)
        (gw_grants empty_gateway)"
    by blast
  have "eu = None" "a = bot_agent" using f(1-3) by (auto simp: asserted_end_user_def sample_headers sample_auth)
  moreover have "gw_wire empty_gateway = []" by (simp add: empty_gateway_def)
  moreover obtain w ws' where "ws = w # ws'" using f(6) sample_answer by (cases ws) auto
  ultimately show ?thesis
    using f(4-8) by (intro exI [of _ w] exI [of _ ws'] exI [of _ r]) (simp add: sample_headers or_else_def sample_get)
qed

definition post_headers :: headers where
  "post_headers = (''x-tap-method'', ''POST'') # get_headers"

lemma post_header_values:
  "header_text post_headers ''x-tap-key'' = Some ''key''"
  "header_text post_headers ''x-tap-target'' = Some ''https://api.x/repos''"
  "header_text post_headers ''x-tap-credential'' = Some ''gh''"
  "header_text post_headers ''x-tap-method'' = Some ''POST''"
  "header_text post_headers ''x-tap-end-user'' = None"
  "header_text post_headers ''x-tap-auth-mode'' = None"
  "header_text post_headers ''content-type'' = None"
  by code_simp+

lemma post_route:
  "resolve_unified_route_with_config_and_auth_mode sample_externals no_bundles None False ''gh''
     ''https://api.x/repos'' ''POST'' [] token_config (Some ''s3cr3t'') None = Inr sample_route"
  by code_simp

abbreviation post_head :: forward_request_head where
  "post_head \<equiv> request_head post_headers [] ''https://api.x/repos'' None"

lemma post_unknown: "\<not> unknown_tap_header post_headers" "forward_headers post_headers = []"
  by code_simp+

lemma post_auth: "authenticate_request sample_env sample_lookups post_headers = Inr [bot_agent]"
  using sample_auth by (simp add: authenticate_request_def post_header_values sample_headers)

lemma post_prepared:
  "prepare_route sample_env sample_lookups post_head bot_agent None ''gh''
   = Inr \<lparr>pp_agent = bot_agent, pp_cred = ''gh'', pp_config = token_config, pp_value = Some ''s3cr3t'',
          pp_route = sample_route\<rparr>"
proof -
  have "cc_end_user_id token_config = None" "\<not> credential_uses_relay None token_config"
    "ur_effective_target sample_route = ''https://api.x/repos''"
    by (simp_all add: token_config_def credential_uses_relay_def server_enabled_def sample_route_def plain_route_def)
  then show ?thesis
    using sample_public post_route sample_starts
    by (simp add: prepare_route_def relay_gate_def request_head_def post_header_values post_unknown or_else_def
        gateway_eval bot_agent_def)
qed

lemma sample_requested:
  assumes "gt_policy (aj_gate j) = None" and "pr_id (aj_request j) = ''r1''"
    and "body_preview (pr_body (aj_request j)) = Some None"
  shows "\<exists>s'. request_approval sample_env sample_lookups j mk empty_gateway = (Queued ''r1'', s')"
proof -
  have c: "approval_channel_for sample_env sample_lookups j = (AgentReflected, None)"
    using assms(1) by (simp add: approval_channel_for_def resolve_approval_channel_def gateway_eval)
  have "persist_details sample_env sample_lookups j emails t = Some t" for emails t
    using assms(3) by (simp add: persist_details_def gateway_eval)
  moreover have "\<exists>t'. send_via sample_env AgentReflected (aj_request j) desc ctx t = Some (Inr ''r1'', t')" for desc ctx t
    using assms(2,3) by (simp add: send_via_def inbox_send_approval_request_def gateway_eval)
  then obtain t' where "send_via sample_env AgentReflected (aj_request j) desc ctx t = Some (Inr ''r1'', t' desc ctx t)"
    for desc ctx t by metis
  ultimately show ?thesis
    using c by (simp add: request_approval_def create_async_approval_def Let_def
        sample_lookups_def empty_gateway_def)
qed

lemma post_queued: "\<exists>s'. handle_forward sample_env sample_lookups post_headers [] empty_gateway = (Queued ''r1'', s')"
proof -
  have rate: "check_rate sample_env sample_lookups bot_agent empty_gateway = (None, empty_gateway)"
    by (simp add: check_rate_def rate_check_def sample_lookups_def)
  have sel: "select_agent sample_lookups [bot_agent] None ''gh'' = Inr bot_agent"
    by (simp add: select_agent_def may_use_def bot_agent_def sample_lookups_def)
  have "parse_method ''POST'' = Post" by code_simp
  then have m: "parse_method (fh_method_str post_head) = Post"
    by (simp add: request_head_def post_header_values or_else_def)
  have g: "gate sample_env sample_lookups ''acme'' ''gh'' Post url empty_gateway
    = (\<lparr>gt_policy = None, gt_decision = \<lparr>requires_approval = True, auto_approved = False,
        reason = TeamGatedDefaultUnsafeMethod\<rparr>, gt_require_passkey = False, gt_grant = None\<rparr>, empty_gateway)" for url
    by (simp add: gate_def decide_request_def policy_for_def team_default_mode_def passkey_required_def
        evaluate_policy_with_default_def try_claim_grant_def live_grants_for_credential_def gateway_eval)
  have b: "body_preview (fh_body post_head) = Some None"
    by (simp add: body_preview_def request_head_def body_bytes_def)
  have i: "ge_request_id sample_env = ''r1''" by (simp add: sample_env_def)
  have "aa_team_id bot_agent = ''acme''" by (simp add: bot_agent_def)
  then show ?thesis using b
    by (simp add: handle_forward_def forward_paths_def unified_forward_def post_auth post_unknown rate
        post_header_values parse_auth_mode_header_def asserted_end_user_def sel note_end_user_def post_prepared
        g needs_human_def m queue_unified_def sample_requested unified_request_def i Let_def)
qed

theorem exchange_audited_witness:
  "(\<exists>e. gw_audit (snd (handle_forward sample_env sample_lookups get_headers [] empty_gateway)) = [e]
     \<and> ae_agent_id e = ''bot'')
   \<and> (\<exists>t. gw_tasks (snd (handle_forward sample_env sample_lookups post_headers [] empty_gateway)) = [t]
     \<and> (\<exists>e. gw_audit (run_task sample_env t (Inr Denied) empty_gateway) = [e] \<and> ae_agent_id e = ''bot''))"
proof -
  have e: "gw_audit empty_gateway = []" "gw_tasks empty_gateway = []" "aa_id bot_agent = ''bot''"
    by (simp_all add: empty_gateway_def bot_agent_def)
  from post_queued obtain s' where q: "handle_forward sample_env sample_lookups post_headers [] empty_gateway
      = (Queued ''r1'', s')" by blast
  from exchange_audited [THEN conjunct2, rule_format, OF q] obtain agents t where
    a: "authenticate_request sample_env sample_lookups post_headers = Inr agents" "gw_tasks s' = gw_tasks empty_gateway @ [t]"
      "\<forall>E2 verdict s2. \<exists>e. gw_audit (run_task E2 t verdict s2) = gw_audit s2 @ [e]
         \<and> ae_agent_id e = aa_id (hd agents)" by blast
  have "agents = [bot_agent]" using a(1) post_auth by simp
  moreover obtain en where "gw_audit (run_task sample_env t (Inr Denied) empty_gateway) = gw_audit empty_gateway @ [en]"
    "ae_agent_id en = aa_id (hd agents)" using a(3) by blast
  ultimately have "\<exists>t. gw_tasks s' = [t]
      \<and> (\<exists>e. gw_audit (run_task sample_env t (Inr Denied) empty_gateway) = [e] \<and> ae_agent_id e = ''bot'')"
    using a(2) e by simp
  moreover have "\<exists>e. gw_audit (snd (handle_forward sample_env sample_lookups get_headers [] empty_gateway)) = [e]
      \<and> ae_agent_id e = ''bot''"
    using exchange_audited [of sample_env sample_lookups get_headers "[]" empty_gateway
      "fst (handle_forward sample_env sample_lookups get_headers [] empty_gateway)"
      "snd (handle_forward sample_env sample_lookups get_headers [] empty_gateway)"]
      sample_answer sample_auth e by auto
  ultimately show ?thesis using q by simp
qed

theorem queued_until_approved_witness:
  "case handle_forward sample_env sample_lookups post_headers [] empty_gateway of (resp, s') \<Rightarrow>
     resp = Queued ''r1'' \<and> gw_wire s' = [] \<and> (\<exists>t. gw_tasks s' = [t] \<and> task_txn t = ''r1'')"
proof -
  from post_queued obtain s' where q: "handle_forward sample_env sample_lookups post_headers [] empty_gateway
      = (Queued ''r1'', s')" by blast
  from queued_until_approved [OF q] q show ?thesis by (auto simp: empty_gateway_def)
qed

definition placeholder_headers :: headers where
  "placeholder_headers =
     [(''x-tap-key'', ''key''), (''x-tap-target'', ''https://api.x/repos''),
      (''authorization'', ''Bearer <CREDENTIAL:gh>'')]"

lemma placeholder_header_values:
  "header_text placeholder_headers ''x-tap-key'' = Some ''key''"
  "header_text placeholder_headers ''x-tap-target'' = Some ''https://api.x/repos''"
  "header_text placeholder_headers ''x-tap-credential'' = None"
  "header_text placeholder_headers ''x-tap-method'' = None"
  "header_text placeholder_headers ''x-tap-auth-mode'' = None"
  "header_text placeholder_headers ''content-type'' = None"
  "\<not> unknown_tap_header placeholder_headers"
  "forward_headers placeholder_headers = [(''authorization'', ''Bearer <CREDENTIAL:gh>'')]"
  by code_simp+

lemma placeholder_parsed:
  "parse_placeholders sample_externals [(''authorization'', ''Bearer <CREDENTIAL:gh>'')] None None [''gh'' \<mapsto> token_config]
   = Inr [\<lparr>ph_credential_name = ''gh'', ph_field = None, ph_position = Header ''authorization''\<rparr>]"
  by code_simp

lemma placeholder_host: "legacy_host_ok sample_externals [''gh'' \<mapsto> token_config] ''https://api.x/repos'' ''gh''"
  by code_simp

lemma placeholder_sent:
  "gw_wire (snd (handle_forward sample_env sample_lookups placeholder_headers [] empty_gateway)) \<noteq> gw_wire empty_gateway"
proof -
  let ?h = "request_head placeholder_headers [] ''https://api.x/repos'' None"
  have rate: "check_rate sample_env sample_lookups bot_agent empty_gateway = (None, empty_gateway)"
    by (simp add: check_rate_def rate_check_def sample_lookups_def)
  have auth: "authenticate_request sample_env sample_lookups placeholder_headers = Inr [bot_agent]"
    using sample_auth by (simp add: authenticate_request_def placeholder_header_values sample_headers)
  have cfg: "merged_configs sample_lookups [bot_agent] Map.empty = [''gh'' \<mapsto> token_config]"
    by (simp add: get_credential_configs_for_agent_def agent_listing_credentials_def bot_agent_def sample_lookups_def)
  have ow: "owning_teams sample_lookups [bot_agent] [''gh''] Map.empty = Some [''gh'' \<mapsto> ''acme'']"
    by (simp add: may_use_def sample_lookups_def bot_agent_def)
  have lv: "load_values sample_lookups [''gh'' \<mapsto> ''acme''] own [''gh''] Map.empty = Inr [''gh'' \<mapsto> ''s3cr3t'']" for own
    by (simp add: sample_lookups_def or_else_def)
  have env: "ge_X sample_env = sample_externals" "ge_private_env sample_env = None"
    "ge_resolve sample_env = (\<lambda>_ _. Inr [V4 (93, 184, 216, 34)])" by (simp_all add: sample_env_def)
  have h: "fh_headers ?h = [(''authorization'', ''Bearer <CREDENTIAL:gh>'')]" "fh_body ?h = None"
    "fh_content_type ?h = None" "fh_target ?h = ''https://api.x/repos''"
    by (simp_all add: request_head_def placeholder_header_values body_bytes_def)
  have rc: "referenced_credentials [(''authorization'', ''Bearer <CREDENTIAL:gh>'')]
      [\<lparr>ph_credential_name = ''gh'', ph_field = None, ph_position = Header ''authorization''\<rparr>] = [''gh'']"
    by code_simp
  have p: "\<exists>p. prepare_legacy sample_env sample_lookups [bot_agent] ?h = Inr p \<and> lp_first_team p = ''acme''
      \<and> lp_first p = ''gh''"
    using placeholder_parsed placeholder_host sample_public
    by (simp add: prepare_legacy_def cfg ow lv env h rc or_else_def Let_def del: owning_teams.simps load_values.simps
        merged_configs.simps)
  then obtain p where p: "prepare_legacy sample_env sample_lookups [bot_agent] ?h = Inr p"
    "lp_first_team p = ''acme''" "lp_first p = ''gh''" by blast
  have m: "parse_method (fh_method_str ?h) = Get"
    by (simp add: request_head_def placeholder_header_values or_else_def sample_get)
  obtain resp s' where x: "answer_legacy sample_env ?h bot_agent p
      (fst (gate sample_env sample_lookups ''acme'' ''gh'' Get (fh_target ?h) empty_gateway)) empty_gateway = (resp, s')"
    by force
  have "wire_of sample_env (fh_target ?h) m hs b \<noteq> []" for m hs b
    using sample_starts by (simp add: wire_of_def sample_env_def request_head_def)
  with answer_legacy_record [OF x] have "gw_wire s' \<noteq> gw_wire empty_gateway" by auto
  moreover have "handle_forward sample_env sample_lookups placeholder_headers [] empty_gateway = (resp, s')"
    using x p
    by (simp add: handle_forward_def forward_paths_def auth placeholder_header_values rate parse_auth_mode_header_def
        legacy_forward_def sample_gate needs_human_def m)
  ultimately show ?thesis by simp
qed


section \<open>The answer does not carry the secret\<close>

text \<open>C3. An agent does not see the secret its request was sent with. If a request that names a credential
  is sent and answered, its answer comes from an upstream answer to what was sent, with the
  upstream's status; and if the body of that is text within the size limit, then no form (verbatim,
  base64, base64url, percent-encoded) of any secret in the credential's stored value is left
  in the body the agent gets, for every form that is free of brackets and does not occur in a
  marker.\<close>

theorem forward_answer_clean:
  assumes "handle_forward E L hs body s = (Answered status rhs b, s')"
    and "header_text hs ''x-tap-credential'' = Some cred" and "gw_wire s' \<noteq> gw_wire s"
  shows "\<exists>agents a eu stored ws res. authenticate_request E L hs = Inr agents \<and> asserted_end_user hs = Inr eu
    \<and> select_agent L agents eu cred = Inr a
    \<and> lk_value L (aa_team_id a) (effective_name eu cred) = Inr stored
    \<and> gw_wire s' = gw_wire s @ ws \<and> answered_by E ws res \<and> status = fr_status res
    \<and> (length (fr_body res) \<le> max_sanitize_size \<and> utf8_valid (fr_body res) \<longrightarrow>
        (\<forall>v f. is_secret (ge_X E) (cred_pairs (effective_name eu cred) stored) v
            \<and> f \<in> scrub_forms (ge_X E) v
            \<and> scrubbable (marker_names (ge_X E) (cred_pairs (effective_name eu cred) stored)) f
          \<longrightarrow> \<not> contains b f))"
proof -
  have "\<not> same_traffic s s'" using assms(3) by (simp add: same_traffic_def)
  from unified_sent [OF assms(1,2) this] obtain agents a eu target mode p where
    f: "authenticate_request E L hs = Inr agents" "asserted_end_user hs = Inr eu"
      "select_agent L agents eu cred = Inr a"
      "prepare_route E L (request_head hs body target mode) a eu (effective_name eu cred) = Inr p"
      "exchange_record E (ur_effective_target (pp_route p)) (ur_display_target (pp_route p))
        (cred_pairs (pp_cred p) (pp_value p)) (aa_id (hd agents)) [pp_cred p] (Answered status rhs b) s s'"
    by blast
  from prepared_facts [OF f(4)] have p: "pp_cred p = effective_name eu cred"
    "lk_value L (aa_team_id a) (effective_name eu cred) = Inr (pp_value p)" by auto
  from f(5) obtain ws res where "gw_wire s' = gw_wire s @ ws" "answered_by E ws res" "status = fr_status res"
    "b = sr_body (sanitize_response (ge_X E) (fr_body res) (cred_pairs (pp_cred p) (pp_value p)))"
    unfolding exchange_record_def by auto
  moreover from this(4) have "\<not> contains b f"
    if "length (fr_body res) \<le> max_sanitize_size" "utf8_valid (fr_body res)"
      "is_secret (ge_X E) (cred_pairs (pp_cred p) (pp_value p)) v" "f \<in> scrub_forms (ge_X E) v"
      "scrubbable (marker_names (ge_X E) (cred_pairs (pp_cred p) (pp_value p))) f" for v f
    using that scrub_list_removes by (simp add: sanitize_text)
  ultimately show ?thesis using f(1-3) p(2) unfolding p(1) by blast
qed

lemma sample_answered:
  "\<exists>b s'. handle_forward sample_env sample_lookups get_headers [] empty_gateway = (Answered 200 [] b, s')"
proof -
  have inj: "inject_auth sample_env m bd sample_route = Inr sample_route" for m bd
    by (simp add: inject_auth_def inject_google_def inject_microsoft_def inject_twitter_def inject_aws_def
        inject_client_credentials_def sample_route_def plain_route_def)
  have up: "ge_send sample_env k w = Inr \<lparr>fr_status = 200, fr_headers = [], fr_body = ''echo s3cr3t''\<rparr>" for k w
    by (simp add: sample_env_def)
  have "wire_of sample_env (ur_effective_target sample_route) m hs bd \<noteq> []" for m hs bd
    using sample_starts by (simp add: wire_of_def sample_env_def sample_route_def plain_route_def)
  then have "forward_request (ge_X sample_env) (ge_method_ok sample_env) (ge_send sample_env k) (ge_egress sample_env)
      (ur_effective_target sample_route) m hs bd = Inr \<lparr>fr_status = 200, fr_headers = [], fr_body = ''echo s3cr3t''\<rparr>"
    for k m hs bd
    by (simp add: forward_request_wire up split: list.splits)
  then have "\<exists>s'. exchange sample_env m mode v bd sample_route empty_gateway
      = (Inr \<lparr>fr_status = 200, fr_headers = [], fr_body = ''echo s3cr3t''\<rparr>, s')" for m mode v bd
    by (simp add: exchange_def forward_once_def x_auto_bearer_can_retry_with_oauth1_def)
  then obtain s' where x: "exchange sample_env m mode v bd sample_route empty_gateway
      = (Inr \<lparr>fr_status = 200, fr_headers = [], fr_body = ''echo s3cr3t''\<rparr>, s' m mode v bd)" for m mode v bd by metis
  show ?thesis
    by (auto simp: sample_paths answer_unified_def inj x Let_def response_headers_def)
qed

theorem forward_answer_clean_witness:
  "\<exists>b s'. handle_forward sample_env sample_lookups get_headers [] empty_gateway = (Answered 200 [] b, s')
     \<and> \<not> contains b ''s3cr3t''"
proof -
  from sample_answered obtain b s' where
    h: "handle_forward sample_env sample_lookups get_headers [] empty_gateway = (Answered 200 [] b, s')" by blast
  then have moved: "gw_wire s' \<noteq> gw_wire empty_gateway" using sample_answer by simp
  have facts: "asserted_end_user get_headers = Inr None" "ge_X sample_env = sample_externals"
    "select_agent sample_lookups [bot_agent] None ''gh'' = Inr bot_agent"
    "lk_value sample_lookups (aa_team_id bot_agent) ''gh'' = Inr (Some ''s3cr3t'')"
    "cred_pairs ''gh'' (Some ''s3cr3t'') = sample_creds"
    by (simp_all add: asserted_end_user_def sample_headers sample_env_def select_agent_def may_use_def bot_agent_def
        sample_lookups_def cred_pairs_def sample_creds_def)
  from forward_answer_clean [OF h sample_headers(3) moved] obtain ws res where
    f: "answered_by sample_env ws res"
      "length (fr_body res) \<le> max_sanitize_size \<and> utf8_valid (fr_body res) \<longrightarrow>
        (\<forall>v f. is_secret sample_externals sample_creds v \<and> f \<in> scrub_forms sample_externals v
            \<and> scrubbable (marker_names sample_externals sample_creds) f \<longrightarrow> \<not> contains b f)"
    by (auto simp: sample_auth facts effective_name_def)
  have "fr_body res = ''echo s3cr3t''" using f(1) by (auto simp: answered_by_def sample_env_def)
  moreover have "utf8_valid ''echo s3cr3t''" by code_simp
  ultimately have "length (fr_body res) \<le> max_sanitize_size \<and> utf8_valid (fr_body res)"
    by (simp add: max_sanitize_size_def)
  moreover have "''s3cr3t'' \<in> scrub_forms sample_externals ''s3cr3t''" by (simp add: scrub_forms_def)
  ultimately have "\<not> contains b ''s3cr3t''" using f(2) sample_secret sample_scrubbable by blast
  with h show ?thesis by blast
qed

section \<open>What the placeholder path leaves unchecked\<close>

lemma policy_not_prepared:
  "configs_of (L\<lparr>lk_policy := P\<rparr>) team ns = configs_of L team ns"
  "merged_configs (L\<lparr>lk_policy := P\<rparr>) agents m = merged_configs L agents m"
  "owning_teams (L\<lparr>lk_policy := P\<rparr>) agents creds t = owning_teams L agents creds t"
  "load_values (L\<lparr>lk_policy := P\<rparr>) teams own creds v = load_values L teams own creds v"
proof -
  show c: "configs_of (L\<lparr>lk_policy := P\<rparr>) team ns = configs_of L team ns" for team ns
    by (induction ns) (simp_all split: sum.splits)
  show "merged_configs (L\<lparr>lk_policy := P\<rparr>) agents m = merged_configs L agents m"
  proof (induction agents arbitrary: m)
    case (Cons a agents)
    have "get_credential_configs_for_agent (L\<lparr>lk_policy := P\<rparr>) a = get_credential_configs_for_agent L a"
      by (simp add: get_credential_configs_for_agent_def agent_listing_credentials_def c split: sum.splits)
    with Cons show ?case by (simp split: sum.splits)
  qed simp
  have "may_use (L\<lparr>lk_policy := P\<rparr>) = may_use L" by (intro ext) (simp add: may_use_def)
  then show "owning_teams (L\<lparr>lk_policy := P\<rparr>) agents creds t = owning_teams L agents creds t"
    by (induction creds arbitrary: t) (simp_all split: option.splits)
  show "load_values (L\<lparr>lk_policy := P\<rparr>) teams own creds v = load_values L teams own creds v"
    by (induction creds arbitrary: v) (simp_all split: option.splits sum.splits)
qed

lemma policy_not_asked:
  "legacy_description (L\<lparr>lk_policy := P\<rparr>) p = legacy_description L p"
  "approval_channel_for E (L\<lparr>lk_policy := P\<rparr>) j = approval_channel_for E L j"
  "with_default_chat (L\<lparr>lk_policy := P\<rparr>) team ch r = with_default_chat L team ch r"
  "approval_context_for E (L\<lparr>lk_policy := P\<rparr>) j r emails ov = approval_context_for E L j r emails ov"
  "persist_details E (L\<lparr>lk_policy := P\<rparr>) j emails t = persist_details E L j emails t"
  by (simp_all add: legacy_description_def approval_channel_for_def with_default_chat_def
      approval_context_for_def persist_details_def split: option.splits)

text \<open>
  The placeholder path asks for the policy of the first credential only: whatever policies the
  other credentials of the request have, also one that demands a human for every request, the
  request is handled in the same way and their values are sent along.
\<close>

lemma legacy_ignores_other_policies:
  assumes "\<And>p. prepare_legacy E L agents h = Inr p \<Longrightarrow>
    P (lp_first_team p) (lp_first p) = lk_policy L (lp_first_team p) (lp_first p)"
  shows "legacy_forward E (L\<lparr>lk_policy := P\<rparr>) agents h s = legacy_forward E L agents h s"
proof -
  have prep: "prepare_legacy E (L\<lparr>lk_policy := P\<rparr>) agents h = prepare_legacy E L agents h"
    unfolding prepare_legacy_def policy_not_prepared ..
  have fields: "lk_save_fails (L\<lparr>lk_policy := P\<rparr>) = lk_save_fails L"
    "lk_async_fails (L\<lparr>lk_policy := P\<rparr>) = lk_async_fails L" by simp_all
  have "queue_legacy E (L\<lparr>lk_policy := P\<rparr>) h a p g s2 = queue_legacy E L h a p g s2" for a p g s2
    unfolding queue_legacy_def request_approval_def policy_not_asked fields ..
  moreover have "gate E (L\<lparr>lk_policy := P\<rparr>) (lp_first_team p) (lp_first p) m url s
      = gate E L (lp_first_team p) (lp_first p) m url s"
    if "prepare_legacy E L agents h = Inr p" for p m url
    using assms [OF that] by (simp add: gate_def decide_request_def policy_for_def team_default_mode_def Let_def)
  ultimately show ?thesis by (auto simp: legacy_forward_def prep split: sum.splits prod.splits)
qed

text \<open>
  The configurations of all keys share one map. When two keys of different teams may use a
  credential of the same name, the value is the first team's, and the hosts it may go to are the
  second team's: without hosts there, it may go to any.
\<close>

lemma later_key_lifts_host_binding:
  assumes "may_use L c a" and "get_credential_configs_for_agent L b = Inr cs"
    and "map_of (rev cs) c = Some cfg" and "cc_allowed_hosts cfg = []"
  shows "legacy_host_ok X (merged_configs L [a, b] Map.empty) target c"
    and "owning_teams L [a, b] [c] Map.empty = Some [c \<mapsto> aa_team_id a]"
proof -
  have "merged_configs L [a, b] Map.empty c = Some cfg"
    using assms(2,3) by (auto split: sum.splits)
  then show "legacy_host_ok X (merged_configs L [a, b] Map.empty) target c"
    using assms(4) by (simp add: legacy_host_ok_def)
  show "owning_teams L [a, b] [c] Map.empty = Some [c \<mapsto> aa_team_id a]" using assms(1) by simp
qed

end
