(* ===== verification/Signing_Keys.thy ===== *)
theory Signing_Keys
  imports Routing
begin

text \<open>
  The signing keys of \<open>tap-proxy/src/signing.rs\<close>: signatures, public identities, generated and
  imported keys, and the check of a pre-image. Hashes, curves, hexadecimal and base64 come from
  other crates and are fields of the record \<open>crypto\<close>. The lemmas show that the identity that is
  listed for a key is the one that its signatures carry, and that an imported or generated key
  is listed under the identity it was announced with.
\<close>

section \<open>Keys and signatures\<close>

text \<open>
  The third-party primitives. A key of a curve is its scalar, as bytes; \<open>point k c\<close> is the SEC1
  encoding of the public key, compressed or not.
\<close>

record crypto =
  hex_encode :: "bytes \<Rightarrow> string"
  hex_decode :: "string \<Rightarrow> (string, bytes) result"
  base64_decode :: "string \<Rightarrow> (string, bytes) result"
  keccak256 :: "bytes \<Rightarrow> bytes"
  sha256 :: "bytes \<Rightarrow> bytes"
  sha3_256 :: "bytes \<Rightarrow> bytes"
  k256_from_slice :: "bytes \<Rightarrow> (string, bytes) result"
  k256_sign_recoverable :: "bytes \<Rightarrow> bytes \<Rightarrow> (string, bytes \<times> nat) result"
  k256_point :: "bytes \<Rightarrow> bool \<Rightarrow> bytes"
  p256_from_slice :: "bytes \<Rightarrow> (string, bytes) result"
  p256_sign :: "bytes \<Rightarrow> bytes \<Rightarrow> (string, bytes) result"
  p256_point :: "bytes \<Rightarrow> bool \<Rightarrow> bytes"
  ed25519_sign :: "bytes \<Rightarrow> bytes \<Rightarrow> bytes"
  ed25519_public :: "bytes \<Rightarrow> bytes"

record sign_output =
  so_algorithm :: algorithm
  so_signature :: string
  so_r :: "string option"
  so_s :: "string option"
  so_recovery_id :: "nat option"
  so_public_key :: string
  so_public_key_uncompressed :: "string option"
  so_address :: "string option"

record key_identity =
  ki_algorithm :: algorithm
  ki_public_key :: string
  ki_public_key_uncompressed :: "string option"
  ki_address :: "string option"

record generated_key =
  gk_bundle :: string
  gk_identity :: key_identity

definition decode_key_bytes :: "crypto \<Rightarrow> signing_credential \<Rightarrow> (string, bytes) result" where
  "decode_key_bytes C cred =
     (let enc = or_else (sg_key_encoding cred) ''hex'';
          s = trim (sg_private_key cred)
      in if enc = ''hex'' then
           (case hex_decode C (or_else (strip_prefix s ''0x'') s) of
              Inl e \<Rightarrow> Inl (''invalid hex private key: '' @ e) | Inr b \<Rightarrow> Inr b)
         else if enc = ''base64'' then
           (case base64_decode C s of
              Inl e \<Rightarrow> Inl (''invalid base64 private key: '' @ e) | Inr b \<Rightarrow> Inr b)
         else Inl (''unsupported key_encoding '' @ quoted enc @ '' (use 'hex' or 'base64')''))"

text \<open>The last 20 bytes of the hash of the point without its prefix byte.\<close>

definition eth_address :: "crypto \<Rightarrow> bytes \<Rightarrow> string" where
  "eth_address C uncompressed_sec1 =
     ''0x'' @ hex_encode C (drop 12 (keccak256 C (drop 1 uncompressed_sec1)))"

definition not_a_digest :: "algorithm \<Rightarrow> bytes \<Rightarrow> string" where
  "not_a_digest a payload =
     algorithm_as_str a @ '' signs a 32-byte digest; got '' @ show_nat (length payload)
       @ '' bytes. Hash your message first.''"

definition sign_secp256k1 :: "crypto \<Rightarrow> bytes \<Rightarrow> bytes \<Rightarrow> (string, sign_output) result" where
  "sign_secp256k1 C payload key_bytes =
     (if length payload \<noteq> 32 then Inl (not_a_digest Secp256k1 payload)
      else case k256_from_slice C key_bytes of
        Inl e \<Rightarrow> Inl (''invalid secp256k1 private key: '' @ e)
      | Inr sk \<Rightarrow>
          (case k256_sign_recoverable C sk payload of
             Inl e \<Rightarrow> Inl (''secp256k1 signing failed: '' @ e)
           | Inr (rs, v) \<Rightarrow>
               Inr \<lparr>so_algorithm = Secp256k1, so_signature = hex_encode C (rs @ [char_of v]),
                    so_r = Some (hex_encode C (take 32 rs)), so_s = Some (hex_encode C (drop 32 rs)),
                    so_recovery_id = Some v, so_public_key = hex_encode C (k256_point C sk True),
                    so_public_key_uncompressed = Some (hex_encode C (k256_point C sk False)),
                    so_address = Some (eth_address C (k256_point C sk False))\<rparr>))"

definition sign_p256 :: "crypto \<Rightarrow> bytes \<Rightarrow> bytes \<Rightarrow> (string, sign_output) result" where
  "sign_p256 C payload key_bytes =
     (if length payload \<noteq> 32 then Inl (not_a_digest P256 payload)
      else case p256_from_slice C key_bytes of
        Inl e \<Rightarrow> Inl (''invalid p256 private key: '' @ e)
      | Inr sk \<Rightarrow>
          (case p256_sign C sk payload of
             Inl e \<Rightarrow> Inl (''p256 signing failed: '' @ e)
           | Inr rs \<Rightarrow>
               Inr \<lparr>so_algorithm = P256, so_signature = hex_encode C rs,
                    so_r = Some (hex_encode C (take 32 rs)), so_s = Some (hex_encode C (drop 32 rs)),
                    so_recovery_id = None, so_public_key = hex_encode C (p256_point C sk True),
                    so_public_key_uncompressed = Some (hex_encode C (p256_point C sk False)),
                    so_address = None\<rparr>))"

definition ed25519_key :: "bytes \<Rightarrow> (string, bytes) result" where
  "ed25519_key key_bytes =
     (if length key_bytes = 32 then Inr key_bytes
      else Inl (''ed25519 private key must be 32 bytes, got '' @ show_nat (length key_bytes)))"

definition sign_ed25519 :: "crypto \<Rightarrow> bytes \<Rightarrow> bytes \<Rightarrow> (string, sign_output) result" where
  "sign_ed25519 C payload key_bytes =
     (case ed25519_key key_bytes of
        Inl e \<Rightarrow> Inl e
      | Inr sk \<Rightarrow>
          Inr \<lparr>so_algorithm = Ed25519, so_signature = hex_encode C (ed25519_sign C sk payload),
               so_r = None, so_s = None, so_recovery_id = None,
               so_public_key = hex_encode C (ed25519_public C sk),
               so_public_key_uncompressed = None, so_address = None\<rparr>)"

definition sign :: "crypto \<Rightarrow> bytes \<Rightarrow> signing_credential \<Rightarrow> (string, sign_output) result" where
  "sign C payload cred =
     (case decode_key_bytes C cred of
        Inl e \<Rightarrow> Inl e
      | Inr key_bytes \<Rightarrow>
          (case sg_algorithm cred of
             Secp256k1 \<Rightarrow> sign_secp256k1 C payload key_bytes
           | P256 \<Rightarrow> sign_p256 C payload key_bytes
           | Ed25519 \<Rightarrow> sign_ed25519 C payload key_bytes))"

text \<open>The identity of a scalar, as each curve shows it.\<close>

fun identity_of :: "crypto \<Rightarrow> algorithm \<Rightarrow> bytes \<Rightarrow> key_identity" where
  "identity_of C Secp256k1 sk =
     \<lparr>ki_algorithm = Secp256k1, ki_public_key = hex_encode C (k256_point C sk True),
      ki_public_key_uncompressed = Some (hex_encode C (k256_point C sk False)),
      ki_address = Some (eth_address C (k256_point C sk False))\<rparr>"
| "identity_of C P256 sk =
     \<lparr>ki_algorithm = P256, ki_public_key = hex_encode C (p256_point C sk True),
      ki_public_key_uncompressed = Some (hex_encode C (p256_point C sk False)), ki_address = None\<rparr>"
| "identity_of C Ed25519 sk =
     \<lparr>ki_algorithm = Ed25519, ki_public_key = hex_encode C (ed25519_public C sk),
      ki_public_key_uncompressed = None, ki_address = None\<rparr>"

definition public_identity :: "crypto \<Rightarrow> signing_credential \<Rightarrow> (string, key_identity) result" where
  "public_identity C cred =
     (case decode_key_bytes C cred of
        Inl e \<Rightarrow> Inl e
      | Inr key_bytes \<Rightarrow>
          (case sg_algorithm cred of
             Secp256k1 \<Rightarrow>
               (case k256_from_slice C key_bytes of
                  Inl e \<Rightarrow> Inl (''invalid secp256k1 private key: '' @ e)
                | Inr sk \<Rightarrow> Inr (identity_of C Secp256k1 sk))
           | P256 \<Rightarrow>
               (case p256_from_slice C key_bytes of
                  Inl e \<Rightarrow> Inl (''invalid p256 private key: '' @ e)
                | Inr sk \<Rightarrow> Inr (identity_of C P256 sk))
           | Ed25519 \<Rightarrow>
               (case ed25519_key key_bytes of
                  Inl e \<Rightarrow> Inl e
                | Inr sk \<Rightarrow> Inr (identity_of C Ed25519 sk))))"

text \<open>
  A fresh key: \<open>sk\<close> is the scalar that the generator of the curve drew, \<open>to_json\<close> serialises the
  bundle with its three fields. The result is never an error.
\<close>

definition generate ::
  "crypto \<Rightarrow> (signing_credential \<Rightarrow> string) \<Rightarrow> bytes \<Rightarrow> algorithm \<Rightarrow> (string, generated_key) result" where
  "generate C to_json sk a =
     Inr \<lparr>gk_bundle = to_json \<lparr>sg_algorithm = a, sg_private_key = hex_encode C sk, sg_key_encoding = Some ''hex''\<rparr>,
          gk_identity = identity_of C a sk\<rparr>"

definition validate_import :: "crypto \<Rightarrow> signing_credential \<Rightarrow> (string, unit) result" where
  "validate_import C cred =
     (case sign C (replicate 32 (CHR 0x00)) cred of Inl e \<Rightarrow> Inl e | Inr _ \<Rightarrow> Inr ())"

definition hash_preimage :: "crypto \<Rightarrow> string \<Rightarrow> bytes \<Rightarrow> (string, bytes) result" where
  "hash_preimage C hash_name preimage =
     (if hash_name = ''keccak256'' then Inr (keccak256 C preimage)
      else if hash_name = ''sha256'' then Inr (sha256 C preimage)
      else if hash_name = ''sha3-256'' then Inr (sha3_256 C preimage)
      else Inl (''unsupported pre-image hash '' @ quoted hash_name @ '' (use keccak256, sha256, or sha3-256)''))"

definition verify_preimage :: "crypto \<Rightarrow> bytes \<Rightarrow> string \<Rightarrow> bytes \<Rightarrow> (string, unit) result" where
  "verify_preimage C preimage hash_name digest =
     (case hash_preimage C hash_name preimage of
        Inl e \<Rightarrow> Inl e
      | Inr computed \<Rightarrow>
          if computed = digest then Inr ()
          else Inl (''pre-image does not match digest: '' @ hash_name @ ''(preimage) = '' @ hex_encode C computed
            @ '' but payload digest = '' @ hex_encode C digest))"

section \<open>What a key shows of itself\<close>

lemmas signing_defs = sign_def sign_secp256k1_def sign_p256_def sign_ed25519_def public_identity_def

text \<open>The identity that is listed for a key is the one that its signatures carry.\<close>

lemma signature_identity:
  assumes "sign C payload cred = Inr out"
  shows "public_identity C cred =
    Inr \<lparr>ki_algorithm = so_algorithm out, ki_public_key = so_public_key out,
         ki_public_key_uncompressed = so_public_key_uncompressed out, ki_address = so_address out\<rparr>
    \<and> so_algorithm out = sg_algorithm cred"
  using assms by (auto simp: signing_defs split: sum.splits algorithm.splits if_splits prod.splits)

text \<open>A bundle that was accepted at import signs every digest unless the curve itself fails.\<close>

lemma imported_key_usable:
  assumes "validate_import C cred = Inr ()"
  shows "(\<exists>i. public_identity C cred = Inr i) \<and> (sg_algorithm cred = Ed25519 \<longrightarrow> (\<exists>out. sign C payload cred = Inr out))"
proof -
  from assms obtain out where "sign C (replicate 32 (CHR 0x00)) cred = Inr out"
    by (auto simp: validate_import_def split: sum.splits)
  with signature_identity [OF this] show ?thesis
    by (auto simp: sign_def sign_ed25519_def split: sum.splits algorithm.splits)
qed

text \<open>
  The laws of the primitives for keys that the generator draws: hexadecimal and the bundle's
  JSON are read back, hexadecimal has no white space and no prefix \<open>0x\<close>, and a scalar of the
  curve is accepted.
\<close>

definition key_laws :: "crypto \<Rightarrow> deserializers \<Rightarrow> (signing_credential \<Rightarrow> string) \<Rightarrow> bytes \<Rightarrow> bool" where
  "key_laws C D to_json sk \<longleftrightarrow>
     hex_decode C (hex_encode C sk) = Inr sk \<and> trim (hex_encode C sk) = hex_encode C sk
     \<and> hex_encode C sk \<noteq> [] \<and> strip_prefix (hex_encode C sk) ''0x'' = None
     \<and> k256_from_slice C sk = Inr sk \<and> p256_from_slice C sk = Inr sk \<and> length sk = 32
     \<and> (\<forall>a. let b = \<lparr>sg_algorithm = a, sg_private_key = hex_encode C sk, sg_key_encoding = Some ''hex''\<rparr>
            in de_signing D (to_json b) = Some b)"

lemma generated_key_listed:
  assumes "key_laws C D to_json sk" and "generate C to_json sk a = Inr g"
  shows "\<exists>cred. parse_signing_credential D (gk_bundle g) = Some cred \<and> public_identity C cred = Inr (gk_identity g)"
  using assms
  by (cases a) (auto simp: key_laws_def generate_def parse_signing_credential_def public_identity_def
      decode_key_bytes_def or_else_def ed25519_key_def Let_def)

text \<open>A concrete instance, for evaluating the model on examples: plain bytes in place of codes.\<close>

definition sample_crypto :: crypto where
  "sample_crypto =
     \<lparr>hex_encode = (\<lambda>b. b), hex_decode = Inr, base64_decode = Inr, keccak256 = (\<lambda>_. replicate 32 CHR ''k''),
      sha256 = (\<lambda>_. replicate 32 CHR ''s''), sha3_256 = (\<lambda>_. replicate 32 CHR ''t''), k256_from_slice = Inr,
      k256_sign_recoverable = (\<lambda>k d. Inr (k @ d, 0)), k256_point = (\<lambda>k c. CHR ''P'' # k), p256_from_slice = Inr,
      p256_sign = (\<lambda>k d. Inr (k @ d)), p256_point = (\<lambda>k c. CHR ''Q'' # k), ed25519_sign = (\<lambda>k m. k @ m),
      ed25519_public = (\<lambda>k. CHR ''E'' # k)\<rparr>"

end
