(* ===== verification/Signing.thy ===== *)
theory Signing
  imports Gateway_Audit Signing_Keys
begin

text \<open>
  The signing endpoint: \<open>handle_sign\<close> and \<open>run_sign_async_approval\<close> of \<open>tap-proxy/src/proxy.rs\<close>, over the
  keys of \<open>Signing_Keys\<close> and the channels, contexts and tables of the gateway. The JSON
  serialisers are fields of the record \<open>sign_env\<close>. Shown is what has to hold before a signature
  exists, and what the endpoint leaves out.
\<close>

section \<open>The request\<close>

record prehash_spec =
  ps_preimage :: string
  ps_preimage_encoding :: "string option"
  ps_hash :: string

record sign_request_body =
  sb_payload :: string
  sb_encoding :: "string option"
  sb_payload_description :: "string option"
  sb_prehash :: "prehash_spec option"

definition decode_input :: "crypto \<Rightarrow> string \<Rightarrow> string \<Rightarrow> (string, bytes) result" where
  "decode_input C s encoding =
     (let t = trim s in
      if encoding = ''hex'' then
        (case hex_decode C (or_else (strip_prefix t ''0x'') t) of
           Inl e \<Rightarrow> Inl (''invalid hex: '' @ e) | Inr b \<Rightarrow> Inr b)
      else if encoding = ''base64'' then
        (case base64_decode C t of Inl e \<Rightarrow> Inl (''invalid base64: '' @ e) | Inr b \<Rightarrow> Inr b)
      else if encoding = ''utf8'' then Inr t
      else Inl (''unsupported encoding '' @ quoted encoding @ '' (use hex, base64, or utf8)''))"

text \<open>
  The control characters are U+0000 to U+001F and U+007F to U+009F; those above ASCII are a
  byte \<open>0xC2\<close> and a byte from \<open>0x80\<close> to \<open>0x9F\<close>.
\<close>

fun shows_control :: "string \<Rightarrow> bool" where
  "shows_control [] \<longleftrightarrow> False"
| "shows_control (c # cs) \<longleftrightarrow>
     (of_char c < (32 :: nat) \<and> c \<notin> {CHR 0x0A, CHR 0x09, CHR 0x0D}) \<or> c = CHR 0x7F
     \<or> (c = CHR 0xC2 \<and> (case cs of [] \<Rightarrow> False | d # _ \<Rightarrow> 128 \<le> (of_char d :: nat) \<and> of_char d < (160 :: nat)))
     \<or> shows_control cs"

definition render_for_human :: "crypto \<Rightarrow> bytes \<Rightarrow> string" where
  "render_for_human C b =
     (case from_utf8 b of
        Some s \<Rightarrow> if shows_control s then ''0x'' @ hex_encode C b else s
      | None \<Rightarrow> ''0x'' @ hex_encode C b)"

text \<open>The summary for the approver, before it is written as JSON.\<close>

record sign_summary =
  sm_credential :: string
  sm_algorithm :: string
  sm_digest_or_message :: string
  sm_description :: "string option"
  sm_pre_image :: "string option"
  sm_verification :: string
  sm_blind :: bool

text \<open>What \<open>tokio::spawn\<close> starts, and the state of the gateway with these tasks.\<close>

record sign_task =
  st_txn_id :: string
  st_channel :: channel_kind
  st_value :: "string option"
  st_payload :: bytes
  st_cred :: string
  st_agent_id :: string
  st_end_user_id :: "string option"
  st_require_passkey :: bool

record signer =
  sn_gateway :: gateway
  sn_tasks :: "sign_task list"

record sign_env =
  se_gateway :: gateway_env
  se_crypto :: crypto
  se_parse_body :: "bytes \<Rightarrow> sign_request_body option"
  se_summary_json :: "sign_summary \<Rightarrow> bytes"
  se_output_json :: "sign_output \<Rightarrow> bytes"
  se_audit_id :: string

section \<open>Asking for a signature\<close>

definition is_ecdsa :: "signing_credential \<Rightarrow> bool" where
  "is_ecdsa cred \<longleftrightarrow> sg_algorithm cred \<in> {Secp256k1, P256}"

definition require_preimage :: "policy_config option \<Rightarrow> bool" where
  "require_preimage p = (case Option.bind p pc_approval of None \<Rightarrow> False | Some r \<Rightarrow> ar_require_preimage r)"

text \<open>The warning of a blind signature begins with U+26A0 and U+FE0F.\<close>

definition blind_warning :: string where
  "blind_warning =
     [CHR 0xE2, CHR 0x9A, CHR 0xA0, CHR 0xEF, CHR 0xB8, CHR 0x8F]
       @ '' blind signature: opaque 32-byte digest, no pre-image provided''"

text \<open>The guard against blind signatures: what to display, the verification line and \<open>blind\<close>.\<close>

definition preimage_guard ::
  "crypto \<Rightarrow> bool \<Rightarrow> signing_credential \<Rightarrow> prehash_spec option \<Rightarrow> bytes
    \<Rightarrow> (forward_response, string option \<times> string \<times> bool) result" where
  "preimage_guard C required cred prehash payload =
     (case prehash of
        Some pre \<Rightarrow>
          if \<not> is_ecdsa cred then Inl (Refused 400 ''prehash not applicable'')
          else (case decode_input C (ps_preimage pre) (or_else (ps_preimage_encoding pre) ''utf8'') of
             Inl _ \<Rightarrow> Inl (Refused 400 ''Invalid prehash.preimage'')
           | Inr pre_bytes \<Rightarrow>
               (case verify_preimage C pre_bytes (ps_hash pre) payload of
                  Inl _ \<Rightarrow> Inl (Refused 400 ''preimage_mismatch'')
                | Inr _ \<Rightarrow>
                    Inr (Some (render_for_human C pre_bytes),
                         ''verified: '' @ ps_hash pre @ ''(pre-image) == digest'', False)))
      | None \<Rightarrow>
          if is_ecdsa cred then
            (if required then Inl (Refused 400 ''blind_signature_blocked'')
             else Inr (None, blind_warning, True))
          else Inr (Some (render_for_human C payload), ''ed25519 message (signed directly)'', False))"

record sign_job =
  sj_agent_id :: string
  sj_cred_agent :: authenticated_agent
  sj_cred :: string
  sj_end_user :: "string option"
  sj_config :: credential_config
  sj_value :: "string option"
  sj_payload :: bytes
  sj_policy :: "policy_config option"
  sj_summary :: bytes

text \<open>Configuration, isolation, value, bundle, policy and guard, in this order.\<close>

definition prepare_sign ::
  "sign_env \<Rightarrow> lookups \<Rightarrow> string \<Rightarrow> authenticated_agent \<Rightarrow> string option \<Rightarrow> string \<Rightarrow> sign_request_body \<Rightarrow> bytes
    \<Rightarrow> (forward_response, sign_job) result" where
  "prepare_sign E L agent a end_user cred req payload =
     (case lk_config L (aa_team_id a) cred of
        Inl _ \<Rightarrow> Inl (Refused 500 ''Failed to load credential config'')
      | Inr None \<Rightarrow> Inl (Refused 404 ''credential_not_found'')
      | Inr (Some config) \<Rightarrow>
          if cc_end_user_id config \<noteq> end_user then Inl (Refused 403 ''end_user_mismatch'')
          else case lk_value L (aa_team_id a) cred of
            Inl _ \<Rightarrow> Inl (Refused 500 ''Failed to load credential value'')
          | Inr val \<Rightarrow>
              (case Option.bind val (parse_signing_credential (ge_D (se_gateway E))) of
                 None \<Rightarrow> Inl (Refused 400 ''not_a_signing_key'')
               | Some bundle \<Rightarrow>
                   let policy = policy_for L (aa_team_id a) cred in
                   (case preimage_guard (se_crypto E) (require_preimage policy) bundle (sb_prehash req) payload of
                      Inl resp \<Rightarrow> Inl resp
                    | Inr (display, verification, blind) \<Rightarrow>
                        Inr \<lparr>sj_agent_id = agent, sj_cred_agent = a, sj_cred = cred, sj_end_user = end_user,
                             sj_config = config, sj_value = val, sj_payload = payload, sj_policy = policy,
                             sj_summary = se_summary_json E
                               \<lparr>sm_credential = cred, sm_algorithm = algorithm_as_str (sg_algorithm bundle),
                                sm_digest_or_message = ''0x'' @ hex_encode (se_crypto E) payload,
                                sm_description = sb_payload_description req, sm_pre_image = display,
                                sm_verification = verification, sm_blind = blind\<rparr>\<rparr>)))"

definition sign_request_of :: "gateway_env \<Rightarrow> sign_job \<Rightarrow> proxy_request" where
  "sign_request_of E j =
     \<lparr>pr_id = ge_request_id E, pr_agent_id = sj_agent_id j, pr_target_url = ''tap:sign/'' @ sj_cred j,
      pr_method = Post, pr_headers = [], pr_body = Some (sj_summary j),
      pr_content_type = Some ''application/json'', pr_placeholders = []\<rparr>"

text \<open>
  The job in the shape that the routing of approvals takes it. There is no decision to make:
  a signature always needs an approval, and no grant is looked for.
\<close>

definition sign_approval_job :: "gateway_env \<Rightarrow> sign_job \<Rightarrow> approval_job" where
  "sign_approval_job E j =
     \<lparr>aj_team = aa_team_id (sj_cred_agent j), aj_cred = sj_cred j, aj_desc = cc_description (sj_config j),
      aj_request = sign_request_of E j, aj_method_str = ''SIGN'', aj_end_user = sj_end_user j,
      aj_gate = \<lparr>gt_policy = sj_policy j,
                 gt_decision = \<lparr>requires_approval = True, auto_approved = False,
                                reason = TeamGatedDefaultUnsafeMethod\<rparr>,
                 gt_require_passkey = passkey_required (sj_policy j), gt_grant = None\<rparr>\<rparr>"

definition sign_details :: "sign_env \<Rightarrow> sign_job \<Rightarrow> string list \<Rightarrow> approval_details" where
  "sign_details E j emails =
     \<lparr>ad_txn_id = ge_request_id (se_gateway E), ad_team_id = aa_team_id (sj_cred_agent j),
      ad_agent_id = sj_agent_id j, ad_credential_name = sj_cred j, ad_target_url = ''tap:sign/'' @ sj_cred j,
      ad_method = ''SIGN'', ad_body_preview = Some (render_for_human (se_crypto E) (sj_summary j)),
      ad_summary = None, ad_allowed_approvers = emails, ad_require_passkey = passkey_required (sj_policy j)\<rparr>"

definition sign_task_of :: "sign_job \<Rightarrow> string \<Rightarrow> channel_kind \<Rightarrow> sign_task" where
  "sign_task_of j txn channel =
     \<lparr>st_txn_id = txn, st_channel = channel, st_value = sj_value j, st_payload = sj_payload j, st_cred = sj_cred j,
      st_agent_id = aa_id (sj_cred_agent j), st_end_user_id = sj_end_user j,
      st_require_passkey = passkey_required (sj_policy j)\<rparr>"

definition queue_sign :: "sign_env \<Rightarrow> lookups \<Rightarrow> sign_job \<Rightarrow> signer \<Rightarrow> forward_response \<times> signer" where
  "queue_sign E L j s =
     (let G = se_gateway E;
          g = sn_gateway s;
          aj = sign_approval_job G j;
          (channel, overrides) = approval_channel_for G L aj;
          routing = with_default_chat L (aj_team aj) channel (Option.bind (sj_policy j) pc_approval);
          emails = (case routing of None \<Rightarrow> [] | Some r \<Rightarrow> ar_allowed_approvers r);
          ctx = approval_context_for G L aj routing emails overrides;
          t1 = (if ge_webauthn G \<and> \<not> lk_details_fail L
                then set_pending_details (ge_details_json G) (ge_request_id G) (sign_details E j emails)
                       (int (ge_timeout_secs G) + 600) (ge_now G) (gw_pending g)
                else gw_pending g)
      in case send_via G channel (aj_request aj) (aj_desc aj) ctx t1 of
        None \<Rightarrow> (Panicked, s\<lparr>sn_gateway := g\<lparr>gw_pending := t1\<rparr>\<rparr>)
      | Some (Inl _, t2) \<Rightarrow> (Refused 500 ''Failed to request approval'', s\<lparr>sn_gateway := g\<lparr>gw_pending := t2\<rparr>\<rparr>)
      | Some (Inr txn, t2) \<Rightarrow>
          let expires = ge_now G + int (ge_timeout_secs G);
              own_row = (ctx_approval_url ctx = None \<and> \<not> passkey_required (sj_policy j)
                \<and> \<not> persists_own_details channel);
              t3 = (if own_row then save_pending_approval txn ''{}'' expires (ge_now G) t2 else t2)
          in if own_row \<and> lk_save_fails L
             then (Refused 500 ''Failed to queue approval'', s\<lparr>sn_gateway := g\<lparr>gw_pending := t2\<rparr>\<rparr>)
             else case (if lk_async_fails L then Inl (Config ''Failed to create async approval'')
                        else create_async_approval txn (sj_agent_id j) (aa_team_id (sj_cred_agent j)) expires
                               (ge_now G) (gw_async g)) of
               Inl _ \<Rightarrow> (Refused 500 ''Failed to queue approval'', s\<lparr>sn_gateway := g\<lparr>gw_pending := t3\<rparr>\<rparr>)
             | Inr as' \<Rightarrow>
                 (Queued txn, s\<lparr>sn_gateway := g\<lparr>gw_pending := t3, gw_async := as'\<rparr>,
                                sn_tasks := sn_tasks s @ [sign_task_of j txn channel]\<rparr>))"

text \<open>The body is read before the key is matched to the credential.\<close>

definition read_sign_body ::
  "sign_env \<Rightarrow> bytes \<Rightarrow> (forward_response, sign_request_body \<times> bytes) result" where
  "read_sign_body E body =
     (case se_parse_body E body of
        None \<Rightarrow> Inl (Refused 400 ''Invalid request body'')
      | Some req \<Rightarrow>
          (case decode_input (se_crypto E) (sb_payload req) (or_else (sb_encoding req) ''hex'') of
             Inl _ \<Rightarrow> Inl (Refused 400 ''Invalid payload'')
           | Inr payload \<Rightarrow> Inr (req, payload)))"

definition sign_with_credential ::
  "sign_env \<Rightarrow> lookups \<Rightarrow> authenticated_agent list \<Rightarrow> string \<Rightarrow> string option \<Rightarrow> sign_request_body \<Rightarrow> bytes \<Rightarrow> signer
    \<Rightarrow> forward_response \<times> signer" where
  "sign_with_credential E L agents cred end_user req payload s =
     (case select_agent L agents end_user cred of
        Inl resp \<Rightarrow> (resp, s)
      | Inr a \<Rightarrow>
          let name = (case end_user of None \<Rightarrow> cred | Some ext \<Rightarrow> end_user_cred_name ext cred);
              s1 = s\<lparr>sn_gateway := note_end_user (se_gateway E) L (aa_team_id a) end_user (sn_gateway s)\<rparr>
          in case prepare_sign E L (aa_id (hd agents)) a end_user name req payload of
            Inl resp \<Rightarrow> (resp, s1)
          | Inr j \<Rightarrow> queue_sign E L j s1)"

definition handle_sign ::
  "sign_env \<Rightarrow> lookups \<Rightarrow> headers \<Rightarrow> bytes \<Rightarrow> signer \<Rightarrow> forward_response \<times> signer" where
  "handle_sign E L hs body s =
     (case header_text hs ''x-tap-key'' of
        None \<Rightarrow> (Refused 401 ''missing_tap_key'', s)
      | Some v \<Rightarrow>
          (case authenticate_keys (se_gateway E) L (parse_tap_keys v) of
             [] \<Rightarrow> (Refused 401 ''invalid_tap_key'', s)
           | agent # others \<Rightarrow>
               (case header_text hs ''x-tap-credential'' of
                  None \<Rightarrow> (Refused 400 ''Missing X-TAP-Credential header'', s)
                | Some cred \<Rightarrow>
                    (case asserted_end_user hs of
                       Inl resp \<Rightarrow> (resp, s)
                     | Inr end_user \<Rightarrow>
                         (case read_sign_body E body of
                            Inl resp \<Rightarrow> (resp, s)
                          | Inr (req, payload) \<Rightarrow>
                              sign_with_credential E L (agent # others) cred end_user req payload s)))))"

section \<open>Making the signature\<close>

definition sign_audit :: "sign_env \<Rightarrow> sign_task \<Rightarrow> approval_status \<Rightarrow> nat option \<Rightarrow> audit_entry" where
  "sign_audit E t status upstream =
     \<lparr>ae_request_id = se_audit_id E, ae_agent_id = st_agent_id t, ae_credential_names = [st_cred t],
      ae_target_url = ''tap:sign'', ae_method = Post, ae_approval_status = Some status,
      ae_upstream_status = upstream, ae_response_sanitized = False, ae_end_user_id = st_end_user_id t,
      ae_request_headers = [], ae_request_body = None, ae_request_body_truncated = False,
      ae_policy_reason = None, ae_require_passkey = st_require_passkey t, ae_approver_identity = None\<rparr>"

text \<open>As the other tasks, it starts with what the wait for the decision returned.\<close>

definition run_sign_async_approval ::
  "sign_env \<Rightarrow> sign_task \<Rightarrow> (agent_sec_error, approval_status) result \<Rightarrow> gateway \<Rightarrow> gateway" where
  "run_sign_async_approval E t verdict g =
     (let G = se_gateway E; txn = st_txn_id t in
      case verdict of
        Inr Denied \<Rightarrow>
          write_audit (sign_audit E t Denied None) (finish_async G txn ''denied'' None None None None g)
      | Inl e \<Rightarrow> finish_async G txn ''error'' None None None (Some (error_display e)) g
      | Inr Approved \<Rightarrow>
          (case Option.bind (st_value t) (parse_signing_credential (ge_D G)) of
             None \<Rightarrow>
               finish_async G txn ''error'' None None None (Some ''signing credential is no longer available'') g
           | Some bundle \<Rightarrow>
               (case sign (se_crypto E) (st_payload t) bundle of
                  Inl e \<Rightarrow> finish_async G txn ''error'' None None None (Some (''signing failed: '' @ e)) g
                | Inr out \<Rightarrow>
                    write_audit (sign_audit E t Approved (Some 200))
                      (finish_async G txn ''forwarded'' (Some 200) (Some ''[]'') (Some (se_output_json E out))
                         None g)))
      | Inr _ \<Rightarrow> finish_async G txn ''timed_out'' None None None None g)"

section \<open>What has to hold before a signature exists\<close>

lemma guard_passed:
  assumes "preimage_guard C required cred prehash payload = Inr (display, verification, blind)"
  shows "case prehash of
      Some pre \<Rightarrow> is_ecdsa cred \<and> \<not> blind
        \<and> (\<exists>b. decode_input C (ps_preimage pre) (or_else (ps_preimage_encoding pre) ''utf8'') = Inr b
             \<and> hash_preimage C (ps_hash pre) b = Inr payload \<and> display = Some (render_for_human C b))
    | None \<Rightarrow> if is_ecdsa cred then \<not> required \<and> blind \<and> display = None
              else \<not> blind \<and> display = Some (render_for_human C payload)"
  using assms
  by (auto simp: preimage_guard_def verify_preimage_def split: option.splits if_splits sum.splits)

lemma preimage_checked:
  assumes "preimage_guard C required cred prehash payload = Inr (display, verification, blind)"
  shows "case prehash of
      Some pre \<Rightarrow> is_ecdsa cred
        \<and> (\<exists>b. decode_input C (ps_preimage pre) (or_else (ps_preimage_encoding pre) ''utf8'') = Inr b
             \<and> hash_preimage C (ps_hash pre) b = Inr payload)
    | None \<Rightarrow> \<not> (is_ecdsa cred \<and> required)"
  using guard_passed [OF assms] by (cases prehash) (auto split: if_splits)

lemma queue_sign_queued:
  assumes "queue_sign E L j s = (Queued txn, s')"
  shows "\<exists>channel. sn_tasks s' = sn_tasks s @ [sign_task_of j txn channel]
    \<and> (\<exists>row. map_of (gw_async (sn_gateway s')) txn = Some row \<and> as_status row = ''pending''
         \<and> as_agent_id row = sj_agent_id j \<and> as_response_body row = None)"
  using assms unfolding queue_sign_def Let_def
  by (auto simp: create_async_approval_def update_conv' split: prod.splits option.splits sum.splits if_splits)

lemma finish_async_body:
  assumes "map_of (gw_async (finish_async E txn st a b c d g)) txn = Some row"
    and "as_response_body row = Some x" and "\<And>row0. map_of (gw_async g) txn = Some row0 \<Longrightarrow> as_response_body row0 = None"
  shows "c = Some x"
  using assms by (auto simp: finish_async_def resolve_async_approval_def update_conv' split: if_splits option.splits)

lemma write_audit_async [simp]: "gw_async (write_audit e g) = gw_async g"
  by (simp add: write_audit_def)

text \<open>A body appears in the row of the task only as a signature made after an approval.\<close>

lemma signature_recorded:
  assumes "map_of (gw_async (run_sign_async_approval E t verdict g)) (st_txn_id t) = Some row"
    and "as_response_body row = Some b"
    and "\<And>row0. map_of (gw_async g) (st_txn_id t) = Some row0 \<Longrightarrow> as_response_body row0 = None"
  shows "verdict = Inr Approved \<and> (\<exists>bundle out.
    Option.bind (st_value t) (parse_signing_credential (ge_D (se_gateway E))) = Some bundle
    \<and> sign (se_crypto E) (st_payload t) bundle = Inr out \<and> b = se_output_json E out)"
proof -
  note f = finish_async_body [OF _ assms(2,3)]
  show ?thesis using assms(1) f
    unfolding run_sign_async_approval_def Let_def
    by (fastforce split: sum.splits approval_status.splits option.splits)
qed

lemma prepare_sign_facts:
  assumes "prepare_sign E L agent a end_user cred req payload = Inr j"
  shows "\<exists>config val bundle guard.
    lk_config L (aa_team_id a) cred = Inr (Some config) \<and> cc_end_user_id config = end_user
    \<and> lk_value L (aa_team_id a) cred = Inr (Some val)
    \<and> parse_signing_credential (ge_D (se_gateway E)) val = Some bundle
    \<and> preimage_guard (se_crypto E) (require_preimage (policy_for L (aa_team_id a) cred)) bundle
        (sb_prehash req) payload = Inr guard
    \<and> sj_value j = Some val \<and> sj_payload j = payload"
  using assms unfolding prepare_sign_def Let_def
  by (auto split: sum.splits option.splits if_splits simp: bind_eq_Some_conv)

lemma early_sign_refusals:
  "asserted_end_user hs = Inl r \<Longrightarrow> r \<noteq> Queued txn"
  "read_sign_body E body = Inl r \<Longrightarrow> r \<noteq> Queued txn"
  "select_agent L agents end_user cred = Inl r \<Longrightarrow> r \<noteq> Queued txn"
  "prepare_sign E L agent a end_user cred req payload = Inl r \<Longrightarrow> r \<noteq> Queued txn"
     apply (auto simp: asserted_end_user_def split: option.splits if_splits)[1]
    apply (auto simp: read_sign_body_def split: option.splits sum.splits)[1]
   apply (auto simp: select_agent_def split: option.splits)[1]
  unfolding prepare_sign_def preimage_guard_def Let_def
  by (auto split: option.splits sum.splits if_splits)

lemma handle_sign_read:
  assumes "handle_sign E L hs body s = (Queued txn, s')"
  shows "\<exists>keys agent others cred end_user req payload.
    header_text hs ''x-tap-key'' = Some keys
    \<and> authenticate_keys (se_gateway E) L (parse_tap_keys keys) = agent # others
    \<and> header_text hs ''x-tap-credential'' = Some cred \<and> asserted_end_user hs = Inr end_user
    \<and> read_sign_body E body = Inr (req, payload)
    \<and> sign_with_credential E L (agent # others) cred end_user req payload s = (Queued txn, s')"
  using assms unfolding handle_sign_def
  by (auto split: option.splits list.splits sum.splits dest: early_sign_refusals(1,2))

lemma sign_with_credential_queued:
  assumes "sign_with_credential E L agents cred end_user req payload s = (Queued txn, s')"
  shows "\<exists>a j s1. select_agent L agents end_user cred = Inr a
    \<and> prepare_sign E L (aa_id (hd agents)) a end_user (effective_name end_user cred) req payload = Inr j
    \<and> sn_tasks s1 = sn_tasks s \<and> queue_sign E L j s1 = (Queued txn, s')"
proof (cases "select_agent L agents end_user cred")
  case (Inl r)
  with assms early_sign_refusals(3) [OF Inl] show ?thesis by (simp add: sign_with_credential_def)
next
  case a: (Inr a)
  show ?thesis
  proof (cases "prepare_sign E L (aa_id (hd agents)) a end_user (effective_name end_user cred) req payload")
    case (Inl r)
    with assms a early_sign_refusals(4) [OF Inl] show ?thesis
      by (simp add: sign_with_credential_def effective_name_def)
  next
    case (Inr j)
    let ?s = "s\<lparr>sn_gateway := note_end_user (se_gateway E) L (aa_team_id a) end_user (sn_gateway s)\<rparr>"
    from assms a Inr have "queue_sign E L j ?s = (Queued txn, s')"
      by (simp add: sign_with_credential_def effective_name_def)
    moreover have "sn_tasks ?s = sn_tasks s" by simp
    ultimately show ?thesis using a Inr by blast
  qed
qed

text \<open>C6. No signature without an approval. When the endpoint answers that a request is queued, a key of
  the request authenticated an agent that may use the credential, or that is an app key when the
  request acts for an end-user; the credential belongs to exactly that end-user, or to none, and
  its value is a signing key; a pre-image that came with the request hashes to the payload, and
  without one an ECDSA key is only asked for when the policy does not require it. One task was
  started. Over any channel, a body appears in the row that the agent polls only if the channel's
  wait returned \<open>Approved\<close>, and the body is the signature, under that key, of the payload of this
  request; and where the task waits on a channel with an inbox (the agent-reflected one or the
  dashboard), the wait returned that only because a poll before the deadline read the
  status \<open>approved\<close> from the transaction's row, whatever happened meanwhile.\<close>

theorem signature_needs_approval:
  assumes "handle_sign E L hs body s = (Queued txn, s')"
  shows "\<exists>keys a cred end_user config val bundle req payload task.
    header_text hs ''x-tap-key'' = Some keys
    \<and> a \<in> set (authenticate_keys (se_gateway E) L (parse_tap_keys keys))
    \<and> header_text hs ''x-tap-credential'' = Some cred \<and> asserted_end_user hs = Inr end_user
    \<and> (case end_user of None \<Rightarrow> may_use L cred a | Some _ \<Rightarrow> aa_is_app a)
    \<and> lk_config L (aa_team_id a) (effective_name end_user cred) = Inr (Some config)
    \<and> cc_end_user_id config = end_user
    \<and> lk_value L (aa_team_id a) (effective_name end_user cred) = Inr (Some val)
    \<and> parse_signing_credential (ge_D (se_gateway E)) val = Some bundle
    \<and> read_sign_body E body = Inr (req, payload)
    \<and> (case sb_prehash req of
         Some pre \<Rightarrow> is_ecdsa bundle
           \<and> (\<exists>b. decode_input (se_crypto E) (ps_preimage pre) (or_else (ps_preimage_encoding pre) ''utf8'') = Inr b
                \<and> hash_preimage (se_crypto E) (ps_hash pre) b = Inr payload)
       | None \<Rightarrow> \<not> (is_ecdsa bundle \<and> require_preimage (policy_for L (aa_team_id a) (effective_name end_user cred))))
    \<and> sn_tasks s' = sn_tasks s @ [task] \<and> st_txn_id task = txn
    \<and> (\<forall>verdict g row b.
         map_of (gw_async (run_sign_async_approval E task verdict g)) txn = Some row
         \<and> as_response_body row = Some b
         \<and> (\<forall>row0. map_of (gw_async g) txn = Some row0 \<longrightarrow> as_response_body row0 = None)
         \<longrightarrow> verdict = Inr Approved
           \<and> (\<exists>out. sign (se_crypto E) payload bundle = Inr out \<and> b = se_output_json E out)
           \<and> (\<forall>timeout late now world.
                st_channel task \<in> {AgentReflected, Dashboard}
                \<and> verdict = fst (snd (wait_for_decision (st_channel task) txn timeout late now world))
                \<longrightarrow> (\<exists>k \<le> timeout. \<exists>tbl. fst (world k) = Inr tbl
                     \<and> get_pending_approval_status txn tbl = Some ''approved'')))"
proof -
  from handle_sign_read [OF assms] obtain keys agent others cred end_user req payload where
    h: "header_text hs ''x-tap-key'' = Some keys"
      "authenticate_keys (se_gateway E) L (parse_tap_keys keys) = agent # others"
      "header_text hs ''x-tap-credential'' = Some cred" "asserted_end_user hs = Inr end_user"
      "read_sign_body E body = Inr (req, payload)"
      "sign_with_credential E L (agent # others) cred end_user req payload s = (Queued txn, s')" by blast
  from sign_with_credential_queued [OF h(6)] obtain a j s1 where
    c: "select_agent L (agent # others) end_user cred = Inr a"
      "prepare_sign E L (aa_id (hd (agent # others))) a end_user (effective_name end_user cred) req payload = Inr j"
      "sn_tasks s1 = sn_tasks s" "queue_sign E L j s1 = (Queued txn, s')" by blast
  from prepare_sign_facts [OF c(2)] obtain config val kp display verification blind where
    p: "lk_config L (aa_team_id a) (effective_name end_user cred) = Inr (Some config)" "cc_end_user_id config = end_user"
      "lk_value L (aa_team_id a) (effective_name end_user cred) = Inr (Some val)"
      "parse_signing_credential (ge_D (se_gateway E)) val = Some kp"
      "preimage_guard (se_crypto E) (require_preimage (policy_for L (aa_team_id a) (effective_name end_user cred)))
         kp (sb_prehash req) payload = Inr (display, verification, blind)"
      "sj_value j = Some val" "sj_payload j = payload" by (metis prod_cases3)
  from queue_sign_queued [OF c(4)] obtain channel where t: "sn_tasks s' = sn_tasks s @ [sign_task_of j txn channel]"
    using c(3) by auto
  have st: "st_txn_id (sign_task_of j txn channel) = txn" "st_payload (sign_task_of j txn channel) = payload"
    "st_value (sign_task_of j txn channel) = Some val" by (simp_all add: sign_task_of_def p)
  have out: "verdict = Inr Approved \<and> (\<exists>out. sign (se_crypto E) payload kp = Inr out \<and> b = se_output_json E out)"
    if "map_of (gw_async (run_sign_async_approval E (sign_task_of j txn channel) verdict g)) txn = Some row
         \<and> as_response_body row = Some b
         \<and> (\<forall>row0. map_of (gw_async g) txn = Some row0 \<longrightarrow> as_response_body row0 = None)"
    for verdict g row b
    using signature_recorded [of E "sign_task_of j txn channel" _ g row b] that st p(4)
    by fastforce
  have mem: "a \<in> set (authenticate_keys (se_gateway E) L (parse_tap_keys keys))"
    and use: "case end_user of None \<Rightarrow> may_use L cred a | Some _ \<Rightarrow> aa_is_app a"
    using select_agent_facts [OF c(1)] h(2) by simp_all
  note guard = preimage_checked [OF p(5)]
  show ?thesis
    by (rule exI [of _ keys], rule exI [of _ a], rule exI [of _ cred], rule exI [of _ end_user], rule exI [of _ config],
        rule exI [of _ val], rule exI [of _ kp], rule exI [of _ req], rule exI [of _ payload],
        rule exI [of _ "sign_task_of j txn channel"],
        intro conjI allI impI, (fact h mem use p guard t st)+, frule out [THEN conjunct1], assumption,
        frule out [THEN conjunct2], assumption, metis approved_verdict out)
qed

definition sample_key :: signing_credential where
  "sample_key = \<lparr>sg_algorithm = Secp256k1, sg_private_key = ''scalar'', sg_key_encoding = None\<rparr>"

definition sample_sign_body :: sign_request_body where
  "sample_sign_body =
     \<lparr>sb_payload = replicate 32 CHR ''k'', sb_encoding = None, sb_payload_description = Some ''pay Bob'',
      sb_prehash = Some \<lparr>ps_preimage = ''to: Bob'', ps_preimage_encoding = None, ps_hash = ''keccak256''\<rparr>\<rparr>"

definition sample_sign_env :: sign_env where
  "sample_sign_env =
     \<lparr>se_gateway = sample_env\<lparr>ge_D := no_bundles\<lparr>de_signing := (\<lambda>v. if v = ''s3cr3t'' then Some sample_key else None)\<rparr>\<rparr>,
      se_crypto = sample_crypto, se_parse_body = (\<lambda>_. Some sample_sign_body), se_summary_json = (\<lambda>_. ''{}''),
      se_output_json = (\<lambda>out. so_signature out), se_audit_id = ''a1''\<rparr>"

definition empty_signer :: signer where
  "empty_signer = \<lparr>sn_gateway = empty_gateway, sn_tasks = []\<rparr>"

lemma sample_sign_read:
  "read_sign_body sample_sign_env body = Inr (sample_sign_body, replicate 32 CHR ''k'')"
proof -
  have "decode_input sample_crypto (replicate 32 CHR ''k'') ''hex'' = Inr (replicate 32 CHR ''k'')" by code_simp
  then show ?thesis
    by (simp add: read_sign_body_def sample_sign_env_def sample_sign_body_def or_else_def)
qed

lemma sample_sign_key:
  "parse_signing_credential (ge_D (se_gateway sample_sign_env)) ''s3cr3t'' = Some sample_key"
  by (simp add: parse_signing_credential_def sample_sign_env_def sample_key_def) code_simp

lemma sample_sign_guard:
  "\<exists>display verification. preimage_guard (se_crypto sample_sign_env) required sample_key (sb_prehash sample_sign_body)
     (replicate 32 CHR ''k'') = Inr (display, verification, False)"
proof -
  have "decode_input sample_crypto ''to: Bob'' ''utf8'' = Inr ''to: Bob''" by code_simp
  then show ?thesis
    by (simp add: preimage_guard_def sample_sign_env_def sample_sign_body_def is_ecdsa_def sample_key_def or_else_def
        verify_preimage_def hash_preimage_def sample_crypto_def)
qed

lemma sample_sign_prepared:
  "\<exists>j. prepare_sign sample_sign_env sample_lookups ''bot'' bot_agent None ''gh'' sample_sign_body
     (replicate 32 CHR ''k'') = Inr j \<and> sj_policy j = None \<and> sj_summary j = ''{}'' \<and> sj_end_user j = None"
proof -
  obtain d v where "preimage_guard (se_crypto sample_sign_env) (require_preimage None) sample_key
      (sb_prehash sample_sign_body) (replicate 32 CHR ''k'') = Inr (d, v, False)"
    using sample_sign_guard by blast
  moreover have "policy_for sample_lookups t c = None" for t c by (simp add: policy_for_def sample_lookups_def)
  moreover have "lk_config sample_lookups (aa_team_id bot_agent) ''gh'' = Inr (Some token_config)"
    "lk_value sample_lookups (aa_team_id bot_agent) ''gh'' = Inr (Some ''s3cr3t'')"
    by (simp_all add: sample_lookups_def bot_agent_def)
  moreover have "cc_end_user_id token_config = None" by (simp add: token_config_def)
  moreover have "se_summary_json sample_sign_env x = ''{}''" for x by (simp add: sample_sign_env_def)
  ultimately show ?thesis using sample_sign_key by (simp add: prepare_sign_def)
qed

lemma sample_sign_queued:
  assumes "sj_policy j = None" "sj_summary j = ''{}''" "sj_end_user j = None"
  shows "\<exists>s'. queue_sign sample_sign_env sample_lookups j empty_signer = (Queued ''r1'', s')"
proof -
  let ?G = "se_gateway sample_sign_env"
  have g: "ge_webauthn ?G = False" "ge_request_id ?G = ''r1''" "ge_inbox_fails ?G = False"
    by (simp_all add: sample_sign_env_def sample_env_def)
  have c: "approval_channel_for ?G sample_lookups (sign_approval_job ?G j) = (AgentReflected, None)"
    using assms(1,3) by (simp add: approval_channel_for_def resolve_approval_channel_def sign_approval_job_def
        sample_lookups_def)
  have b: "body_preview (Some ''{}'') = Some (Some ''{}'')" by code_simp
  have "\<exists>t'. send_via ?G AgentReflected (aj_request (sign_approval_job ?G j)) desc ctx t = Some (Inr ''r1'', t')" for desc ctx t
    by (simp add: send_via_def inbox_send_approval_request_def sign_approval_job_def sign_request_of_def assms b g)
  then obtain t' where
    "send_via ?G AgentReflected (aj_request (sign_approval_job ?G j)) desc ctx t = Some (Inr ''r1'', t' desc ctx t)"
    for desc ctx t by metis
  moreover have "lk_async_fails sample_lookups = False" "lk_save_fails sample_lookups = False"
    "gw_async (sn_gateway empty_signer) = []"
    by (simp_all add: sample_lookups_def empty_signer_def empty_gateway_def)
  ultimately show ?thesis by (simp add: queue_sign_def c g Let_def create_async_approval_def)
qed

lemma sample_sign_handled:
  "\<exists>s'. handle_sign sample_sign_env sample_lookups get_headers [] empty_signer = (Queued ''r1'', s')"
proof -
  obtain j where j: "prepare_sign sample_sign_env sample_lookups ''bot'' bot_agent None ''gh'' sample_sign_body
     (replicate 32 CHR ''k'') = Inr j" "sj_policy j = None" "sj_summary j = ''{}''" "sj_end_user j = None"
    using sample_sign_prepared by blast
  have "authenticate_keys (se_gateway sample_sign_env) sample_lookups [''key''] = [bot_agent]"
    by (simp add: authenticate_keys_def authenticate_def List.map_filter_def sample_sign_env_def sample_env_def
        sample_lookups_def bot_agent_row_def agent_of_row_def is_app_def bot_agent_def)
  moreover have "select_agent sample_lookups [bot_agent] None ''gh'' = Inr bot_agent"
    by (simp add: select_agent_def may_use_def bot_agent_def sample_lookups_def)
  moreover have "aa_id bot_agent = ''bot''" by (simp add: bot_agent_def)
  moreover have "empty_signer\<lparr>sn_gateway := note_end_user G sample_lookups t None (sn_gateway empty_signer)\<rparr> = empty_signer"
    for G t by (simp add: note_end_user_def empty_signer_def)
  ultimately show ?thesis using sample_sign_queued [OF j(2-4)] j(1)
    by (simp add: handle_sign_def sign_with_credential_def sample_headers sample_keys asserted_end_user_def
        sample_sign_read)
qed

theorem signature_needs_approval_witness:
  "case handle_sign sample_sign_env sample_lookups get_headers [] empty_signer of (resp, s') \<Rightarrow>
     resp = Queued ''r1'' \<and> (\<exists>task. sn_tasks s' = [task] \<and> st_txn_id task = ''r1'')"
proof -
  from sample_sign_handled obtain s' where
    q: "handle_sign sample_sign_env sample_lookups get_headers [] empty_signer = (Queued ''r1'', s')" by blast
  from signature_needs_approval [OF q] have "\<exists>task. sn_tasks s' = sn_tasks empty_signer @ [task] \<and> st_txn_id task = ''r1''"
    by blast
  with q show ?thesis by (simp add: empty_signer_def)
qed

section \<open>What the endpoint does not do\<close>

text \<open>
  A signature is not counted against the rate limit of its agent, unlike everything that
  \<open>handle_forward\<close> does: the limit is not even read.
\<close>

lemma sign_ignores_rate_limit:
  "handle_sign E (L\<lparr>lk_rate_limit := r, lk_counter_fails := b\<rparr>) hs body s = handle_sign E L hs body s"
proof -
  let ?L = "L\<lparr>lk_rate_limit := r, lk_counter_fails := b\<rparr>"
  have f: "lk_config ?L = lk_config L" "lk_value ?L = lk_value L" "lk_details_fail ?L = lk_details_fail L"
    "lk_save_fails ?L = lk_save_fails L" "lk_async_fails ?L = lk_async_fails L" by simp_all
  have u: "may_use ?L = may_use L" by (simp add: fun_eq_iff may_use_def)
  have a: "authenticate_keys G ?L = authenticate_keys G L" for G
    by (simp add: fun_eq_iff authenticate_keys_def authenticate_def)
  have m: "select_agent ?L = select_agent L" and o: "policy_for ?L = policy_for L"
    and n: "note_end_user G ?L = note_end_user G L"
    and q: "approval_channel_for G ?L = approval_channel_for G L" "with_default_chat ?L = with_default_chat L"
      "approval_context_for G ?L = approval_context_for G L" for G
    by (simp_all add: fun_eq_iff select_agent_def policy_for_def note_end_user_def
        approval_channel_for_def with_default_chat_def approval_context_for_def u split: option.split)
  have p: "prepare_sign E ?L = prepare_sign E L"
    unfolding fun_eq_iff prepare_sign_def f o by simp
  have s: "queue_sign E ?L = queue_sign E L"
    unfolding fun_eq_iff queue_sign_def f q by simp
  show ?thesis unfolding handle_sign_def sign_with_credential_def a m n p s ..
qed

text \<open>
  When the lookup of the policy fails, the request goes on without one: neither the pre-image nor
  the passkey that the policy demands is asked for.
\<close>

lemma failed_policy_demands_nothing:
  assumes "lk_policy L team cred = Inl e"
  shows "\<not> require_preimage (policy_for L team cred)" "\<not> passkey_required (policy_for L team cred)"
  using assms by (simp_all add: policy_for_def require_preimage_def passkey_required_def)

text \<open>Only a refusal and a signature are audited; a timeout and a failure leave no entry.\<close>

lemma sign_audited:
  "gw_audit (run_sign_async_approval E t verdict g) \<noteq> gw_audit g \<longleftrightarrow>
     verdict = Inr Denied \<or> (verdict = Inr Approved \<and> (\<exists>bundle out.
       Option.bind (st_value t) (parse_signing_credential (ge_D (se_gateway E))) = Some bundle
       \<and> sign (se_crypto E) (st_payload t) bundle = Inr out))"
  unfolding run_sign_async_approval_def Let_def
  by (auto split: sum.splits approval_status.splits option.splits)

text \<open>
  The length of a digest is checked when the signature is made, after the approval: a payload
  that cannot be signed is put before the approver as a 32-byte digest.
\<close>

lemma unsignable_is_asked_for:
  assumes "is_ecdsa cred" and "length payload \<noteq> 32"
  shows "preimage_guard C False cred None payload = Inr (None, blind_warning, True) \<and> (\<exists>e. sign C payload cred = Inl e)"
  using assms
  by (auto simp: preimage_guard_def is_ecdsa_def sign_def sign_secp256k1_def sign_p256_def split: sum.splits)

text \<open>
  The dashboard's row is first written with the whole summary; a channel with an inbox then
  writes its own details over it, whose preview ends after 500 bytes of the summary. The
  description, which the agent chooses, comes before the pre-image and the verification.
\<close>

lemma preview_cut: "body_preview body = Some (Some p) \<Longrightarrow> length p \<le> 500"
  by (auto simp: body_preview_def slice_to_def split: option.splits if_splits)

lemma inbox_overwrites_summary:
  assumes "send_via G channel request desc ctx t = Some (Inr txn, t')" and "channel \<in> {AgentReflected, Dashboard}"
  shows "\<exists>preview row. body_preview (pr_body request) = Some preview
    \<and> map_of t' (pr_id request) = Some row
    \<and> pa_details_json row = ge_details_json G (request_details (ge_summarize G) preview request ctx)"
  using assms
  by (auto simp: send_via_def inbox_send_approval_request_def save_pending_approval_scoped_def update_conv'
      new_pending_def split: option.splits if_splits)

end
