(* ===== verification/Platform_Apps.thy ===== *)
theory Platform_Apps
  imports Passkey_Approvals Gateway_Audit Signing_Keys
begin

text \<open>
  The API for platforms (\<open>tap-proxy/src/app.rs\<close>): with an app key a partner provisions end-users, their
  signing keys and credentials, relays their passkey ceremonies, and approves or denies what is
  reserved for them; a change that loosens the policy of a passkey-protected credential is
  staged until the end-user confirms it with a passkey. A request is authenticated by the
  gateway's \<open>authenticate_agent_from_headers\<close>. The database is that of the approval handlers with the
  credentials, the asynchronous approvals and the staged changes; a failing statement is named in
  \<open>F\<close>. Signing keys are those of \<open>Signing_Keys\<close>. The primitives of the curves, their random
  source, the cipher and the JSON of a policy are parameters; the policy cache is the subject
  of \<open>Db_State\<close>.
\<close>

section \<open>State\<close>

record platform =
  pf_db :: approval_db
  pf_webauthn :: "webauthn_state option"
  pf_access :: access_store
  pf_async :: async_table
  pf_changes :: policy_change_table

text \<open>The policies, with the key and the owner of every credential.\<close>

definition pf_props :: "platform \<Rightarrow> prop_store" where
  "pf_props p = (gs_props (db_grants (pf_db p)))
     \<lparr>ps_credentials := (\<lambda>k. map_option (cr_end_user_id \<circ> fst) (map_of (ax_credentials (pf_access p)) k))\<rparr>"

definition pf_set_policy :: "faults \<Rightarrow> policy_row \<Rightarrow> platform \<Rightarrow> (agent_sec_error, platform) result" where
  "pf_set_policy F row p =
     (if F ''set_policy'' then Inl (Config ''Failed to set policy'')
      else case set_policy row (pf_props p) of
        Inl e \<Rightarrow> Inl e
      | Inr q \<Rightarrow> Inr (p\<lparr>pf_db := (pf_db p)\<lparr>db_grants := (db_grants (pf_db p))\<lparr>gs_props := q\<rparr>\<rparr>\<rparr>))"

section \<open>Crates\<close>

text \<open>
  \<open>serde_json\<close> on the bundles of \<open>Routing\<close>, on a value, on a policy and on the bundle of a generated key,
  the primitives of the curves, and the scalar that their generator draws.
\<close>

record platform_crates =
  pc_deserializers :: deserializers
  pc_to_string :: "json \<Rightarrow> string"
  pc_policy_json :: "policy_row \<Rightarrow> string"
  pc_parse_policy :: "string \<Rightarrow> policy_row option"
  pc_crypto :: crypto
  pc_bundle_json :: "signing_credential \<Rightarrow> string"
  pc_random :: "algorithm \<Rightarrow> bytes"

section \<open>Authentication\<close>

text \<open>A refusal has its status and its \<open>error_code\<close> (or \<open>error\<close>).\<close>

datatype app_reply =
    AppRefused nat string
  | UserActive string
  | UserList "end_user_row list"
  | KeyCreated string string key_identity
  | KeyList "(string \<times> string \<times> key_identity option) list"
  | CredentialCreated string string
  | AppChallenge string
  | PasskeyRegisteredFor string
  | ApprovedFor string
  | DeniedFor string
  | PolicySet string string
  | ChangeStaged string
  | ChangeApplied string

definition app_internal_error :: app_reply where
  "app_internal_error = AppRefused 503 ''Service temporarily unavailable''"

definition require_app :: "gateway_env \<Rightarrow> lookups \<Rightarrow> headers \<Rightarrow> (app_reply, authenticated_agent) result" where
  "require_app E L hs =
     (case authenticate_agent_from_headers E L hs of
        Inl (Refused n e) \<Rightarrow> Inl (AppRefused n e)
      | Inl _ \<Rightarrow> Inl app_internal_error
      | Inr a \<Rightarrow> if aa_is_app a then Inr a else Inl (AppRefused 403 ''not_an_app_key''))"

definition end_user_approver_name :: "string \<Rightarrow> string \<Rightarrow> string" where
  "end_user_approver_name team ext = ''eu:'' @ team @ '':'' @ ext"

definition strip_namespace :: "string \<Rightarrow> string \<Rightarrow> string" where
  "strip_namespace ext stored = or_else (strip_prefix stored (''eu:'' @ ext @ ''/'')) stored"

definition validate_logical_name :: "string \<Rightarrow> app_reply option" where
  "validate_logical_name name =
     (if trim name = [] \<or> contains name ''/'' \<or> starts_with name ''eu:''
      then Some (AppRefused 400 ''invalid_credential_name'') else None)"

section \<open>Users, keys and credentials\<close>

definition pf_upsert ::
  "faults \<Rightarrow> string \<Rightarrow> string \<Rightarrow> string option \<Rightarrow> timestamp \<Rightarrow> platform \<Rightarrow> (agent_sec_error, platform) result" where
  "pf_upsert F team ext display now p =
     (if F ''upsert_end_user'' then Inl (Config ''Failed to upsert end-user'')
      else case upsert_end_user team ext display now (pf_access p) of
        Inl e \<Rightarrow> Inl e
      | Inr ax \<Rightarrow> Inr (p\<lparr>pf_access := ax\<rparr>))"

definition handle_create_user ::
  "faults \<Rightarrow> authenticated_agent \<Rightarrow> string \<Rightarrow> string option \<Rightarrow> timestamp \<Rightarrow> platform \<Rightarrow> app_reply \<times> platform" where
  "handle_create_user F a ext display now p =
     (if trim ext = [] then (AppRefused 400 ''invalid_end_user'', p)
      else case pf_upsert F (aa_team_id a) (trim ext) display now p of
        Inl e \<Rightarrow> (app_internal_error, p)
      | Inr p1 \<Rightarrow> (UserActive (trim ext), p1))"

definition handle_list_users :: "faults \<Rightarrow> authenticated_agent \<Rightarrow> platform \<Rightarrow> app_reply" where
  "handle_list_users F a p =
     (if F ''list_end_users'' then app_internal_error else UserList (list_end_users (aa_team_id a) (pf_access p)))"

definition default_app_policy :: "string \<Rightarrow> string \<Rightarrow> policy_row" where
  "default_app_policy team cred =
     \<lparr>pr_credential_name = cred, pr_team_id = team, pr_auto_approve_methods = [''GET'', ''HEAD''],
      pr_require_approval_methods = [''POST'', ''PUT'', ''PATCH'', ''DELETE'', ''OPTIONS''],
      pr_auto_approve_urls = [], pr_require_approval_urls = [], pr_allowed_approvers = [],
      pr_approval_channel = Some ''app'', pr_telegram_chat_id = None, pr_matrix_room_id = None,
      pr_matrix_allowed_approvers = [], pr_require_passkey = False, pr_min_approvals = 1\<rparr>"

definition set_default_app_policy ::
  "faults \<Rightarrow> authenticated_agent \<Rightarrow> string \<Rightarrow> platform \<Rightarrow> (app_reply, platform) result" where
  "set_default_app_policy F a cred p =
     (case pf_set_policy F (default_app_policy (aa_team_id a) cred) p of
        Inl e \<Rightarrow> Inl app_internal_error
      | Inr p1 \<Rightarrow> Inr p1)"

text \<open>The key of the cipher, and its nonce for this value, come with the cipher.\<close>

record sealing =
  se_cipher :: cipher
  se_key :: bytes
  se_nonce :: bytes

text \<open>
  What both creations share after their checks: the end-user, the row under its name in the namespace
  and its first policy. \<open>exists_code\<close> is the \<open>error_code\<close> of a name that is taken.
\<close>

definition provision ::
  "faults \<Rightarrow> sealing \<Rightarrow> authenticated_agent \<Rightarrow> string \<Rightarrow> string \<Rightarrow> string \<Rightarrow> string \<Rightarrow> string option \<Rightarrow> string option \<Rightarrow> bytes
    \<Rightarrow> string \<Rightarrow> app_reply \<Rightarrow> timestamp \<Rightarrow> platform \<Rightarrow> app_reply \<times> platform" where
  "provision F S a ext name description connector api_base header_format plaintext exists_code reply now p =
     (case pf_upsert F (aa_team_id a) ext None now p of
        Inl e \<Rightarrow> (app_internal_error, p)
      | Inr p1 \<Rightarrow>
          let stored = end_user_cred_name ext name;
              row = \<lparr>cr_name = stored, cr_team_id = aa_team_id a, cr_description = description,
                     cr_connector = connector, cr_api_base = api_base, cr_relative_target = False,
                     cr_auth_header_format = header_format, cr_auth_bindings_json = None, cr_allowed_hosts_json = None,
                     cr_end_user_id = Some ext, cr_app_id = Some (aa_id a), cr_created_at = now, cr_updated_at = now\<rparr>
          in case (if F ''create_credential_scoped_for_app'' then Inl (Config ''Failed to create credential'')
                   else create_credential_scoped_for_app (se_cipher S) (se_key S) (se_nonce S) row (Some plaintext) now
                          (pf_access p1)) of
            Inl (AlreadyExists _) \<Rightarrow> (AppRefused 409 exists_code, p1)
          | Inl _ \<Rightarrow> (app_internal_error, p1)
          | Inr ax \<Rightarrow>
              let p2 = p1\<lparr>pf_access := ax\<rparr> in
              (case set_default_app_policy F a stored p2 of Inl r \<Rightarrow> (r, p2) | Inr p3 \<Rightarrow> (reply, p3)))"

text \<open>The bundle to store and the public identity to show.\<close>

definition key_material ::
  "platform_crates \<Rightarrow> algorithm \<Rightarrow> json option \<Rightarrow> (app_reply, string \<times> key_identity) result" where
  "key_material C alg value =
     (case value of
        None \<Rightarrow>
          (case generate (pc_crypto C) (pc_bundle_json C) (pc_random C alg) alg of
             Inl e \<Rightarrow> Inl app_internal_error
           | Inr g \<Rightarrow> Inr (gk_bundle g, gk_identity g))
      | Some v \<Rightarrow>
          (case (case v of JString s \<Rightarrow> Some s | JObject m \<Rightarrow> Some (pc_to_string C v) | _ \<Rightarrow> None) of
             None \<Rightarrow> Inl (AppRefused 400 ''invalid_value'')
           | Some supplied \<Rightarrow>
               (case parse_signing_credential (pc_deserializers C) supplied of
                  None \<Rightarrow> Inl (AppRefused 400 ''invalid_signing_bundle'')
                | Some c \<Rightarrow>
                    if sg_algorithm c \<noteq> alg then Inl (AppRefused 400 ''algorithm_mismatch'')
                    else (case validate_import (pc_crypto C) c of
                        Inl e \<Rightarrow> Inl (AppRefused 400 ''invalid_signing_key'')
                      | Inr _ \<Rightarrow>
                          (case public_identity (pc_crypto C) c of
                             Inl e \<Rightarrow> Inl (AppRefused 400 ''invalid_signing_key'')
                           | Inr pub \<Rightarrow> Inr (supplied, pub))))))"

text \<open>
  The identity that the creation of a key announces is the one that its stored bundle signs under,
  for a supplied bundle always, and for a generated one when the crates read back what they wrote.
\<close>

lemma key_material_identity:
  assumes "key_material C alg supplied = Inr (stored, pub)"
    and "supplied = None \<Longrightarrow> key_laws (pc_crypto C) (pc_deserializers C) (pc_bundle_json C) (pc_random C alg)"
  shows "\<exists>cred. parse_signing_credential (pc_deserializers C) stored = Some cred
    \<and> public_identity (pc_crypto C) cred = Inr pub"
proof (cases supplied)
  case None
  with assms generated_key_listed show ?thesis
    by (auto simp: key_material_def split: sum.splits)
next
  case (Some v)
  with assms(1) show ?thesis
    by (auto simp: key_material_def split: option.splits sum.splits if_splits json.splits)
qed

lemma announced_identity_signs:
  assumes "key_material C alg supplied = Inr (stored, pub)"
    and "supplied = None \<Longrightarrow> key_laws (pc_crypto C) (pc_deserializers C) (pc_bundle_json C) (pc_random C alg)"
    and "parse_signing_credential (pc_deserializers C) stored = Some cred"
    and "sign (pc_crypto C) payload cred = Inr out"
  shows "so_public_key out = ki_public_key pub \<and> so_address out = ki_address pub"
  using key_material_identity [OF assms(1,2)] assms(3) signature_identity [OF assms(4)] by auto

definition handle_create_key ::
  "faults \<Rightarrow> platform_crates \<Rightarrow> sealing \<Rightarrow> authenticated_agent \<Rightarrow> string \<Rightarrow> string \<Rightarrow> string \<Rightarrow> string option \<Rightarrow> json option
    \<Rightarrow> timestamp \<Rightarrow> platform \<Rightarrow> app_reply \<times> platform" where
  "handle_create_key F C S a ext name algorithm description value now p =
     (case validate_logical_name name of
        Some r \<Rightarrow> (r, p)
      | None \<Rightarrow>
          (case parse_algorithm algorithm of
             None \<Rightarrow> (AppRefused 400 ''invalid_algorithm'', p)
           | Some alg \<Rightarrow>
               (case key_material C alg value of
                  Inl r \<Rightarrow> (r, p)
                | Inr (bundle, pub) \<Rightarrow>
                    provision F S a ext name
                      (or_else description (name @ '' signing key ('' @ algorithm_as_str alg @ '')''))
                      ''sidecar'' (Some ''tap:sign'') None bundle ''key_exists'' (KeyCreated ext name pub) now p)))"

definition handle_list_keys ::
  "faults \<Rightarrow> platform_crates \<Rightarrow> (string \<Rightarrow> string \<Rightarrow> string option) \<Rightarrow> authenticated_agent \<Rightarrow> string \<Rightarrow> platform \<Rightarrow> app_reply" where
  "handle_list_keys F C credential_value a ext p =
     (if F ''list_end_user_credentials'' then app_internal_error
      else KeyList (map (\<lambda>c. (strip_namespace ext (cr_name c), cr_description c,
              Option.bind (Option.bind (credential_value (aa_team_id a) (cr_name c)) (parse_signing_credential (pc_deserializers C)))
                (\<lambda>sig. case public_identity (pc_crypto C) sig of Inl _ \<Rightarrow> None | Inr pub \<Rightarrow> Some pub)))
            (filter (\<lambda>c. cr_api_base c = Some ''tap:sign'') (list_end_user_credentials (aa_team_id a) ext (pf_access p)))))"

definition handle_create_credential ::
  "faults \<Rightarrow> platform_crates \<Rightarrow> sealing \<Rightarrow> authenticated_agent \<Rightarrow> string \<Rightarrow> string \<Rightarrow> string option \<Rightarrow> string option \<Rightarrow> string option
    \<Rightarrow> string option \<Rightarrow> json \<Rightarrow> timestamp \<Rightarrow> platform \<Rightarrow> app_reply \<times> platform" where
  "handle_create_credential F C S a ext name description connector api_base header_format value now p =
     (case validate_logical_name name of
        Some r \<Rightarrow> (r, p)
      | None \<Rightarrow>
          (case (case value of JString s \<Rightarrow> Some s | JObject m \<Rightarrow> Some (pc_to_string C value) | _ \<Rightarrow> None) of
             None \<Rightarrow> (AppRefused 400 ''invalid_value'', p)
           | Some plaintext \<Rightarrow>
               if parse_signing_credential (pc_deserializers C) plaintext \<noteq> None then (AppRefused 400 ''signing_bundle_rejected'', p)
               else provision F S a ext name (or_else description (name @ '' credential'')) (or_else connector ''direct'')
                      api_base header_format plaintext ''credential_exists'' (CredentialCreated ext name) now p))"

section \<open>Passkey ceremonies\<close>

text \<open>Methods of \<open>WebAuthnState\<close> on the platform; without WebAuthn a handler answers 503.\<close>

definition pf_on_webauthn ::
  "webauthn_state \<Rightarrow> (approval_db \<Rightarrow> webauthn_state \<Rightarrow> 'r \<times> approval_db \<times> webauthn_state) \<Rightarrow> platform \<Rightarrow> 'r \<times> platform" where
  "pf_on_webauthn w f p = (case f (pf_db p) w of (r, d, w') \<Rightarrow> (r, p\<lparr>pf_db := d, pf_webauthn := Some w'\<rparr>))"

definition webauthn_unavailable :: app_reply where
  "webauthn_unavailable = AppRefused 503 ''webauthn_unavailable''"

definition handle_passkey_register_begin ::
  "faults \<Rightarrow> authenticated_agent \<Rightarrow> string \<Rightarrow> string option \<Rightarrow> timestamp \<Rightarrow> platform \<Rightarrow> app_reply \<times> platform" where
  "handle_passkey_register_begin F a ext challenge now p =
     (case pf_webauthn p of
        None \<Rightarrow> (webauthn_unavailable, p)
      | Some w \<Rightarrow>
          (case pf_on_webauthn w (begin_registration F (end_user_approver_name (aa_team_id a) ext) ext challenge now) p of
             (Inl e, p1) \<Rightarrow> (app_internal_error, p1)
           | (Inr c, p1) \<Rightarrow> (AppChallenge c, p1)))"

definition handle_passkey_register_finish ::
  "faults \<Rightarrow> ('a approval_crates_scheme) \<Rightarrow> authenticated_agent \<Rightarrow> string \<Rightarrow> string \<Rightarrow> timestamp \<Rightarrow> platform
    \<Rightarrow> app_reply \<times> platform" where
  "handle_passkey_register_finish F W a ext reg now p =
     (case pf_webauthn p of
        None \<Rightarrow> (webauthn_unavailable, p)
      | Some w \<Rightarrow>
          let p1 = (case pf_upsert F (aa_team_id a) ext None now p of Inl _ \<Rightarrow> p | Inr p' \<Rightarrow> p') in
          (case pf_on_webauthn w (finish_registration F W (end_user_approver_name (aa_team_id a) ext) reg now) p1 of
             (Inl e, p2) \<Rightarrow> (AppRefused 403 ''passkey_registration_failed'', p2)
           | (Inr _, p2) \<Rightarrow> (PasskeyRegisteredFor ext, p2)))"

definition require_team_txn :: "faults \<Rightarrow> authenticated_agent \<Rightarrow> string \<Rightarrow> platform \<Rightarrow> app_reply option" where
  "require_team_txn F a txn p =
     (if F ''get_async_approval'' then Some app_internal_error
      else case get_async_approval txn (pf_async p) of
        Some row \<Rightarrow> if as_team_id row = aa_team_id a then None else Some (AppRefused 404 ''txn_not_found'')
      | None \<Rightarrow> Some (AppRefused 404 ''txn_not_found''))"

text \<open>The beginning of a ceremony of one end-user, for a request or a staged change.\<close>

definition begin_for_end_user ::
  "faults \<Rightarrow> ('a approval_crates_scheme) \<Rightarrow> authenticated_agent \<Rightarrow> string \<Rightarrow> string \<Rightarrow> string \<Rightarrow> timestamp \<Rightarrow> platform
    \<Rightarrow> app_reply \<times> platform" where
  "begin_for_end_user F W a ext txn nonce now p =
     (case pf_webauthn p of
        None \<Rightarrow> (webauthn_unavailable, p)
      | Some w \<Rightarrow>
          (case pf_on_webauthn w
                  (begin_approval_for_approver F W txn (end_user_approver_name (aa_team_id a) ext) nonce now) p of
             (Inr st, p1) \<Rightarrow> (AppChallenge st, p1)
           | (Inl e, p1) \<Rightarrow>
               (if e = Internal no_passkey_text then AppRefused 412 ''no_passkey'' else app_internal_error, p1)))"

definition handle_approval_passkey_begin ::
  "faults \<Rightarrow> ('a approval_crates_scheme) \<Rightarrow> authenticated_agent \<Rightarrow> string \<Rightarrow> string \<Rightarrow> string \<Rightarrow> timestamp \<Rightarrow> platform
    \<Rightarrow> app_reply \<times> platform" where
  "handle_approval_passkey_begin F W a ext txn nonce now p =
     (case require_team_txn F a txn p of
        Some r \<Rightarrow> (r, p)
      | None \<Rightarrow> begin_for_end_user F W a ext txn nonce now p)"

definition handle_approval_passkey_finish ::
  "faults \<Rightarrow> ('a approval_crates_scheme) \<Rightarrow> authenticated_agent \<Rightarrow> string \<Rightarrow> string \<Rightarrow> string \<Rightarrow> timestamp \<Rightarrow> platform
    \<Rightarrow> app_reply \<times> platform" where
  "handle_approval_passkey_finish F W a ext txn auth now p =
     (case require_team_txn F a txn p of
        Some r \<Rightarrow> (r, p)
      | None \<Rightarrow>
          (case pf_webauthn p of
             None \<Rightarrow> (webauthn_unavailable, p)
           | Some w \<Rightarrow>
               (case finish_approval_for_approver F W txn (end_user_approver_name (aa_team_id a) ext) auth now (pf_db p) w of
                  (Inl e, d1, w1) \<Rightarrow>
                    (if e = no_challenge then AppRefused 409 ''stale_challenge''
                     else AppRefused 403 ''passkey_verification_failed'', p\<lparr>pf_db := d1, pf_webauthn := Some w1\<rparr>)
                | (Inr _, d1, w1) \<Rightarrow>
                    (case resolve_approval_for_end_user F txn Approved ext d1 w1 of
                       (resolved, d2, w2) \<Rightarrow>
                         (if resolved then ApprovedFor ext else AppRefused 410 ''session_expired'',
                          p\<lparr>pf_db := d2, pf_webauthn := Some w2\<rparr>)))))"

section \<open>Approval by the app\<close>

text \<open>The checks of the credential and its policy; \<open>None\<close> lets the app approve.\<close>

definition app_may_approve ::
  "faults \<Rightarrow> ('a approval_crates_scheme) \<Rightarrow> authenticated_agent \<Rightarrow> string \<Rightarrow> string \<Rightarrow> timestamp \<Rightarrow> platform \<Rightarrow> app_reply option" where
  "app_may_approve F W a ext txn now p =
     (if F ''get_pending_approval_details'' then Some app_internal_error
      else case get_pending_approval_details txn now (db_pending (pf_db p)) of
        None \<Rightarrow> Some (AppRefused 404 ''approval_not_found'')
      | Some json \<Rightarrow>
          (case parse_details W json of
             None \<Rightarrow> Some app_internal_error
           | Some x \<Rightarrow>
               if ad_team_id x \<noteq> aa_team_id a then Some (AppRefused 404 ''txn_not_found'')
               else if F ''get_credential'' then Some app_internal_error
               else (case get_credential (aa_team_id a) (ad_credential_name x) (pf_access p) of
                   None \<Rightarrow> Some (AppRefused 404 ''credential_not_found'')
                 | Some cred \<Rightarrow>
                     if cr_end_user_id cred \<noteq> Some ext then Some (AppRefused 403 ''end_user_mismatch'')
                     else if cr_app_id cred \<noteq> Some (aa_id a) then Some (AppRefused 403 ''app_mismatch'')
                     else if F ''get_policy'' then Some app_internal_error
                     else (case get_policy (aa_team_id a) (ad_credential_name x) (pf_props p) of
                         None \<Rightarrow> Some (AppRefused 403 ''app_approval_not_allowed'')
                       | Some policy \<Rightarrow>
                           if pr_require_passkey policy then Some (AppRefused 403 ''passkey_required'')
                           else if pr_approval_channel policy \<noteq> Some ''app''
                           then Some (AppRefused 403 ''app_approval_not_allowed'')
                           else None))))"

definition app_handle_approval_approve ::
  "faults \<Rightarrow> ('a approval_crates_scheme) \<Rightarrow> authenticated_agent \<Rightarrow> string \<Rightarrow> string \<Rightarrow> timestamp \<Rightarrow> platform
    \<Rightarrow> app_reply \<times> platform" where
  "app_handle_approval_approve F W a ext txn now p =
     (case require_team_txn F a txn p of
        Some r \<Rightarrow> (r, p)
      | None \<Rightarrow>
          (case app_may_approve F W a ext txn now p of
             Some r \<Rightarrow> (r, p)
           | None \<Rightarrow>
               let answer = (\<lambda>b. if b then ApprovedFor ext else AppRefused 410 ''session_expired'') in
               (case pf_webauthn p of
                  Some w \<Rightarrow>
                    (case resolve_approval_for_end_user F txn Approved ext (pf_db p) w of
                       (b, d, w') \<Rightarrow> (answer b, p\<lparr>pf_db := d, pf_webauthn := Some w'\<rparr>))
                | None \<Rightarrow>
                    if F ''resolve_pending_approval_as_end_user'' then (app_internal_error, p)
                    else (case resolve_pending_approval_as_end_user txn ''approved'' ext (Some (aa_id a))
                                 (db_pending (pf_db p)) of
                        (b, t) \<Rightarrow> (answer b, p\<lparr>pf_db := (pf_db p)\<lparr>db_pending := t\<rparr>\<rparr>)))))"

definition app_handle_approval_deny ::
  "faults \<Rightarrow> authenticated_agent \<Rightarrow> string \<Rightarrow> string \<Rightarrow> timestamp \<Rightarrow> platform \<Rightarrow> app_reply \<times> platform" where
  "app_handle_approval_deny F a ext txn now p =
     (case require_team_txn F a txn p of
        Some r \<Rightarrow> (r, p)
      | None \<Rightarrow>
          (DeniedFor ext,
           case pf_webauthn p of
             Some w \<Rightarrow> snd (pf_on_webauthn w (wa_resolve_approval F txn Denied now) p)
           | None \<Rightarrow>
               if F ''resolve_pending_approval'' then p
               else p\<lparr>pf_db := (pf_db p)\<lparr>db_pending :=
                      snd (resolve_pending_approval txn ''denied'' (Some ext) now (db_pending (pf_db p)))\<rparr>\<rparr>))"

section \<open>The policy of an end-user's credential\<close>

record app_policy_update =
  up_auto_approve_methods :: "string list"
  up_require_approval_methods :: "string list"
  up_auto_approve_urls :: "string list"
  up_require_approval_urls :: "string list option"
  up_allowed_approvers :: "string list"
  up_require_passkey :: bool
  up_min_approvals :: "32 word"

definition proposed_policy :: "string \<Rightarrow> string \<Rightarrow> app_policy_update \<Rightarrow> string list \<Rightarrow> policy_row" where
  "proposed_policy team cred req urls =
     \<lparr>pr_credential_name = cred, pr_team_id = team, pr_auto_approve_methods = up_auto_approve_methods req,
      pr_require_approval_methods = up_require_approval_methods req, pr_auto_approve_urls = up_auto_approve_urls req,
      pr_require_approval_urls = urls, pr_allowed_approvers = up_allowed_approvers req,
      pr_approval_channel = (if up_require_passkey req then None else Some ''app''), pr_telegram_chat_id = None,
      pr_matrix_room_id = None, pr_matrix_allowed_approvers = [], pr_require_passkey = up_require_passkey req,
      pr_min_approvals = max (up_min_approvals req) 1\<rparr>"

text \<open>
  The fresh identifier of a staged change is an argument. Both statements of the check of the lock fail
  under one name.
\<close>

definition handle_set_end_user_policy ::
  "faults \<Rightarrow> platform_crates \<Rightarrow> authenticated_agent \<Rightarrow> string \<Rightarrow> string \<Rightarrow> app_policy_update \<Rightarrow> string \<Rightarrow> timestamp \<Rightarrow> platform
    \<Rightarrow> app_reply \<times> platform" where
  "handle_set_end_user_policy F C a ext name req new_id now p =
     (let team = aa_team_id a;
          cred = end_user_cred_name ext name
      in if up_require_approval_urls req = None \<and> F ''get_policy'' then (AppRefused 500 ''Failed to get policy'', p)
      else let urls = (case up_require_approval_urls req of
                 Some us \<Rightarrow> us
               | None \<Rightarrow> (case get_policy team cred (pf_props p) of Some cur \<Rightarrow> pr_require_approval_urls cur | None \<Rightarrow> []));
               proposed = proposed_policy team cred req urls
           in if F ''end_user_policy_lock'' then (app_internal_error, p)
           else case end_user_policy_lock team cred proposed (pf_props p) of
             None \<Rightarrow>
               (case pf_set_policy F proposed p of
                  Inl e \<Rightarrow> (app_internal_error, p)
                | Inr p1 \<Rightarrow> (PolicySet ext name, p1))
           | Some owner \<Rightarrow>
               (case (if F ''create_pending_policy_change'' then Inl (Config ''Failed to stage policy change'')
                      else create_pending_policy_change new_id team cred ext (pc_policy_json C proposed) (now + 15 * 60) now
                             (pf_changes p)) of
                  Inl e \<Rightarrow> (app_internal_error, p)
                | Inr t \<Rightarrow> (ChangeStaged new_id, p\<lparr>pf_changes := t\<rparr>)))"

definition handle_policy_change_passkey_begin ::
  "faults \<Rightarrow> ('a approval_crates_scheme) \<Rightarrow> authenticated_agent \<Rightarrow> string \<Rightarrow> string \<Rightarrow> string \<Rightarrow> timestamp \<Rightarrow> platform
    \<Rightarrow> app_reply \<times> platform" where
  "handle_policy_change_passkey_begin F W a ext txn nonce now p =
     (if F ''get_pending_policy_change'' then (app_internal_error, p)
      else case get_pending_policy_change txn (pf_changes p) of
        None \<Rightarrow> (AppRefused 404 ''txn_not_found'', p)
      | Some c \<Rightarrow>
          if pcr_team_id c = aa_team_id a \<and> pcr_required_end_user c = ext \<and> pcr_status c = ''pending''
          then begin_for_end_user F W a ext txn nonce now p
          else (AppRefused 404 ''txn_not_found'', p))"

definition handle_policy_change_passkey_finish ::
  "faults \<Rightarrow> ('a approval_crates_scheme) \<Rightarrow> platform_crates \<Rightarrow> authenticated_agent \<Rightarrow> string \<Rightarrow> string \<Rightarrow> string \<Rightarrow> timestamp \<Rightarrow> platform
    \<Rightarrow> app_reply \<times> platform" where
  "handle_policy_change_passkey_finish F W C a ext txn auth now p =
     (if F ''get_pending_policy_change'' then (app_internal_error, p)
      else case get_pending_policy_change txn (pf_changes p) of
        None \<Rightarrow> (AppRefused 404 ''txn_not_found'', p)
      | Some c \<Rightarrow>
          if \<not> (pcr_team_id c = aa_team_id a \<and> pcr_required_end_user c = ext) then (AppRefused 404 ''txn_not_found'', p)
          else (case pf_webauthn p of
              None \<Rightarrow> (webauthn_unavailable, p)
            | Some w \<Rightarrow>
                (case pf_on_webauthn w
                        (finish_approval_for_approver F W txn (end_user_approver_name (aa_team_id a) ext) auth now) p of
                   (Inl e, p1) \<Rightarrow> (AppRefused 403 ''passkey_verification_failed'', p1)
                 | (Inr _, p1) \<Rightarrow>
                     if F ''claim_pending_policy_change'' then (app_internal_error, p1)
                     else (case claim_pending_policy_change txn ext now (pf_changes p1) of
                         (False, t) \<Rightarrow> (AppRefused 409 ''already_resolved'', p1\<lparr>pf_changes := t\<rparr>)
                       | (True, t) \<Rightarrow>
                           let p2 = p1\<lparr>pf_changes := t\<rparr> in
                           (case pc_parse_policy C (pcr_proposed_policy_json c) of
                              None \<Rightarrow> (app_internal_error, p2)
                            | Some proposed \<Rightarrow>
                                (case pf_set_policy F proposed p2 of
                                   Inl e \<Rightarrow> (app_internal_error, p2)
                                 | Inr p3 \<Rightarrow> (ChangeApplied ext, p3)))))))"

section \<open>Requests\<close>

text \<open>Every handler begins with \<open>require_app\<close>.\<close>

datatype app_request =
    CreateUser string "string option"
  | CreateKey string string string "string option" "json option"
  | CreateCredential string string "string option" "string option" "string option" "string option" json
  | PasskeyRegisterBegin string "string option"
  | PasskeyRegisterFinish string string
  | ApprovalPasskeyBegin string string string
  | ApprovalPasskeyFinish string string string
  | AppApprove string string
  | AppDeny string string
  | SetEndUserPolicy string string app_policy_update string
  | PolicyChangeBegin string string string
  | PolicyChangeFinish string string string

record app_world =
  av_env :: gateway_env
  av_lookups :: lookups
  av_faults :: faults
  av_passkeys :: approval_crates
  av_crates :: platform_crates
  av_sealing :: sealing
  av_now :: timestamp

fun app_handle :: "app_world \<Rightarrow> authenticated_agent \<Rightarrow> app_request \<Rightarrow> platform \<Rightarrow> app_reply \<times> platform" where
  "app_handle V a (CreateUser ext d) p = handle_create_user (av_faults V) a ext d (av_now V) p"
| "app_handle V a (CreateKey ext n alg d v) p =
     handle_create_key (av_faults V) (av_crates V) (av_sealing V) a ext n alg d v (av_now V) p"
| "app_handle V a (CreateCredential ext n d c b h v) p =
     handle_create_credential (av_faults V) (av_crates V) (av_sealing V) a ext n d c b h v (av_now V) p"
| "app_handle V a (PasskeyRegisterBegin ext c) p = handle_passkey_register_begin (av_faults V) a ext c (av_now V) p"
| "app_handle V a (PasskeyRegisterFinish ext r) p =
     handle_passkey_register_finish (av_faults V) (av_passkeys V) a ext r (av_now V) p"
| "app_handle V a (ApprovalPasskeyBegin ext txn nonce) p =
     handle_approval_passkey_begin (av_faults V) (av_passkeys V) a ext txn nonce (av_now V) p"
| "app_handle V a (ApprovalPasskeyFinish ext txn auth) p =
     handle_approval_passkey_finish (av_faults V) (av_passkeys V) a ext txn auth (av_now V) p"
| "app_handle V a (AppApprove ext txn) p =
     app_handle_approval_approve (av_faults V) (av_passkeys V) a ext txn (av_now V) p"
| "app_handle V a (AppDeny ext txn) p = app_handle_approval_deny (av_faults V) a ext txn (av_now V) p"
| "app_handle V a (SetEndUserPolicy ext n req i) p =
     handle_set_end_user_policy (av_faults V) (av_crates V) a ext n req i (av_now V) p"
| "app_handle V a (PolicyChangeBegin ext txn nonce) p =
     handle_policy_change_passkey_begin (av_faults V) (av_passkeys V) a ext txn nonce (av_now V) p"
| "app_handle V a (PolicyChangeFinish ext txn auth) p =
     handle_policy_change_passkey_finish (av_faults V) (av_passkeys V) (av_crates V) a ext txn auth (av_now V) p"

definition app_step :: "app_world \<Rightarrow> headers \<Rightarrow> app_request \<Rightarrow> platform \<Rightarrow> app_reply \<times> platform" where
  "app_step V hs req p =
     (case require_app (av_env V) (av_lookups V) hs of Inl r \<Rightarrow> (r, p) | Inr a \<Rightarrow> app_handle V a req p)"

section \<open>Names\<close>

lemma split_at_colon: "CHR '':'' \<notin> set a \<Longrightarrow> CHR '':'' \<notin> set b \<Longrightarrow> a @ CHR '':'' # x = b @ CHR '':'' # y \<Longrightarrow> a = b \<and> x = y"
  by (metis split_once_Some option.inject prod.inject)

text \<open>Two end-users share no name as approvers, and two credentials no name in the store, as long as no
  team has a colon in its identifier and every logical name passed the check.\<close>

lemma end_user_approver_name_inj:
  assumes "CHR '':'' \<notin> set team" and "CHR '':'' \<notin> set team'"
    and "end_user_approver_name team ext = end_user_approver_name team' ext'"
  shows "team = team' \<and> ext = ext'"
  using assms split_at_colon [of team team' ext ext'] by (simp add: end_user_approver_name_def)

lemma contains_char: "contains s [c] \<longleftrightarrow> c \<in> set s"
  by (induction s) auto

lemma logical_name_no_slash: "validate_logical_name n = None \<Longrightarrow> CHR ''/'' \<notin> set n"
  by (auto simp: validate_logical_name_def contains_char split: if_splits)

lemma end_user_cred_name_inj:
  assumes "validate_logical_name n = None" and "validate_logical_name n' = None"
    and "end_user_cred_name ext n = end_user_cred_name ext' n'"
  shows "ext = ext' \<and> n = n'"
proof -
  have "rev n @ CHR ''/'' # rev ext = rev n' @ CHR ''/'' # rev ext'"
    using arg_cong [OF assms(3), of rev] by (simp add: end_user_cred_name_def)
  with assms(1,2) [THEN logical_name_no_slash]
  have "split_once CHR ''/'' (rev n @ CHR ''/'' # rev ext) = Some (rev n, rev ext)"
    "split_once CHR ''/'' (rev n @ CHR ''/'' # rev ext) = Some (rev n', rev ext')"
    by (auto simp: split_once_Some)
  then show ?thesis by simp
qed

lemma strip_namespace_inverse: "strip_namespace ext (end_user_cred_name ext n) = n"
  by (simp add: strip_namespace_def end_user_cred_name_def strip_prefix_def or_else_def)

section \<open>What the handlers do to the tables\<close>

abbreviation ppend :: "platform \<Rightarrow> pending_table" where
  "ppend p \<equiv> db_pending (pf_db p)"

lemma pf_upsert_keeps:
  "pf_upsert F team ext d now p = Inr p1 \<Longrightarrow> pf_db p1 = pf_db p \<and> ax_credentials (pf_access p1) = ax_credentials (pf_access p)
    \<and> pf_changes p1 = pf_changes p"
  by (auto simp: pf_upsert_def upsert_end_user_def split: if_splits sum.splits option.splits)

lemma pf_set_policy_keeps: "pf_set_policy F row p = Inr p1 \<Longrightarrow> ppend p1 = ppend p \<and> pf_access p1 = pf_access p"
  by (auto simp: pf_set_policy_def split: if_splits sum.splits)

lemma pf_set_policy_reads:
  assumes "pf_set_policy F row p = Inr p1"
  shows "get_policy team cred (pf_props p1) =
    (if (team, cred) = (pr_team_id row, pr_credential_name row)
     then Some (row\<lparr>pr_min_approvals := stored_min (pr_min_approvals row)\<rparr>) else get_policy team cred (pf_props p))"
proof -
  from assms obtain q where q: "set_policy row (pf_props p) = Inr q"
    "p1 = p\<lparr>pf_db := (pf_db p)\<lparr>db_grants := (db_grants (pf_db p))\<lparr>gs_props := q\<rparr>\<rparr>\<rparr>"
    by (auto simp: pf_set_policy_def split: if_splits sum.splits)
  have "get_policy team cred (pf_props p1) = get_policy team cred q" by (simp add: q(2) pf_props_def get_policy_def)
  with get_set_policy [OF q(1), of team cred] show ?thesis by simp
qed

lemma created_was_absent:
  "create_credential_scoped_for_app K key nonce row v now s = Inr s'
    \<Longrightarrow> map_of (ax_credentials s) (cr_team_id row, cr_name row) = None"
  by (cases "map_of (ax_credentials s) (cr_team_id row, cr_name row)")
    (auto simp: create_credential_scoped_for_app_def split: sum.splits option.splits if_splits)

lemma provision_keeps:
  assumes "provision F S a ext n d c b h v code reply now p = (r, p1)"
  shows "ppend p1 = ppend p"
    and "map_of (ax_credentials (pf_access p)) (team, cred) \<noteq> None
      \<Longrightarrow> get_policy team cred (pf_props p1) = get_policy team cred (pf_props p)"
proof -
  have same: "get_policy team cred (pf_props p') = get_policy team cred (pf_props p'')"
    if "pf_db p' = pf_db p''" for p' p'' using that by (simp add: pf_props_def get_policy_def)
  show "ppend p1 = ppend p"
    using assms
    by (auto simp: provision_def set_default_app_policy_def Let_def dest!: pf_upsert_keeps pf_set_policy_keeps
        split: sum.splits agent_sec_error.splits)
  show "get_policy team cred (pf_props p1) = get_policy team cred (pf_props p)"
    if "map_of (ax_credentials (pf_access p)) (team, cred) \<noteq> None"
  proof (cases "pf_db p1 = pf_db p")
    case False
    from assms False obtain p0 ax where up: "pf_upsert F (aa_team_id a) ext None now p = Inr p0"
      and ax: "create_credential_scoped_for_app (se_cipher S) (se_key S) (se_nonce S)
        \<lparr>cr_name = end_user_cred_name ext n, cr_team_id = aa_team_id a, cr_description = d, cr_connector = c,
         cr_api_base = b, cr_relative_target = False, cr_auth_header_format = h, cr_auth_bindings_json = None,
         cr_allowed_hosts_json = None, cr_end_user_id = Some ext, cr_app_id = Some (aa_id a), cr_created_at = now,
         cr_updated_at = now\<rparr> (Some v) now (pf_access p0) = Inr ax"
      and pol: "pf_set_policy F (default_app_policy (aa_team_id a) (end_user_cred_name ext n)) (p0\<lparr>pf_access := ax\<rparr>) = Inr p1"
      by (auto simp: provision_def set_default_app_policy_def Let_def dest: pf_upsert_keeps
          split: sum.splits agent_sec_error.splits if_splits)
    from ax have "map_of (ax_credentials (pf_access p0)) (aa_team_id a, end_user_cred_name ext n) = None"
      using created_was_absent by fastforce
    with that pf_upsert_keeps [OF up] have "(team, cred) \<noteq> (aa_team_id a, end_user_cred_name ext n)" by auto
    with pf_set_policy_reads [OF pol, of team cred] pf_upsert_keeps [OF up] show ?thesis
      by (auto simp: default_app_policy_def pf_props_def get_policy_def)
  qed (rule same)
qed

lemma set_end_user_policy_keeps: "ppend (snd (handle_set_end_user_policy F C a ext n req i now p)) = ppend p"
  by (auto simp: handle_set_end_user_policy_def Let_def dest: pf_set_policy_keeps split: sum.splits option.splits)

lemma register_keeps:
  "ppend (snd (handle_passkey_register_begin F a ext c now p)) = ppend p"
  "ppend (snd (handle_passkey_register_finish F W a ext r now p)) = ppend p"
  "gs_props (db_grants (pf_db (snd (handle_passkey_register_begin F a ext c now p)))) = gs_props (db_grants (pf_db p))"
  "gs_props (db_grants (pf_db (snd (handle_passkey_register_finish F W a ext r now p)))) = gs_props (db_grants (pf_db p))"
proof -
  let ?n = "end_user_approver_name (aa_team_id a) ext"
  show "ppend (snd (handle_passkey_register_begin F a ext c now p)) = ppend p"
    "gs_props (db_grants (pf_db (snd (handle_passkey_register_begin F a ext c now p)))) = gs_props (db_grants (pf_db p))"
    using begin_registration_keeps [of F ?n ext c now "pf_db p"]
    by (simp_all add: handle_passkey_register_begin_def pf_on_webauthn_def split: option.splits prod.splits sum.splits)
      (metis fst_conv snd_conv)+
  have "pf_db (case pf_upsert F t ext None now p of Inl _ \<Rightarrow> p | Inr p' \<Rightarrow> p') = pf_db p" for t
    by (auto dest: pf_upsert_keeps split: sum.splits)
  then show "ppend (snd (handle_passkey_register_finish F W a ext r now p)) = ppend p"
    "gs_props (db_grants (pf_db (snd (handle_passkey_register_finish F W a ext r now p)))) = gs_props (db_grants (pf_db p))"
    by (auto simp: handle_passkey_register_finish_def pf_on_webauthn_def Let_def dest: finish_registration_keeps
        split: option.splits prod.splits sum.splits)
qed

lemma begin_for_end_user_table:
  "approves_none (ppend p) (ppend (snd (begin_for_end_user F W a ext txn nonce now p)))"
  "gs_props (db_grants (pf_db (snd (begin_for_end_user F W a ext txn nonce now p)))) = gs_props (db_grants (pf_db p))"
proof -
  have g: "db_grants (fst (snd (begin_with F W none ps k nonce now d w))) = db_grants d" for none ps k d w
    by (auto simp: begin_with_def split: option.splits)
  have "snd (begin_for_end_user F W a ext txn nonce now p) = p \<or> (\<exists>w none ps.
      pf_db (snd (begin_for_end_user F W a ext txn nonce now p)) = fst (snd (begin_with F W none ps txn nonce now (pf_db p) w)))"
    by (auto simp: begin_for_end_user_def begin_approval_for_approver_def pf_on_webauthn_def split: option.splits prod.splits sum.splits)
       (metis fst_conv snd_conv)+
  then show "approves_none (ppend p) (ppend (snd (begin_for_end_user F W a ext txn nonce now p)))"
    "gs_props (db_grants (pf_db (snd (begin_for_end_user F W a ext txn nonce now p)))) = gs_props (db_grants (pf_db p))"
    using begin_table [of "pf_db p" F W _ _ txn nonce now] g by (metis approves_none_refl)+
qed

section \<open>Reserved approvals\<close>

definition end_user_passkey_shown ::
  "app_world \<Rightarrow> authenticated_agent \<Rightarrow> string \<Rightarrow> string \<Rightarrow> string \<Rightarrow> platform \<Rightarrow> bool" where
  "end_user_passkey_shown V a ext txn auth p \<longleftrightarrow>
     (\<exists>w st k. pf_webauthn p = Some w \<and> challenge_issued txn (pf_db p) w st
        \<and> k \<in> set (approver_passkeys_for (av_faults V) (av_passkeys V) (end_user_approver_name (aa_team_id a) ext) (pf_db p) w)
        \<and> authenticated_credential (av_passkeys V) st auth = Some (cred_id (av_passkeys V) k))"

definition app_mediated ::
  "app_world \<Rightarrow> authenticated_agent \<Rightarrow> string \<Rightarrow> string \<Rightarrow> platform \<Rightarrow> bool" where
  "app_mediated V a ext txn p \<longleftrightarrow>
     (\<exists>json x cred policy. get_pending_approval_details txn (av_now V) (ppend p) = Some json
        \<and> parse_details (av_passkeys V) json = Some x \<and> ad_team_id x = aa_team_id a
        \<and> get_credential (aa_team_id a) (ad_credential_name x) (pf_access p) = Some cred
        \<and> cr_end_user_id cred = Some ext \<and> cr_app_id cred = Some (aa_id a)
        \<and> get_policy (aa_team_id a) (ad_credential_name x) (pf_props p) = Some policy
        \<and> \<not> pr_require_passkey policy \<and> pr_approval_channel policy = Some ''app'')"

definition txn_of_team :: "authenticated_agent \<Rightarrow> string \<Rightarrow> platform \<Rightarrow> bool" where
  "txn_of_team a txn p \<longleftrightarrow> (\<exists>row. get_async_approval txn (pf_async p) = Some row \<and> as_team_id row = aa_team_id a)"

lemma require_team_txn_None: "require_team_txn F a txn p = None \<Longrightarrow> txn_of_team a txn p"
  by (auto simp: require_team_txn_def txn_of_team_def split: if_splits option.splits)

lemma app_may_approve_None:
  "app_may_approve (av_faults V) (av_passkeys V) a ext txn (av_now V) p = None \<Longrightarrow> app_mediated V a ext txn p"
  by (auto simp: app_may_approve_def app_mediated_def split: if_splits option.splits)

text \<open>The identity-scoped gate approves a row that was pending and reserved for the very end-user.\<close>

definition reserved_for :: "string \<Rightarrow> string \<Rightarrow> pending_table \<Rightarrow> bool" where
  "reserved_for ext k t \<longleftrightarrow> decision_of k t = Some (''pending'', Some ext)"

lemma end_user_gate:
  assumes "approved_row j (snd (resolve_pending_approval_as_end_user k st ext who t))" and "\<not> approved_row j t"
  shows "j = k \<and> reserved_for ext k t"
  using assms
  by (auto simp: resolve_pending_approval_as_end_user_def reserved_for_def row_defs split: option.splits if_splits)

lemma resolve_for_end_user_gate:
  assumes "resolve_approval_for_end_user F k st ext d w = (b, d1, w1)" and "approved_row j (db_pending d1)"
    and "\<not> approved_row j (db_pending d)"
  shows "j = k \<and> reserved_for ext k (db_pending d)"
  using assms end_user_gate [of j k "decision_str st" ext "Some ext" "db_pending d"]
  by (auto simp: resolve_approval_for_end_user_def Let_def split: prod.splits if_splits)

lemma finish_approver_Inr:
  assumes "finish_approval_for_approver F W txn name auth now d w = (Inr u, d1, w1)"
  shows "\<exists>st k. challenge_issued txn d w st \<and> k \<in> set (approver_passkeys_for F W name d w)
    \<and> authenticated_credential W st auth = Some (cred_id W k)"
proof -
  from assms obtain cred where pc: "prove_credential F W txn auth now d w = (Inr cred, d1, w1)"
    and own: "list_ex (\<lambda>p. cred_id W p = cred) (approver_passkeys_for F W name d1 w1)"
    by (auto simp: finish_approval_for_approver_def split: prod.splits sum.splits if_splits)
  from prove_credential_Inr [OF pc] obtain st t where st: "challenge_issued txn d w st"
    "authenticated_credential W st auth = Some cred" "d1 = d\<lparr>db_pending := t\<rparr>"
    "w1 = w\<lparr>ws_approval_challenges := (ws_approval_challenges w)(txn := None)\<rparr>" by blast
  then have "approver_passkeys_for F W name d1 w1 = approver_passkeys_for F W name d w"
    by (intro session_passkeys_cong) simp_all
  with own st(1,2) show ?thesis by (auto simp: list_ex_iff)
qed

lemma finish_approver_keeps:
  assumes "finish_approval_for_approver F W txn name auth now d w = (r, d1, w1)"
  shows "decision_of j (db_pending d1) = decision_of j (db_pending d)" and "db_grants d1 = db_grants d"
proof -
  have "db_grants (fst (snd (prove_credential F W txn auth now d w))) = db_grants d"
    by (auto simp: prove_credential_def take_challenge_def Let_def split: prod.splits sum.splits option.splits if_splits)
  with assms prove_keeps_decision [of j F W txn auth now d w]
  show "decision_of j (db_pending d1) = decision_of j (db_pending d)" "db_grants d1 = db_grants d"
    by (auto simp: finish_approval_for_approver_def split: prod.splits sum.splits if_splits)
qed

lemma passkey_finish_gate:
  assumes "approved_row j (ppend (snd (handle_approval_passkey_finish (av_faults V) (av_passkeys V) a ext txn auth now p)))"
    and "\<not> approved_row j (ppend p)"
  shows "j = txn \<and> reserved_for ext txn (ppend p) \<and> txn_of_team a txn p \<and> end_user_passkey_shown V a ext txn auth p"
proof -
  let ?F = "av_faults V" and ?W = "av_passkeys V"
  from assms obtain w where w: "require_team_txn ?F a txn p = None" "pf_webauthn p = Some w"
    by (cases "require_team_txn ?F a txn p"; cases "pf_webauthn p") (auto simp: handle_approval_passkey_finish_def)
  obtain r d1 w1 where "finish_approval_for_approver ?F ?W txn (end_user_approver_name (aa_team_id a) ext) auth now (pf_db p) w
    = (r, d1, w1)" by (metis prod_cases3)
  note start = w this
  note same = finish_approver_keeps(1) [OF start(3)]
  have not: "\<not> approved_row j (db_pending d1)" using assms(2) same by (simp add: approved_row_def)
  then obtain u where u: "r = Inr u"
    using assms(1) start by (cases r) (auto simp: handle_approval_passkey_finish_def)
  obtain b d2 w2 where res: "resolve_approval_for_end_user ?F txn Approved ext d1 w1 = (b, d2, w2)" by (metis prod_cases3)
  with assms(1) start u have "approved_row j (db_pending d2)" by (simp add: handle_approval_passkey_finish_def)
  from resolve_for_end_user_gate [OF res this not] same have "j = txn \<and> reserved_for ext txn (ppend p)"
    by (simp add: reserved_for_def)
  moreover have "end_user_passkey_shown V a ext txn auth p"
    using finish_approver_Inr [OF start(3) [unfolded u]] start(2) by (auto simp: end_user_passkey_shown_def)
  ultimately show ?thesis using require_team_txn_None [OF start(1)] by blast
qed

lemma app_approve_gate:
  assumes "approved_row j (ppend (snd (app_handle_approval_approve (av_faults V) (av_passkeys V) a ext txn (av_now V) p)))"
    and "\<not> approved_row j (ppend p)"
  shows "j = txn \<and> reserved_for ext txn (ppend p) \<and> txn_of_team a txn p \<and> app_mediated V a ext txn p"
proof -
  let ?F = "av_faults V" and ?W = "av_passkeys V"
  from assms have start: "require_team_txn ?F a txn p = None" "app_may_approve ?F ?W a ext txn (av_now V) p = None"
    by (auto simp: app_handle_approval_approve_def split: option.splits)
  have "j = txn \<and> reserved_for ext txn (ppend p)"
  proof (cases "pf_webauthn p")
    case None
    with assms start end_user_gate [of j txn "''approved''" ext "Some (aa_id a)" "ppend p"]
    show ?thesis by (auto simp: app_handle_approval_approve_def Let_def split: prod.splits if_splits)
  next
    case (Some w)
    obtain b d2 w2 where res: "resolve_approval_for_end_user ?F txn Approved ext (pf_db p) w = (b, d2, w2)"
      by (metis prod_cases3)
    with assms start Some resolve_for_end_user_gate [OF res, of j]
    show ?thesis by (simp add: app_handle_approval_approve_def Let_def)
  qed
  with require_team_txn_None [OF start(1)] app_may_approve_None [OF start(2)] show ?thesis by blast
qed

lemma deny_gate: "approves_none (ppend p) (ppend (snd (app_handle_approval_deny F a ext txn now p)))"
  using wa_resolve_table(2) [of "pf_db p" F txn None now] resolve_approves_none [of "''denied''" "ppend p" txn "Some ext" now]
  by (auto simp: app_handle_approval_deny_def pf_on_webauthn_def wa_resolve_approval_def split: option.splits prod.splits)
    (metis fst_conv snd_conv)

lemma change_finish_gate:
  "decision_of j (ppend (snd (handle_policy_change_passkey_finish F W C a ext txn auth now p))) = decision_of j (ppend p)"
  by (auto simp: handle_policy_change_passkey_finish_def pf_on_webauthn_def Let_def
      dest!: finish_approver_keeps(1) [where j = j] pf_set_policy_keeps
      split: option.splits prod.splits sum.splits bool.splits)

section \<open>The lock\<close>

lemma policy_cong:
  "gs_props (db_grants (pf_db p')) = gs_props (db_grants (pf_db p)) \<Longrightarrow>
    get_policy team cred (pf_props p') = get_policy team cred (pf_props p)"
  by (simp add: pf_props_def get_policy_def)

lemma pf_props_frame [simp]:
  "pf_props (p\<lparr>pf_changes := t\<rparr>) = pf_props p" "pf_props (p\<lparr>pf_webauthn := w\<rparr>) = pf_props p"
  by (simp_all add: pf_props_def)

lemma resolves_keep_grants:
  "resolve_approval_for_end_user F k st ext d w = (b, d1, w1) \<Longrightarrow> db_grants d1 = db_grants d"
  "wa_resolve_approval F k st now d w = (b, d1, w1) \<Longrightarrow> db_grants d1 = db_grants d"
  by (auto simp: resolve_approval_for_end_user_def wa_resolve_approval_def wa_resolve_approval_as_def Let_def
      split: prod.splits if_splits)

lemma approvals_keep_policies:
  "gs_props (db_grants (pf_db (snd (handle_approval_passkey_finish F W a ext txn auth now p)))) = gs_props (db_grants (pf_db p))"
  "gs_props (db_grants (pf_db (snd (app_handle_approval_approve F W a ext txn now p)))) = gs_props (db_grants (pf_db p))"
  "gs_props (db_grants (pf_db (snd (app_handle_approval_deny F a ext txn now p)))) = gs_props (db_grants (pf_db p))"
  by (auto simp: handle_approval_passkey_finish_def app_handle_approval_approve_def app_handle_approval_deny_def
      pf_on_webauthn_def Let_def dest!: finish_approver_keeps(2) resolves_keep_grants
      split: option.splits prod.splits sum.splits)

lemma create_user_keeps:
  "pf_db (snd (handle_create_user F a ext d now p)) = pf_db p"
  by (auto simp: handle_create_user_def dest: pf_upsert_keeps split: sum.splits)

lemma provisioning_keeps:
  "ppend (snd (handle_create_key F C S a ext n alg d v now p)) = ppend p"
  "ppend (snd (handle_create_credential F C S a ext n d c b h x now p)) = ppend p"
  by (auto simp: handle_create_key_def handle_create_credential_def split: option.splits sum.splits json.splits)
    (metis provision_keeps(1) prod.collapse)+

lemma provisioning_keeps_policy:
  assumes "map_of (ax_credentials (pf_access p)) (team, cred) \<noteq> None"
  shows "get_policy team cred (pf_props (snd (handle_create_key F C S a ext n alg d v now p))) = get_policy team cred (pf_props p)"
    and "get_policy team cred (pf_props (snd (handle_create_credential F C S a ext n d c b h x now p)))
      = get_policy team cred (pf_props p)"
proof -
  have *: "get_policy team cred (pf_props (snd (provision F S a ext n d' c' b' h' v' code reply now p)))
      = get_policy team cred (pf_props p)" for d' c' b' h' v' code reply
    using provision_keeps(2) [OF prod.collapse [symmetric] assms] .
  show "get_policy team cred (pf_props (snd (handle_create_key F C S a ext n alg d v now p))) = get_policy team cred (pf_props p)"
    by (simp add: handle_create_key_def * split: option.splits sum.splits prod.splits)
  show "get_policy team cred (pf_props (snd (handle_create_credential F C S a ext n d c b h x now p)))
      = get_policy team cred (pf_props p)"
    by (simp add: handle_create_credential_def * split: option.splits json.splits)
qed

definition wraps_approvals :: "app_request \<Rightarrow> bool" where
  "wraps_approvals req \<longleftrightarrow> (\<exists>ext n u i. req = SetEndUserPolicy ext n u i \<and> 2 ^ 31 \<le> uint (up_min_approvals u))"

definition change_confirmed ::
  "app_world \<Rightarrow> headers \<Rightarrow> app_request \<Rightarrow> string \<Rightarrow> string \<Rightarrow> platform \<Rightarrow> bool" where
  "change_confirmed V hs req team cred p \<longleftrightarrow>
     (\<exists>a ext txn auth c q. require_app (av_env V) (av_lookups V) hs = Inr a \<and> req = PolicyChangeFinish ext txn auth
        \<and> get_pending_policy_change txn (pf_changes p) = Some c \<and> pcr_team_id c = aa_team_id a
        \<and> pcr_required_end_user c = ext \<and> pcr_status c = ''pending'' \<and> av_now V < pcr_expires_at c
        \<and> end_user_passkey_shown V a ext txn auth p
        \<and> pc_parse_policy (av_crates V) (pcr_proposed_policy_json c) = Some q
        \<and> pr_team_id q = team \<and> pr_credential_name q = cred)"

lemma stored_min_small: "uint n < 2 ^ 31 \<Longrightarrow> stored_min (max n 1) = max n 1"
  by (simp add: stored_min_def max_def)

lemma set_end_user_policy_result:
  assumes "handle_set_end_user_policy F C a ext n u i now p = (r, p1)"
  obtains (same) "pf_props p1 = pf_props p"
  | (written) urls where
      "pf_set_policy F (proposed_policy (aa_team_id a) (end_user_cred_name ext n) u urls) p = Inr p1"
      "end_user_policy_lock (aa_team_id a) (end_user_cred_name ext n)
         (proposed_policy (aa_team_id a) (end_user_cred_name ext n) u urls) (pf_props p) = None"
  using assms that unfolding handle_set_end_user_policy_def Let_def
  by (cases "F ''end_user_policy_lock''"; cases "F ''create_pending_policy_change''")
    (auto split: if_splits sum.splits option.splits)

lemma set_policy_locked:
  assumes "ps_credentials (pf_props p) (team, cred) = Some (Some owner)" and "get_policy team cred (pf_props p) = Some cur"
    and "pr_require_passkey cur" and "uint (up_min_approvals u) < 2 ^ 31"
    and "handle_set_end_user_policy F C a ext n u i now p = (r, p1)" and "get_policy team cred (pf_props p1) = Some new"
  shows "permissive_changes (Some (policy_view_from_row cur)) (policy_view_from_row new) = []"
  using assms(5)
proof (cases rule: set_end_user_policy_result)
  case same
  with assms(2,6) show ?thesis by (simp add: permissive_changes_refl)
next
  case (written urls)
  let ?q = "proposed_policy (aa_team_id a) (end_user_cred_name ext n) u urls"
  show ?thesis
  proof (cases "(team, cred) = (aa_team_id a, end_user_cred_name ext n)")
    case True
    then have "new = ?q"
      using pf_set_policy_reads [OF written(1), of team cred] assms(4,6) stored_min_small [of "up_min_approvals u"]
      by (simp add: proposed_policy_def)
    with True lock_None_no_change [OF written(2)] assms(1-3) show ?thesis by simp
  next
    case False
    with pf_set_policy_reads [OF written(1), of team cred] assms(2,6) have "new = cur" by (auto simp: proposed_policy_def)
    then show ?thesis by (simp add: permissive_changes_refl)
  qed
qed

lemma change_finish_confirmed:
  assumes "get_policy team cred (pf_props (snd (handle_policy_change_passkey_finish (av_faults V) (av_passkeys V) (av_crates V) a
      ext txn auth (av_now V) p))) \<noteq> get_policy team cred (pf_props p)"
    and "require_app (av_env V) (av_lookups V) hs = Inr a"
  shows "change_confirmed V hs (PolicyChangeFinish ext txn auth) team cred p"
proof -
  let ?F = "av_faults V" and ?W = "av_passkeys V" and ?name = "end_user_approver_name (aa_team_id a) ext"
  from assms(1) obtain c w where c: "get_pending_policy_change txn (pf_changes p) = Some c" "pcr_team_id c = aa_team_id a"
    "pcr_required_end_user c = ext" "pf_webauthn p = Some w" "\<not> ?F ''get_pending_policy_change''"
    by (auto simp: handle_policy_change_passkey_finish_def split: if_splits option.splits)
  obtain r d1 w1 where f: "finish_approval_for_approver ?F ?W txn ?name auth (av_now V) (pf_db p) w = (r, d1, w1)"
    by (metis prod_cases3)
  let ?p1 = "p\<lparr>pf_db := d1, pf_webauthn := Some w1\<rparr>"
  have same: "get_policy team cred (pf_props ?p1) = get_policy team cred (pf_props p)"
    using finish_approver_keeps(2) [OF f] by (intro policy_cong) simp
  have step: "snd (handle_policy_change_passkey_finish ?F ?W (av_crates V) a ext txn auth (av_now V) p) =
    snd (case r of
        Inl e \<Rightarrow> (AppRefused 403 ''passkey_verification_failed'', ?p1)
      | Inr _ \<Rightarrow>
          if ?F ''claim_pending_policy_change'' then (app_internal_error, ?p1)
          else (case claim_pending_policy_change txn ext (av_now V) (pf_changes p) of
              (False, t) \<Rightarrow> (AppRefused 409 ''already_resolved'', ?p1\<lparr>pf_changes := t\<rparr>)
            | (True, t) \<Rightarrow>
                (case pc_parse_policy (av_crates V) (pcr_proposed_policy_json c) of
                   None \<Rightarrow> (app_internal_error, ?p1\<lparr>pf_changes := t\<rparr>)
                 | Some q \<Rightarrow>
                     (case pf_set_policy ?F q (?p1\<lparr>pf_changes := t\<rparr>) of
                        Inl e \<Rightarrow> (app_internal_error, ?p1\<lparr>pf_changes := t\<rparr>)
                      | Inr p3 \<Rightarrow> (ChangeApplied ext, p3)))))"
    unfolding handle_policy_change_passkey_finish_def pf_on_webauthn_def Let_def by (simp add: c f split: sum.splits)
  from assms(1) [unfolded step] same obtain u t q p2 where q: "r = Inr u"
    "claim_pending_policy_change txn ext (av_now V) (pf_changes p) = (True, t)"
    "pc_parse_policy (av_crates V) (pcr_proposed_policy_json c) = Some q" "pf_set_policy ?F q (?p1\<lparr>pf_changes := t\<rparr>) = Inr p2"
    "get_policy team cred (pf_props p2) \<noteq> get_policy team cred (pf_props p)"
    by (cases r; cases "claim_pending_policy_change txn ext (av_now V) (pf_changes p)")
      (auto split: if_splits option.splits sum.splits bool.splits)
  have "pcr_status c = ''pending'' \<and> av_now V < pcr_expires_at c"
    using q(2) c(1) by (auto simp: claim_pending_policy_change_def get_pending_policy_change_def split: option.splits if_splits)
  moreover have "pr_team_id q = team \<and> pr_credential_name q = cred"
    using pf_set_policy_reads [OF q(4), of team cred] q(5) same by (simp split: if_splits)
  moreover have "end_user_passkey_shown V a ext txn auth p"
    using finish_approver_Inr [OF f [unfolded q(1)]] c(4) by (auto simp: end_user_passkey_shown_def)
  ultimately show ?thesis using c q assms(2) unfolding change_confirmed_def by blast
qed

section \<open>Properties\<close>

text \<open>C10. The platform API turns a row into an approved one only if the row is pending and reserved for an
  end-user, the request carries an app key of the team that owns the transaction, and either
  the assertion it relays answers a challenge issued for the transaction with a passkey
  registered for that end-user in that team, or the credential was created by this very app for
  this end-user and its policy requires no passkey and names the app as its approver.\<close>

theorem reserved_approval_authorised:
  assumes "approved_row txn (ppend (snd (app_step V hs req p)))" and "\<not> approved_row txn (ppend p)"
  shows "\<exists>a ext. require_app (av_env V) (av_lookups V) hs = Inr a \<and> reserved_for ext txn (ppend p) \<and> txn_of_team a txn p
    \<and> ((\<exists>auth. req = ApprovalPasskeyFinish ext txn auth \<and> end_user_passkey_shown V a ext txn auth p)
       \<or> req = AppApprove ext txn \<and> app_mediated V a ext txn p)"
proof (cases "require_app (av_env V) (av_lookups V) hs")
  case (Inr a)
  note a = Inr and none = approves_none_def
  show ?thesis
  proof (cases req)
    case (ApprovalPasskeyFinish ext k auth)
    with a assms passkey_finish_gate [of txn V a ext k auth "av_now V" p] show ?thesis by (auto simp: app_step_def)
  next
    case (AppApprove ext k)
    with a assms app_approve_gate [of txn V a ext k p] show ?thesis by (auto simp: app_step_def)
  next
    case (AppDeny ext k)
    with a assms deny_gate [of p "av_faults V" a ext k "av_now V"] show ?thesis by (auto simp: app_step_def none)
  next
    case (ApprovalPasskeyBegin ext k nonce)
    with a assms begin_for_end_user_table(1) [of p "av_faults V" "av_passkeys V" a ext k nonce "av_now V"]
    show ?thesis by (auto simp: app_step_def none handle_approval_passkey_begin_def split: option.splits)
  next
    case (PolicyChangeBegin ext k nonce)
    with a assms begin_for_end_user_table(1) [of p "av_faults V" "av_passkeys V" a ext k nonce "av_now V"]
    show ?thesis
      by (auto simp: app_step_def none handle_policy_change_passkey_begin_def split: option.splits if_splits)
  next
    case (PolicyChangeFinish ext k auth)
    with a assms show ?thesis by (simp add: app_step_def approved_row_def change_finish_gate)
  qed (use a assms in \<open>simp_all add: app_step_def create_user_keeps provisioning_keeps register_keeps set_end_user_policy_keeps\<close>)
qed (use assms in \<open>simp add: app_step_def\<close>)

text \<open>C11. The policy lock. While the policy of an end-user's credential requires a passkey, no request to the
  platform API replaces it by one that \<open>permissive_changes\<close> finds looser, except the end of a
  ceremony that confirms a staged change of this credential which is pending and not expired: its
  assertion answers a challenge issued for the change with a passkey registered for the end-user
  it names. The one other case is an update with \<open>2^31\<close> approvals or more, which the database reads
  back as one.\<close>

theorem passkey_lock_holds:
  assumes "ps_credentials (pf_props p) (team, cred) = Some (Some owner)" and "get_policy team cred (pf_props p) = Some cur"
    and "pr_require_passkey cur" and "get_policy team cred (pf_props (snd (app_step V hs req p))) = Some new"
    and "permissive_changes (Some (policy_view_from_row cur)) (policy_view_from_row new) \<noteq> []"
  shows "change_confirmed V hs req team cred p \<or> wraps_approvals req"
proof (cases "require_app (av_env V) (av_lookups V) hs")
  case (Inr a)
  have moved: "get_policy team cred (pf_props (snd (app_handle V a req p))) \<noteq> get_policy team cred (pf_props p)"
    using assms(2,4,5) Inr by (auto simp: app_step_def permissive_changes_refl)
  then have props: "gs_props (db_grants (pf_db (snd (app_handle V a req p)))) \<noteq> gs_props (db_grants (pf_db p))"
    using policy_cong by blast
  have there: "map_of (ax_credentials (pf_access p)) (team, cred) \<noteq> None" using assms(1) by (auto simp: pf_props_def)
  show ?thesis
  proof (cases req)
    case (SetEndUserPolicy ext n u i)
    obtain r p1 where h: "handle_set_end_user_policy (av_faults V) (av_crates V) a ext n u i (av_now V) p = (r, p1)" by fastforce
    with SetEndUserPolicy Inr assms(4) have "get_policy team cred (pf_props p1) = Some new" by (simp add: app_step_def)
    from set_policy_locked [OF assms(1-3) _ h this] assms(5) have "\<not> uint (up_min_approvals u) < 2 ^ 31" by blast
    then have "2 ^ 31 \<le> uint (up_min_approvals u)" by (simp only: linorder_not_less)
    with SetEndUserPolicy have "wraps_approvals req" unfolding wraps_approvals_def by blast
    then show ?thesis ..
  next
    case (PolicyChangeFinish ext txn auth)
    with moved change_finish_confirmed [of team cred V a ext txn auth p hs] Inr show ?thesis by simp
  next
    case (ApprovalPasskeyBegin ext k nonce)
    with props begin_for_end_user_table(2) [of "av_faults V" "av_passkeys V" a ext k nonce "av_now V" p]
    show ?thesis by (auto simp: handle_approval_passkey_begin_def split: option.splits)
  next
    case (PolicyChangeBegin ext k nonce)
    with props begin_for_end_user_table(2) [of "av_faults V" "av_passkeys V" a ext k nonce "av_now V" p]
    show ?thesis by (auto simp: handle_policy_change_passkey_begin_def split: option.splits if_splits)
  qed (use moved props there in \<open>simp_all add: provisioning_keeps_policy create_user_keeps register_keeps approvals_keep_policies\<close>)
qed (use assms in \<open>simp add: app_step_def permissive_changes_refl\<close>)

section \<open>A sample platform\<close>

definition partner_lookups :: lookups where
  "partner_lookups = sample_lookups
     \<lparr>lk_agent_by_hash := (\<lambda>h. Inr (if h = ''key'' then Some (bot_agent_row\<lparr>aw_kind := ''app''\<rparr>) else None))\<rparr>"

definition partner :: authenticated_agent where
  "partner = bot_agent\<lparr>aa_is_app := True\<rparr>"

definition loose_policy :: policy_row where
  "loose_policy = default_app_policy ''acme'' ''eu:u/api''"

definition sample_platform_crates :: platform_crates where
  "sample_platform_crates =
     \<lparr>pc_deserializers = no_bundles, pc_to_string = (\<lambda>_. []), pc_policy_json = (\<lambda>_. ''loose''),
      pc_parse_policy = (\<lambda>_. Some loose_policy), pc_crypto = sample_crypto,
      pc_bundle_json = (\<lambda>_. []), pc_random = (\<lambda>_. [])\<rparr>"

definition partner_world :: app_world where
  "partner_world =
     \<lparr>av_env = sample_env, av_lookups = partner_lookups, av_faults = (\<lambda>_. False),
      av_passkeys = sample_crates\<lparr>parse_details := (\<lambda>_. Some (sample_details\<lparr>ad_credential_name := ''eu:u/api''\<rparr>))\<rparr>,
      av_crates = sample_platform_crates,
      av_sealing = \<lparr>se_cipher = reversing_cipher, se_key = [], se_nonce = []\<rparr>, av_now = 1000\<rparr>"

definition sample_platform :: "policy_row \<Rightarrow> platform" where
  "sample_platform policy =
     \<lparr>pf_db = (hs_db acme_site)
        \<lparr>db_pending := [(''t1'', (new_pending ''{}'' ''pending'' 0 2000)\<lparr>pa_required_end_user := Some ''u''\<rparr>),
           (''c1'', (new_pending ''{}'' ''pending'' 0 2000)\<lparr>pa_approval_challenge := Some ''n''\<rparr>)],
         db_approver_passkeys := [(''k'', \<lparr>apk_approver_name = ''eu:acme:u'', apk_display_name = ''u'',
           apk_public_key_json = ''{}'', apk_created_at = 0\<rparr>)],
         db_grants := sample_grant_store\<lparr>gs_props := sample_prop_store
           \<lparr>ps_policies := [(''acme'', ''eu:u/api'') \<mapsto> (policy, 1)]\<rparr>\<rparr>\<rparr>,
      pf_webauthn = Some blank_webauthn,
      pf_access = one_team\<lparr>ax_credentials := [((''acme'', ''eu:u/api''),
        acme_credential\<lparr>cr_name := ''eu:u/api'', cr_end_user_id := Some ''u'', cr_app_id := Some ''bot''\<rparr>, None)]\<rparr>,
      pf_async = [(''t1'', \<lparr>as_txn_id = ''t1'', as_agent_id = ''bot'', as_team_id = ''acme'', as_status = ''pending'',
        as_created_at = 0, as_expires_at = 2000, as_response_status = None, as_response_headers_json = None,
        as_response_body = None, as_response_error = None\<rparr>)],
      pf_changes = [(''c1'', \<lparr>pcr_team_id = ''acme'', pcr_credential_name = ''eu:u/api'', pcr_required_end_user = ''u'',
        pcr_proposed_policy_json = ''loose'', pcr_status = ''pending'', pcr_created_at = 0, pcr_expires_at = 2000\<rparr>)]\<rparr>"

lemma partner_authenticated:
  "require_app (av_env partner_world) (av_lookups partner_world) get_headers = Inr partner"
  by (simp add: require_app_def authenticate_agent_from_headers_def sample_headers authenticate_def partner_world_def
      partner_lookups_def sample_lookups_def sample_env_def agent_of_row_def bot_agent_row_def is_app_def partner_def bot_agent_def)

lemma sample_crates_simps [simp]:
  "is_passkey_json sample_crates j" "cred_id sample_crates k = k" "is_state_json sample_crates j"
  "authenticated_credential sample_crates st a = (if a = st @ ''-signed'' then Some ''{}'' else None)"
  by (simp_all add: sample_crates_def sample_webauthn_def webauthn.defs approval_crates.defs)

lemma sample_policy: "get_policy ''acme'' ''eu:u/api'' (pf_props (sample_platform q)) = Some (q\<lparr>pr_min_approvals := 1\<rparr>)"
  by (simp add: get_policy_def pf_props_def sample_platform_def acme_site_def)

theorem reserved_approval_authorised_witness:
  "reserved_for ''u'' ''t1'' (ppend (sample_platform loose_policy)) \<and> app_mediated partner_world partner ''u'' ''t1'' (sample_platform loose_policy)"
proof -
  let ?p = "sample_platform loose_policy"
  have who: "aa_team_id partner = ''acme''" "aa_id partner = ''bot''" by (simp_all add: partner_def bot_agent_def)
  have "get_credential ''acme'' ''eu:u/api'' (pf_access ?p)
      = Some (acme_credential\<lparr>cr_name := ''eu:u/api'', cr_end_user_id := Some ''u'', cr_app_id := Some ''bot''\<rparr>)"
    "get_pending_approval_details ''t1'' 1000 (ppend ?p) = Some ''{}''"
    by (simp_all add: sample_platform_def get_credential_def get_pending_approval_details_def new_pending_def)
  then have may: "app_may_approve (av_faults partner_world) (av_passkeys partner_world) partner ''u'' ''t1'' 1000 ?p = None"
    using sample_policy [of loose_policy]
    by (simp add: app_may_approve_def who partner_world_def sample_details_def loose_policy_def default_app_policy_def)
  have "approved_row ''t1'' (db_pending (fst (snd (resolve_approval_for_end_user (av_faults partner_world) ''t1'' Approved ''u''
      (pf_db ?p) blank_webauthn))))"
    by (simp add: sample_platform_def partner_world_def blank_webauthn_def new_pending_def resolve_approval_for_end_user_def
        resolve_pending_approval_as_end_user_def forget_details_def wa_signal_def approved_row_def decision_of_def)
  moreover have "require_team_txn (av_faults partner_world) partner ''t1'' ?p = None" "pf_webauthn ?p = Some blank_webauthn"
    "av_now partner_world = 1000"
    by (simp_all add: require_team_txn_def get_async_approval_def sample_platform_def partner_world_def who)
  ultimately have "approved_row ''t1'' (ppend (snd (app_step partner_world get_headers (AppApprove ''u'' ''t1'') ?p)))"
    using may by (auto simp: app_step_def partner_authenticated app_handle_approval_approve_def Let_def split: prod.splits)
  moreover have "\<not> approved_row ''t1'' (ppend ?p)"
    by (simp add: sample_platform_def acme_site_def new_pending_def approved_row_def decision_of_def)
  ultimately obtain a ext where "require_app (av_env partner_world) (av_lookups partner_world) get_headers = Inr a"
    "reserved_for ext ''t1'' (ppend ?p)" "ext = ''u''" "app_mediated partner_world a ext ''t1'' ?p"
    using reserved_approval_authorised [of "''t1''" partner_world get_headers "AppApprove ''u'' ''t1''" ?p] by auto
  then show ?thesis using partner_authenticated by simp
qed

theorem passkey_lock_holds_witness:
  "change_confirmed partner_world get_headers (PolicyChangeFinish ''u'' ''c1'' ''n-signed'') ''acme'' ''eu:u/api''
     (sample_platform (loose_policy\<lparr>pr_require_passkey := True\<rparr>))"
proof -
  let ?cur = "loose_policy\<lparr>pr_require_passkey := True\<rparr>"
  let ?p = "sample_platform ?cur"
  let ?req = "PolicyChangeFinish ''u'' ''c1'' ''n-signed''"
  have "get_policy ''acme'' ''eu:u/api'' (pf_props (snd (app_step partner_world get_headers ?req ?p))) = Some loose_policy"
    by (simp add: app_step_def partner_authenticated)
      (simp add: handle_policy_change_passkey_finish_def get_pending_policy_change_def pf_on_webauthn_def
        finish_approval_for_approver_def prove_credential_def take_challenge_def take_pending_approval_challenge_def
        approver_passkeys_for_def stored_passkeys_of_def list_all_approver_passkeys_def claim_pending_policy_change_def
        pf_set_policy_def set_policy_def get_policy_def pf_props_def partner_world_def sample_platform_crates_def
        sample_platform_def acme_site_def blank_webauthn_def new_pending_def partner_def bot_agent_def or_else_def
        end_user_approver_name_def loose_policy_def default_app_policy_def Let_def)
  moreover have "ps_credentials (pf_props ?p) (''acme'', ''eu:u/api'') = Some (Some ''u'')"
    by (simp add: pf_props_def sample_platform_def)
  moreover have "permissive_changes (Some (policy_view_from_row (?cur\<lparr>pr_min_approvals := 1\<rparr>))) (policy_view_from_row loose_policy) \<noteq> []"
    by (simp add: permissive_changes_Nil_iff policy_view_from_row_def loose_policy_def default_app_policy_def)
  moreover have "\<not> wraps_approvals ?req" by (simp add: wraps_approvals_def)
  ultimately show ?thesis
    using passkey_lock_holds [of ?p "''acme''" "''eu:u/api''" "''u''" "?cur\<lparr>pr_min_approvals := 1\<rparr>" partner_world get_headers ?req
        loose_policy] sample_policy [of ?cur] by simp
qed

section \<open>Limits\<close>

text \<open>
  A number of approvals in the upper half of its range passes the lock, being larger than the one in
  force, and is read back as one.
\<close>

lemma lock_passed_by_wrap:
  assumes "handle_set_end_user_policy F C a ext n u i now p = (PolicySet ext n, p1)" and "2 ^ 31 \<le> uint (up_min_approvals u)"
    and "get_policy (aa_team_id a) (end_user_cred_name ext n) (pf_props p) \<noteq> get_policy (aa_team_id a) (end_user_cred_name ext n) (pf_props p1)"
  shows "map_option pr_min_approvals (get_policy (aa_team_id a) (end_user_cred_name ext n) (pf_props p1)) = Some 1"
  using assms(1)
proof (cases rule: set_end_user_policy_result)
  case same
  with assms(3) show ?thesis by simp
next
  case (written urls)
  have "\<not> uint (max (up_min_approvals u) 1) < 2 ^ 31" using assms(2) by (simp add: max_def word_le_def)
  with pf_set_policy_reads [OF written(1), of "aa_team_id a" "end_user_cred_name ext n"]
  show ?thesis by (simp add: proposed_policy_def stored_min_def)
qed

text \<open>
  A locked change is staged for the end-user in the path of the request, who need not be the owner of
  the credential: the handler does not check the logical name, so that the paths of two end-users may
  name one credential.
\<close>

lemma staged_for_the_path:
  assumes "handle_set_end_user_policy F C a ext n u i now p = (ChangeStaged i, p1)"
  shows "\<exists>c. get_pending_policy_change i (pf_changes p1) = Some c \<and> pcr_required_end_user c = ext
    \<and> pcr_credential_name c = end_user_cred_name ext n"
  using assms unfolding handle_set_end_user_policy_def Let_def
  by (auto simp: create_pending_policy_change_def get_pending_policy_change_def app_internal_error_def AList.update_conv'
      split: if_splits sum.splits option.splits)

lemma paths_share_credential: "end_user_cred_name ''a'' ''b/wallet'' = end_user_cred_name ''a/b'' ''wallet''"
  by (simp add: end_user_cred_name_def)

text \<open>
  A registered passkey counts as the end-user's at once, and the app key is all that a registration
  needs.
\<close>

lemma first_by_credential_covers:
  "k \<in> set ps \<Longrightarrow> cred_id W k \<in> set seen \<union> cred_id W ` set (first_by_credential W seen ps)"
proof (induction ps arbitrary: seen)
  case (Cons q ps)
  from Cons.IH [of seen] Cons.IH [of "cred_id W q # seen"] Cons.prems show ?case by auto
qed simp

lemma registered_passkey_counts:
  assumes "finish_registration F W name reg now d w = (Inr json, d1, w1)"
  shows "cred_id W json \<in> cred_id W ` set (approver_passkeys_for F W name d1 w1)"
proof -
  have "\<exists>ps. map_of (ws_credentials w1) name = Some ps \<and> json \<in> set ps"
    using assms
    by (auto simp: finish_registration_def push_credential_def AList.update_conv' split: prod.splits sum.splits option.splits)
  with first_by_credential_covers [of json _ W "[]"] show ?thesis
    by (fastforce simp: approver_passkeys_for_def or_else_def)
qed

end
