(* ===== verification/Mcp_Tokens.thy ===== *)
theory Mcp_Tokens
  imports Gateway Sessions
begin

text \<open>
  The tokens of MCP connections: the token families and consumed codes of
  \<open>tap-core/src/mcp_tokens.rs\<close>, the assertions, access and refresh tokens of
  \<open>tap-proxy/src/mcp_auth.rs\<close>, and the minting endpoints of \<open>tap-proxy/src/mcp_internal.rs\<close>. Sessions,
  passkey logins and agents are those of \<open>Sessions\<close> and \<open>Access\<close>. HMAC, base64, JSON and URLs come
  from other crates and are fields of \<open>mcp_env\<close>, as are the environment variables. Shown is that a
  disconnected connection stays disconnected, that minted tokens are accepted and for how long,
  and what the connection gives to whom.
\<close>

section \<open>Tables (mcp_tokens.rs)\<close>

record token_family =
  tf_family_id :: string
  tf_subject :: string
  tf_team_id :: string
  tf_agent_id :: string
  tf_client_id :: string
  tf_current_jti :: string
  tf_revoked :: bool
  tf_issued_at :: timestamp
  tf_expires_at :: timestamp
  tf_updated_at :: timestamp

record mcp_store =
  ms_auth :: auth_store
  ms_access :: access_store
  ms_families :: "(string \<times> token_family) list"
  ms_codes :: "(string \<times> timestamp \<times> timestamp) list"

text \<open>In \<open>F\<close> are the statements that fail.\<close>

definition record_family ::
  "faults \<Rightarrow> string \<Rightarrow> string \<Rightarrow> string \<Rightarrow> string \<Rightarrow> string \<Rightarrow> string \<Rightarrow> timestamp \<Rightarrow> timestamp \<Rightarrow> mcp_store
    \<Rightarrow> (agent_sec_error, mcp_store) result" where
  "record_family F family subject team agent client jti now expires s =
     (if F ''record_family'' \<or> map_of (ms_families s) family \<noteq> None
      then Inl (Config ''record MCP token family'')
      else Inr (s\<lparr>ms_families := ms_families s
        @ [(family, \<lparr>tf_family_id = family, tf_subject = subject, tf_team_id = team, tf_agent_id = agent,
             tf_client_id = client, tf_current_jti = jti, tf_revoked = False, tf_issued_at = now,
             tf_expires_at = expires, tf_updated_at = now\<rparr>)]\<rparr>))"

definition rotate_family ::
  "string \<Rightarrow> string \<Rightarrow> string \<Rightarrow> timestamp \<Rightarrow> mcp_store \<Rightarrow> bool \<times> mcp_store" where
  "rotate_family family old_jti new_jti now s =
     (case map_of (ms_families s) family of
        None \<Rightarrow> (False, s)
      | Some r \<Rightarrow>
          if tf_current_jti r = old_jti \<and> \<not> tf_revoked r \<and> now < tf_expires_at r
          then (True, s\<lparr>ms_families :=
                  AList.update family (r\<lparr>tf_current_jti := new_jti, tf_updated_at := now\<rparr>) (ms_families s)\<rparr>)
          else (False, s))"

definition family_is_active :: "string \<Rightarrow> timestamp \<Rightarrow> mcp_store \<Rightarrow> bool" where
  "family_is_active family now s =
     (case map_of (ms_families s) family of None \<Rightarrow> False | Some r \<Rightarrow> \<not> tf_revoked r \<and> now < tf_expires_at r)"

definition of_agent :: "string \<Rightarrow> string \<Rightarrow> token_family \<Rightarrow> bool" where
  "of_agent team agent r \<longleftrightarrow> tf_team_id r = team \<and> tf_agent_id r = agent"

definition revoke_families_for_agent ::
  "string \<Rightarrow> string \<Rightarrow> timestamp \<Rightarrow> mcp_store \<Rightarrow> nat \<times> mcp_store" where
  "revoke_families_for_agent team agent now s =
     (length (filter (\<lambda>(_, r). of_agent team agent r \<and> \<not> tf_revoked r) (ms_families s)),
      s\<lparr>ms_families := map (\<lambda>(f, r).
           (f, if of_agent team agent r \<and> \<not> tf_revoked r
               then r\<lparr>tf_revoked := True, tf_updated_at := now\<rparr> else r)) (ms_families s)\<rparr>)"

text \<open>The removal of expired codes is best effort, and comes after the insertion.\<close>

definition consume_code ::
  "faults \<Rightarrow> string \<Rightarrow> timestamp \<Rightarrow> timestamp \<Rightarrow> mcp_store \<Rightarrow> bool \<times> mcp_store" where
  "consume_code F jti expires now s =
     (let fresh = (map_of (ms_codes s) jti = None);
          codes = (if fresh then (jti, expires, now) # ms_codes s else ms_codes s)
      in (fresh, s\<lparr>ms_codes := (if F ''prune_codes'' then codes else filter (\<lambda>(_, e, _). \<not> e < now) codes)\<rparr>))"

definition family_status :: "string \<Rightarrow> mcp_store \<Rightarrow> (bool \<times> string) option" where
  "family_status family s = map_option (\<lambda>r. (tf_revoked r, tf_current_jti r)) (map_of (ms_families s) family)"

section \<open>Signed values (mcp_auth.rs)\<close>

datatype mcp_auth_error =
    MissingSigningKey | SigningKeyTooShort | MissingLocalKey | LocalKeyTooShort
  | MissingPublicUrl | InvalidPublicUrl string | InvalidRequest | InvalidToken

record authorization_assertion =
  an_request :: string
  an_subject :: string
  an_team :: string
  an_agent :: string
  an_issued_at :: timestamp
  an_expires :: timestamp

record issued_access_claims =
  ia_subject :: string
  ia_team_id :: string
  ia_agent_id :: string
  ia_client_id :: string
  ia_audience :: string
  ia_scope :: string
  ia_family_id :: string
  ia_issued_at :: timestamp
  ia_expires_at :: timestamp

record mcp_access_claims =
  ma_subject :: string
  ma_team_id :: string
  ma_agent_id :: string
  ma_scope :: string
  ma_audience :: string
  ma_family_id :: string
  ma_expires_at :: timestamp

record refresh_claims =
  rc_subject :: string
  rc_team_id :: string
  rc_agent_id :: string
  rc_client_id :: string
  rc_audience :: string
  rc_scope :: string
  rc_family_id :: string
  rc_jti :: string
  rc_issued_at :: timestamp
  rc_expires_at :: timestamp

record authorization_request_claims =
  rq_client_id :: string
  rq_redirect_uri :: string
  rq_state :: "string option"
  rq_expires_at :: timestamp

record dynamic_client =
  dc_redirect_uris :: "string list"
  dc_client_name :: "string option"
  dc_expires_at :: timestamp

record client_description =
  cd_client_name :: string
  cd_client_origin :: string
  cd_deny_url :: string

text \<open>
  A parsed URL, with what the code asks of it. \<open>mu_root_join\<close> is the URL with the path replaced by
  \<open>/\<close> and joined with a relative one, \<open>mu_append_pairs\<close> the URL with pairs appended to its query.
\<close>

record mcp_url =
  mu_scheme :: string
  mu_host_str :: "string option"
  mu_port :: "nat option"
  mu_query :: "string option"
  mu_fragment :: "string option"
  mu_cannot_be_a_base :: bool
  mu_root_join :: "string \<Rightarrow> (string, string) result"
  mu_append_pairs :: "(string \<times> string) list \<Rightarrow> string"

record mcp_env =
  me_signing_key :: "string option"
  me_local_key :: "string option"
  me_public_url :: "string option"
  me_service_key :: "string option"
  me_url_parse :: "string \<Rightarrow> (string, mcp_url) result"
  me_hmac_sha256 :: "bytes \<Rightarrow> bytes \<Rightarrow> bytes"
  me_sha256 :: "bytes \<Rightarrow> bytes"
  me_b64_encode :: "bytes \<Rightarrow> string"
  me_b64_decode :: "string \<Rightarrow> bytes option"
  me_assertion_json :: "authorization_assertion \<Rightarrow> bytes"
  me_assertion_parse :: "bytes \<Rightarrow> authorization_assertion option"
  me_access_json :: "issued_access_claims \<Rightarrow> bytes"
  me_access_parse :: "bytes \<Rightarrow> mcp_access_claims option"
  me_refresh_json :: "refresh_claims \<Rightarrow> bytes"
  me_refresh_parse :: "bytes \<Rightarrow> refresh_claims option"
  me_request_parse :: "bytes \<Rightarrow> authorization_request_claims option"
  me_client_parse :: "bytes \<Rightarrow> dynamic_client option"

definition signing_key_from_env :: "mcp_env \<Rightarrow> (mcp_auth_error, bytes) result" where
  "signing_key_from_env E =
     (case me_signing_key E of
        None \<Rightarrow> Inl MissingSigningKey
      | Some k \<Rightarrow> if length k < 32 then Inl SigningKeyTooShort else Inr k)"

definition local_key_from_env :: "mcp_env \<Rightarrow> (mcp_auth_error, bytes) result" where
  "local_key_from_env E =
     (case me_local_key E of
        None \<Rightarrow> Inl MissingLocalKey
      | Some k \<Rightarrow> if length k < 32 then Inl LocalKeyTooShort else Inr k)"

definition public_url_from_env :: "mcp_env \<Rightarrow> (mcp_auth_error, mcp_url) result" where
  "public_url_from_env E =
     (case me_public_url E of
        None \<Rightarrow> Inl MissingPublicUrl
      | Some raw \<Rightarrow> (case me_url_parse E raw of Inl e \<Rightarrow> Inl (InvalidPublicUrl e) | Inr u \<Rightarrow> Inr u))"

definition resource_url_from_env :: "mcp_env \<Rightarrow> (mcp_auth_error, string) result" where
  "resource_url_from_env E =
     (case public_url_from_env E of
        Inl e \<Rightarrow> Inl e
      | Inr u \<Rightarrow> (case mu_root_join u ''mcp'' of Inl e \<Rightarrow> Inl (InvalidPublicUrl e) | Inr r \<Rightarrow> Inr r))"

definition callback_url_from_env :: "mcp_env \<Rightarrow> (mcp_auth_error, string) result" where
  "callback_url_from_env E =
     (case public_url_from_env E of
        Inl e \<Rightarrow> Inl e
      | Inr u \<Rightarrow>
          if mu_cannot_be_a_base u \<or> mu_query u \<noteq> None \<or> mu_fragment u \<noteq> None
             \<or> (mu_scheme u \<noteq> ''https''
                \<and> \<not> (mu_scheme u = ''http''
                     \<and> mu_host_str u \<in> {Some ''127.0.0.1'', Some ''localhost'', Some ''::1''}))
          then Inl (InvalidPublicUrl ''expected an HTTPS origin (HTTP is allowed only on loopback)'')
          else (case mu_root_join u ''authorize/callback'' of
                  Inl e \<Rightarrow> Inl (InvalidPublicUrl e) | Inr r \<Rightarrow> Inr r))"

text \<open>The message of the authentication code: the kind, a zero byte, the encoded body.\<close>

definition mac_of :: "mcp_env \<Rightarrow> bytes \<Rightarrow> string \<Rightarrow> string \<Rightarrow> bytes" where
  "mac_of E key kind body = me_hmac_sha256 E key (kind @ CHR 0x00 # body)"

definition sign_value :: "mcp_env \<Rightarrow> bytes \<Rightarrow> string \<Rightarrow> bytes \<Rightarrow> string" where
  "sign_value E key kind payload =
     (let body = me_b64_encode E payload
      in body @ CHR ''.'' # me_b64_encode E (mac_of E key kind body))"

definition verify_signed ::
  "mcp_env \<Rightarrow> bytes \<Rightarrow> string \<Rightarrow> (bytes \<Rightarrow> 'a option) \<Rightarrow> string \<Rightarrow> (mcp_auth_error, 'a) result" where
  "verify_signed E key kind parse token =
     (case split_once CHR ''.'' token of
        None \<Rightarrow> Inl InvalidToken
      | Some (body, signature) \<Rightarrow>
          if me_b64_decode E signature \<noteq> Some (mac_of E key kind body) then Inl InvalidToken
          else (case Option.bind (me_b64_decode E body) parse of
                  None \<Rightarrow> Inl InvalidToken | Some claims \<Rightarrow> Inr claims))"

definition assertion_kind :: string where "assertion_kind = ''tap-authorization-assertion''"

definition access_token_kind :: string where "access_token_kind = ''access-token''"

definition refresh_token_kind :: string where "refresh_token_kind = ''refresh-token''"

definition authorization_request_kind :: string where "authorization_request_kind = ''authorization-request''"

definition dynamic_client_kind :: string where "dynamic_client_kind = ''dynamic-client''"

definition max_authorization_request_bytes :: nat where
  "max_authorization_request_bytes = 16 * 1024"

definition full_scope :: string where "full_scope = ''tap:full''"

text \<open>The two pairs of claims are minted under one family, under the proxy's key.\<close>

record issued_tokens =
  it_access_token :: string
  it_refresh_token :: string
  it_expires_in :: int

definition access_token_lifetime :: int where "access_token_lifetime = 60 * 60"

definition mint_token_pair ::
  "mcp_env \<Rightarrow> string \<Rightarrow> string \<Rightarrow> string \<Rightarrow> string \<Rightarrow> string \<Rightarrow> string \<Rightarrow> timestamp \<Rightarrow> timestamp
    \<Rightarrow> (mcp_auth_error, issued_tokens) result" where
  "mint_token_pair E subject team agent client family jti refresh_expires now =
     (case signing_key_from_env E of
        Inl e \<Rightarrow> Inl e
      | Inr key \<Rightarrow>
          (case resource_url_from_env E of
             Inl e \<Rightarrow> Inl e
           | Inr audience \<Rightarrow>
               let access = \<lparr>ia_subject = subject, ia_team_id = team, ia_agent_id = agent, ia_client_id = client,
                             ia_audience = audience, ia_scope = full_scope, ia_family_id = family,
                             ia_issued_at = now, ia_expires_at = now + access_token_lifetime\<rparr>;
                   refresh = \<lparr>rc_subject = subject, rc_team_id = team, rc_agent_id = agent, rc_client_id = client,
                              rc_audience = audience, rc_scope = full_scope, rc_family_id = family, rc_jti = jti,
                              rc_issued_at = now, rc_expires_at = refresh_expires\<rparr>
               in Inr \<lparr>it_access_token = sign_value E key access_token_kind (me_access_json E access),
                       it_refresh_token = sign_value E key refresh_token_kind (me_refresh_json E refresh),
                       it_expires_in = access_token_lifetime\<rparr>))"

fun ascii_words :: "string \<Rightarrow> string \<Rightarrow> string list" where
  "ascii_words w [] = (if w = [] then [] else [rev w])"
| "ascii_words w (c # cs) =
     (if c \<in> {CHR '' '', CHR 0x09, CHR 0x0A, CHR 0x0C, CHR 0x0D}
      then (if w = [] then ascii_words [] cs else rev w # ascii_words [] cs)
      else ascii_words (c # w) cs)"

definition split_ascii_whitespace :: "string \<Rightarrow> string list" where
  "split_ascii_whitespace s = ascii_words [] s"

definition verify_mcp_access_token ::
  "mcp_env \<Rightarrow> string \<Rightarrow> timestamp \<Rightarrow> (mcp_auth_error, mcp_access_claims) result" where
  "verify_mcp_access_token E token now =
     (case signing_key_from_env E of
        Inl e \<Rightarrow> Inl e
      | Inr key \<Rightarrow>
          (case verify_signed E key access_token_kind (me_access_parse E) token of
             Inl e \<Rightarrow> Inl e
           | Inr c \<Rightarrow>
               if ma_expires_at c < now \<or> ma_agent_id c = [] \<or> ma_team_id c = []
                  \<or> full_scope \<notin> set (split_ascii_whitespace (ma_scope c))
               then Inl InvalidToken
               else (case resource_url_from_env E of
                       Inl e \<Rightarrow> Inl e
                     | Inr audience \<Rightarrow> if ma_audience c \<noteq> audience then Inl InvalidToken else Inr c)))"

definition verify_refresh_token ::
  "mcp_env \<Rightarrow> string \<Rightarrow> string \<Rightarrow> string option \<Rightarrow> timestamp \<Rightarrow> (mcp_auth_error, refresh_claims) result" where
  "verify_refresh_token E token client resource now =
     (case signing_key_from_env E of
        Inl e \<Rightarrow> Inl e
      | Inr key \<Rightarrow>
          (case verify_signed E key refresh_token_kind (me_refresh_parse E) token of
             Inl e \<Rightarrow> Inl e
           | Inr c \<Rightarrow>
               if rc_expires_at c < now \<or> rc_client_id c \<noteq> client then Inl InvalidToken
               else (case resource_url_from_env E of
                       Inl e \<Rightarrow> Inl e
                     | Inr audience \<Rightarrow>
                         if rc_audience c \<noteq> audience
                            \<or> (case resource of None \<Rightarrow> False | Some r \<Rightarrow> r \<noteq> rc_audience c)
                            \<or> rc_family_id c = [] \<or> rc_jti c = []
                         then Inl InvalidToken else Inr c)))"

definition assertion_lifetime :: int where "assertion_lifetime = 2 * 60"

definition assertion_redemption_window :: int where "assertion_redemption_window = 10 * 60"

definition assertion_clock_skew :: int where "assertion_clock_skew = 30"

text \<open>The answer of the ceremony: where the browser goes, and the assertion it takes there.\<close>

definition issue_authorization_assertion ::
  "mcp_env \<Rightarrow> string \<Rightarrow> string \<Rightarrow> string \<Rightarrow> string \<Rightarrow> timestamp \<Rightarrow> (mcp_auth_error, string \<times> string) result" where
  "issue_authorization_assertion E request subject team agent now =
     (if request = [] \<or> length request > max_authorization_request_bytes then Inl InvalidRequest
      else case signing_key_from_env E of
        Inl e \<Rightarrow> Inl e
      | Inr key \<Rightarrow>
          (case callback_url_from_env E of
             Inl e \<Rightarrow> Inl e
           | Inr url \<Rightarrow>
               Inr (url, sign_value E key assertion_kind (me_assertion_json E
                 \<lparr>an_request = request, an_subject = subject, an_team = team, an_agent = agent,
                  an_issued_at = now, an_expires = now + assertion_lifetime\<rparr>))))"

definition verify_assertion_for_redemption ::
  "mcp_env \<Rightarrow> string \<Rightarrow> timestamp \<Rightarrow> (mcp_auth_error, authorization_assertion) result" where
  "verify_assertion_for_redemption E assertion now =
     (if assertion = [] \<or> length assertion > max_authorization_request_bytes then Inl InvalidRequest
      else case signing_key_from_env E of
        Inl e \<Rightarrow> Inl e
      | Inr key \<Rightarrow>
          (case verify_signed E key assertion_kind (me_assertion_parse E) assertion of
             Inl e \<Rightarrow> Inl e
           | Inr a \<Rightarrow>
               if an_issued_at a > now + assertion_clock_skew
                  \<or> now - an_issued_at a > assertion_redemption_window
                  \<or> an_subject a = [] \<or> an_team a = []
               then Inl InvalidToken else Inr a))"

text \<open>Who is asking: the registered client behind a signed request of \<open>tap-mcp\<close>.\<close>

definition describe_authorization_request ::
  "mcp_env \<Rightarrow> string \<Rightarrow> timestamp \<Rightarrow> (mcp_auth_error, client_description) result" where
  "describe_authorization_request E request now =
     (if request = [] \<or> length request > max_authorization_request_bytes then Inl InvalidRequest
      else case local_key_from_env E of
        Inl e \<Rightarrow> Inl e
      | Inr key \<Rightarrow>
          (case verify_signed E key authorization_request_kind (me_request_parse E) request of
             Inl e \<Rightarrow> Inl e
           | Inr c \<Rightarrow>
               if rq_expires_at c < now then Inl InvalidRequest
               else case verify_signed E key dynamic_client_kind (me_client_parse E) (rq_client_id c) of
                 Inl e \<Rightarrow> Inl e
               | Inr client \<Rightarrow>
                   if dc_expires_at client < now \<or> rq_redirect_uri c \<notin> set (dc_redirect_uris client)
                   then Inl InvalidRequest
                   else (case me_url_parse E (rq_redirect_uri c) of
                      Inl _ \<Rightarrow> Inl InvalidRequest
                    | Inr redirect \<Rightarrow>
                        (case mu_host_str redirect of
                           None \<Rightarrow> Inl InvalidRequest
                         | Some host \<Rightarrow>
                             Inr \<lparr>cd_client_name =
                                    (case dc_client_name client of
                                       Some name \<Rightarrow> if trim name \<noteq> [] then name else host | None \<Rightarrow> host),
                                  cd_client_origin =
                                    (case mu_port redirect of
                                       Some p \<Rightarrow> mu_scheme redirect @ ''://'' @ host @ '':'' @ show_nat p
                                     | None \<Rightarrow> mu_scheme redirect @ ''://'' @ host),
                                  cd_deny_url = mu_append_pairs redirect
                                    ((''error'', ''access_denied'')
                                     # (case rq_state c of None \<Rightarrow> [] | Some st \<Rightarrow> [(''state'', st)]))\<rparr>))))"

section \<open>The agent of a connection\<close>

text \<open>\<open>raw\<close> is the random value that stands in for the hash of a key.\<close>

definition ensure_mcp_agent ::
  "mcp_env \<Rightarrow> faults \<Rightarrow> bytes \<Rightarrow> string \<Rightarrow> string \<Rightarrow> timestamp \<Rightarrow> mcp_store
    \<Rightarrow> (agent_sec_error, string) result \<times> mcp_store" where
  "ensure_mcp_agent E F raw team subject now s =
     (let agent = ''mcp-'' @ subject in
      if F ''get_agent'' then (Inl (Config ''Failed to get agent''), s)
      else case (case get_agent team agent (ms_access s) of
                   Some _ \<Rightarrow> Inr (ms_access s)
                 | None \<Rightarrow>
                     if F ''create_agent'' then Inl (Config ''Failed to create agent'')
                     else create_agent team agent (Some ''MCP'') (''mcp-no-key-'' @ me_b64_encode E raw) None now
                            (ms_access s)) of
        Inl e \<Rightarrow> (Inl e, s)
      | Inr ax \<Rightarrow>
          if F ''set_agent_all_credentials''
          then (Inl (Config ''Failed to set agent all_credentials''), s\<lparr>ms_access := ax\<rparr>)
          else (Inr agent, s\<lparr>ms_access := set_agent_all_credentials team agent True now ax\<rparr>))"

definition bearer_of :: "headers \<Rightarrow> string option" where
  "bearer_of hs =
     map_option trim (Option.bind (header_text hs ''authorization'') (\<lambda>v. strip_prefix v ''Bearer ''))"

definition resolve_mcp_agent ::
  "mcp_env \<Rightarrow> faults \<Rightarrow> headers \<Rightarrow> timestamp \<Rightarrow> mcp_store \<Rightarrow> authenticated_agent option" where
  "resolve_mcp_agent E F hs now s =
     (case bearer_of hs of
        None \<Rightarrow> None
      | Some token \<Rightarrow>
          (case verify_mcp_access_token E token now of
             Inl _ \<Rightarrow> None
           | Inr c \<Rightarrow>
               if ma_family_id c \<noteq> [] \<and> (F ''family_is_active'' \<or> \<not> family_is_active (ma_family_id c) now s)
               then None
               else if F ''get_agent'' then None
               else (case get_agent (ma_team_id c) (ma_agent_id c) (ms_access s) of
                       None \<Rightarrow> None
                     | Some row \<Rightarrow> if aw_enabled row then Some (agent_of_row row) else None)))"

section \<open>Requests of the dashboard\<close>

datatype mcp_reply =
    McpRefused nat string
  | McpChallenge
  | McpAuthorized string string
  | McpDescribed client_description
  | McpDisconnected nat
  | NotIssued string
  | TokensIssued issued_tokens

definition handle_describe_authorization :: "mcp_env \<Rightarrow> string \<Rightarrow> timestamp \<Rightarrow> mcp_reply" where
  "handle_describe_authorization E request now =
     (case describe_authorization_request E request now of
        Inr d \<Rightarrow> McpDescribed d
      | Inl e \<Rightarrow>
          if e \<in> {MissingSigningKey, SigningKeyTooShort, MissingLocalKey, LocalKeyTooShort}
          then McpRefused 503 ''TAP MCP authorization is not configured''
          else McpRefused 400 ''This connection request is invalid or has expired'')"

text \<open>The answer of \<open>authenticate_user\<close> to a request that it refuses.\<close>

definition session_refusal :: "auth_response \<Rightarrow> mcp_reply" where
  "session_refusal r = (case r of EmailUnverified \<Rightarrow> McpRefused 403 ''email_not_verified'' | _ \<Rightarrow> McpRefused 401 ''unauthorized'')"

definition handle_begin_authorization ::
  "webauthn option \<Rightarrow> string \<Rightarrow> string option \<Rightarrow> string \<Rightarrow> string \<Rightarrow> timestamp \<Rightarrow> mcp_store \<Rightarrow> mcp_reply \<times> mcp_store" where
  "handle_begin_authorization W request session challenge passkey_token now s =
     (if request = [] \<or> length request > max_authorization_request_bytes
      then (McpRefused 400 ''Missing MCP authorization request'', s)
      else case authenticate_user session now (ms_auth s) of
        Inl r \<Rightarrow> (session_refusal r, s)
      | Inr user \<Rightarrow>
          (case W of
             None \<Rightarrow> (McpRefused 503 ''Passkey authentication is not configured'', s)
           | Some w \<Rightarrow>
               (case begin_user_login w (me_id user) challenge passkey_token now (ms_auth s) of
                  Inl _ \<Rightarrow> (McpRefused 500 ''Failed to start passkey verification'', s)
                | Inr a \<Rightarrow> (McpChallenge, s\<lparr>ms_auth := a\<rparr>))))"

definition handle_finish_authorization ::
  "mcp_env \<Rightarrow> faults \<Rightarrow> webauthn option \<Rightarrow> string \<Rightarrow> string \<Rightarrow> string \<Rightarrow> string option \<Rightarrow> bytes \<Rightarrow> timestamp \<Rightarrow> mcp_store
    \<Rightarrow> mcp_reply \<times> mcp_store" where
  "handle_finish_authorization E F W request passkey_token auth session raw now s =
     (case authenticate_user session now (ms_auth s) of
        Inl r \<Rightarrow> (session_refusal r, s)
      | Inr user \<Rightarrow>
          (case W of
             None \<Rightarrow> (McpRefused 503 ''Passkey authentication is not configured'', s)
           | Some w \<Rightarrow>
               (case finish_user_login w passkey_token auth now (ms_auth s) of
                  (Inl _, a) \<Rightarrow> (McpRefused 403 ''Security key verification failed'', s\<lparr>ms_auth := a\<rparr>)
                | (Inr uid, a) \<Rightarrow>
                    if uid \<noteq> me_id user
                    then (McpRefused 403 ''Security key does not belong to this TAP account'', s\<lparr>ms_auth := a\<rparr>)
                    else (case ensure_mcp_agent E F raw (me_team_id user) (me_id user) now (s\<lparr>ms_auth := a\<rparr>) of
                       (Inl _, s1) \<Rightarrow> (McpRefused 503 ''Could not provision the MCP connection'', s1)
                     | (Inr agent, s1) \<Rightarrow>
                         (case issue_authorization_assertion E request (me_id user) (me_team_id user) agent now of
                            Inr (url, assertion) \<Rightarrow> (McpAuthorized url assertion, s1)
                          | Inl InvalidRequest \<Rightarrow> (McpRefused 400 ''Invalid MCP authorization request'', s1)
                          | Inl _ \<Rightarrow> (McpRefused 503 ''TAP MCP authorization is not configured'', s1))))))"

definition handle_mcp_disconnect ::
  "faults \<Rightarrow> string option \<Rightarrow> timestamp \<Rightarrow> mcp_store \<Rightarrow> mcp_reply \<times> mcp_store" where
  "handle_mcp_disconnect F session now s =
     (case authenticate_user session now (ms_auth s) of
        Inl r \<Rightarrow> (session_refusal r, s)
      | Inr user \<Rightarrow>
          if F ''revoke_families_for_agent'' then (McpRefused 500 ''Could not disconnect this MCP connection'', s)
          else (let (n, s1) = revoke_families_for_agent (me_team_id user) (''mcp-'' @ me_id user) now s
                in (McpDisconnected n, s1)))"

section \<open>The minting endpoints (mcp_internal.rs)\<close>

definition configured_service_key :: "mcp_env \<Rightarrow> string option" where
  "configured_service_key E =
     (case me_service_key E of None \<Rightarrow> None | Some k \<Rightarrow> if trim k = [] then None else Some (trim k))"

text \<open>The comparison of the digests, byte by byte.\<close>

definition secrets_match :: "mcp_env \<Rightarrow> string \<Rightarrow> string \<Rightarrow> bool" where
  "secrets_match E presented expected \<longleftrightarrow>
     list_all (\<lambda>(a, b). a = b) (zip (me_sha256 E presented) (me_sha256 E expected))"

definition reject_unauthorized_service :: "mcp_env \<Rightarrow> headers \<Rightarrow> mcp_reply option" where
  "reject_unauthorized_service E hs =
     (case configured_service_key E of
        None \<Rightarrow> Some (McpRefused 404 ''Not found'')
      | Some expected \<Rightarrow>
          let presented = or_else (header_text hs ''x-tap-service-key'') []
          in if presented = [] \<or> \<not> secrets_match E presented expected
             then Some (McpRefused 401 ''Invalid service key'') else None)"

definition refresh_family_lifetime :: int where "refresh_family_lifetime = 30 * 24 * 60 * 60"

record issue_token_request =
  ir_assertion :: string
  ir_client_id :: string
  ir_code_jti :: string
  ir_code_expires_at :: timestamp

definition minted :: "(mcp_auth_error, issued_tokens) result \<Rightarrow> mcp_reply" where
  "minted r = (case r of Inl _ \<Rightarrow> McpRefused 500 ''Could not mint MCP tokens'' | Inr t \<Rightarrow> TokensIssued t)"

text \<open>\<open>family\<close> and \<open>jti\<close> are the two random identifiers.\<close>

definition open_family ::
  "mcp_env \<Rightarrow> faults \<Rightarrow> authorization_assertion \<Rightarrow> string \<Rightarrow> string \<Rightarrow> string \<Rightarrow> string \<Rightarrow> timestamp \<Rightarrow> mcp_store
    \<Rightarrow> mcp_reply \<times> mcp_store" where
  "open_family E F a agent client family jti now s =
     (case record_family F family (an_subject a) (an_team a) agent client jti now (now + refresh_family_lifetime) s of
        Inl _ \<Rightarrow> (McpRefused 500 ''Could not record the MCP token family'', s)
      | Inr s1 \<Rightarrow>
          (minted (mint_token_pair E (an_subject a) (an_team a) agent client family jti
             (now + refresh_family_lifetime) now), s1))"

definition handle_issue_token ::
  "mcp_env \<Rightarrow> faults \<Rightarrow> headers \<Rightarrow> issue_token_request \<Rightarrow> bytes \<Rightarrow> string \<Rightarrow> string \<Rightarrow> timestamp \<Rightarrow> mcp_store
    \<Rightarrow> mcp_reply \<times> mcp_store" where
  "handle_issue_token E F hs req raw family jti now s =
     (case reject_unauthorized_service E hs of
        Some r \<Rightarrow> (r, s)
      | None \<Rightarrow>
          (case verify_assertion_for_redemption E (ir_assertion req) now of
             Inl _ \<Rightarrow> (NotIssued ''assertion_invalid'', s)
           | Inr a \<Rightarrow>
               if ir_code_jti req = [] then (NotIssued ''code_jti_missing'', s)
               else case ensure_mcp_agent E F raw (an_team a) (an_subject a) now s of
                 (Inl _, s1) \<Rightarrow> (McpRefused 500 ''Could not provision the MCP agent'', s1)
               | (Inr agent, s1) \<Rightarrow>
                   if F ''consume_code'' then (McpRefused 500 ''Could not consume the MCP authorization code'', s1)
                   else (case consume_code F (ir_code_jti req) (ir_code_expires_at req) now s1 of
                      (False, s2) \<Rightarrow> (NotIssued ''code_already_used'', s2)
                    | (True, s2) \<Rightarrow> open_family E F a agent (ir_client_id req) family jti now s2)))"

record refresh_token_request =
  rr_refresh_token :: string
  rr_client_id :: string
  rr_resource :: "string option"

definition handle_refresh_token ::
  "mcp_env \<Rightarrow> faults \<Rightarrow> headers \<Rightarrow> refresh_token_request \<Rightarrow> string \<Rightarrow> timestamp \<Rightarrow> mcp_store \<Rightarrow> mcp_reply \<times> mcp_store" where
  "handle_refresh_token E F hs req new_jti now s =
     (case reject_unauthorized_service E hs of
        Some r \<Rightarrow> (r, s)
      | None \<Rightarrow>
          (case verify_refresh_token E (rr_refresh_token req) (rr_client_id req) (rr_resource req) now of
             Inl _ \<Rightarrow> (NotIssued ''refresh_token_invalid'', s)
           | Inr c \<Rightarrow>
               if F ''rotate_family'' then (McpRefused 500 ''Could not rotate the MCP token family'', s)
               else (case rotate_family (rc_family_id c) (rc_jti c) new_jti now s of
                  (False, s1) \<Rightarrow> (NotIssued ''refresh_token_superseded'', s1)
                | (True, s1) \<Rightarrow>
                    (minted (mint_token_pair E (rc_subject c) (rc_team_id c) (rc_agent_id c) (rc_client_id c)
                       (rc_family_id c) new_jti (rc_expires_at c) now), s1))))"

section \<open>Disconnecting is final\<close>

text \<open>
  What other requests and other instances do between two moments: the requests of this theory, with
  any arguments and failures, and any change of the sessions and of the agents.
\<close>

inductive mcp_step :: "mcp_store \<Rightarrow> mcp_store \<Rightarrow> bool" where
  begin_step: "mcp_step s (snd (handle_begin_authorization W request session challenge token now s))"
| finish_step: "mcp_step s (snd (handle_finish_authorization E F W request token auth session raw now s))"
| disconnect_step: "mcp_step s (snd (handle_mcp_disconnect F session now s))"
| issue_step: "mcp_step s (snd (handle_issue_token E F hs req raw family jti now s))"
| refresh_step: "mcp_step s (snd (handle_refresh_token E F hs rreq jti now s))"
| other_step: "mcp_step s (s\<lparr>ms_auth := a, ms_access := ax\<rparr>)"

definition family_revoked :: "string \<Rightarrow> mcp_store \<Rightarrow> bool" where
  "family_revoked f s \<longleftrightarrow> (\<exists>r. map_of (ms_families s) f = Some r \<and> tf_revoked r)"

lemma ensure_mcp_agent_frame:
  "ensure_mcp_agent E F raw team subject now s = (r, s') \<Longrightarrow> ms_families s' = ms_families s \<and> ms_codes s' = ms_codes s"
  unfolding ensure_mcp_agent_def Let_def by (auto split: if_splits option.splits sum.splits)

lemma consume_code_frame: "consume_code F jti e now s = (b, s') \<Longrightarrow> ms_families s' = ms_families s"
  by (auto simp: consume_code_def Let_def)

lemma record_family_revoked:
  "record_family F g subject team agent client jti now e s = Inr s' \<Longrightarrow> family_revoked f s \<Longrightarrow> family_revoked f s'"
  by (auto simp: record_family_def family_revoked_def map_add_def split: if_splits)

lemma open_family_revoked:
  "open_family E F a agent client g jti now s = (r, s') \<Longrightarrow> family_revoked f s \<Longrightarrow> family_revoked f s'"
  by (auto simp: open_family_def dest: record_family_revoked split: sum.splits)

lemma rotate_family_revoked:
  "rotate_family g old new now s = (b, s') \<Longrightarrow> family_revoked f s \<Longrightarrow> family_revoked f s'"
  by (auto simp: rotate_family_def family_revoked_def update_conv' split: option.splits if_splits)

lemma map_of_map_rows: "map_of (map (\<lambda>(k, r). (k, h r)) xs) k = map_option h (map_of xs k)"
  by (induction xs) auto

lemma revoke_families_revoked:
  assumes "revoke_families_for_agent team agent now s = (n, s')"
  shows "family_revoked f s' \<longleftrightarrow> family_revoked f s
    \<or> (\<exists>r. map_of (ms_families s) f = Some r \<and> of_agent team agent r)"
  using assms
  by (auto simp: revoke_families_for_agent_def family_revoked_def map_of_map_rows of_agent_def)

lemma issue_token_revoked:
  "handle_issue_token E F hs req raw g jti now s = (r, s') \<Longrightarrow> family_revoked f s \<Longrightarrow> family_revoked f s'"
proof -
  assume h: "handle_issue_token E F hs req raw g jti now s = (r, s')" and rev: "family_revoked f s"
  have same: "family_revoked f t" if "ms_families t = ms_families s" for t
    using that rev by (simp add: family_revoked_def)
  have opened: "family_revoked f t'"
    if "open_family E F a agent client g jti now t = (r', t')" "ms_families t = ms_families s" for a agent client t r' t'
    using open_family_revoked [OF that(1)] same that(2) by simp
  show "family_revoked f s'"
    using h unfolding handle_issue_token_def
    by (auto split: option.splits sum.splits if_splits prod.splits bool.splits
        dest!: ensure_mcp_agent_frame consume_code_frame intro: same rev opened)
qed

lemma mcp_step_revoked: "mcp_step s s' \<Longrightarrow> family_revoked f s \<Longrightarrow> family_revoked f s'"
proof (induction rule: mcp_step.induct)
  case (begin_step s W request session challenge token now)
  then show ?case
    by (auto simp: handle_begin_authorization_def family_revoked_def split: if_splits sum.splits option.splits)
next
  case (finish_step s E F W request token auth session raw now)
  then show ?case
    by (auto simp: handle_finish_authorization_def family_revoked_def dest!: ensure_mcp_agent_frame
        split: if_splits sum.splits option.splits prod.splits mcp_auth_error.splits)
next
  case (disconnect_step s F session now)
  then show ?case
    by (auto simp: handle_mcp_disconnect_def revoke_families_revoked split: sum.splits if_splits prod.splits)
next
  case (issue_step s E F hs req raw family jti now)
  then show ?case by (metis issue_token_revoked prod.collapse)
next
  case (refresh_step s E F hs rreq jti now)
  then show ?case
    by (auto simp: handle_refresh_token_def dest: rotate_family_revoked
        split: option.splits sum.splits if_splits prod.splits bool.splits)
next
  case (other_step s a ax)
  then show ?case by (simp add: family_revoked_def)
qed

lemma mcp_steps_revoked: "mcp_step\<^sup>*\<^sup>* s s' \<Longrightarrow> family_revoked f s \<Longrightarrow> family_revoked f s'"
  by (induction rule: rtranclp_induct) (auto intro: mcp_step_revoked)

lemma revoked_not_resolved:
  assumes "family_revoked f s" and "verify_mcp_access_token E token now = Inr c" and "ma_family_id c = f" and "f \<noteq> []"
    and "bearer_of hs = Some token"
  shows "resolve_mcp_agent E F hs now s = None"
  using assms by (auto simp: resolve_mcp_agent_def family_is_active_def family_revoked_def)

lemma revoked_not_refreshed:
  assumes "family_revoked f s"
    and "verify_refresh_token E (rr_refresh_token req) (rr_client_id req) (rr_resource req) now = Inr c" and "rc_family_id c = f"
  shows "fst (handle_refresh_token E F hs req jti now s) \<noteq> TokensIssued t"
  using assms
  by (auto simp: handle_refresh_token_def rotate_family_def family_revoked_def reject_unauthorized_service_def Let_def
      split: option.splits if_splits)

text \<open>Disconnecting ends a connection for good. When a user's disconnection was answered, then after
  whatever requests and changes follow, on any instance and at any time, no access token of any
  token family of his connection resolves to an agent, although its signature and lifetime may
  still be good, and no refresh token of such a family yields new tokens.\<close>

lemma disconnect_final:
  assumes "handle_mcp_disconnect F0 session now0 s = (McpDisconnected n, s1)"
    and "authenticate_user session now0 (ms_auth s) = Inr user"
    and "map_of (ms_families s) f = Some r" "tf_team_id r = me_team_id user" "tf_agent_id r = ''mcp-'' @ me_id user"
    and "f \<noteq> []" and "mcp_step\<^sup>*\<^sup>* s1 s2"
  shows "(bearer_of hs = Some token \<and> verify_mcp_access_token E token now = Inr c \<and> ma_family_id c = f
      \<longrightarrow> resolve_mcp_agent E F hs now s2 = None)
    \<and> (verify_refresh_token E (rr_refresh_token req) (rr_client_id req) (rr_resource req) now = Inr rc
        \<and> rc_family_id rc = f \<longrightarrow> (\<forall>t. fst (handle_refresh_token E F hs req jti now s2) \<noteq> TokensIssued t))"
proof -
  from assms(1,2) have "revoke_families_for_agent (me_team_id user) (''mcp-'' @ me_id user) now0 s = (n, s1)"
    by (auto simp: handle_mcp_disconnect_def split: if_splits prod.splits)
  from revoke_families_revoked [OF this, of f] assms(3-5) have "family_revoked f s1" by (auto simp: of_agent_def)
  with assms(7) have "family_revoked f s2" by (rule mcp_steps_revoked)
  with assms(6) show ?thesis using revoked_not_resolved revoked_not_refreshed by blast
qed

section \<open>Signed values\<close>

text \<open>The law of the codec: what was encoded is decoded, and no code contains the separator.\<close>

definition codec_law :: "mcp_env \<Rightarrow> bool" where
  "codec_law E \<longleftrightarrow> (\<forall>b. me_b64_decode E (me_b64_encode E b) = Some b \<and> CHR ''.'' \<notin> set (me_b64_encode E b))"

lemma verify_sign_value:
  assumes "codec_law E"
  shows "verify_signed E key kind parse (sign_value E key kind payload)
    = (case parse payload of None \<Rightarrow> Inl InvalidToken | Some c \<Rightarrow> Inr c)"
proof -
  let ?b = "me_b64_encode E payload"
  from assms have "split_once CHR ''.'' (sign_value E key kind payload)
      = Some (?b, me_b64_encode E (mac_of E key kind ?b))"
    by (simp add: codec_law_def sign_value_def split_once_Some Let_def)
  with assms show ?thesis by (simp add: verify_signed_def codec_law_def)
qed

text \<open>
  The zero byte separates the domains: messages of two kinds are equal only if the kinds are.
\<close>

lemma mac_message_inj:
  assumes "kind @ CHR 0x00 # body = kind' @ CHR 0x00 # body'" and "CHR 0x00 \<notin> set kind" "CHR 0x00 \<notin> set kind'"
  shows "kind = kind' \<and> body = body'"
proof -
  have a: "split_once (CHR 0x00) (kind @ CHR 0x00 # body) = Some (kind, body)"
    and b: "split_once (CHR 0x00) (kind' @ CHR 0x00 # body') = Some (kind', body')"
    using assms(2,3) by (simp_all add: split_once_Some)
  have "Some (kind, body) = Some (kind', body')"
    by (rule trans [OF a [symmetric] trans [OF arg_cong [OF assms(1), of "split_once (CHR 0x00)"] b]])
  then show ?thesis by simp
qed

lemma kinds_have_no_zero:
  "list_all (\<lambda>k. CHR 0x00 \<notin> set k)
     [assertion_kind, access_token_kind, refresh_token_kind, authorization_request_kind, dynamic_client_kind]"
  by code_simp

lemma full_scope_words: "full_scope \<in> set (split_ascii_whitespace full_scope)"
  by code_simp

text \<open>
  A minted pair is accepted: the access token for an hour, the refresh token from its client until
  the family ends. The reading side of JSON knows the fields it needs.
\<close>

definition json_law :: "mcp_env \<Rightarrow> bool" where
  "json_law E \<longleftrightarrow>
     (\<forall>i. me_access_parse E (me_access_json E i) =
        Some \<lparr>ma_subject = ia_subject i, ma_team_id = ia_team_id i, ma_agent_id = ia_agent_id i, ma_scope = ia_scope i,
              ma_audience = ia_audience i, ma_family_id = ia_family_id i, ma_expires_at = ia_expires_at i\<rparr>)
     \<and> (\<forall>r. me_refresh_parse E (me_refresh_json E r) = Some r)
     \<and> (\<forall>a. me_assertion_parse E (me_assertion_json E a) = Some a)"

lemma minted_access_accepted:
  assumes "codec_law E" "json_law E" "mint_token_pair E subject team agent client family jti expires now = Inr t"
    and "team \<noteq> []" "agent \<noteq> []"
  shows "if now' \<le> now + access_token_lifetime
    then \<exists>c. verify_mcp_access_token E (it_access_token t) now' = Inr c \<and> ma_subject c = subject
           \<and> ma_team_id c = team \<and> ma_agent_id c = agent \<and> ma_family_id c = family
    else verify_mcp_access_token E (it_access_token t) now' = Inl InvalidToken"
proof -
  from assms(3) obtain key audience where k: "signing_key_from_env E = Inr key" "resource_url_from_env E = Inr audience"
    and t: "it_access_token t = sign_value E key access_token_kind (me_access_json E
      \<lparr>ia_subject = subject, ia_team_id = team, ia_agent_id = agent, ia_client_id = client, ia_audience = audience,
       ia_scope = full_scope, ia_family_id = family, ia_issued_at = now, ia_expires_at = now + access_token_lifetime\<rparr>)"
    by (auto simp: mint_token_pair_def Let_def split: sum.splits)
  have j: "me_access_parse E (me_access_json E i) =
        Some \<lparr>ma_subject = ia_subject i, ma_team_id = ia_team_id i, ma_agent_id = ia_agent_id i, ma_scope = ia_scope i,
              ma_audience = ia_audience i, ma_family_id = ia_family_id i, ma_expires_at = ia_expires_at i\<rparr>" for i
    using assms(2) by (simp add: json_law_def)
  show ?thesis
    using assms(4,5) full_scope_words by (simp add: verify_mcp_access_token_def k t verify_sign_value [OF assms(1)] j)
qed

lemma minted_refresh_accepted:
  assumes "codec_law E" "json_law E" "mint_token_pair E subject team agent client family jti expires now = Inr t"
    and "family \<noteq> []" "jti \<noteq> []"
  shows "if now' \<le> expires \<and> client' = client
    then \<exists>c. verify_refresh_token E (it_refresh_token t) client' None now' = Inr c \<and> rc_family_id c = family
           \<and> rc_jti c = jti \<and> rc_agent_id c = agent \<and> rc_team_id c = team \<and> rc_expires_at c = expires
    else verify_refresh_token E (it_refresh_token t) client' None now' = Inl InvalidToken"
proof -
  from assms(3) obtain key audience where k: "signing_key_from_env E = Inr key" "resource_url_from_env E = Inr audience"
    and t: "it_refresh_token t = sign_value E key refresh_token_kind (me_refresh_json E
      \<lparr>rc_subject = subject, rc_team_id = team, rc_agent_id = agent, rc_client_id = client, rc_audience = audience,
       rc_scope = full_scope, rc_family_id = family, rc_jti = jti, rc_issued_at = now, rc_expires_at = expires\<rparr>)"
    by (auto simp: mint_token_pair_def Let_def split: sum.splits)
  have j: "me_refresh_parse E (me_refresh_json E r) = Some r" for r
    using assms(2) by (simp add: json_law_def)
  show ?thesis
    using assms(4,5) by (auto simp: verify_refresh_token_def k t verify_sign_value [OF assms(1)] j)
qed

section \<open>Refresh tokens and codes\<close>

lemma rotate_family_status:
  "rotate_family g old new now s = (b, s') \<Longrightarrow> family_status f s' =
     (if b \<and> g = f then map_option (\<lambda>(rev, _). (rev, new)) (family_status f s) else family_status f s)
   \<and> (b \<longrightarrow> family_status g s = Some (False, old))"
  by (auto simp: rotate_family_def family_status_def update_conv' split: option.splits if_splits)

text \<open>
  A rotated refresh token is dead: whatever rotations follow, as long as none draws its identifier
  again, it is refused.
\<close>

lemma superseded_refresh_refused:
  assumes "rotate_family f old new now s = (True, s1)" and "new \<noteq> old"
    and "\<forall>(g, o', n, t) \<in> set ops. n \<noteq> old"
  shows "fst (rotate_family f old x t' (fold (\<lambda>(g, o', n, t) s. snd (rotate_family g o' n t s)) ops s1)) = False"
proof -
  have dead: "(\<forall>rev. family_status f (fold (\<lambda>(g, o', n, t) s. snd (rotate_family g o' n t s)) ops s) \<noteq> Some (rev, old))"
    if "\<forall>rev. family_status f s \<noteq> Some (rev, old)" for s
    using that assms(3)
  proof (induction ops arbitrary: s)
    case (Cons op ops)
    obtain g o' n t where op: "op = (g, o', n, t)" by (cases op) auto
    obtain b s' where r: "rotate_family g o' n t s = (b, s')" by (cases "rotate_family g o' n t s")
    from Cons.prems op rotate_family_status [OF r, of f]
    have "\<forall>rev. family_status f s' \<noteq> Some (rev, old)" by (auto split: if_splits)
    then have "\<forall>rev. family_status f (fold (\<lambda>(g, o', n, t) s. snd (rotate_family g o' n t s)) ops s') \<noteq> Some (rev, old)"
      by (rule Cons.IH) (use Cons.prems(2) in auto)
    with op r show ?case by simp
  qed simp
  have "\<forall>rev. family_status f s1 \<noteq> Some (rev, old)"
    using rotate_family_status [OF assms(1), of f] assms(2) by (cases "family_status f s") auto
  from dead [OF this] show ?thesis
    by (cases "rotate_family f old x t' (fold (\<lambda>(g, o', n, t) s. snd (rotate_family g o' n t s)) ops s1)")
      (use rotate_family_status in fastforce)
qed

text \<open>
  A code that was consumed is refused as long as its row stands. The row stands until the expiry
  that the caller reported with it; a code that was reported as expired is removed at once and
  can be consumed again.
\<close>

lemma consumed_code_refused:
  assumes "consume_code F jti e now s = (b, s1)" "now \<le> e"  "map_of (ms_codes s) jti = None"
  shows "fst (consume_code F' jti e' now' s1) = False"
  using assms by (auto simp: consume_code_def Let_def split: if_splits)

lemma expired_code_consumed_again:
  assumes "consume_code F jti e now s = (True, s1)" "e < now" "\<not> F ''prune_codes''"
  shows "fst (consume_code F' jti e' now' s1) = True"
  using assms by (auto simp: consume_code_def Let_def map_of_eq_None_iff split: if_splits)

section \<open>Who gets what\<close>

text \<open>
  The agent of a connection is an account key: it may use every credential of the team. The role of
  the user is not asked for, while the dashboard leaves account keys to owners and admins.
\<close>

lemma ensured_is_account_key:
  assumes "ensure_mcp_agent E F raw team subject now s = (Inr agent, s')"
  shows "agent = ''mcp-'' @ subject
    \<and> (\<exists>row. get_agent team agent (ms_access s') = Some row \<and> aw_all_credentials row)"
  using assms
  by (auto simp: ensure_mcp_agent_def get_agent_def create_agent_def create_agent_with_admin_def
      set_agent_all_credentials_def update_agent_def map_of_map_entry map_add_def Let_def
      split: if_splits option.splits sum.splits)

lemma finish_gives_account_key:
  assumes "handle_finish_authorization E F W request token auth session raw now s = (McpAuthorized url assertion, s')"
  shows "\<exists>user. authenticate_user session now (ms_auth s) = Inr user
    \<and> (\<exists>row. get_agent (me_team_id user) (''mcp-'' @ me_id user) (ms_access s') = Some row \<and> aw_all_credentials row)"
  using assms
  by (auto simp: handle_finish_authorization_def session_refusal_def dest!: ensured_is_account_key
      split: sum.splits option.splits prod.splits if_splits mcp_auth_error.splits auth_response.splits)

lemma issue_token_steps:
  assumes "handle_issue_token E F hs req raw family jti now s = (TokensIssued t, s')"
  shows "\<exists>a agent s1 s2. reject_unauthorized_service E hs = None
    \<and> verify_assertion_for_redemption E (ir_assertion req) now = Inr a
    \<and> ensure_mcp_agent E F raw (an_team a) (an_subject a) now s = (Inr agent, s1) \<and> \<not> F ''consume_code''
    \<and> consume_code F (ir_code_jti req) (ir_code_expires_at req) now s1 = (True, s2)
    \<and> open_family E F a agent (ir_client_id req) family jti now s2 = (TokensIssued t, s')"
  using assms
  by (auto simp: handle_issue_token_def reject_unauthorized_service_def Let_def
      split: option.splits sum.splits if_splits prod.splits bool.splits)

text \<open>
  Tokens are issued only for the subject and the team of an assertion under the proxy's own key, to
  the agent derived from them, with a family of thirty days, and after the code was taken.
\<close>

lemma issued_for_assertion:
  assumes "handle_issue_token E F hs req raw family jti now s = (TokensIssued t, s')"
  shows "\<exists>a r. verify_assertion_for_redemption E (ir_assertion req) now = Inr a
    \<and> map_of (ms_codes s) (ir_code_jti req) = None \<and> map_of (ms_families s) family = None
    \<and> map_of (ms_families s') family = Some r \<and> tf_subject r = an_subject a \<and> tf_team_id r = an_team a
    \<and> tf_agent_id r = ''mcp-'' @ an_subject a \<and> \<not> tf_revoked r \<and> tf_expires_at r = now + refresh_family_lifetime
    \<and> mint_token_pair E (an_subject a) (an_team a) (''mcp-'' @ an_subject a) (ir_client_id req) family jti
        (now + refresh_family_lifetime) now = Inr t"
proof -
  from issue_token_steps [OF assms] obtain a agent s1 s2 where
    h: "verify_assertion_for_redemption E (ir_assertion req) now = Inr a"
      "ensure_mcp_agent E F raw (an_team a) (an_subject a) now s = (Inr agent, s1)"
      "consume_code F (ir_code_jti req) (ir_code_expires_at req) now s1 = (True, s2)"
      "open_family E F a agent (ir_client_id req) family jti now s2 = (TokensIssued t, s')" by blast
  have "agent = ''mcp-'' @ an_subject a" using ensured_is_account_key [OF h(2)] by simp
  moreover have "ms_families s2 = ms_families s" "map_of (ms_codes s) (ir_code_jti req) = None"
    using h(3) ensure_mcp_agent_frame [OF h(2)] by (auto simp: consume_code_def Let_def split: if_splits)
  ultimately show ?thesis
    using h(1,4) by (auto simp: open_family_def record_family_def minted_def map_add_def split: sum.splits if_splits)
qed

text \<open>
  An assertion is not bound to one code: in the state after it was redeemed, the same assertion
  with another code and other random identifiers is redeemed again.
\<close>

lemma mint_depends_on_env: "mint_token_pair E a b c d e f g h = Inr t \<Longrightarrow> \<exists>t2. mint_token_pair E a' b' c' d' e' f' g' h' = Inr t2"
  by (auto simp: mint_token_pair_def Let_def split: sum.splits)

lemma ensure_mcp_agent_again:
  assumes "ensure_mcp_agent E F raw team subject now s = (Inr agent, s1)" and "ms_access s2 = ms_access s1"
  shows "\<exists>s3. ensure_mcp_agent E F raw team subject now s2 = (Inr agent, s3)
    \<and> ms_families s3 = ms_families s2 \<and> ms_codes s3 = ms_codes s2"
proof -
  from ensured_is_account_key [OF assms(1)] assms(2) obtain row where
    "agent = ''mcp-'' @ subject" "get_agent team agent (ms_access s2) = Some row" by auto
  moreover have "\<not> F ''get_agent''" "\<not> F ''set_agent_all_credentials''"
    using assms(1) by (auto simp: ensure_mcp_agent_def Let_def split: if_splits option.splits sum.splits)
  ultimately show ?thesis by (simp add: ensure_mcp_agent_def Let_def)
qed

lemma assertion_redeemed_again:
  assumes "handle_issue_token E F hs req raw family jti now s = (TokensIssued t, s')"
    and "map_of (ms_codes s) code = None" "code \<noteq> []" "code \<noteq> ir_code_jti req"
    and "map_of (ms_families s) family2 = None" "family2 \<noteq> family"
  shows "\<exists>t2 s2. handle_issue_token E F hs (req\<lparr>ir_code_jti := code\<rparr>) raw family2 jti now s' = (TokensIssued t2, s2)"
proof -
  from issue_token_steps [OF assms(1)] obtain a agent s1 s2 where
    h: "reject_unauthorized_service E hs = None" "verify_assertion_for_redemption E (ir_assertion req) now = Inr a"
      "ensure_mcp_agent E F raw (an_team a) (an_subject a) now s = (Inr agent, s1)" "\<not> F ''consume_code''"
      "consume_code F (ir_code_jti req) (ir_code_expires_at req) now s1 = (True, s2)"
      "open_family E F a agent (ir_client_id req) family jti now s2 = (TokensIssued t, s')"
    by blast
  from h(6) obtain t1 where o: "\<not> F ''record_family''" "ms_access s' = ms_access s2" "ms_codes s' = ms_codes s2"
      "map_of (ms_families s') family2 = map_of (ms_families s2) family2"
      "mint_token_pair E (an_subject a) (an_team a) agent (ir_client_id req) family jti
         (now + refresh_family_lifetime) now = Inr t1"
    using assms(6) by (auto simp: open_family_def record_family_def minted_def map_add_def
        split: sum.splits if_splits option.splits)
  have c: "ms_access s2 = ms_access s1" "ms_families s2 = ms_families s1" "map_of (ms_codes s2) code = None"
    using h(5) assms(2,4) ensure_mcp_agent_frame [OF h(3)]
    by (auto simp: consume_code_def Let_def map_of_eq_None_iff split: if_splits)
  from ensure_mcp_agent_again [OF h(3), of s'] o(2) c(1) obtain s3 where
    e: "ensure_mcp_agent E F raw (an_team a) (an_subject a) now s' = (Inr agent, s3)"
      "ms_families s3 = ms_families s'" "ms_codes s3 = ms_codes s'" by auto
  obtain s4 where k: "consume_code F code (ir_code_expires_at req) now s3 = (True, s4)" "ms_families s4 = ms_families s3"
    using e(3) o(3) c(3) by (simp add: consume_code_def Let_def)
  have "map_of (ms_families s4) family2 = None"
    using k(2) e(2) o(4) c(2) ensure_mcp_agent_frame [OF h(3)] assms(5) by simp
  moreover from mint_depends_on_env [OF o(5)] obtain t2 where
    "mint_token_pair E (an_subject a) (an_team a) agent (ir_client_id req) family2 jti (now + refresh_family_lifetime) now = Inr t2"
    by blast
  ultimately have "\<exists>s5. open_family E F a agent (ir_client_id req) family2 jti now s4 = (TokensIssued t2, s5)"
    using o(1) by (simp add: open_family_def record_family_def minted_def)
  then show ?thesis using h(1,2,4) e(1) k(1) assms(3) by (auto simp: handle_issue_token_def)
qed

end
