(* ===== verification/Spec2Isabelle.thy ===== *)
theory Spec2Isabelle
  imports Policy_Diff Proposals Grants Sanitize Placeholder Forward Routing Approvals Matrix_Channel Access
    Members Leases Sessions Claims Channels Inbox_Channels Telegram_Channel Passkey_Approvals Db_State
    Gateway Gateway_Props Gateway_Audit Signing_Keys Signing Platform_Apps
    Mcp_Tokens
begin

text \<open>
  A model of TAP, a credential gateway for agents (\<open>src/crates\<close>), with the properties that make it
  correct. An agent never holds the secrets of the services it calls. It sends a request with the
  name of a credential to the proxy (\<open>tap-proxy\<close>), which authenticates the agent, finds the
  credential in its store (\<open>tap-core\<close>), decides by the policy of the credential whether a human
  has to approve, asks him over a channel (the dashboard, the agent's own session, or a chat
  room through \<open>tap-bot\<close>), injects the secret, forwards the request and scrubs the secret from
  the answer.

  \<^bold>\<open>Theories and sources.\<close> Each theory models one part, with the names of the source.

  \<^item> \<open>Prelude\<close>: the part of Rust's \<open>str\<close> and byte API that the code uses, UTF-8, and shared lemmas.
  \<^item> \<open>Types\<close>: \<open>core/types.rs\<close>, \<open>core/error.rs\<close>, \<open>core/config.rs\<close>; methods, errors and configuration,
    and the record \<open>externals\<close> of library functions (URL and JSON parsers, base64, hashing) that
    the code calls and the model takes as arguments.
  \<^item> \<open>Claims\<close>: the contract of a conditional \<open>UPDATE\<close> or \<open>DELETE\<close> whose row count decides a race, and
    that of a channel that counts votes up to a threshold, as locales. The tables and the two
    chat channels below interpret them.
  \<^item> \<open>Policy\<close>, \<open>Policy_Diff\<close>, \<open>Proposals\<close>: \<open>proxy/policy.rs\<close>, \<open>core/policy_diff.rs\<close>, the policy and
    proposal tables and their handlers; the decision for a request, which policy changes loosen it,
    and who may change a policy.
  \<^item> \<open>Grants\<close>: \<open>core/grants.rs\<close>, the grant table and \<open>try_claim_grant\<close>; time-boxed approvals.
  \<^item> \<open>Approvals\<close>: the tables \<open>pending_approvals\<close> and \<open>async_approvals\<close>.
  \<^item> \<open>Channels\<close>, \<open>Inbox_Channels\<close>, \<open>Matrix_Channel\<close>, \<open>Telegram_Channel\<close>: which channel a request goes
    to, who may answer, the two channels that poll the table, the reactions in a Matrix room
    (\<open>bot/matrix.rs\<close>), and the buttons and commands of a Telegram chat (\<open>bot/telegram.rs\<close>).
  \<^item> \<open>Passkey_Approvals\<close>: \<open>proxy/webauthn.rs\<close>; the passkeys and challenges of approvers, the ceremonies,
    the approval page and the dashboard, whose decisions are bridged to both chat channels (the
    locale \<open>channel_bridge\<close>).
  \<^item> \<open>Access\<close>: credentials, roles, agents and their assignments, and the encryption of values.
  \<^item> \<open>Members\<close>: teams, users, memberships, invites and the member handlers of \<open>proxy/admin.rs\<close>.
  \<^item> \<open>Sessions\<close>: signup, login with password and passkey, password reset, device authorization,
    sessions and the guard of agent sessions.
  \<^item> \<open>Leases\<close>: rate counters and the single-holder leases of the relays.
  \<^item> \<open>Placeholder\<close>, \<open>Routing\<close>, \<open>Forward\<close>, \<open>Sanitize\<close>: the placeholders of a request, the route and the
    headers of a credential, the guard against internal addresses, and the scrubbing of answers.
  \<^item> \<open>Gateway\<close>: \<open>handle_forward\<close> of \<open>proxy/proxy.rs\<close>, which calls all of these, and the background
    tasks that finish a queued request. \<open>Gateway_Props\<close> and \<open>Gateway_Audit\<close> hold its properties.
  \<^item> \<open>Db_State\<close>: the caches of \<open>proxy/db_state.rs\<close> between the gateway and the store, as a step
    relation; the locale \<open>ttl_cache\<close> has the contract of a cached answer.
  \<^item> \<open>Signing_Keys\<close>, \<open>Signing\<close>: \<open>proxy/signing.rs\<close> and the endpoint \<open>/sign\<close> of \<open>proxy/proxy.rs\<close>; keys, the
    check of a pre-image, and signatures made after an approval.
  \<^item> \<open>Platform_Apps\<close>: \<open>proxy/app.rs\<close>, the API for partners that manage the keys, passkeys and
    policies of their own end-users.
  \<^item> \<open>Mcp_Tokens\<close>: \<open>core/mcp_tokens.rs\<close>, \<open>proxy/mcp_auth.rs\<close> and \<open>proxy/mcp_internal.rs\<close>; the tokens of
    MCP connections, from the passkey ceremony to the rotation and the revocation of a family.

  \<^bold>\<open>State and effects.\<close> A table is an association list or a list of records, an SQL statement a
  function from tables to tables, so that a sequence of statements is a sequence of steps between
  which other instances may act. Where a property depends on that (claims, leases, grants,
  approvals), it is stated over all interleavings of the statements. Errors are values of
  \<open>agent_sec_error + 'a\<close>; a panic is a branch of its own. The gateway keeps a log of what it sent
  (\<open>gw_wire\<close>), its audit log and the tasks it started. What it reads from the database during
  one request is the record \<open>lookups\<close>, so that each answer can be a failure.

  \<^bold>\<open>Bounds and loops.\<close> The functions are total. The polling loop of the inbox channels ends by a
  measure, because each round takes a second and the deadline is checked in each. Counters and
  thresholds that the schema keeps in 32 bits are wrapped where the code casts them. Times are
  integers (seconds), and the clock is an argument.

  \<^bold>\<open>What the lemmas show.\<close> What leaves the gateway, and that nothing leaves it before it was
  cleared by the policy, a grant or a human; that a secret does not come back in an answer; that
  every exchange is audited; that approvals, grants, proposals, invites and codes are used once;
  that teams do not interfere; that ownership of a team, sessions and second factors are guarded;
  who may approve on the page, the dashboard, in a chat and through the platform API, and that a
  policy under the passkey lock is only loosened by a confirmed change; that a cached answer was
  true within its lifetime; that queued requests are decided in time; that a disconnected MCP
  connection stays disconnected. A few lemmas prove where the code does not do what it means to.

  \<^bold>\<open>Failing statements.\<close> Where an error of the database changes what a handler does, the model has it
  as an argument: \<open>faults\<close> (in the handlers of approvals, proposals and MCP tokens), the failures in
  \<open>lookups\<close>, the fields of \<open>webauthn\<close> that say whether passkeys can be counted and listed, and the flags
  in the steps of a grant's claim and in the requests of the rate limit. Elsewhere a statement
  answers. The audit log is a list of the entries handed to the logger, which writes them on a
  best effort.

  \<^bold>\<open>Not modelled.\<close> Transport (TLS, HTTP, the Matrix and Telegram clients, mail, push,
  websockets, the relay), third-party crates (parsers, ciphers, hashes, \<open>webauthn-rs\<close>), key
  providers and attestation, analytics and metrics, the prose and templates of JSON answers and
  HTML pages, the command line client and the MCP front end, which only call the API, the
  pages that connect OAuth credentials and the social logins, which end in the sessions and
  identities of \<open>Sessions\<close>, and the administration handlers that only wrap the statements of \<open>Access\<close>.
\<close>

end
